(* ===== verification/Meows_Prelude.thy ===== *)
theory Meows_Prelude
  imports "HOL-Library.Word"
begin

text \<open>
  What every component of the model shares: Go's panics as values, effectful code as a
  function on the history of calls it has made to the outside, Go maps (which may be nil), Go
  errors, signed 32-bit integers, and the calculus \<open>ensures\<close> the effect proofs are done in.
\<close>

section \<open>Lemma collections\<close>

named_theorems prog_defs \<open>definitions of effectful operations, unfolded by the effect proofs\<close>
named_theorems go_map_simps \<open>reading and writing Go maps\<close>
named_theorems ensures_intros \<open>introduction rules of the calculus of effects\<close>

section \<open>Panics, effects and external calls\<close>

text \<open>
  A Go function either returns or panics (nil dereference, index out of range, write to a nil
  map). Effectful code reads and extends the history of its calls to the outside (the
  Kubernetes API, GitHub, runner pods, Slack, the clock): \<open>ext_call f ev\<close> asks the environment
  \<open>f\<close>, whose answer may depend on the whole history, and records the call with its answer.
  Since \<open>f\<close> is an arbitrary function, a theorem for every environment holds however the
  outside behaves, failures included.
\<close>

datatype 'a outcome = Panic | Ret 'a

type_synonym ('e, 'a) prog = "'e list \<Rightarrow> 'a outcome \<times> 'e list"

definition ret :: "'a \<Rightarrow> ('e, 'a) prog" where
  "ret x = (\<lambda>tr. (Ret x, tr))"

definition panic :: "('e, 'a) prog" where
  "panic = (\<lambda>tr. (Panic, tr))"

definition ext_call :: "('e list \<Rightarrow> 'r) \<Rightarrow> ('r \<Rightarrow> 'e) \<Rightarrow> ('e, 'r) prog" where
  "ext_call f ev = (\<lambda>tr. (Ret (f tr), tr @ [ev (f tr)]))"

definition and_then :: "('e, 'a) prog \<Rightarrow> ('a \<Rightarrow> ('e, 'b) prog) \<Rightarrow> ('e, 'b) prog" where
  "and_then m k = (\<lambda>tr. case m tr of
     (Panic, tr') \<Rightarrow> (Panic, tr')
   | (Ret x, tr') \<Rightarrow> k x tr')"

definition of_outcome :: "'a outcome \<Rightarrow> ('e, 'a) prog" where
  "of_outcome r = (\<lambda>tr. (r, tr))"

lemmas prog_basics = ret_def panic_def ext_call_def and_then_def of_outcome_def

declare prog_basics [prog_defs]

text \<open>A Go \<open>for range\<close> loop whose body passes a state on; a panic ends it.\<close>

fun for_each :: "('x \<Rightarrow> 's \<Rightarrow> ('e, 's) prog) \<Rightarrow> 'x list \<Rightarrow> 's \<Rightarrow> ('e, 's) prog" where
  "for_each f [] s = ret s"
| "for_each f (x # xs) s = and_then (f x s) (for_each f xs)"

text \<open>A loop whose body may return from the enclosing function with an error.\<close>

fun for_each_err :: "('x \<Rightarrow> ('e, 'err option) prog) \<Rightarrow> 'x list \<Rightarrow> ('e, 'err option) prog" where
  "for_each_err f [] = ret None"
| "for_each_err f (x # xs) = and_then (f x) (\<lambda>r. case r of
     Some err \<Rightarrow> ret (Some err)
   | None \<Rightarrow> for_each_err f xs)"

subsection \<open>The calculus\<close>

text \<open>
  \<open>ensures m Q\<close>: from every history, \<open>m\<close> only appends events to it, and its outcome with the
  events it appended satisfies \<open>Q\<close>.
\<close>

definition ensures :: "('e, 'a) prog \<Rightarrow> ('a outcome \<Rightarrow> 'e list \<Rightarrow> bool) \<Rightarrow> bool" where
  "ensures m Q \<longleftrightarrow> (\<forall>tr. \<exists>es. snd (m tr) = tr @ es \<and> Q (fst (m tr)) es)"

lemma ensuresE:
  assumes "ensures m Q" and "m tr = (r, tr')"
  obtains es where "tr' = tr @ es" and "Q r es"
  using assms by (metis ensures_def fst_conv snd_conv)

lemma ensuresD: "ensures m Q \<Longrightarrow> m tr = (r, tr @ es) \<Longrightarrow> Q r es"
  by (metis ensuresE same_append_eq)

lemma ensures_mono:
  "ensures m Q \<Longrightarrow> (\<And>r es. Q r es \<Longrightarrow> Q' r es) \<Longrightarrow> ensures m Q'"
  unfolding ensures_def by blast

lemma ensures_conj: "ensures m Q \<Longrightarrow> ensures m Q' \<Longrightarrow> ensures m (\<lambda>r es. Q r es \<and> Q' r es)"
  by (simp add: ensures_def) (metis same_append_eq)

lemma ensures_ret [ensures_intros]: "Q (Ret x) [] \<Longrightarrow> ensures (ret x) Q"
  by (simp add: ensures_def ret_def)

lemma ensures_panic [ensures_intros]: "Q Panic [] \<Longrightarrow> ensures panic Q"
  by (simp add: ensures_def panic_def)

lemma ensures_of_outcome [ensures_intros]: "Q r [] \<Longrightarrow> ensures (of_outcome r) Q"
  by (simp add: ensures_def of_outcome_def)

lemma ensures_ext_call [ensures_intros]: "(\<And>r. Q (Ret r) [ev r]) \<Longrightarrow> ensures (ext_call f ev) Q"
  by (simp add: ensures_def ext_call_def)

lemma ensures_ext_call_answer: "(\<And>tr. Q (Ret (f tr)) [ev (f tr)]) \<Longrightarrow> ensures (ext_call f ev) Q"
  by (simp add: ensures_def ext_call_def)

lemma ensures_and_then [ensures_intros]:
  assumes "ensures m (\<lambda>r es. case r of
      Panic \<Rightarrow> Q Panic es
    | Ret x \<Rightarrow> ensures (k x) (\<lambda>r' es'. Q r' (es @ es')))"
  shows "ensures (and_then m k) Q"
  unfolding ensures_def
proof
  fix tr
  obtain r tr1 where m: "m tr = (r, tr1)" by (cases "m tr")
  with assms obtain es where es: "tr1 = tr @ es" and Q: "case r of
      Panic \<Rightarrow> Q Panic es | Ret x \<Rightarrow> ensures (k x) (\<lambda>r' es'. Q r' (es @ es'))"
    by (rule ensuresE)
  show "\<exists>es. snd (and_then m k tr) = tr @ es \<and> Q (fst (and_then m k tr)) es"
  proof (cases r)
    case Panic
    with m es Q show ?thesis by (simp add: and_then_def)
  next
    case (Ret x)
    obtain r2 tr2 where k: "k x tr1 = (r2, tr2)" by (cases "k x tr1")
    from Q Ret have "ensures (k x) (\<lambda>r' es'. Q r' (es @ es'))" by simp
    from this k obtain es' where "tr2 = tr1 @ es'" and "Q r2 (es @ es')" by (rule ensuresE)
    with m es Ret k show ?thesis by (simp add: and_then_def)
  qed
qed

lemma ensures_if [ensures_intros]:
  "(b \<Longrightarrow> ensures m Q) \<Longrightarrow> (\<not> b \<Longrightarrow> ensures m' Q) \<Longrightarrow> ensures (if b then m else m') Q"
  by simp

lemma ensures_option [ensures_intros]:
  "(v = None \<Longrightarrow> ensures m Q) \<Longrightarrow> (\<And>x. v = Some x \<Longrightarrow> ensures (k x) Q) \<Longrightarrow>
   ensures (case v of None \<Rightarrow> m | Some x \<Rightarrow> k x) Q"
  by (cases v) simp_all

lemma ensures_sum [ensures_intros]:
  "(\<And>x. v = Inl x \<Longrightarrow> ensures (l x) Q) \<Longrightarrow> (\<And>x. v = Inr x \<Longrightarrow> ensures (k x) Q) \<Longrightarrow>
   ensures (case v of Inl x \<Rightarrow> l x | Inr x \<Rightarrow> k x) Q"
  by (cases v) simp_all

lemma ensures_prod [ensures_intros]:
  "(\<And>x y. v = (x, y) \<Longrightarrow> ensures (k x y) Q) \<Longrightarrow> ensures (case v of (x, y) \<Rightarrow> k x y) Q"
  by (cases v) simp

lemma ensures_let [ensures_intros]: "ensures (k v) Q \<Longrightarrow> ensures (let x = v in k x) Q"
  by simp

text \<open>The loop rule: an invariant over the elements done, the state and the events so far.\<close>

lemma ensures_for_each:
  assumes init: "I [] s []"
    and body: "\<And>pre x post st es. xs = pre @ x # post \<Longrightarrow> I pre st es \<Longrightarrow>
      ensures (f x st) (\<lambda>r es'. case r of
          Panic \<Rightarrow> P (es @ es')
        | Ret st' \<Rightarrow> I (pre @ [x]) st' (es @ es'))"
  shows "ensures (for_each f xs s) (\<lambda>r es. case r of Panic \<Rightarrow> P es | Ret st \<Rightarrow> I xs st es)"
proof -
  have "ensures (for_each f post st)
      (\<lambda>r es'. case r of Panic \<Rightarrow> P (es @ es') | Ret st' \<Rightarrow> I xs st' (es @ es'))"
    if "xs = pre @ post" and "I pre st es" for pre post st es
    using that
  proof (induction post arbitrary: pre st es)
    case Nil
    then show ?case by (auto intro: ensures_ret)
  next
    case (Cons x post)
    show ?case
      unfolding for_each.simps
    proof (rule ensures_and_then, rule ensures_mono [OF body [OF Cons.prems]])
      fix r es'
      assume r: "case r of Panic \<Rightarrow> P (es @ es') | Ret st' \<Rightarrow> I (pre @ [x]) st' (es @ es')"
      show "case r of
          Panic \<Rightarrow> case Panic of Panic \<Rightarrow> P (es @ es') | Ret st' \<Rightarrow> I xs st' (es @ es')
        | Ret y \<Rightarrow> ensures (for_each f post y) (\<lambda>r' es2. case r' of
            Panic \<Rightarrow> P (es @ es' @ es2) | Ret st' \<Rightarrow> I xs st' (es @ es' @ es2))"
      proof (cases r)
        case Panic
        with r show ?thesis by simp
      next
        case (Ret y)
        with r Cons.IH [of "pre @ [x]" y "es @ es'"] Cons.prems show ?thesis
          by (simp cong: outcome.case_cong)
      qed
    qed
  qed
  from this [of "[]" xs s "[]"] init show ?thesis by (simp cong: outcome.case_cong)
qed

text \<open>
  The runs of a loop, given the runs \<open>R x s\<close> of its body from the state \<open>s\<close>: their outcomes with
  the events they add.
\<close>

fun runs_of :: "('x \<Rightarrow> 's \<Rightarrow> 's outcome \<Rightarrow> 'e list \<Rightarrow> bool) \<Rightarrow> 'x list \<Rightarrow> 's \<Rightarrow> 's outcome \<Rightarrow> 'e list \<Rightarrow> bool"
where
  "runs_of R [] s r es \<longleftrightarrow> r = Ret s \<and> es = []"
| "runs_of R (x # xs) s r es \<longleftrightarrow>
     r = Panic \<and> R x s Panic es \<or>
     (\<exists>s' es1 es2. es = es1 @ es2 \<and> R x s (Ret s') es1 \<and> runs_of R xs s' r es2)"

lemma ensures_for_each_runs:
  "(\<And>x s. x \<in> set xs \<Longrightarrow> ensures (f x s) (R x s)) \<Longrightarrow> ensures (for_each f xs s) (runs_of R xs s)"
proof (induction xs arbitrary: s)
  case Nil
  show ?case by (simp add: ensures_ret)
next
  case (Cons x xs)
  show ?case
    unfolding for_each.simps
  proof (rule ensures_and_then, rule ensures_mono [OF Cons.prems])
    fix r es
    assume r: "R x s r es"
    show "case r of Panic \<Rightarrow> runs_of R (x # xs) s Panic es
      | Ret y \<Rightarrow> ensures (for_each f xs y) (\<lambda>r' es'. runs_of R (x # xs) s r' (es @ es'))"
    proof (cases r)
      case (Ret y)
      have "ensures (for_each f xs y) (runs_of R xs y)" using Cons by simp
      with r Ret show ?thesis by (auto elim: ensures_mono)
    qed (use r in simp)
  qed simp
qed

lemma runs_of_event:
  "runs_of R xs s r (a @ e # b) \<Longrightarrow>
   \<exists>x s1 r1 pre a' b'. x \<in> set xs \<and> R x s1 r1 (a' @ e # b') \<and> a = pre @ a' \<and> set b' \<subseteq> set b"
proof (induction xs arbitrary: s a)
  case (Cons x xs)
  from Cons.prems consider "R x s Panic (a @ e # b)"
    | s' es1 es2 where "a @ e # b = es1 @ es2" "R x s (Ret s') es1" "runs_of R xs s' r es2" by auto
  then show ?case
  proof cases
    case 1
    then have "x \<in> set (x # xs) \<and> R x s Panic (a @ e # b) \<and> a = [] @ a \<and> set b \<subseteq> set b" by simp
    then show ?thesis by blast
  next
    case (2 s' es1 es2)
    show ?thesis
    proof (cases "length a < length es1")
      case True
      with 2(1) obtain us where us: "es1 = a @ us" "us \<noteq> []" by (auto simp: append_eq_append_conv2)
      with 2(1) obtain b' where "es1 = a @ e # b'" and "b = b' @ es2" by (cases us) auto
      with 2(2) have "x \<in> set (x # xs) \<and> R x s (Ret s') (a @ e # b') \<and> a = [] @ a \<and> set b' \<subseteq> set b"
        by simp
      then show ?thesis by blast
    next
      case False
      with 2(1) obtain a2 where a: "a = es1 @ a2" and "es2 = a2 @ e # b"
        by (auto simp: append_eq_append_conv2 append_eq_Cons_conv)
      with Cons.IH 2(3) obtain x' s1 r1 pre a' b' where "x' \<in> set xs" and "R x' s1 r1 (a' @ e # b')"
        and "a2 = pre @ a'" and "set b' \<subseteq> set b" by blast
      with a have "x' \<in> set (x # xs) \<and> R x' s1 r1 (a' @ e # b') \<and> a = (es1 @ pre) @ a' \<and> set b' \<subseteq> set b"
        by simp
      then show ?thesis by blast
    qed
  qed
qed simp

lemma runs_of_each:
  "runs_of R xs s (Ret s') es \<Longrightarrow> x \<in> set xs \<Longrightarrow>
   \<exists>s1 s2 es1. R x s1 (Ret s2) es1 \<and> set es1 \<subseteq> set es"
proof (induction xs arbitrary: s es)
  case (Cons y ys)
  then obtain t es1 es2 where es: "es = es1 @ es2" "R y s (Ret t) es1" "runs_of R ys t (Ret s') es2" by auto
  show ?case
  proof (cases "x = y")
    case True
    with es show ?thesis by auto
  next
    case False
    with Cons.IH [OF es(3)] Cons.prems(2) es(1) show ?thesis by fastforce
  qed
qed simp

lemma runs_of_panic:
  "runs_of R xs s Panic es \<Longrightarrow> \<exists>x s1 es1. x \<in> set xs \<and> R x s1 Panic es1 \<and> set es1 \<subseteq> set es"
proof (induction xs arbitrary: s es)
  case (Cons y ys)
  from Cons.prems consider "R y s Panic es"
    | s' es1 es2 where "es = es1 @ es2" "runs_of R ys s' Panic es2" by auto
  then show ?case
  proof cases
    case 1
    then have "y \<in> set (y # ys) \<and> R y s Panic es \<and> set es \<subseteq> set es" by simp
    then show ?thesis by blast
  next
    case (2 s' es1 es2)
    with Cons.IH [OF 2(2)] show ?thesis by fastforce
  qed
qed simp

lemma ensures_for_each_no_panic:
  assumes "\<And>x s. x \<in> set xs \<Longrightarrow> ensures (f x s) (\<lambda>r es. r \<noteq> Panic)"
  shows "ensures (for_each f xs s) (\<lambda>r es. r \<noteq> Panic)"
proof (rule ensures_mono [OF ensures_for_each_runs [where R = "\<lambda>_ _ r _. r \<noteq> Panic", OF assms]])
  fix r es
  assume "runs_of (\<lambda>_ _ r _. r \<noteq> Panic) xs s r es"
  then show "r \<noteq> Panic" using runs_of_panic [of "\<lambda>_ _ r _. r \<noteq> Panic" xs s es] by blast
qed

section \<open>Splitting histories\<close>

lemma block_split: "a @ x # r = b @ c \<Longrightarrow> x \<notin> set b \<Longrightarrow> \<exists>a'. a = b @ a' \<and> c = a' @ x # r"
  by (auto simp: append_eq_append_conv2 append_eq_Cons_conv Cons_eq_append_conv)

lemma split_unique:
  "a @ x # b = c @ y # d \<Longrightarrow> x \<notin> set c \<Longrightarrow> x \<notin> set d \<Longrightarrow> a = c \<and> x = y \<and> b = d"
  by (auto simp: append_eq_append_conv2 append_eq_Cons_conv Cons_eq_append_conv)

section \<open>Go errors and results\<close>

text \<open>
  A Go \<open>error\<close> is the text it carries; a function that returns a value and an error is a sum.
  Errors of the Kubernetes API are told apart by \<open>apierrors.IsNotFound\<close>.
\<close>

type_synonym go_error = string

datatype api_error = NotFound | OtherErr string

definition is_not_found :: "api_error option \<Rightarrow> bool" where
  "is_not_found e \<longleftrightarrow> e = Some NotFound"

section \<open>Go maps\<close>

text \<open>
  \<open>map[string]string\<close>: nil (\<open>None\<close>) or a map. A nil map reads as empty, deleting from it does
  nothing, and writing to it panics.
\<close>

type_synonym go_map = "(string \<rightharpoonup> string) option"

definition go_get :: "go_map \<Rightarrow> string \<Rightarrow> string option" where
  "go_get m k = (case m of None \<Rightarrow> None | Some f \<Rightarrow> f k)"

text \<open>\<open>m[k]\<close> without the \<open>ok\<close> result: the zero value for a missing key.\<close>

definition go_index :: "go_map \<Rightarrow> string \<Rightarrow> string" where
  "go_index m k = (case go_get m k of None \<Rightarrow> '''' | Some v \<Rightarrow> v)"

definition go_put :: "go_map \<Rightarrow> string \<Rightarrow> string \<Rightarrow> go_map outcome" where
  "go_put m k v = (case m of None \<Rightarrow> Panic | Some f \<Rightarrow> Ret (Some (f(k \<mapsto> v))))"

definition go_delete :: "go_map \<Rightarrow> string \<Rightarrow> go_map" where
  "go_delete m k = map_option (\<lambda>f. f(k := None)) m"

lemma go_get_None [simp, go_map_simps]: "go_get None k = None"
  by (simp add: go_get_def)

lemma go_get_Some [simp, go_map_simps]: "go_get (Some f) k = f k"
  by (simp add: go_get_def)

lemma go_get_delete [simp, go_map_simps]:
  "go_get (go_delete m k) k' = (if k' = k then None else go_get m k')"
  by (cases m) (simp_all add: go_delete_def)

lemma go_get_put:
  "go_put m k v = Ret m' \<Longrightarrow> go_get m' k' = (if k' = k then Some v else go_get m k')"
  by (cases m) (auto simp: go_put_def)

lemma go_put_panic_iff: "go_put m k v = Panic \<longleftrightarrow> m = None"
  by (cases m) (simp_all add: go_put_def)

section \<open>Signed 32-bit integers\<close>

type_synonym int32 = "32 word"

text \<open>Decrementing a positive \<open>int32\<close> does not wrap around.\<close>

lemma sint_minus_one:
  fixes n :: int32
  assumes "0 < sint n"
  shows "sint (n - 1) = sint n - 1"
proof -
  have "sint n < 2 ^ 31" using sint_lt [of n] by simp
  with assms show ?thesis
    by (simp add: sint_word_ariths signed_take_bit_int_eq_self)
qed

end
