(* ===== verification/Go_Std.thy ===== *)
theory Go_Std
  imports Meows_Prelude
begin

text \<open>
  What the source uses of Go's standard library: \<open>strings\<close>, \<open>strconv.Atoi\<close> with \<open>%d\<close>, and the
  arithmetic and parsing of \<open>time\<close>. Strings are lists of bytes, as Go's are. The locale
  \<open>codec\<close> is the contract of a printer with its parser; every such pair of the program
  interprets it.
\<close>

section \<open>strings\<close>

text \<open>\<open>strings.Split\<close> and \<open>strings.SplitN\<close>, for the one-byte separators the source uses.\<close>

fun go_split :: "char \<Rightarrow> string \<Rightarrow> string list" where
  "go_split c [] = [[]]"
| "go_split c (x # xs) =
     (if x = c then [] # go_split c xs
      else case go_split c xs of [] \<Rightarrow> [[x]] | w # ws \<Rightarrow> (x # w) # ws)"

fun go_splitN :: "nat \<Rightarrow> char \<Rightarrow> string \<Rightarrow> string list" where
  "go_splitN 0 c s = []"
| "go_splitN (Suc 0) c s = [s]"
| "go_splitN (Suc (Suc n)) c [] = [[]]"
| "go_splitN (Suc (Suc n)) c (x # xs) =
     (if x = c then [] # go_splitN (Suc n) c xs
      else case go_splitN (Suc (Suc n)) c xs of [] \<Rightarrow> [[x]] | w # ws \<Rightarrow> (x # w) # ws)"

fun has_prefix :: "string \<Rightarrow> string \<Rightarrow> bool" where
  "has_prefix s [] = True"
| "has_prefix [] (p # ps) = False"
| "has_prefix (x # xs) (p # ps) = (x = p \<and> has_prefix xs ps)"

definition trim_prefix :: "string \<Rightarrow> string \<Rightarrow> string" where
  "trim_prefix s p = (if has_prefix s p then drop (length p) s else s)"

text \<open>\<open>strings.TrimRight\<close> with a one-byte cutset.\<close>

definition trim_right :: "string \<Rightarrow> char \<Rightarrow> string" where
  "trim_right s c = rev (dropWhile (\<lambda>x. x = c) (rev s))"

lemma go_split_nonempty [simp]: "go_split c s \<noteq> []"
  by (induction s) (auto split: list.splits)

lemma go_split_no_sep: "c \<notin> set s \<Longrightarrow> go_split c s = [s]"
  by (induction s) auto

lemma go_split_at: "c \<notin> set a \<Longrightarrow> go_split c (a @ c # b) = a # go_split c b"
  by (induction a) auto

text \<open>The pieces hold no separator, and joining them with it gives the string back.\<close>

lemma go_split_pieces: "w \<in> set (go_split c s) \<Longrightarrow> c \<notin> set w"
  by (induction s arbitrary: w) (auto split: list.splits if_splits)

fun join_with :: "char \<Rightarrow> string list \<Rightarrow> string" where
  "join_with c [] = []"
| "join_with c [w] = w"
| "join_with c (w # v # ws) = w @ c # join_with c (v # ws)"

lemma join_with_Cons: "ws \<noteq> [] \<Longrightarrow> join_with c (w # ws) = w @ c # join_with c ws"
  by (cases ws) auto

lemma join_with_head: "join_with c ((x # w) # ws) = x # join_with c (w # ws)"
  by (cases ws) auto

lemma join_go_split: "join_with c (go_split c s) = s"
  by (induction s) (auto simp: join_with_Cons join_with_head split: list.splits)

lemma go_split_two: "go_split c s = [a, b] \<longleftrightarrow> s = a @ c # b \<and> c \<notin> set a \<and> c \<notin> set b"
proof
  assume "go_split c s = [a, b]"
  then show "s = a @ c # b \<and> c \<notin> set a \<and> c \<notin> set b"
    using join_go_split [of c s] go_split_pieces [of a c s] go_split_pieces [of b c s] by simp
qed (simp add: go_split_at go_split_no_sep)

lemma go_splitN_nonempty [simp]: "go_splitN (Suc n) c s \<noteq> []"
  by (induction "Suc n" c s arbitrary: n rule: go_splitN.induct) (auto split: list.splits)

lemma go_splitN_no_sep: "c \<notin> set s \<Longrightarrow> go_splitN (Suc (Suc n)) c s = [s]"
  by (induction s) auto

lemma go_splitN_at:
  "c \<notin> set a \<Longrightarrow> go_splitN (Suc (Suc n)) c (a @ c # b) = a # go_splitN (Suc n) c b"
  by (induction a) auto

lemma has_prefix_iff: "has_prefix s p \<longleftrightarrow> (\<exists>r. s = p @ r)"
  by (induction s p rule: has_prefix.induct) auto

lemma has_prefix_append [simp]: "has_prefix (p @ r) p"
  by (simp add: has_prefix_iff)

lemma trim_prefix_append [simp]: "trim_prefix (p @ r) p = r"
  by (simp add: trim_prefix_def)

text \<open>\<open>filepath.Join\<close> on Unix: the elements joined by slashes, then \<open>filepath.Clean\<close>.\<close>

fun clean_parts :: "bool \<Rightarrow> string list \<Rightarrow> string list \<Rightarrow> string list" where
  "clean_parts rooted [] acc = rev acc"
| "clean_parts rooted (p # ps) acc =
     (if p = '''' \<or> p = ''.'' then clean_parts rooted ps acc
      else if p = ''..'' then
        (case acc of
           [] \<Rightarrow> clean_parts rooted ps (if rooted then [] else [p])
         | a # as \<Rightarrow> clean_parts rooted ps (if a = ''..'' then p # acc else as))
      else clean_parts rooted ps (p # acc))"

definition filepath_clean :: "string \<Rightarrow> string" where
  "filepath_clean p =
     (let rooted = (p \<noteq> [] \<and> hd p = CHR ''/'');
          body = join_with (CHR ''/'') (clean_parts rooted (go_split (CHR ''/'') p) [])
      in if rooted then CHR ''/'' # body else if body = '''' then ''.'' else body)"

definition filepath_join :: "string list \<Rightarrow> string" where
  "filepath_join elems = (case dropWhile (\<lambda>e. e = '''') elems of
       [] \<Rightarrow> ''''
     | es \<Rightarrow> filepath_clean (join_with (CHR ''/'') es))"

section \<open>Codecs\<close>

text \<open>
  A printer \<open>enc\<close> with its parser \<open>dec\<close>, on the values \<open>valid\<close> admits: what is printed parses
  back, so two values never print alike.
\<close>

locale codec =
  fixes enc :: "'a \<Rightarrow> 'b" and dec :: "'b \<Rightarrow> 'a option" and valid :: "'a \<Rightarrow> bool"
  assumes dec_enc: "valid x \<Longrightarrow> dec (enc x) = Some x"
begin

lemma enc_inj: "valid x \<Longrightarrow> valid y \<Longrightarrow> enc x = enc y \<Longrightarrow> x = y"
  by (metis dec_enc option.inject)

lemma enc_inj_on: "inj_on enc (Collect valid)"
  by (rule inj_onI) (simp add: enc_inj)

lemma dec_unique: "valid x \<Longrightarrow> dec (enc x) = Some y \<Longrightarrow> y = x"
  by (simp add: dec_enc)

end

section \<open>strconv\<close>

definition is_digit :: "char \<Rightarrow> bool" where
  "is_digit c \<longleftrightarrow> 48 \<le> (of_char c :: int) \<and> (of_char c :: int) \<le> 57"

definition digit_val :: "char \<Rightarrow> int" where
  "digit_val c = of_char c - 48"

definition digits_val :: "string \<Rightarrow> int" where
  "digits_val s = foldl (\<lambda>a c. 10 * a + digit_val c) 0 s"

datatype num_error = ErrSyntax | ErrRange

text \<open>\<open>strconv.Atoi\<close>: an optional sign, digits, and the range of Go's 64-bit \<open>int\<close>.\<close>

definition in_int64 :: "int \<Rightarrow> bool" where
  "in_int64 v \<longleftrightarrow> - (2 ^ 63) \<le> v \<and> v < 2 ^ 63"

definition atoi :: "string \<Rightarrow> num_error + int" where
  "atoi s =
     (let neg = (s \<noteq> [] \<and> hd s = CHR ''-'');
          ds = (if s \<noteq> [] \<and> (hd s = CHR ''-'' \<or> hd s = CHR ''+'') then tl s else s);
          v = (if neg then - digits_val ds else digits_val ds)
      in if ds = [] \<or> \<not> list_all is_digit ds then Inl ErrSyntax
         else if in_int64 v then Inr v else Inl ErrRange)"

text \<open>The verb \<open>%d\<close>.\<close>

definition digit_char :: "int \<Rightarrow> char" where
  "digit_char d = char_of (48 + d)"

function int_digits :: "int \<Rightarrow> string" where
  "int_digits n = (if n < 10 then [digit_char n] else int_digits (n div 10) @ [digit_char (n mod 10)])"
  by pat_completeness auto
termination
  by (relation "measure nat") auto

declare int_digits.simps [simp del]

definition itoa :: "int \<Rightarrow> string" where
  "itoa v = (if v < 0 then CHR ''-'' # int_digits (- v) else int_digits v)"

lemma digit_char_digit: "0 \<le> d \<Longrightarrow> d < 10 \<Longrightarrow> is_digit (digit_char d) \<and> digit_val (digit_char d) = d"
  by (simp add: digit_char_def is_digit_def digit_val_def)

lemma digits_val_snoc: "digits_val (s @ [c]) = 10 * digits_val s + digit_val c"
  by (simp add: digits_val_def)

lemma int_digits_correct:
  "0 \<le> n \<Longrightarrow> int_digits n \<noteq> [] \<and> list_all is_digit (int_digits n) \<and> digits_val (int_digits n) = n"
proof (induction n rule: int_digits.induct)
  case (1 n)
  show ?case
  proof (cases "n < 10")
    case True
    with "1.prems" show ?thesis
      by (subst (1 2 3) int_digits.simps) (simp add: digit_char_digit digits_val_def)
  next
    case False
    with 1 have "list_all is_digit (int_digits (n div 10))"
      and "digits_val (int_digits (n div 10)) = n div 10" by auto
    with False show ?thesis
      by (subst (1 2 3) int_digits.simps) (simp add: digit_char_digit digits_val_snoc)
  qed
qed

lemma hd_digits_sign:
  assumes "list_all is_digit s" and "s \<noteq> []"
  shows "hd s \<noteq> CHR ''-''" and "hd s \<noteq> CHR ''+''" and "hd s \<noteq> CHR ''/''"
  using assms by (cases s; force simp: is_digit_def)+

lemma atoi_itoa: "in_int64 v \<Longrightarrow> atoi (itoa v) = Inr v"
  using int_digits_correct [of v] int_digits_correct [of "- v"] hd_digits_sign [of "int_digits v"]
  by (auto simp: atoi_def itoa_def Let_def)

definition atoi_opt :: "string \<Rightarrow> int option" where
  "atoi_opt s = (case atoi s of Inl e \<Rightarrow> None | Inr v \<Rightarrow> Some v)"

interpretation decimal: codec itoa atoi_opt in_int64
  by unfold_locales (simp add: atoi_opt_def atoi_itoa)

lemma atoi_in_int64: "atoi s = Inr v \<Longrightarrow> in_int64 v"
  by (auto simp: atoi_def Let_def split: if_splits)

end
