(* ===== verification/Go_Time.thy ===== *)
theory Go_Time
  imports Go_Std
begin

text \<open>
  What the source uses of Go's package \<open>time\<close>. A \<open>time.Time\<close> is the number of nanoseconds
  since the Unix epoch, a \<open>time.Duration\<close> the number of nanoseconds; \<open>Add\<close> is addition and
  \<open>After\<close>/\<open>Before\<close> are strict comparison. \<open>time.ParseDuration\<close> is translated from its
  documented grammar with the limits of the 64-bit representation. One thing is idealised: Go
  scales the fraction of a number through \<open>float64\<close>, here it is scaled exactly and rounded down.
\<close>

type_synonym time = int
type_synonym duration = int

definition Microsecond :: duration where "Microsecond = 1000"
definition Millisecond :: duration where "Millisecond = 1000000"
definition Second :: duration where "Second = 1000000000"
definition Minute :: duration where "Minute = 60000000000"
definition Hour :: duration where "Hour = 3600000000000"

lemmas time_units = Microsecond_def Millisecond_def Second_def Minute_def Hour_def

text \<open>The zero value \<open>time.Time{}\<close>: the first of January of year 1, UTC.\<close>

definition zero_time :: time where
  "zero_time = - 62135596800000000000"

definition after :: "time \<Rightarrow> time \<Rightarrow> bool" where
  "after t u \<longleftrightarrow> u < t"

definition before :: "time \<Rightarrow> time \<Rightarrow> bool" where
  "before t u \<longleftrightarrow> t < u"

section \<open>time.ParseDuration\<close>

text \<open>The units, by their bytes: both spellings of the micro sign are accepted.\<close>

definition unit_map :: "string \<Rightarrow> int option" where
  "unit_map = Map.empty
     (''ns'' \<mapsto> 1, ''us'' \<mapsto> 1000, [CHR 0xC2, CHR 0xB5, CHR ''s''] \<mapsto> 1000,
      [CHR 0xCE, CHR 0xBC, CHR ''s''] \<mapsto> 1000, ''ms'' \<mapsto> 1000000, ''s'' \<mapsto> 1000000000,
      ''m'' \<mapsto> 60000000000, ''h'' \<mapsto> 3600000000000)"

text \<open>
  \<open>leadingFraction\<close>: the digits as a numerator and a power of ten; digits that no longer fit
  64 bits are skipped.
\<close>

fun leading_fraction :: "string \<Rightarrow> int \<Rightarrow> int \<Rightarrow> bool \<Rightarrow> int \<times> int" where
  "leading_fraction [] x scale overflow = (x, scale)"
| "leading_fraction (c # cs) x scale overflow =
     (if overflow \<or> x > (2 ^ 63 - 1) div 10 \<or> 10 * x + digit_val c > 2 ^ 63
      then leading_fraction cs x scale True
      else leading_fraction cs (10 * x + digit_val c) (10 * scale) False)"

definition is_unit_char :: "char \<Rightarrow> bool" where
  "is_unit_char c \<longleftrightarrow> c \<noteq> CHR ''.'' \<and> \<not> is_digit c"

text \<open>
  One number with its unit: its nanoseconds, from the digits before and after the point and the
  unit; then the same read off the front of the input, with the rest of it.
\<close>

definition duration_value :: "string \<Rightarrow> string \<Rightarrow> string \<Rightarrow> int option" where
  "duration_value pre post u =
     (let v = digits_val pre; (f, scale) = leading_fraction post 0 1 False
      in if pre = [] \<and> post = [] then None
         else if v > 2 ^ 63 then None
         else case unit_map u of
             None \<Rightarrow> None
           | Some unit \<Rightarrow>
               if v > 2 ^ 63 div unit then None
               else if v * unit + f * unit div scale > 2 ^ 63 then None
               else Some (v * unit + f * unit div scale))"

definition duration_item :: "string \<Rightarrow> (int \<times> string) option" where
  "duration_item s =
     (let pre = takeWhile is_digit s; s1 = dropWhile is_digit s;
          dot = (s1 \<noteq> [] \<and> hd s1 = CHR ''.'');
          post = (if dot then takeWhile is_digit (tl s1) else []);
          s2 = (if dot then dropWhile is_digit (tl s1) else s1)
      in case duration_value pre post (takeWhile is_unit_char s2) of
          None \<Rightarrow> None
        | Some v \<Rightarrow> Some (v, dropWhile is_unit_char s2))"

lemma unit_map_nonempty: "unit_map u = Some n \<Longrightarrow> u \<noteq> []"
  by (auto simp: unit_map_def)

lemma duration_item_shorter:
  assumes "duration_item s = Some (v, s')"
  shows "length s' < length s"
proof -
  let ?s1 = "dropWhile is_digit s"
  let ?dot = "?s1 \<noteq> [] \<and> hd ?s1 = CHR ''.''"
  let ?s2 = "if ?dot then dropWhile is_digit (tl ?s1) else ?s1"
  from assms obtain n where u: "unit_map (takeWhile is_unit_char ?s2) = Some n"
    and s': "s' = dropWhile is_unit_char ?s2"
    by (auto simp: duration_item_def duration_value_def Let_def
        split: prod.splits if_splits option.splits)
  have le: "length ?s2 \<le> length s"
    using length_dropWhile_le [of is_digit s] length_dropWhile_le [of is_digit "tl ?s1"]
    by (auto simp del: length_dropWhile_le)
  from u have "takeWhile is_unit_char ?s2 \<noteq> []" by (rule unit_map_nonempty)
  moreover have "length ?s2 = length (takeWhile is_unit_char ?s2) + length s'"
    unfolding s' by (metis length_append takeWhile_dropWhile_id)
  ultimately have "length s' < length ?s2" by (simp del: takeWhile_eq_Nil_iff)
  with le show ?thesis by linarith
qed

function duration_items :: "string \<Rightarrow> int \<Rightarrow> int option" where
  "duration_items s d =
     (if s = [] then Some d
      else case duration_item s of
          None \<Rightarrow> None
        | Some (v, s') \<Rightarrow> if d + v > 2 ^ 63 then None else duration_items s' (d + v))"
  by pat_completeness auto
termination
  by (relation "measure (\<lambda>(s, d). length s)") (auto simp: duration_item_shorter)

declare duration_items.simps [simp del]

definition parse_duration :: "string \<Rightarrow> duration option" where
  "parse_duration s =
     (let neg = (s \<noteq> [] \<and> hd s = CHR ''-'');
          s1 = (if s \<noteq> [] \<and> (hd s = CHR ''-'' \<or> hd s = CHR ''+'') then tl s else s)
      in if s1 = ''0'' then Some 0
         else if s1 = [] then None
         else case duration_items s1 0 of
             None \<Rightarrow> None
           | Some d \<Rightarrow> if neg then Some (- d) else if d > 2 ^ 63 - 1 then None else Some d)"

text \<open>
  \<open>d, _ := time.ParseDuration(s)\<close>: with the error dropped, a string that does not parse is the
  zero duration.
\<close>

definition duration_or_zero :: "string \<Rightarrow> duration" where
  "duration_or_zero s = (case parse_duration s of None \<Rightarrow> 0 | Some d \<Rightarrow> d)"

lemma parse_duration_empty [simp]: "parse_duration [] = None"
  by (simp add: parse_duration_def)

lemma digits_val_nonneg: "list_all is_digit s \<Longrightarrow> 0 \<le> digits_val s"
  by (induction s rule: rev_induct)
    (auto simp: digits_val_snoc digits_val_def is_digit_def digit_val_def)

lemma leading_fraction_nonneg:
  "list_all is_digit s \<Longrightarrow> 0 \<le> x \<Longrightarrow> 0 < scale \<Longrightarrow> leading_fraction s x scale overflow = (f, sc) \<Longrightarrow>
   0 \<le> f \<and> 0 < sc"
  by (induction s x scale overflow rule: leading_fraction.induct)
    (auto simp: is_digit_def digit_val_def split: if_splits)

lemma unit_map_pos: "unit_map u = Some n \<Longrightarrow> 0 < n"
  by (auto simp: unit_map_def split: if_splits)

lemma takeWhile_digits: "list_all is_digit (takeWhile is_digit s)"
  by (auto simp: list_all_iff dest: set_takeWhileD)

lemma duration_value_nonneg:
  assumes "list_all is_digit pre" and "list_all is_digit post" and "duration_value pre post u = Some v"
  shows "0 \<le> v"
proof -
  obtain f sc where f: "leading_fraction post 0 1 False = (f, sc)" by fastforce
  with leading_fraction_nonneg [OF assms(2) _ _ f] have "0 \<le> f" and "0 < sc" by simp_all
  with assms f digits_val_nonneg [OF assms(1)] show ?thesis
    by (auto simp: duration_value_def Let_def pos_imp_zdiv_nonneg_iff
        split: if_splits option.splits dest!: unit_map_pos)
qed

lemma duration_item_nonneg: "duration_item s = Some (v, s') \<Longrightarrow> 0 \<le> v"
  by (auto simp: duration_item_def Let_def takeWhile_digits
      split: option.splits dest!: duration_value_nonneg [rotated 2])

lemma duration_items_bound:
  "duration_items s d = Some r \<Longrightarrow> 0 \<le> d \<Longrightarrow> d \<le> 2 ^ 63 \<Longrightarrow> 0 \<le> r \<and> r \<le> 2 ^ 63"
proof (induction s d rule: duration_items.induct)
  case (1 s d)
  show ?case
  proof (cases "s = []")
    case True
    with "1.prems" show ?thesis by (simp add: duration_items.simps)
  next
    case False
    with "1.prems"(1) obtain v s' where item: "duration_item s = Some (v, s')"
      and "\<not> d + v > 2 ^ 63" and "duration_items s' (d + v) = Some r"
      by (auto simp: duration_items.simps [of s d] split: option.splits if_splits)
    with "1.IH" [OF False item refl] duration_item_nonneg [OF item] "1.prems"(2) show ?thesis
      by simp
  qed
qed

text \<open>A parsed duration fits Go's 64-bit representation.\<close>

lemma parse_duration_in_int64: "parse_duration s = Some d \<Longrightarrow> in_int64 d"
  using duration_items_bound [of _ 0]
  by (fastforce simp: parse_duration_def in_int64_def Let_def split: if_splits option.splits)

lemma duration_or_zero_in_int64: "in_int64 (duration_or_zero s)"
  using parse_duration_in_int64 [of s]
  by (auto simp: duration_or_zero_def in_int64_def split: option.splits)

end
