(* ===== verification/Github_Client.thy ===== *)
theory Github_Client
  imports Go_Time
begin

text \<open>
  The client of GitHub's API (\<open>github/client.go\<close>) and the fake one of the tests
  (\<open>github/fakeclient.go\<close>). The library \<open>go-github\<close> is the environment \<open>gh_api\<close>: its answers
  are arbitrary functions of the history of calls. The locale \<open>github_client\<close> is the contract of
  the interface \<open>Client\<close> as the controller uses it.
\<close>

section \<open>Runners\<close>

text \<open>The library's struct, its pointers as options, and the program's own.\<close>

record gh_runner =
  gr_id :: "int option"
  gr_name :: "string option"
  gr_status :: "string option"
  gr_busy :: "bool option"
  gr_labels :: "string option list"

record runner_info =
  ri_id :: int
  ri_name :: string
  ri_online :: bool
  ri_busy :: bool
  ri_labels :: "string list"

definition deref_or :: "'a \<Rightarrow> 'a option \<Rightarrow> 'a" where
  "deref_or d p = (case p of None \<Rightarrow> d | Some x \<Rightarrow> x)"

definition statusOnline :: string where "statusOnline = ''online''"

definition convert :: "gh_runner \<Rightarrow> runner_info" where
  "convert g = \<lparr>ri_id = deref_or 0 (gr_id g), ri_name = deref_or '''' (gr_name g),
     ri_online = (deref_or '''' (gr_status g) = statusOnline),
     ri_busy = deref_or False (gr_busy g), ri_labels = map (deref_or '''') (gr_labels g)\<rparr>"

definition hasLabels :: "runner_info \<Rightarrow> string list \<Rightarrow> bool" where
  "hasLabels r labels \<longleftrightarrow> list_all (\<lambda>required. required \<in> set (ri_labels r)) labels"

section \<open>Credentials\<close>

record client_credential =
  cr_pat :: string
  cr_app_id :: int
  cr_app_installation_id :: int
  cr_private_key :: string
  cr_private_key_path :: string

text \<open>
  The client a credential gives. Building the transport of a GitHub App is the library
  \<open>ghinstallation\<close>: the two functions tell its error, if any.
\<close>

datatype api_client = PatClient string | AppKeyClient int int string | AppKeyFileClient int int string

definition factory_New ::
  "(int \<Rightarrow> int \<Rightarrow> string \<Rightarrow> go_error option) \<Rightarrow> (int \<Rightarrow> int \<Rightarrow> string \<Rightarrow> go_error option) \<Rightarrow>
   client_credential \<Rightarrow> go_error + api_client" where
  "factory_New key_transport file_transport cred =
     (if cr_pat cred \<noteq> '''' then Inr (PatClient (cr_pat cred))
      else if cr_private_key cred \<noteq> '''' then
        (case key_transport (cr_app_id cred) (cr_app_installation_id cred) (cr_private_key cred) of
           Some err \<Rightarrow> Inl err
         | None \<Rightarrow> Inr (AppKeyClient (cr_app_id cred) (cr_app_installation_id cred) (cr_private_key cred)))
      else if cr_private_key_path cred \<noteq> '''' then
        (case file_transport (cr_app_id cred) (cr_app_installation_id cred) (cr_private_key_path cred) of
           Some err \<Rightarrow> Inl err
         | None \<Rightarrow> Inr (AppKeyFileClient (cr_app_id cred) (cr_app_installation_id cred)
                        (cr_private_key_path cred)))
      else Inl ''invalid credential'')"

section \<open>The client\<close>

datatype gh_error = UrlError string string | GhError string

text \<open>A registration token; \<open>rt_zone\<close> is the offset, in minutes, of the zone its time is given in.\<close>

record reg_token =
  rt_token :: "string option"
  rt_expires_at :: "time option"
  rt_zone :: int

record gh_page =
  pg_status :: int
  pg_runners :: "gh_runner list"
  pg_next :: int

text \<open>The calls to the library; a repository of \<open>None\<close> is the organization's endpoint.\<close>

datatype gh_event =
    GhToken string "string option" "gh_error + int \<times> reg_token"
  | GhList string "string option" int "gh_error + gh_page"
  | GhRemove string "string option" int "gh_error + int"

record gh_api =
  api_token :: "gh_event list \<Rightarrow> string \<Rightarrow> string option \<Rightarrow> gh_error + int \<times> reg_token"
  api_list :: "gh_event list \<Rightarrow> string \<Rightarrow> string option \<Rightarrow> int \<Rightarrow> gh_error + gh_page"
  api_remove :: "gh_event list \<Rightarrow> string \<Rightarrow> string option \<Rightarrow> int \<Rightarrow> gh_error + int"

definition endpoint_repo :: "string \<Rightarrow> string option" where
  "endpoint_repo repo = (if repo = '''' then None else Some repo)"

definition call_token :: "gh_api \<Rightarrow> string \<Rightarrow> string \<Rightarrow> (gh_event, gh_error + int \<times> reg_token) prog" where
  "call_token A owner repo = ext_call (\<lambda>tr. api_token A tr owner (endpoint_repo repo))
     (GhToken owner (endpoint_repo repo))"

definition call_list :: "gh_api \<Rightarrow> string \<Rightarrow> string \<Rightarrow> int \<Rightarrow> (gh_event, gh_error + gh_page) prog" where
  "call_list A owner repo page = ext_call (\<lambda>tr. api_list A tr owner (endpoint_repo repo) page)
     (GhList owner (endpoint_repo repo) page)"

definition call_remove :: "gh_api \<Rightarrow> string \<Rightarrow> string \<Rightarrow> int \<Rightarrow> (gh_event, gh_error + int) prog" where
  "call_remove A owner repo runnerID = ext_call (\<lambda>tr. api_remove A tr owner (endpoint_repo repo) runnerID)
     (GhRemove owner (endpoint_repo repo) runnerID)"

definition invalid_status :: "int \<Rightarrow> gh_error" where
  "invalid_status code = GhError (''invalid status code '' @ itoa code)"

text \<open>A \<open>url.Error\<close> is replaced, because its text holds the raw response.\<close>

definition CreateRegistrationToken ::
  "gh_api \<Rightarrow> string \<Rightarrow> string \<Rightarrow> (gh_event, gh_error + reg_token) prog" where
  "CreateRegistrationToken A owner repo = and_then (call_token A owner repo) (\<lambda>r. case r of
       Inl (UrlError op url) \<Rightarrow>
         ret (Inl (GhError (''failed to create registration token: '' @ op @ '' '' @ url)))
     | Inl err \<Rightarrow> ret (Inl err)
     | Inr (code, token) \<Rightarrow> if code \<noteq> 201 then ret (Inl (invalid_status code)) else ret (Inr token))"

definition labelled :: "string list \<Rightarrow> gh_runner list \<Rightarrow> runner_info list" where
  "labelled labels rs = filter (\<lambda>r. hasLabels r labels) (map convert rs)"

text \<open>
  The paging loop of \<open>ListRunners\<close>. It ends when the server names no next page; the fuel bounds
  the number of pages asked for, and \<open>None\<close> is a loop that has not ended yet.
\<close>

fun list_pages ::
  "nat \<Rightarrow> gh_api \<Rightarrow> string \<Rightarrow> string \<Rightarrow> string list \<Rightarrow> int \<Rightarrow> runner_info list \<Rightarrow>
   (gh_event, (gh_error + runner_info list) option) prog" where
  "list_pages 0 A owner repo labels page runners = ret None"
| "list_pages (Suc fuel) A owner repo labels page runners =
     and_then (call_list A owner repo page) (\<lambda>r. case r of
         Inl err \<Rightarrow> ret (Some (Inl err))
       | Inr pg \<Rightarrow>
           if pg_status pg \<noteq> 200 then ret (Some (Inl (invalid_status (pg_status pg))))
           else if pg_next pg = 0 then ret (Some (Inr (runners @ labelled labels (pg_runners pg))))
           else list_pages fuel A owner repo labels (pg_next pg)
                  (runners @ labelled labels (pg_runners pg)))"

definition ListRunners ::
  "nat \<Rightarrow> gh_api \<Rightarrow> string \<Rightarrow> string \<Rightarrow> string list \<Rightarrow>
   (gh_event, (gh_error + runner_info list) option) prog" where
  "ListRunners fuel A owner repo labels = list_pages fuel A owner repo labels 0 []"

definition RemoveRunner :: "gh_api \<Rightarrow> string \<Rightarrow> string \<Rightarrow> int \<Rightarrow> (gh_event, gh_error option) prog" where
  "RemoveRunner A owner repo runnerID = and_then (call_remove A owner repo runnerID) (\<lambda>r. case r of
       Inl err \<Rightarrow> ret (Some err)
     | Inr code \<Rightarrow> if code \<noteq> 204 then ret (Some (invalid_status code)) else ret None)"

lemmas gh_calls = call_token_def call_list_def call_remove_def

declare gh_calls [prog_defs]

text \<open>The runners a listing call showed, and the runs of such calls that follow the next pages.\<close>

fun shown_runners :: "string list \<Rightarrow> gh_event \<Rightarrow> runner_info list" where
  "shown_runners labels (GhList _ _ _ (Inr pg)) = labelled labels (pg_runners pg)"
| "shown_runners labels _ = []"

fun follows_pages :: "string \<Rightarrow> string \<Rightarrow> int \<Rightarrow> gh_event list \<Rightarrow> bool" where
  "follows_pages owner repo page [] = False"
| "follows_pages owner repo page (GhList ow re pg (Inr res) # es) =
     (ow = owner \<and> re = endpoint_repo repo \<and> pg = page \<and> pg_status res = 200 \<and>
      (if es = [] then pg_next res = 0
       else pg_next res \<noteq> 0 \<and> follows_pages owner repo (pg_next res) es))"
| "follows_pages owner repo page (_ # es) = False"

lemma follows_pages_nonempty: "follows_pages owner repo page es \<Longrightarrow> es \<noteq> []"
  by (cases es) auto

lemma list_pages_complete:
  "ensures (list_pages fuel A owner repo labels page acc) (\<lambda>r es.
     r \<noteq> Panic \<and> (\<forall>rs. r = Ret (Some (Inr rs)) \<longrightarrow>
       rs = acc @ concat (map (shown_runners labels) es) \<and> follows_pages owner repo page es))"
proof (induction fuel arbitrary: page acc)
  case 0
  show ?case by (simp add: ensures_ret)
next
  case (Suc fuel)
  have IH: "ensures (list_pages fuel A owner repo labels page acc) (\<lambda>r es.
      r \<noteq> Panic \<and> (\<forall>rs. r = Ret (Some (Inr rs)) \<longrightarrow>
        es \<noteq> [] \<and> rs = acc @ concat (map (shown_runners labels) es) \<and> follows_pages owner repo page es))"
    for page acc by (rule ensures_mono [OF Suc.IH [of page acc]]) (blast dest: follows_pages_nonempty)
  show ?case
    unfolding list_pages.simps gh_calls
    apply (intro ensures_intros)
    apply simp
    apply (intro ensures_intros; simp)
    apply (rule ensures_mono [OF IH]; auto)
    done
qed

text \<open>With page numbers that grow up to a bound, the loop ends within that many pages.\<close>

lemma list_pages_returns:
  assumes grow: "\<And>tr p pg. api_list A tr owner (endpoint_repo repo) p = Inr pg \<Longrightarrow>
      pg_next pg = 0 \<or> p < pg_next pg \<and> pg_next pg \<le> int n"
  shows "page \<le> int n \<Longrightarrow> n < fuel + nat page \<Longrightarrow> 0 \<le> page \<Longrightarrow>
    fst (list_pages fuel A owner repo labels page acc tr) \<noteq> Ret None"
proof (induction fuel arbitrary: page acc tr)
  case 0
  then show ?case by simp
next
  case (Suc fuel)
  have "fst (list_pages fuel A owner repo labels (pg_next pg) acc' tr') \<noteq> Ret None"
    if "api_list A tr owner (endpoint_repo repo) page = Inr pg" and "pg_next pg \<noteq> 0" for pg acc' tr'
    using grow [OF that(1)] that(2) Suc.prems by (intro Suc.IH) auto
  then show ?case by (auto simp: prog_defs split: sum.splits)
qed

section \<open>The fake client\<close>

type_synonym fake_runners = "string \<Rightarrow> runner_info list"

definition genKey :: "string \<Rightarrow> string \<Rightarrow> string" where
  "genKey owner repo = (if repo = '''' then owner else owner @ ''/'' @ repo)"

definition fake_createRegistrationToken :: "duration \<Rightarrow> time \<Rightarrow> int \<Rightarrow> reg_token" where
  "fake_createRegistrationToken expiredAtDuration now zone =
     \<lparr>rt_token = Some ''faketoken'', rt_expires_at = Some (now + expiredAtDuration), rt_zone = zone\<rparr>"

definition fake_ListRunners ::
  "fake_runners \<Rightarrow> string \<Rightarrow> string \<Rightarrow> string list \<Rightarrow> go_error + runner_info list" where
  "fake_ListRunners f owner repo labels =
     Inr (filter (\<lambda>r. hasLabels r labels) (f (genKey owner repo)))"

fun remove_first :: "int \<Rightarrow> runner_info list \<Rightarrow> runner_info list option" where
  "remove_first i [] = None"
| "remove_first i (v # vs) =
     (if ri_id v = i then Some vs else map_option ((#) v) (remove_first i vs))"

definition fake_RemoveRunner ::
  "fake_runners \<Rightarrow> string \<Rightarrow> string \<Rightarrow> int \<Rightarrow> go_error option \<times> fake_runners" where
  "fake_RemoveRunner f owner repo runnerID =
     (case remove_first runnerID (f (genKey owner repo)) of
        Some rs \<Rightarrow> (None, f(genKey owner repo := rs))
      | None \<Rightarrow> (Some ''not exist'', f))"

text \<open>
  The factory: the runners by owner and repository, and how long its tokens last. A client is a
  reference to its factory, so its methods act on the factory's state.
\<close>

record fake_factory =
  ff_runners :: fake_runners
  ff_expired_at_duration :: duration

definition NewFakeClientFactory :: fake_factory where
  "NewFakeClientFactory = \<lparr>ff_runners = (\<lambda>_. []), ff_expired_at_duration = Hour\<rparr>"

definition SetRunners :: "fake_runners \<Rightarrow> fake_factory \<Rightarrow> fake_factory" where
  "SetRunners runners f = f\<lparr>ff_runners := runners\<rparr>"

definition SetExpiredAtDuration :: "duration \<Rightarrow> fake_factory \<Rightarrow> fake_factory" where
  "SetExpiredAtDuration d f = f\<lparr>ff_expired_at_duration := d\<rparr>"

definition FakeClient_CreateRegistrationToken :: "fake_factory \<Rightarrow> time \<Rightarrow> int \<Rightarrow> reg_token" where
  "FakeClient_CreateRegistrationToken f now zone =
     fake_createRegistrationToken (ff_expired_at_duration f) now zone"

definition FakeClient_ListRunners ::
  "fake_factory \<Rightarrow> string \<Rightarrow> string \<Rightarrow> string list \<Rightarrow> go_error + runner_info list" where
  "FakeClient_ListRunners f owner repo labels = fake_ListRunners (ff_runners f) owner repo labels"

definition FakeClient_RemoveRunner ::
  "fake_factory \<Rightarrow> string \<Rightarrow> string \<Rightarrow> int \<Rightarrow> go_error option \<times> fake_factory" where
  "FakeClient_RemoveRunner f owner repo runnerID =
     (case fake_RemoveRunner (ff_runners f) owner repo runnerID of (err, rs) \<Rightarrow> (err, f\<lparr>ff_runners := rs\<rparr>))"

definition distinct_ids :: "fake_runners \<Rightarrow> bool" where
  "distinct_ids f \<longleftrightarrow> (\<forall>k. distinct (map ri_id (f k)))"

section \<open>The contract of github.Client\<close>

text \<open>
  On the states \<open>ok\<close> admits: listing shows runners that bear the labels asked for, with distinct
  identifiers; removing a listed runner succeeds and takes exactly it out of every listing of that
  owner and repository.
\<close>

locale github_client =
  fixes list_runners :: "'s \<Rightarrow> string \<Rightarrow> string \<Rightarrow> string list \<Rightarrow> go_error + runner_info list"
    and remove :: "'s \<Rightarrow> string \<Rightarrow> string \<Rightarrow> int \<Rightarrow> go_error option \<times> 's"
    and ok :: "'s \<Rightarrow> bool"
  assumes list_labels: "list_runners s ow re ls = Inr rs \<Longrightarrow> r \<in> set rs \<Longrightarrow> hasLabels r ls"
    and list_ids: "ok s \<Longrightarrow> list_runners s ow re ls = Inr rs \<Longrightarrow> distinct (map ri_id rs)"
    and remove_listed: "ok s \<Longrightarrow> list_runners s ow re ls = Inr rs \<Longrightarrow> r \<in> set rs \<Longrightarrow>
        \<exists>s'. remove s ow re (ri_id r) = (None, s') \<and> ok s' \<and>
          (\<forall>ls' rs'. list_runners s ow re ls' = Inr rs' \<longrightarrow>
             list_runners s' ow re ls' = Inr (filter (\<lambda>x. ri_id x \<noteq> ri_id r) rs'))"
begin

text \<open>Removing runners one after the other, as the controller's loops do.\<close>

fun remove_all :: "'s \<Rightarrow> string \<Rightarrow> string \<Rightarrow> int list \<Rightarrow> go_error option \<times> 's" where
  "remove_all s ow re [] = (None, s)"
| "remove_all s ow re (i # is) = (case remove s ow re i of
     (None, s') \<Rightarrow> remove_all s' ow re is | (Some e, s') \<Rightarrow> (Some e, s'))"

text \<open>
  Removing a listed selection of the runners leaves exactly the others, whatever the labels they
  are listed by.
\<close>

lemma remove_all_listed:
  assumes "ok s" and "list_runners s ow re ls = Inr rs" and "list_runners s ow re ls' = Inr rs'"
    and "set is \<subseteq> ri_id ` set rs" and "distinct is"
  shows "\<exists>s'. remove_all s ow re is = (None, s') \<and> ok s' \<and>
    list_runners s' ow re ls' = Inr (filter (\<lambda>x. ri_id x \<notin> set is) rs')"
  using assms
proof (induction "is" arbitrary: s rs rs')
  case Nil
  then show ?case by simp
next
  case (Cons i "is")
  then obtain r where r: "r \<in> set rs" "i = ri_id r" by auto
  from remove_listed [OF Cons.prems(1,2) r(1)] obtain s1 where
    s1: "remove s ow re i = (None, s1)" "ok s1" and
    l1: "\<forall>ls' rs'. list_runners s ow re ls' = Inr rs' \<longrightarrow>
        list_runners s1 ow re ls' = Inr (filter (\<lambda>x. ri_id x \<noteq> i) rs')" using r(2) by auto
  let ?rs = "filter (\<lambda>x. ri_id x \<noteq> i) rs" and ?rs' = "filter (\<lambda>x. ri_id x \<noteq> i) rs'"
  from l1 Cons.prems have "list_runners s1 ow re ls = Inr ?rs"
    and "list_runners s1 ow re ls' = Inr ?rs'" by auto
  moreover have "set is \<subseteq> ri_id ` set ?rs"
  proof -
    from Cons.prems have "set is \<subseteq> ri_id ` set rs - {i}" by auto
    also have "\<dots> \<subseteq> ri_id ` set ?rs" by auto
    finally show ?thesis .
  qed
  moreover from Cons.prems have "distinct is" by simp
  ultimately obtain s' where "remove_all s1 ow re is = (None, s')" and "ok s'"
    and "list_runners s' ow re ls' = Inr (filter (\<lambda>x. ri_id x \<notin> set is) ?rs')"
    using Cons.IH [OF s1(2)] by blast
  with s1 show ?case by (auto simp: conj_commute cong: conj_cong)
qed

lemma remove_all_empties:
  assumes "ok s" and "list_runners s ow re ls = Inr rs"
  shows "\<exists>s'. remove_all s ow re (map ri_id rs) = (None, s') \<and> list_runners s' ow re ls = Inr []"
  using remove_all_listed [OF assms assms(2), of "map ri_id rs"] list_ids [OF assms]
  by (auto simp: filter_empty_conv)

end

lemma remove_first_filter:
  "distinct (map ri_id rs) \<Longrightarrow> r \<in> set rs \<Longrightarrow>
   remove_first (ri_id r) rs = Some (filter (\<lambda>x. ri_id x \<noteq> ri_id r) rs)"
proof (induction rs)
  case (Cons v vs)
  then show ?case
    by (cases "v = r") (auto simp: image_iff intro!: filter_True [symmetric])
qed simp

interpretation fake_github: github_client fake_ListRunners fake_RemoveRunner distinct_ids
proof unfold_locales
  fix f ow re ls rs and r :: runner_info
  assume ok: "distinct_ids f" and rs: "fake_ListRunners f ow re ls = Inr rs" and r: "r \<in> set rs"
  let ?k = "genKey ow re"
  from rs r have "r \<in> set (f ?k)" by (auto simp: fake_ListRunners_def)
  with ok have "fake_RemoveRunner f ow re (ri_id r) =
      (None, f(?k := filter (\<lambda>x. ri_id x \<noteq> ri_id r) (f ?k)))"
    by (simp add: fake_RemoveRunner_def distinct_ids_def remove_first_filter)
  with ok show "\<exists>s'. fake_RemoveRunner f ow re (ri_id r) = (None, s') \<and> distinct_ids s' \<and>
      (\<forall>ls' rs'. fake_ListRunners f ow re ls' = Inr rs' \<longrightarrow>
         fake_ListRunners s' ow re ls' = Inr (filter (\<lambda>x. ri_id x \<noteq> ri_id r) rs'))"
    by (auto simp: distinct_ids_def fake_ListRunners_def distinct_map_filter conj_commute)
qed (auto simp: fake_ListRunners_def distinct_ids_def distinct_map_filter)

text \<open>The clients of a factory keep the same contract, through the state they share.\<close>

interpretation fake_client: github_client FakeClient_ListRunners FakeClient_RemoveRunner
  "\<lambda>f. distinct_ids (ff_runners f)"
proof unfold_locales
  fix f ow re ls rs and r :: runner_info
  assume "distinct_ids (ff_runners f)" and "FakeClient_ListRunners f ow re ls = Inr rs" and "r \<in> set rs"
  from fake_github.remove_listed [OF this(1) this(2) [unfolded FakeClient_ListRunners_def] this(3)]
  show "\<exists>s'. FakeClient_RemoveRunner f ow re (ri_id r) = (None, s') \<and> distinct_ids (ff_runners s') \<and>
      (\<forall>ls' rs'. FakeClient_ListRunners f ow re ls' = Inr rs' \<longrightarrow>
         FakeClient_ListRunners s' ow re ls' = Inr (filter (\<lambda>x. ri_id x \<noteq> ri_id r) rs'))"
    by (auto simp: FakeClient_ListRunners_def FakeClient_RemoveRunner_def)
qed (auto simp: FakeClient_ListRunners_def fake_ListRunners_def distinct_ids_def distinct_map_filter)

end
