(* ===== verification/Constants.thy ===== *)
theory Constants
  imports Meows_Prelude
begin

text \<open>
  The names and keys of \<open>constants.go\<close> that the model uses, under the source's names. The
  collection \<open>meows_consts\<close> unfolds them where a proof compares two of them.
\<close>

named_theorems meows_consts \<open>the string constants of constants.go\<close>

definition RunnerContainerName :: string where [meows_consts]:
  "RunnerContainerName = ''runner''"

definition RunnerSecretExpiresAtAnnotationKey :: string where [meows_consts]:
  "RunnerSecretExpiresAtAnnotationKey = ''meows.cybozu.com/expires-at''"

definition RunnerPoolFinalizer :: string where [meows_consts]:
  "RunnerPoolFinalizer = ''meows.cybozu.com/runnerpool''"

definition AppNameLabelKey :: string where [meows_consts]:
  "AppNameLabelKey = ''app.kubernetes.io/name''"

definition AppComponentLabelKey :: string where [meows_consts]:
  "AppComponentLabelKey = ''app.kubernetes.io/component''"

definition AppInstanceLabelKey :: string where [meows_consts]:
  "AppInstanceLabelKey = ''app.kubernetes.io/instance''"

definition RunnerPodName :: string where [meows_consts]:
  "RunnerPodName = ''meows.cybozu.com/runner-pod-name''"

definition AppName :: string where [meows_consts]:
  "AppName = ''meows''"

definition AppComponentRunner :: string where [meows_consts]:
  "AppComponentRunner = ''runner''"

definition RunnerListenPort :: int where [meows_consts]:
  "RunnerListenPort = 8080"

definition RunnerMetricsPortName :: string where [meows_consts]:
  "RunnerMetricsPortName = ''metrics''"

definition DeletionTimeEndpoint :: string where [meows_consts]:
  "DeletionTimeEndpoint = ''deletion_time''"

definition StatusEndPoint :: string where [meows_consts]:
  "StatusEndPoint = ''status''"

definition RunnerPodStateInitializing :: string where [meows_consts]:
  "RunnerPodStateInitializing = ''initializing''"

definition RunnerPodStateRunning :: string where [meows_consts]:
  "RunnerPodStateRunning = ''running''"

definition RunnerPodStateDebugging :: string where [meows_consts]:
  "RunnerPodStateDebugging = ''debugging''"

definition RunnerPodStateStale :: string where [meows_consts]:
  "RunnerPodStateStale = ''stale''"

definition ListenerExitStateRetryableError :: string where [meows_consts]:
  "ListenerExitStateRetryableError = ''retryable_error''"

definition ListenerExitStateUpdating :: string where [meows_consts]:
  "ListenerExitStateUpdating = ''updating''"

definition ListenerExitStateUndefined :: string where [meows_consts]:
  "ListenerExitStateUndefined = ''undefined''"

definition OptionConfigMapName :: string where [meows_consts]:
  "OptionConfigMapName = ''meows-cm''"

definition OptionConfigMapDataOrganizationRule :: string where [meows_consts]:
  "OptionConfigMapDataOrganizationRule = ''organization-rule''"

definition OptionConfigMapDataRepositoryRule :: string where [meows_consts]:
  "OptionConfigMapDataRepositoryRule = ''repository-rule''"

definition DefaultCredentialSecretName :: string where [meows_consts]:
  "DefaultCredentialSecretName = ''meows-github-cred''"

definition CredentialSecretDataAppID :: string where [meows_consts]:
  "CredentialSecretDataAppID = ''app-id''"

definition CredentialSecretDataAppInstallationID :: string where [meows_consts]:
  "CredentialSecretDataAppInstallationID = ''app-installation-id''"

definition CredentialSecretDataAppPrivateKey :: string where [meows_consts]:
  "CredentialSecretDataAppPrivateKey = ''app-private-key''"

definition CredentialSecretDataPATToken :: string where [meows_consts]:
  "CredentialSecretDataPATToken = ''token''"

definition DefaultSlackAgentServiceName :: string where [meows_consts]:
  "DefaultSlackAgentServiceName = ''slack-agent.meows.svc''"

definition RunnerRootDirPath :: string where [meows_consts]:
  "RunnerRootDirPath = ''/runner''"

definition RunnerWorkDirPath :: string where [meows_consts]:
  "RunnerWorkDirPath = ''/runner/_work''"

definition RunnerVarDirPath :: string where [meows_consts]:
  "RunnerVarDirPath = ''/var/meows''"

definition SlackChannelFilePath :: string where [meows_consts]:
  "SlackChannelFilePath = RunnerVarDirPath @ ''/slack_channel''"

definition SecretsDirName :: string where [meows_consts]:
  "SecretsDirName = ''secrets''"

definition RunnerTokenFileName :: string where [meows_consts]:
  "RunnerTokenFileName = ''runnertoken''"

definition PodNameEnvName :: string where [meows_consts]:
  "PodNameEnvName = ''POD_NAME''"

definition PodNamespaceEnvName :: string where [meows_consts]:
  "PodNamespaceEnvName = ''POD_NAMESPACE''"

definition RunnerOrgEnvName :: string where [meows_consts]:
  "RunnerOrgEnvName = ''RUNNER_ORG''"

definition RunnerRepoEnvName :: string where [meows_consts]:
  "RunnerRepoEnvName = ''RUNNER_REPO''"

definition RunnerPoolNameEnvName :: string where [meows_consts]:
  "RunnerPoolNameEnvName = ''RUNNER_POOL_NAME''"

definition RunnerOptionEnvName :: string where [meows_consts]:
  "RunnerOptionEnvName = ''RUNNER_OPTION''"

definition SlackChannelEnvName :: string where [meows_consts]:
  "SlackChannelEnvName = ''MEOWS_SLACK_CHANNEL''"

end
