(* ===== verification/RunnerPool_API.thy ===== *)
theory RunnerPool_API
  imports Constants Go_Time
begin

text \<open>
  The custom resource (\<open>api/v1alpha1/runnerpool_types.go\<close>) with its validating and defaulting
  webhook (\<open>runnerpool_webhook.go\<close>): the RunnerPool types, the admission rules, and the names,
  owner and repository derived from a RunnerPool. Kubernetes values the program only passes on
  (security contexts, resources, tolerations, sources of environment variables and volumes) are
  opaque texts.
\<close>

section \<open>The resource\<close>

type_synonym opaque = string

datatype volume_source = EmptyDir | SecretVolume string | OtherVolume opaque

record volume =
  vol_name :: string
  vol_source :: volume_source

record volume_mount =
  vm_name :: string
  vm_read_only :: bool
  vm_path :: string
  vm_other :: opaque

datatype env_source = FieldRef string string | OtherEnvSource opaque

record env_var =
  ev_name :: string
  ev_value :: string
  ev_from :: "env_source option"

record object_meta =
  om_labels :: go_map
  om_annotations :: go_map

record runner_container_spec =
  rc_image :: string
  rc_image_pull_policy :: string
  rc_security_context :: "opaque option"
  rc_env_from :: "opaque list"
  rc_env :: "env_var list"
  rc_resources :: opaque
  rc_volume_mounts :: "volume_mount list"

record runner_pod_template_spec =
  tpl_meta :: object_meta
  tpl_runner_container :: runner_container_spec
  tpl_image_pull_secrets :: "string list"
  tpl_volumes :: "volume list"
  tpl_node_selector :: go_map
  tpl_service_account_name :: string
  tpl_automount_token :: "bool option"
  tpl_tolerations :: "opaque list"

record slack_config =
  slack_enable :: bool
  slack_channel :: string
  slack_agent_service_name :: string

record notification_config =
  notif_slack :: slack_config
  notif_extend_duration :: string

record runner_pool_spec =
  spec_repository :: string
  spec_organization :: string
  spec_credential_secret_name :: string
  spec_replicas :: int32
  spec_max_runner_pods :: int32
  spec_work_volume :: "volume_source option"
  spec_setup_command :: "string list"
  spec_recreate_deadline :: string
  spec_notification :: notification_config
  spec_template :: runner_pod_template_spec
  spec_deny_disruption :: bool

record runner_pool =
  rp_name :: string
  rp_namespace :: string
  rp_deletion_timestamp :: "time option"
  rp_finalizers :: "string list"
  rp_spec :: runner_pool_spec
  rp_bound :: bool

section \<open>Admission\<close>

definition reserved_env_names :: "string list" where
  "reserved_env_names =
     [PodNameEnvName, PodNamespaceEnvName, RunnerOrgEnvName, RunnerRepoEnvName,
      RunnerPoolNameEnvName, RunnerOptionEnvName]"

text \<open>A \<open>field.Error\<close>: the kind, the path of the field and the detail.\<close>

datatype field_error = Invalid string string | Forbidden string string

definition env_errors :: "env_var list \<Rightarrow> field_error list" where
  "env_errors es = concat (map (\<lambda>(i, e).
     if ev_name e \<in> set reserved_env_names
     then [Forbidden (''spec.template.runnerContainer.env['' @ itoa (int i) @ '']'')
             (''using the reserved environment variable '' @ ev_name e @ '' in '' @
              RunnerContainerName @ '' is forbidden'')]
     else []) (List.enumerate 0 es))"

definition validate_common :: "runner_pool_spec \<Rightarrow> field_error list" where
  "validate_common s =
     (if (spec_repository s = '''' \<and> spec_organization s = '''') \<or>
         (spec_repository s \<noteq> '''' \<and> spec_organization s \<noteq> '''')
      then [Invalid ''spec'' ''only one of repository and organization can be set''] else []) @
     (let split = go_split (CHR ''/'') (spec_repository s)
      in if spec_repository s \<noteq> '''' \<and> (length split \<noteq> 2 \<or> split ! 0 = '''' \<or> split ! 1 = '''')
         then [Invalid ''spec.repository'' (''this value should be '' @ [CHR 0x27] @
                 ''<owner>/<repo>'' @ [CHR 0x27])] else []) @
     (if \<not> (spec_max_runner_pods s = 0 \<or> sint (spec_replicas s) \<le> sint (spec_max_runner_pods s))
      then [Invalid ''spec.maxRunnerPods''
              ''this value should be 0, or greater-than or equal-to replicas.''] else []) @
     (if parse_duration (spec_recreate_deadline s) = None
      then [Invalid ''spec.recreateDeadline''
              ''this value should be able to parse using time.ParseDuration''] else []) @
     (if notif_extend_duration (spec_notification s) \<noteq> '''' \<and>
         parse_duration (notif_extend_duration (spec_notification s)) = None
      then [Invalid ''spec.slackNotification.extendDuration''
              ''this value should be able to parse using time.ParseDuration''] else []) @
     env_errors (rc_env (tpl_runner_container (spec_template s)))"

definition validate_create :: "runner_pool_spec \<Rightarrow> field_error list" where
  "validate_create s = validate_common s"

definition validate_update :: "runner_pool_spec \<Rightarrow> runner_pool_spec \<Rightarrow> field_error list" where
  "validate_update s old =
     (if spec_repository s \<noteq> spec_repository old
      then [Forbidden ''spec.repository'' ''the field is immutable''] else []) @
     (if spec_organization s \<noteq> spec_organization old
      then [Forbidden ''spec.organization'' ''the field is immutable''] else []) @
     validate_common s"

text \<open>
  The webhook: \<open>None\<close> admits, \<open>Some\<close> is the \<open>apierrors.NewInvalid\<close> of the errors.
  \<open>controllerutil.AddFinalizer\<close> is code of controller-runtime, passed in.
\<close>

definition webhook_default :: "(string list \<Rightarrow> string \<Rightarrow> string list) \<Rightarrow> runner_pool \<Rightarrow> runner_pool" where
  "webhook_default add_finalizer r =
     r\<lparr>rp_finalizers := add_finalizer (rp_finalizers r) RunnerPoolFinalizer\<rparr>"

definition ValidateCreate :: "runner_pool \<Rightarrow> field_error list option" where
  "ValidateCreate r = (let errs = validate_create (rp_spec r) in if errs = [] then None else Some errs)"

definition ValidateUpdate :: "runner_pool \<Rightarrow> runner_pool \<Rightarrow> field_error list option" where
  "ValidateUpdate r old =
     (let errs = validate_update (rp_spec r) (rp_spec old) in if errs = [] then None else Some errs)"

definition ValidateDelete :: "runner_pool \<Rightarrow> field_error list option" where
  "ValidateDelete r = None"

section \<open>Derived names\<close>

definition GetRunnerDeploymentName :: "runner_pool \<Rightarrow> string" where
  "GetRunnerDeploymentName r = rp_name r"

definition GetRunnerSecretName :: "runner_pool \<Rightarrow> string" where
  "GetRunnerSecretName r = ''runner-token-'' @ rp_name r"

definition IsOrgLevel :: "runner_pool \<Rightarrow> bool" where
  "IsOrgLevel r \<longleftrightarrow> spec_organization (rp_spec r) \<noteq> ''''"

text \<open>\<open>strings.Split\<close> returns at least one piece; a second one has to exist for \<open>split[1]\<close>.\<close>

definition GetOwner :: "runner_pool \<Rightarrow> string" where
  "GetOwner r =
     (if IsOrgLevel r then spec_organization (rp_spec r)
      else hd (go_split (CHR ''/'') (spec_repository (rp_spec r))))"

definition GetRepository :: "runner_pool \<Rightarrow> string outcome" where
  "GetRepository r =
     (if IsOrgLevel r then Ret ''''
      else case go_split (CHR ''/'') (spec_repository (rp_spec r)) of
          _ # b # _ \<Rightarrow> Ret b
        | _ \<Rightarrow> Panic)"

text \<open>\<open>types.NamespacedName.String\<close>, the key of a RunnerPool's processes and its runner label.\<close>

definition namespaced_name :: "string \<Rightarrow> string \<Rightarrow> string" where
  "namespaced_name ns name = ns @ ''/'' @ name"

definition rp_namespaced_name :: "runner_pool \<Rightarrow> string" where
  "rp_namespaced_name r = namespaced_name (rp_namespace r) (rp_name r)"

section \<open>What admission guarantees\<close>

text \<open>The rules as the documentation of the resource states them.\<close>

definition valid_repository :: "string \<Rightarrow> bool" where
  "valid_repository s \<longleftrightarrow>
     (\<exists>a b. s = a @ CHR ''/'' # b \<and> a \<noteq> '''' \<and> b \<noteq> '''' \<and> CHR ''/'' \<notin> set a \<and> CHR ''/'' \<notin> set b)"

definition well_formed_spec :: "runner_pool_spec \<Rightarrow> bool" where
  "well_formed_spec s \<longleftrightarrow>
     (spec_repository s = '''') \<noteq> (spec_organization s = '''') \<and>
     (spec_repository s \<noteq> '''' \<longrightarrow> valid_repository (spec_repository s)) \<and>
     (spec_max_runner_pods s = 0 \<or> sint (spec_replicas s) \<le> sint (spec_max_runner_pods s)) \<and>
     parse_duration (spec_recreate_deadline s) \<noteq> None \<and>
     (notif_extend_duration (spec_notification s) \<noteq> '''' \<longrightarrow>
        parse_duration (notif_extend_duration (spec_notification s)) \<noteq> None) \<and>
     (\<forall>e \<in> set (rc_env (tpl_runner_container (spec_template s))). ev_name e \<notin> set reserved_env_names)"

lemma env_errors_empty_iff:
  "env_errors es = [] \<longleftrightarrow> (\<forall>e \<in> set es. ev_name e \<notin> set reserved_env_names)"
proof -
  have "set es = snd ` set (List.enumerate 0 es)"
    by (metis list.set_map map_snd_enumerate)
  then show ?thesis by (auto simp: env_errors_def split: if_splits)
qed

lemma split_two_iff:
  "(length (go_split c s) = 2 \<and> go_split c s ! 0 \<noteq> '''' \<and> go_split c s ! 1 \<noteq> '''') \<longleftrightarrow>
   (\<exists>a b. s = a @ c # b \<and> a \<noteq> '''' \<and> b \<noteq> '''' \<and> c \<notin> set a \<and> c \<notin> set b)"
proof -
  have "(length (go_split c s) = 2 \<and> go_split c s ! 0 \<noteq> '''' \<and> go_split c s ! 1 \<noteq> '''') \<longleftrightarrow>
        (\<exists>a b. go_split c s = [a, b] \<and> a \<noteq> '''' \<and> b \<noteq> '''')"
    by (auto simp: length_Suc_conv numeral_2_eq_2)
  then show ?thesis by (auto simp: go_split_two)
qed

lemma validate_common_iff: "validate_common s = [] \<longleftrightarrow> well_formed_spec s"
  using split_two_iff [of "CHR ''/''" "spec_repository s"]
  by (auto simp: validate_common_def well_formed_spec_def valid_repository_def
      env_errors_empty_iff Let_def)

lemma well_formed_repository:
  assumes "well_formed_spec (rp_spec r)" and "\<not> IsOrgLevel r"
  obtains a b where "spec_repository (rp_spec r) = a @ CHR ''/'' # b"
    and "a \<noteq> ''''" and "b \<noteq> ''''" and "CHR ''/'' \<notin> set a" and "CHR ''/'' \<notin> set b"
  using assms by (auto simp: well_formed_spec_def IsOrgLevel_def valid_repository_def)

lemma GetRepository_no_panic:
  "well_formed_spec (rp_spec r) \<Longrightarrow> GetRepository r \<noteq> Panic"
  by (cases "IsOrgLevel r")
    (auto simp: GetRepository_def go_split_at go_split_no_sep elim!: well_formed_repository)

section \<open>An example resource\<close>

definition ex_template :: runner_pod_template_spec where
  "ex_template = \<lparr>tpl_meta = \<lparr>om_labels = None, om_annotations = None\<rparr>,
     tpl_runner_container = \<lparr>rc_image = '''', rc_image_pull_policy = '''', rc_security_context = None,
       rc_env_from = [], rc_env = [\<lparr>ev_name = ''FOO'', ev_value = ''bar'', ev_from = None\<rparr>],
       rc_resources = '''', rc_volume_mounts = []\<rparr>,
     tpl_image_pull_secrets = [], tpl_volumes = [], tpl_node_selector = None,
     tpl_service_account_name = '''', tpl_automount_token = None, tpl_tolerations = []\<rparr>"

definition ex_pool :: runner_pool where
  "ex_pool = \<lparr>rp_name = ''pool'', rp_namespace = ''ns'', rp_deletion_timestamp = None,
     rp_finalizers = [RunnerPoolFinalizer],
     rp_spec = \<lparr>spec_repository = ''owner/repo'', spec_organization = '''',
       spec_credential_secret_name = '''', spec_replicas = 1, spec_max_runner_pods = 2,
       spec_work_volume = None, spec_setup_command = [''make''], spec_recreate_deadline = ''0'',
       spec_notification = \<lparr>notif_slack = \<lparr>slack_enable = True, slack_channel = ''#ci'',
         slack_agent_service_name = ''''\<rparr>, notif_extend_duration = ''''\<rparr>,
       spec_template = ex_template, spec_deny_disruption = True\<rparr>,
     rp_bound = False\<rparr>"

lemma ex_pool_well_formed: "well_formed_spec (rp_spec ex_pool)"
proof -
  have "valid_repository ''owner/repo''"
    unfolding valid_repository_def by (intro exI [of _ "''owner''"] exI [of _ "''repo''"]) simp
  moreover have "parse_duration ''0'' \<noteq> None" by (simp add: parse_duration_def)
  ultimately show ?thesis
    by (simp add: ex_pool_def ex_template_def well_formed_spec_def reserved_env_names_def meows_consts)
qed

end
