(* ===== verification/Go_Json.thy ===== *)
theory Go_Json
  imports Go_Time
begin

text \<open>
  \<open>encoding/json\<close> above the level of text: the JSON values the program writes and reads, and
  how Go fills a struct from an object (keys matched without regard to case, \<open>null\<close> leaving a
  field as it is, unknown keys skipped, later duplicates winning, a value of another type an
  error). Strings that hold RFC 3339 times are kept as times, within the years 0 to 9999 Go
  accepts. A text that is no JSON at all is \<open>None\<close> where a body or a file is read.
\<close>

datatype json =
    JNull
  | JBool bool
  | JInt int
  | JStr string
  | JTime time
  | JArr "json list"
  | JObj "(string \<times> json) list"

section \<open>Objects\<close>

definition lower_char :: "char \<Rightarrow> char" where
  "lower_char c = (let n = of_char c :: int in if 65 \<le> n \<and> n \<le> 90 then char_of (n + 32) else c)"

definition field_values :: "string \<Rightarrow> (string \<times> json) list \<Rightarrow> json list" where
  "field_values k obj = map snd (filter (\<lambda>(k', v). map lower_char k' = k) obj)"

text \<open>Filling one field from the values given for it, in order; \<open>None\<close> is an error.\<close>

fun fill :: "(json \<Rightarrow> 'a option) \<Rightarrow> json list \<Rightarrow> 'a \<Rightarrow> 'a option" where
  "fill dec [] x = Some x"
| "fill dec (v # vs) x =
     (if v = JNull then fill dec vs x
      else case dec v of None \<Rightarrow> None | Some y \<Rightarrow> fill dec vs y)"

fun as_string :: "json \<Rightarrow> string option" where
  "as_string (JStr s) = Some s"
| "as_string _ = None"

fun as_bool :: "json \<Rightarrow> bool option" where
  "as_bool (JBool b) = Some b"
| "as_bool _ = None"

fun as_int :: "json \<Rightarrow> int option" where
  "as_int (JInt i) = (if in_int64 i then Some i else None)"
| "as_int _ = None"

definition time_ok :: "time \<Rightarrow> bool" where
  "time_ok t \<longleftrightarrow> - 62167219200000000000 \<le> t \<and> t < 253402300800000000000"

fun as_time :: "json \<Rightarrow> time option" where
  "as_time (JTime t) = (if time_ok t then Some t else None)"
| "as_time _ = None"

fun as_strings :: "json list \<Rightarrow> string list option" where
  "as_strings [] = Some []"
| "as_strings (JStr s # vs) = map_option ((#) s) (as_strings vs)"
| "as_strings (JNull # vs) = map_option ((#) '''') (as_strings vs)"
| "as_strings _ = None"

fun as_string_list :: "json \<Rightarrow> string list option" where
  "as_string_list (JArr vs) = as_strings vs"
| "as_string_list _ = None"

text \<open>The \<open>omitempty\<close> option of a struct tag: a field with its zero value is left out.\<close>

definition omit_empty :: "string \<Rightarrow> bool \<Rightarrow> json \<Rightarrow> (string \<times> json) list" where
  "omit_empty k is_zero v = (if is_zero then [] else [(k, v)])"

definition omit_nil :: "string \<Rightarrow> ('a \<Rightarrow> json) \<Rightarrow> 'a option \<Rightarrow> (string \<times> json) list" where
  "omit_nil k enc v = (case v of None \<Rightarrow> [] | Some x \<Rightarrow> [(k, enc x)])"

named_theorems json_simps \<open>encoding and decoding of struct fields\<close>

lemma field_values_Nil [json_simps]: "field_values k [] = []"
  by (simp add: field_values_def)

lemma field_values_append [json_simps]:
  "field_values k (xs @ ys) = field_values k xs @ field_values k ys"
  by (simp add: field_values_def)

lemma field_values_Cons [json_simps]:
  "field_values k ((k', v) # xs) =
     (if map lower_char k' = k then v # field_values k xs else field_values k xs)"
  by (simp add: field_values_def)

lemma field_values_omit [json_simps]:
  "field_values k (omit_empty k' e v) = (if \<not> e \<and> map lower_char k' = k then [v] else [])"
  by (simp add: omit_empty_def json_simps)

lemma field_values_omit_nil [json_simps]:
  "field_values k (omit_nil k' enc v) =
     (if map lower_char k' = k then (case v of None \<Rightarrow> [] | Some x \<Rightarrow> [enc x]) else [])"
  by (simp add: omit_nil_def json_simps split: option.splits)

lemma fill_one [json_simps]: "v \<noteq> JNull \<Longrightarrow> fill dec [v] x = dec v"
  by (simp split: option.splits)

lemma as_strings_map: "as_strings (map JStr xs) = Some xs"
  by (induction xs) auto

end
