(* ===== verification/Job_Info.thy ===== *)
theory Job_Info
  imports Constants Go_Json
begin

text \<open>
  What a job says about itself (\<open>runner/jobinfo.go\<close>): the job information built from the
  environment GitHub gives a job, the file \<open>job-started\<close> writes it to
  (\<open>cmd/job-started/cmd/root.go\<close>), reading that file back, and the URLs derived from it.
\<close>

section \<open>Types\<close>

record job_info =
  ji_actor :: string
  ji_git_ref :: string
  ji_job_id :: string
  ji_pull_request_num :: int
  ji_repository :: string
  ji_run_id :: int
  ji_run_number :: int
  ji_workflow_name :: string

definition empty_job_info :: job_info where
  "empty_job_info = \<lparr>ji_actor = '''', ji_git_ref = '''', ji_job_id = '''', ji_pull_request_num = 0,
     ji_repository = '''', ji_run_id = 0, ji_run_number = 0, ji_workflow_name = ''''\<rparr>"

record input_env =
  GITHUB_ACTOR :: string
  GITHUB_HEAD_REF :: string
  GITHUB_JOB :: string
  GITHUB_REF :: string
  GITHUB_REPOSITORY :: string
  GITHUB_RUN_ID :: string
  GITHUB_RUN_NUMBER :: string
  GITHUB_WORKFLOW :: string

text \<open>A process environment: \<open>os.Getenv\<close> reads a missing variable as the empty string.\<close>

type_synonym environ = "string \<rightharpoonup> string"

definition getenv :: "environ \<Rightarrow> string \<Rightarrow> string" where
  "getenv e k = (case e k of None \<Rightarrow> '''' | Some v \<Rightarrow> v)"

definition readEnv :: "environ \<Rightarrow> input_env" where
  "readEnv e = \<lparr>
     GITHUB_ACTOR = getenv e ''GITHUB_ACTOR'', GITHUB_HEAD_REF = getenv e ''GITHUB_HEAD_REF'',
     GITHUB_JOB = getenv e ''GITHUB_JOB'', GITHUB_REF = getenv e ''GITHUB_REF'',
     GITHUB_REPOSITORY = getenv e ''GITHUB_REPOSITORY'', GITHUB_RUN_ID = getenv e ''GITHUB_RUN_ID'',
     GITHUB_RUN_NUMBER = getenv e ''GITHUB_RUN_NUMBER'', GITHUB_WORKFLOW = getenv e ''GITHUB_WORKFLOW''\<rparr>"

section \<open>From the environment\<close>

datatype job_info_error =
    BadPullRequestNumber string num_error
  | UnknownRefFormat string
  | BadRunID string num_error
  | BadRunNumber string num_error

text \<open>The git ref and the pull request number; \<open>split[2]\<close> panics if there is no third piece.\<close>

definition parse_ref :: "input_env \<Rightarrow> (job_info_error + string \<times> int) outcome" where
  "parse_ref env =
     (if has_prefix (GITHUB_REF env) ''refs/heads/'' then
        Ret (Inr (trim_prefix (GITHUB_REF env) ''refs/heads/'', 0))
      else if has_prefix (GITHUB_REF env) ''refs/tags/'' then
        Ret (Inr (trim_prefix (GITHUB_REF env) ''refs/tags/'', 0))
      else if has_prefix (GITHUB_REF env) ''refs/pull/'' then
        (case go_splitN 4 (CHR ''/'') (GITHUB_REF env) of
           _ # _ # num # _ \<Rightarrow>
             (case atoi num of
                Inl e \<Rightarrow> Ret (Inl (BadPullRequestNumber (GITHUB_REF env) e))
              | Inr n \<Rightarrow> Ret (Inr (GITHUB_HEAD_REF env, n)))
         | _ \<Rightarrow> Panic)
      else Ret (Inl (UnknownRefFormat (GITHUB_REF env))))"

definition envToJobInfo :: "input_env \<Rightarrow> (job_info_error + job_info) outcome" where
  "envToJobInfo env = (case parse_ref env of
       Panic \<Rightarrow> Panic
     | Ret (Inl e) \<Rightarrow> Ret (Inl e)
     | Ret (Inr (gitRef, pullRequestNumber)) \<Rightarrow>
         (case atoi (GITHUB_RUN_ID env) of
            Inl e \<Rightarrow> Ret (Inl (BadRunID (GITHUB_RUN_ID env) e))
          | Inr runID \<Rightarrow>
              (case atoi (GITHUB_RUN_NUMBER env) of
                 Inl e \<Rightarrow> Ret (Inl (BadRunNumber (GITHUB_RUN_NUMBER env) e))
               | Inr runNumber \<Rightarrow> Ret (Inr \<lparr>
                   ji_actor = GITHUB_ACTOR env, ji_git_ref = gitRef, ji_job_id = GITHUB_JOB env,
                   ji_pull_request_num = pullRequestNumber, ji_repository = GITHUB_REPOSITORY env,
                   ji_run_id = runID, ji_run_number = runNumber,
                   ji_workflow_name = GITHUB_WORKFLOW env\<rparr>))))"

definition GetJobInfo :: "environ \<Rightarrow> (job_info_error + job_info) outcome" where
  "GetJobInfo e = envToJobInfo (readEnv e)"

section \<open>As JSON, and in a file\<close>

definition job_info_json :: "job_info \<Rightarrow> json" where
  "job_info_json i = JObj (
     omit_empty ''actor'' (ji_actor i = '''') (JStr (ji_actor i)) @
     omit_empty ''git_ref'' (ji_git_ref i = '''') (JStr (ji_git_ref i)) @
     omit_empty ''job_id'' (ji_job_id i = '''') (JStr (ji_job_id i)) @
     omit_empty ''pull_request_number'' (ji_pull_request_num i = 0) (JInt (ji_pull_request_num i)) @
     omit_empty ''repository'' (ji_repository i = '''') (JStr (ji_repository i)) @
     omit_empty ''run_id'' (ji_run_id i = 0) (JInt (ji_run_id i)) @
     omit_empty ''run_number'' (ji_run_number i = 0) (JInt (ji_run_number i)) @
     omit_empty ''workflow_name'' (ji_workflow_name i = '''') (JStr (ji_workflow_name i)))"

fun job_info_of_json :: "json \<Rightarrow> job_info option" where
  "job_info_of_json (JObj obj) =
     Option.bind (fill as_string (field_values ''actor'' obj) '''') (\<lambda>actor.
     Option.bind (fill as_string (field_values ''git_ref'' obj) '''') (\<lambda>git_ref.
     Option.bind (fill as_string (field_values ''job_id'' obj) '''') (\<lambda>job_id.
     Option.bind (fill as_int (field_values ''pull_request_number'' obj) 0) (\<lambda>pr.
     Option.bind (fill as_string (field_values ''repository'' obj) '''') (\<lambda>repo.
     Option.bind (fill as_int (field_values ''run_id'' obj) 0) (\<lambda>run_id.
     Option.bind (fill as_int (field_values ''run_number'' obj) 0) (\<lambda>run_number.
     Option.bind (fill as_string (field_values ''workflow_name'' obj) '''') (\<lambda>workflow.
       Some \<lparr>ji_actor = actor, ji_git_ref = git_ref, ji_job_id = job_id, ji_pull_request_num = pr,
         ji_repository = repo, ji_run_id = run_id, ji_run_number = run_number,
         ji_workflow_name = workflow\<rparr>))))))))"
| "job_info_of_json JNull = Some empty_job_info"
| "job_info_of_json _ = None"

text \<open>
  Files of a runner pod: their text, or something \<open>os.ReadFile\<close> fails on. Missing files are
  absent from the file system. The text of a JSON value and back is a pair of functions passed in,
  \<open>print_json\<close> and \<open>parse_json\<close>.
\<close>

datatype pod_file = Text string | Unreadable

type_synonym files = "string \<rightharpoonup> pod_file"

datatype read_error = ReadError | DecodeError

definition GetJobInfoFromFile ::
  "(string \<Rightarrow> json option) \<Rightarrow> files \<Rightarrow> string \<Rightarrow> read_error + job_info option" where
  "GetJobInfoFromFile parse_json fs path = (case fs path of
       None \<Rightarrow> Inr None
     | Some Unreadable \<Rightarrow> Inl ReadError
     | Some (Text data) \<Rightarrow>
         if data = '''' then Inr None
         else (case Option.bind (parse_json data) job_info_of_json of
                 None \<Rightarrow> Inl DecodeError
               | Some i \<Rightarrow> Inr (Some i)))"

text \<open>
  The command \<open>job-started\<close>: \<open>os.WriteFile\<close> may fail, which \<open>write_ok\<close> tells by path.
\<close>

datatype job_started_error = JobInfoError job_info_error | WriteError

definition job_started ::
  "(json \<Rightarrow> string) \<Rightarrow> (string \<Rightarrow> bool) \<Rightarrow> string \<Rightarrow> string \<Rightarrow> environ \<Rightarrow> files \<Rightarrow>
   (job_started_error option \<times> files) outcome" where
  "job_started print_json write_ok jobInfoFile slackChannelFile e fs = (case GetJobInfo e of
       Panic \<Rightarrow> Panic
     | Ret (Inl err) \<Rightarrow> Ret (Some (JobInfoError err), fs)
     | Ret (Inr i) \<Rightarrow>
         if \<not> write_ok jobInfoFile then Ret (Some WriteError, fs)
         else let fs1 = fs(jobInfoFile \<mapsto> Text (print_json (job_info_json i)));
                  slackChannel = getenv e SlackChannelEnvName
              in if \<not> write_ok slackChannelFile then Ret (Some WriteError, fs1)
                 else Ret (None, fs1(slackChannelFile \<mapsto> Text slackChannel)))"

section \<open>URLs\<close>

definition RepositoryURL :: "job_info \<Rightarrow> string" where
  "RepositoryURL i = ''https://github.com/'' @ ji_repository i"

definition WorkflowURL :: "job_info \<Rightarrow> string" where
  "WorkflowURL i = ''https://github.com/'' @ ji_repository i @ ''/actions/runs/'' @ itoa (ji_run_id i)"

definition BranchTagURL :: "job_info \<Rightarrow> string" where
  "BranchTagURL i = ''https://github.com/'' @ ji_repository i @ ''/tree/'' @ ji_git_ref i"

definition PullRequestURL :: "job_info \<Rightarrow> string" where
  "PullRequestURL i =
     (if ji_pull_request_num i = 0 then ''''
      else ''https://github.com/'' @ ji_repository i @ ''/pull/'' @ itoa (ji_pull_request_num i))"

section \<open>Lemmas\<close>

definition job_info_ok :: "job_info \<Rightarrow> bool" where
  "job_info_ok i \<longleftrightarrow>
     in_int64 (ji_pull_request_num i) \<and> in_int64 (ji_run_id i) \<and> in_int64 (ji_run_number i)"

lemma job_info_roundtrip: "job_info_ok i \<Longrightarrow> job_info_of_json (job_info_json i) = Some i"
  by (simp add: job_info_json_def job_info_ok_def json_simps lower_char_def)

interpretation job_info: codec job_info_json job_info_of_json job_info_ok
  by unfold_locales (rule job_info_roundtrip)

lemma refs_pull_split:
  "\<exists>num rest. go_splitN 4 (CHR ''/'') (''refs/pull/'' @ s) = ''refs'' # ''pull'' # num # rest"
proof -
  have "go_splitN 4 (CHR ''/'') (''refs/pull/'' @ s) = ''refs'' # ''pull'' # go_splitN 2 (CHR ''/'') s"
    by (simp add: numeral_eq_Suc)
  moreover obtain num rest where "go_splitN 2 (CHR ''/'') s = num # rest"
    using go_splitN_nonempty [of 1 "CHR ''/''" s]
    by (metis Suc_1 neq_Nil_conv)
  ultimately show ?thesis by simp
qed

lemma parse_ref_no_panic: "parse_ref env \<noteq> Panic"
proof (cases "has_prefix (GITHUB_REF env) ''refs/pull/''")
  case True
  then obtain s where "GITHUB_REF env = ''refs/pull/'' @ s" by (auto simp: has_prefix_iff)
  with refs_pull_split [of s] obtain num rest
    where "go_splitN 4 (CHR ''/'') (GITHUB_REF env) = ''refs'' # ''pull'' # num # rest" by auto
  then show ?thesis by (simp add: parse_ref_def split: sum.splits)
qed (simp add: parse_ref_def)

lemma envToJobInfo_no_panic: "envToJobInfo env \<noteq> Panic"
  using parse_ref_no_panic [of env]
  by (auto simp: envToJobInfo_def split: outcome.splits sum.splits)

lemma envToJobInfo_ok: "envToJobInfo env = Ret (Inr i) \<Longrightarrow> job_info_ok i"
  by (auto simp: envToJobInfo_def parse_ref_def job_info_ok_def in_int64_def
      dest!: atoi_in_int64 split: outcome.splits sum.splits if_splits list.splits)

end
