(* ===== verification/Runner_Env.thy ===== *)
theory Runner_Env
  imports Job_Info
begin

text \<open>
  The environment of the runner container: reading and checking it
  (\<open>runner/enviroments.go\<close>) and hiding it from the commands of a job (\<open>runner/helper.go\<close>).
\<close>

record runner_envs =
  re_podName :: string
  re_podNamespace :: string
  re_runnerOrg :: string
  re_runnerRepo :: string
  re_runnerPoolName :: string
  re_setupCommand :: "string list"

datatype envs_error = MustBeSet string | EitherMustBeSet string string | BadOption

definition validateRequiredEnvs :: "runner_envs \<Rightarrow> envs_error option" where
  "validateRequiredEnvs e =
     (if re_podName e = '''' then Some (MustBeSet PodNameEnvName)
      else if re_podNamespace e = '''' then Some (MustBeSet PodNamespaceEnvName)
      else if re_runnerPoolName e = '''' then Some (MustBeSet RunnerPoolNameEnvName)
      else if (re_runnerOrg e = '''' \<and> re_runnerRepo e = '''') \<or> (re_runnerOrg e \<noteq> '''' \<and> re_runnerRepo e \<noteq> '''')
      then Some (EitherMustBeSet RunnerOrgEnvName RunnerRepoEnvName)
      else None)"

text \<open>\<open>Option\<close> as JSON: the setup command, left out when it is empty.\<close>

definition option_json :: "string list \<Rightarrow> json" where
  "option_json cmd = JObj (omit_empty ''setup_command'' (cmd = []) (JArr (map JStr cmd)))"

fun option_of_json :: "json \<Rightarrow> string list option" where
  "option_of_json (JObj obj) = fill as_string_list (field_values ''setup_command'' obj) []"
| "option_of_json JNull = Some []"
| "option_of_json _ = None"

definition newRunnerEnvs :: "(string \<Rightarrow> json option) \<Rightarrow> environ \<Rightarrow> envs_error + runner_envs" where
  "newRunnerEnvs parse_json e =
     (let envs = \<lparr>re_podName = getenv e PodNameEnvName, re_podNamespace = getenv e PodNamespaceEnvName,
            re_runnerOrg = getenv e RunnerOrgEnvName, re_runnerRepo = getenv e RunnerRepoEnvName,
            re_runnerPoolName = getenv e RunnerPoolNameEnvName, re_setupCommand = []\<rparr>
      in case validateRequiredEnvs envs of
           Some err \<Rightarrow> Inl err
         | None \<Rightarrow>
             (case Option.bind (parse_json (getenv e RunnerOptionEnvName)) option_of_json of
                None \<Rightarrow> Inl BadOption
              | Some cmd \<Rightarrow> Inr (envs\<lparr>re_setupCommand := cmd\<rparr>)))"

lemma option_roundtrip: "option_of_json (option_json cmd) = Some cmd"
  by (simp add: option_json_def json_simps lower_char_def as_strings_map)

interpretation runner_option: codec option_json option_of_json "\<lambda>_. True"
  by unfold_locales (rule option_roundtrip)

lemma newRunnerEnvs_valid:
  "newRunnerEnvs parse_json e = Inr envs \<Longrightarrow> validateRequiredEnvs envs = None"
  by (auto simp: newRunnerEnvs_def validateRequiredEnvs_def Let_def
      split: option.splits if_splits)

section \<open>The environment of a job's commands\<close>

definition rmList :: "string list" where
  "rmList = [PodNameEnvName, PodNamespaceEnvName, RunnerOrgEnvName, RunnerRepoEnvName,
     RunnerPoolNameEnvName, RunnerOptionEnvName]"

definition env_key :: "string \<Rightarrow> string" where
  "env_key target = hd (go_splitN 2 (CHR ''='') target)"

definition removedEnv :: "string list \<Rightarrow> string list" where
  "removedEnv environ = filter (\<lambda>target. env_key target \<notin> set rmList) environ"

lemma env_key_binding: "CHR ''='' \<notin> set k \<Longrightarrow> env_key (k @ ''='' @ v) = k"
  using go_splitN_at [of "CHR ''=''" k 0 v] by (simp add: env_key_def numeral_2_eq_2)

section \<open>Running a command\<close>

text \<open>
  What \<open>os/exec\<close> is asked to run, and how the run ends: an exit code with no error, an
  \<open>exec.ExitError\<close> or another error. It gives a command whose \<open>Env\<close> is nil the environment of the
  program itself; \<open>removedEnv\<close> is nil when it kept nothing.
\<close>

record command_request =
  cq_path :: string
  cq_args :: "string list"
  cq_dir :: string
  cq_env :: "string list"

datatype run_error = ExitError | RunError go_error

definition process_env :: "string list \<Rightarrow> string list \<Rightarrow> string list" where
  "process_env environ env = (if env = [] then environ else env)"

definition command_of :: "string list \<Rightarrow> string \<Rightarrow> string \<Rightarrow> string list \<Rightarrow> command_request" where
  "command_of environ workDir commandStr args =
     \<lparr>cq_path = commandStr, cq_args = args, cq_dir = workDir, cq_env = process_env environ (removedEnv environ)\<rparr>"

definition runCommand ::
  "(command_request \<Rightarrow> int \<times> run_error option) \<Rightarrow> string list \<Rightarrow> string \<Rightarrow> string \<Rightarrow> string list \<Rightarrow>
   int \<times> run_error option" where
  "runCommand run environ workDir commandStr args = run (command_of environ workDir commandStr args)"

text \<open>
  A command sees none of the program's own variables, unless the program has no others.
\<close>

lemma command_env:
  "set (cq_env (command_of environ d c args)) =
     (if \<exists>kv. kv \<in> set environ \<and> env_key kv \<notin> set rmList
      then {kv. kv \<in> set environ \<and> env_key kv \<notin> set rmList} else set environ)"
  by (auto simp: command_of_def process_env_def removedEnv_def filter_empty_conv)

end
