(* ===== verification/Metrics.thy ===== *)
theory Metrics
  imports Constants
begin

text \<open>
  The Prometheus metrics (\<open>metrics/controller.go\<close>, \<open>metrics/runner.go\<close>): a gauge or counter
  vector is the map from its label values to the value shown. The controller's vectors come with
  \<open>runnerLabelSet\<close>, which the code keeps to know what to delete; \<open>metrics_ok\<close> is the invariant
  that ties the two together.
\<close>

section \<open>Controller metrics\<close>

record controller_metrics =
  secret_retry_count :: "string \<rightharpoonup> int"
  pool_replicas :: "string \<rightharpoonup> int"
  runner_online :: "string \<times> string \<rightharpoonup> int"
  runner_busy :: "string \<times> string \<rightharpoonup> int"
  runner_label_set :: "string \<rightharpoonup> string set"

definition InitControllerMetrics :: controller_metrics where
  "InitControllerMetrics = \<lparr>secret_retry_count = Map.empty, pool_replicas = Map.empty,
     runner_online = Map.empty, runner_busy = Map.empty, runner_label_set = Map.empty\<rparr>"

definition UpdateRunnerPoolMetrics :: "string \<Rightarrow> int \<Rightarrow> controller_metrics \<Rightarrow> controller_metrics" where
  "UpdateRunnerPoolMetrics runnerpool replicas m =
     m\<lparr>pool_replicas := (pool_replicas m)(runnerpool \<mapsto> replicas)\<rparr>"

definition DeleteRunnerPoolMetrics :: "string \<Rightarrow> controller_metrics \<Rightarrow> controller_metrics" where
  "DeleteRunnerPoolMetrics runnerpool m =
     m\<lparr>pool_replicas := (pool_replicas m)(runnerpool := None)\<rparr>"

definition UpdateRunnerMetrics ::
  "string \<Rightarrow> string \<Rightarrow> bool \<Rightarrow> bool \<Rightarrow> controller_metrics \<Rightarrow> controller_metrics" where
  "UpdateRunnerMetrics runnerpool runner online busy m =
     (let labels = (case runner_label_set m runnerpool of None \<Rightarrow> {} | Some ls \<Rightarrow> ls)
      in m\<lparr>runner_label_set := (runner_label_set m)(runnerpool \<mapsto> insert runner labels),
           runner_online := (runner_online m)((runnerpool, runner) \<mapsto> (if online then 1 else 0)),
           runner_busy := (runner_busy m)((runnerpool, runner) \<mapsto> (if busy then 1 else 0))\<rparr>)"

definition drop_keys :: "'k set \<Rightarrow> ('k \<rightharpoonup> 'v) \<Rightarrow> ('k \<rightharpoonup> 'v)" where
  "drop_keys ks f = (\<lambda>k. if k \<in> ks then None else f k)"

definition DeleteRunnerMetrics ::
  "string \<Rightarrow> string list \<Rightarrow> controller_metrics \<Rightarrow> controller_metrics" where
  "DeleteRunnerMetrics runnerpool runners m =
     (case runner_label_set m runnerpool of
        None \<Rightarrow> m
      | Some labels \<Rightarrow>
          let keys = (\<lambda>r. (runnerpool, r)) ` set runners; labels' = labels - set runners
          in m\<lparr>runner_online := drop_keys keys (runner_online m),
               runner_busy := drop_keys keys (runner_busy m),
               runner_label_set := (runner_label_set m)
                 (runnerpool := (if labels' = {} then None else Some labels'))\<rparr>)"

definition DeleteAllRunnerMetrics :: "string \<Rightarrow> controller_metrics \<Rightarrow> controller_metrics" where
  "DeleteAllRunnerMetrics runnerpool m =
     (case runner_label_set m runnerpool of
        None \<Rightarrow> m
      | Some labels \<Rightarrow>
          let keys = (\<lambda>r. (runnerpool, r)) ` labels
          in m\<lparr>runner_online := drop_keys keys (runner_online m),
               runner_busy := drop_keys keys (runner_busy m),
               runner_label_set := (runner_label_set m)(runnerpool := None)\<rparr>)"

text \<open>\<open>RunnerPoolSecretRetryCount\<close>: \<open>WithLabelValues\<close> creates the counter, \<open>Inc\<close> adds one.\<close>

definition secret_retry_init :: "string \<Rightarrow> controller_metrics \<Rightarrow> controller_metrics" where
  "secret_retry_init runnerpool m = (case secret_retry_count m runnerpool of
       None \<Rightarrow> m\<lparr>secret_retry_count := (secret_retry_count m)(runnerpool \<mapsto> 0)\<rparr>
     | Some _ \<Rightarrow> m)"

definition secret_retry_inc :: "string \<Rightarrow> controller_metrics \<Rightarrow> controller_metrics" where
  "secret_retry_inc runnerpool m =
     m\<lparr>secret_retry_count := (secret_retry_count m)(runnerpool \<mapsto>
        (case secret_retry_count m runnerpool of None \<Rightarrow> 1 | Some n \<Rightarrow> n + 1))\<rparr>"

definition secret_retry_delete :: "string \<Rightarrow> controller_metrics \<Rightarrow> controller_metrics" where
  "secret_retry_delete runnerpool m =
     m\<lparr>secret_retry_count := (secret_retry_count m)(runnerpool := None)\<rparr>"

subsection \<open>The invariant\<close>

definition labels_of :: "string \<Rightarrow> controller_metrics \<Rightarrow> string set" where
  "labels_of p m = (case runner_label_set m p of None \<Rightarrow> {} | Some ls \<Rightarrow> ls)"

definition label_pairs :: "controller_metrics \<Rightarrow> (string \<times> string) set" where
  "label_pairs m = {(p, r). r \<in> labels_of p m}"

definition metrics_ok :: "controller_metrics \<Rightarrow> bool" where
  "metrics_ok m \<longleftrightarrow>
     dom (runner_online m) = label_pairs m \<and> dom (runner_busy m) = label_pairs m \<and>
     (\<forall>p. runner_label_set m p \<noteq> Some {})"

lemma dom_drop_keys [simp]: "dom (drop_keys ks f) = dom f - ks"
  by (auto simp: drop_keys_def dom_def)

lemma metrics_ok_init: "metrics_ok InitControllerMetrics"
  by (simp add: metrics_ok_def InitControllerMetrics_def labels_of_def label_pairs_def)

lemma labels_of_update [simp]:
  "labels_of q (UpdateRunnerMetrics p r on b m) =
     (if q = p then insert r (labels_of p m) else labels_of q m)"
  by (simp add: UpdateRunnerMetrics_def labels_of_def Let_def split: option.splits)

lemma labels_of_delete [simp]:
  "labels_of q (DeleteRunnerMetrics p rs m) =
     (if q = p then labels_of p m - set rs else labels_of q m)"
  by (auto simp: DeleteRunnerMetrics_def labels_of_def Let_def split: option.splits)

lemma labels_of_delete_all [simp]:
  "labels_of q (DeleteAllRunnerMetrics p m) = (if q = p then {} else labels_of q m)"
  by (auto simp: DeleteAllRunnerMetrics_def labels_of_def Let_def split: option.splits)

lemma label_pairs_update:
  "label_pairs (UpdateRunnerMetrics p r on b m) = insert (p, r) (label_pairs m)"
  by (auto simp: label_pairs_def split: if_splits)

lemma label_pairs_delete:
  "label_pairs (DeleteRunnerMetrics p rs m) = label_pairs m - (\<lambda>r. (p, r)) ` set rs"
  by (auto simp: label_pairs_def split: if_splits)

lemma label_pairs_delete_all:
  "label_pairs (DeleteAllRunnerMetrics p m) = label_pairs m - (\<lambda>r. (p, r)) ` labels_of p m"
  by (auto simp: label_pairs_def split: if_splits)

lemma metrics_ok_update: "metrics_ok m \<Longrightarrow> metrics_ok (UpdateRunnerMetrics p r on b m)"
  unfolding metrics_ok_def label_pairs_update by (auto simp: UpdateRunnerMetrics_def Let_def)

lemma metrics_ok_delete: "metrics_ok m \<Longrightarrow> metrics_ok (DeleteRunnerMetrics p rs m)"
  unfolding metrics_ok_def label_pairs_delete
  by (cases "runner_label_set m p")
    (auto simp: DeleteRunnerMetrics_def Let_def label_pairs_def labels_of_def)

lemma metrics_ok_delete_all: "metrics_ok m \<Longrightarrow> metrics_ok (DeleteAllRunnerMetrics p m)"
  unfolding metrics_ok_def label_pairs_delete_all
  by (cases "runner_label_set m p")
    (auto simp: DeleteAllRunnerMetrics_def Let_def label_pairs_def labels_of_def)

lemma metrics_ok_pool [simp]:
  "metrics_ok (UpdateRunnerPoolMetrics p n m) = metrics_ok m"
  "metrics_ok (DeleteRunnerPoolMetrics p m) = metrics_ok m"
  by (simp_all add: metrics_ok_def UpdateRunnerPoolMetrics_def DeleteRunnerPoolMetrics_def
      labels_of_def label_pairs_def)

section \<open>Runner pod metrics\<close>

record pod_metrics =
  pod_state :: "string \<rightharpoonup> int"
  listener_exit_state :: "string \<rightharpoonup> int"

definition InitRunnerPodMetrics :: pod_metrics where
  "InitRunnerPodMetrics = \<lparr>pod_state = Map.empty, listener_exit_state = Map.empty\<rparr>"

definition allRunnerPodState :: "string list" where
  "allRunnerPodState = [RunnerPodStateInitializing, RunnerPodStateRunning,
     RunnerPodStateDebugging, RunnerPodStateStale]"

definition UpdateRunnerPodState :: "string \<Rightarrow> pod_metrics \<Rightarrow> pod_metrics" where
  "UpdateRunnerPodState curState m =
     m\<lparr>pod_state := fold (\<lambda>state g. g(state \<mapsto> (if state = curState then 1 else 0)))
        allRunnerPodState (pod_state m)\<rparr>"

definition IncrementListenerExitState :: "string \<Rightarrow> pod_metrics \<Rightarrow> pod_metrics" where
  "IncrementListenerExitState state m =
     m\<lparr>listener_exit_state := (listener_exit_state m)
        (state \<mapsto> (case listener_exit_state m state of None \<Rightarrow> 1 | Some n \<Rightarrow> n + 1))\<rparr>"

lemma UpdateRunnerPodState_shown:
  "s \<in> set allRunnerPodState \<Longrightarrow>
   pod_state (UpdateRunnerPodState cur m) s = Some (if s = cur then 1 else 0)"
  by (auto simp: UpdateRunnerPodState_def allRunnerPodState_def meows_consts)

lemma listener_exit_state_update [simp]:
  "listener_exit_state (UpdateRunnerPodState cur m) = listener_exit_state m"
  by (simp add: UpdateRunnerPodState_def)

end
