(* ===== verification/Runner_Pod.thy ===== *)
theory Runner_Pod
  imports Runner_Env Metrics
begin

text \<open>
  The program of a runner pod (\<open>runner/runner.go\<close>, \<open>runner/listener.go\<close>): the life of one
  container from start to the end of its job, as the steps of \<open>runListener\<close>; the HTTP handlers
  that read and write its status meanwhile; the loop around \<open>Runner.Listener\<close>. The steps of the
  pod as a whole (main goroutine, HTTP requests, the job writing files, the container being
  restarted on the same volumes) are the relation \<open>pod_step\<close>.
\<close>

section \<open>State\<close>

definition JobResultSuccess :: string where "JobResultSuccess = ''success''"
definition JobResultFailure :: string where "JobResultFailure = ''failure''"
definition JobResultCancelled :: string where "JobResultCancelled = ''cancelled''"
definition JobResultUnknown :: string where "JobResultUnknown = ''unknown''"

lemmas job_result_defs =
  JobResultSuccess_def JobResultFailure_def JobResultCancelled_def JobResultUnknown_def

record runner =
  rn_envs :: runner_envs
  rn_listen_addr :: string
  rn_state :: string
  rn_result :: string
  rn_finished_at :: "time option"
  rn_deletion_time :: "time option"
  rn_extend :: "bool option"
  rn_job_info :: "job_info option"
  rn_slack_channel :: string
  rn_runner_dir :: string
  rn_work_dir :: string
  rn_token_path :: string
  rn_job_info_file :: string
  rn_slack_channel_file :: string
  rn_started_flag_file :: string
  rn_extend_flag_file :: string
  rn_failure_flag_file :: string
  rn_cancelled_flag_file :: string
  rn_success_flag_file :: string

record status =
  st_state :: string
  st_result :: string
  st_finished_at :: "time option"
  st_deletion_time :: "time option"
  st_extend :: "bool option"
  st_job_info :: "job_info option"
  st_slack_channel :: string

definition NewRunner ::
  "(string \<Rightarrow> json option) \<Rightarrow> environ \<Rightarrow> string \<Rightarrow> string \<Rightarrow> string \<Rightarrow> string \<Rightarrow> envs_error + runner" where
  "NewRunner parse_json e listenAddr runnerDir workDir varDir =
     (case newRunnerEnvs parse_json e of
        Inl err \<Rightarrow> Inl err
      | Inr envs \<Rightarrow> Inr \<lparr>
          rn_envs = envs, rn_listen_addr = listenAddr,
          rn_state = '''', rn_result = '''', rn_finished_at = None, rn_deletion_time = None,
          rn_extend = None, rn_job_info = None, rn_slack_channel = '''',
          rn_runner_dir = runnerDir, rn_work_dir = workDir,
          rn_token_path = filepath_join [varDir, SecretsDirName, RunnerTokenFileName],
          rn_job_info_file = filepath_join [varDir, ''github.env''],
          rn_slack_channel_file = filepath_join [varDir, ''slack_channel''],
          rn_started_flag_file = filepath_join [varDir, ''started''],
          rn_extend_flag_file = filepath_join [varDir, ''extend''],
          rn_failure_flag_file = filepath_join [varDir, ''failure''],
          rn_cancelled_flag_file = filepath_join [varDir, ''cancelled''],
          rn_success_flag_file = filepath_join [varDir, ''success'']\<rparr>)"

section \<open>The end of a job\<close>

definition isFileExists :: "files \<Rightarrow> string \<Rightarrow> bool" where
  "isFileExists fs f \<longleftrightarrow> fs f \<noteq> None"

definition updateState :: "string \<Rightarrow> runner \<Rightarrow> runner" where
  "updateState state r = r\<lparr>rn_state := state\<rparr>"

definition readSlackChannel :: "files \<Rightarrow> runner \<Rightarrow> read_error + string" where
  "readSlackChannel fs r = (case fs (rn_slack_channel_file r) of
       Some (Text s) \<Rightarrow> Inr (trim_right s (CHR 0x0A))
     | _ \<Rightarrow> Inl ReadError)"

definition job_result :: "files \<Rightarrow> runner \<Rightarrow> string" where
  "job_result fs r =
     (if isFileExists fs (rn_failure_flag_file r) then JobResultFailure
      else if isFileExists fs (rn_cancelled_flag_file r) then JobResultCancelled
      else if isFileExists fs (rn_success_flag_file r) then JobResultSuccess
      else JobResultUnknown)"

text \<open>Errors of reading the job information and the channel are logged, leaving them empty.\<close>

definition updateToDebuggingState ::
  "(string \<Rightarrow> json option) \<Rightarrow> files \<Rightarrow> time \<Rightarrow> runner \<Rightarrow> runner" where
  "updateToDebuggingState parse_json fs now r =
     (let jobInfo = (case GetJobInfoFromFile parse_json fs (rn_job_info_file r) of
            Inl _ \<Rightarrow> None | Inr i \<Rightarrow> i);
          slackChannel = (case readSlackChannel fs r of Inl _ \<Rightarrow> '''' | Inr s \<Rightarrow> s)
      in r\<lparr>rn_state := RunnerPodStateDebugging, rn_result := job_result fs r,
           rn_finished_at := Some now,
           rn_extend := Some (isFileExists fs (rn_extend_flag_file r)),
           rn_job_info := jobInfo, rn_slack_channel := slackChannel\<rparr>)"

section \<open>runListener\<close>

text \<open>
  The program counter of \<open>runListener\<close>, one position per effect; \<open>Listening\<close> is inside
  \<open>listener.listen\<close>, \<open>WaitDone\<close> at \<open><-ctx.Done()\<close>, \<open>Exited\<close> after the return with its error.
\<close>

datatype pc =
    AtStart
  | AtSetup
  | AtToken
  | AtConfigure string
  | AtListen
  | Listening
  | AtFinish
  | WaitDone
  | Exited "go_error option"

datatype listener_call = RunSetup "string list" | CallConfigure "string list" | CallListen

record pod_sys =
  sys_files :: files
  sys_pc :: pc
  sys_runner :: runner
  sys_metrics :: pod_metrics
  sys_calls :: "listener_call list"

text \<open>
  What the outside answers a step with: the error of creating a file, of the setup command, of
  \<open>listener.configure\<close>, of \<open>listener.listen\<close>, and the clock.
\<close>

record step_answers =
  an_create :: "go_error option"
  an_setup :: "go_error option"
  an_configure :: "go_error option"
  an_listen :: "go_error option"
  an_now :: time

definition config_url :: "runner_envs \<Rightarrow> string" where
  "config_url e = ''https://github.com/'' @ (if re_runnerOrg e \<noteq> '''' then re_runnerOrg e else re_runnerRepo e)"

definition config_args :: "runner \<Rightarrow> string \<Rightarrow> string list" where
  "config_args r b =
     [''--unattended'', ''--replace'',
      ''--name'', re_podName (rn_envs r),
      ''--labels'', re_podNamespace (rn_envs r) @ ''/'' @ re_runnerPoolName (rn_envs r),
      ''--url'', config_url (rn_envs r),
      ''--token'', b,
      ''--work'', rn_work_dir r,
      ''--ephemeral'', ''--disableupdate'']"

definition enter_state :: "string \<Rightarrow> pod_sys \<Rightarrow> pod_sys" where
  "enter_state state s =
     s\<lparr>sys_metrics := UpdateRunnerPodState state (sys_metrics s),
       sys_runner := updateState state (sys_runner s)\<rparr>"

definition fail_or :: "go_error option \<Rightarrow> pod_sys \<Rightarrow> pod_sys \<Rightarrow> pod_sys" where
  "fail_or err s s' = (case err of Some e \<Rightarrow> s\<lparr>sys_pc := Exited (Some e)\<rparr> | None \<Rightarrow> s')"

definition record_call :: "listener_call \<Rightarrow> pod_sys \<Rightarrow> pod_sys" where
  "record_call c s = s\<lparr>sys_calls := sys_calls s @ [c]\<rparr>"

definition listener_step :: "(string \<Rightarrow> json option) \<Rightarrow> step_answers \<Rightarrow> pod_sys \<Rightarrow> pod_sys" where
  "listener_step parse_json a s = (let r = sys_runner s in case sys_pc s of
       AtStart \<Rightarrow>
         if isFileExists (sys_files s) (rn_started_flag_file r)
         then (enter_state RunnerPodStateStale s)\<lparr>sys_pc := WaitDone\<rparr>
         else fail_or (an_create a) s
           ((enter_state RunnerPodStateInitializing s)
              \<lparr>sys_files := (sys_files s)(rn_started_flag_file r \<mapsto> Text ''''), sys_pc := AtSetup\<rparr>)
     | AtSetup \<Rightarrow>
         if re_setupCommand (rn_envs r) = [] then s\<lparr>sys_pc := AtToken\<rparr>
         else let s' = record_call (RunSetup (re_setupCommand (rn_envs r))) s
              in fail_or (an_setup a) s' (s'\<lparr>sys_pc := AtToken\<rparr>)
     | AtToken \<Rightarrow>
         (case sys_files s (rn_token_path r) of
            Some (Text b) \<Rightarrow> s\<lparr>sys_pc := AtConfigure b\<rparr>
          | _ \<Rightarrow> s\<lparr>sys_pc := Exited (Some (''failed load '' @ rn_token_path r))\<rparr>)
     | AtConfigure b \<Rightarrow>
         let s' = record_call (CallConfigure (config_args r b)) s
         in fail_or (an_configure a) s' ((enter_state RunnerPodStateRunning s')\<lparr>sys_pc := AtListen\<rparr>)
     | AtListen \<Rightarrow> (record_call CallListen s)\<lparr>sys_pc := Listening\<rparr>
     | Listening \<Rightarrow> fail_or (an_listen a) s (s\<lparr>sys_pc := AtFinish\<rparr>)
     | AtFinish \<Rightarrow>
         s\<lparr>sys_metrics := UpdateRunnerPodState RunnerPodStateDebugging (sys_metrics s),
           sys_runner := updateToDebuggingState parse_json (sys_files s) (an_now a) r,
           sys_pc := WaitDone\<rparr>
     | WaitDone \<Rightarrow> s\<lparr>sys_pc := Exited None\<rparr>
     | Exited e \<Rightarrow> s)"

text \<open>
  The whole of \<open>runListener\<close> with nothing else interfering, up to \<open><-ctx.Done()\<close>: it passes
  each position at most once, so seven steps take it there.
\<close>

fun run_steps :: "nat \<Rightarrow> (string \<Rightarrow> json option) \<Rightarrow> step_answers \<Rightarrow> pod_sys \<Rightarrow> pod_sys" where
  "run_steps 0 parse_json a s = s"
| "run_steps (Suc n) parse_json a s =
     (if sys_pc s = WaitDone then s else run_steps n parse_json a (listener_step parse_json a s))"

definition runListener :: "(string \<Rightarrow> json option) \<Rightarrow> step_answers \<Rightarrow> pod_sys \<Rightarrow> pod_sys" where
  "runListener parse_json a s = run_steps 7 parse_json a (s\<lparr>sys_pc := AtStart\<rparr>)"

section \<open>The loop around Runner.Listener\<close>

text \<open>
  \<open>listen\<close> relaunches the listener until it ends for good. The results of the launches come as a
  list; the outcome \<open>StillRunning\<close> is the loop waiting for a further result.
\<close>

datatype listen_outcome = StillRunning | ListenReturned "go_error option"

fun listen_loop ::
  "(int \<times> run_error option) list \<Rightarrow> pod_metrics \<Rightarrow> listen_outcome \<times> pod_metrics" where
  "listen_loop [] m = (StillRunning, m)"
| "listen_loop ((code, err) # rest) m = (case err of
       None \<Rightarrow> (ListenReturned None, m)
     | Some (RunError e) \<Rightarrow> (ListenReturned (Some e), m)
     | Some ExitError \<Rightarrow>
         if code = 0 then (ListenReturned None, m)
         else if code = 1 then
           (ListenReturned (Some ''runner listener exit with terminated error: exit status 1''), m)
         else if code = 2 then
           listen_loop rest (IncrementListenerExitState ListenerExitStateRetryableError m)
         else if code = 3 \<or> code = 4 then
           listen_loop rest (IncrementListenerExitState ListenerExitStateUpdating m)
         else listen_loop rest (IncrementListenerExitState ListenerExitStateUndefined m))"

text \<open>
  The listener itself, and its first \<open>n\<close> launches; \<open>run i\<close> is how the operating system runs the
  \<open>i\<close>-th.
\<close>

record listener_impl =
  li_runner_dir :: string
  li_config_command :: string
  li_listener_command :: string

definition NewListener :: "string \<Rightarrow> listener_impl" where
  "NewListener runnerDir = \<lparr>li_runner_dir = runnerDir,
     li_config_command = filepath_join [runnerDir, ''config.sh''],
     li_listener_command = filepath_join [runnerDir, ''bin'', ''Runner.Listener'']\<rparr>"

definition listener_configure ::
  "(command_request \<Rightarrow> int \<times> run_error option) \<Rightarrow> string list \<Rightarrow> listener_impl \<Rightarrow> string list \<Rightarrow>
   run_error option" where
  "listener_configure run environ l configArgs =
     snd (runCommand run environ (li_runner_dir l) (li_config_command l) configArgs)"

definition listener_launch ::
  "(command_request \<Rightarrow> int \<times> run_error option) \<Rightarrow> string list \<Rightarrow> listener_impl \<Rightarrow> int \<times> run_error option" where
  "listener_launch run environ l =
     runCommand run environ (li_runner_dir l) (li_listener_command l) [''run'', ''--startuptype'', ''service'']"

definition listener_listen ::
  "(nat \<Rightarrow> command_request \<Rightarrow> int \<times> run_error option) \<Rightarrow> string list \<Rightarrow> listener_impl \<Rightarrow> nat \<Rightarrow> pod_metrics \<Rightarrow>
   listen_outcome \<times> pod_metrics" where
  "listener_listen run environ l n m = listen_loop (map (\<lambda>i. listener_launch (run i) environ l) [0..<n]) m"

end
