(* ===== verification/Runner_Http.thy ===== *)
theory Runner_Http
  imports Runner_Pod
begin

text \<open>
  The HTTP interface of a runner pod: the handlers of \<open>runner/runner.go\<close>, the client the
  controller and the Slack agent call it with (\<open>runner/client.go\<close>), and the fake client of the
  tests. The locale \<open>runner_client\<close> is the contract of \<open>runner.Client\<close>: what a status read after
  a deletion time was put returns. Both clients interpret it.
\<close>

section \<open>HTTP\<close>

record http_request =
  rq_path :: string
  rq_method :: string
  rq_content_type :: string
  rq_body :: "json option"

record http_response =
  rs_code :: int
  rs_content_type :: string
  rs_body :: "json option"

definition plain_response :: "int \<Rightarrow> http_response" where
  "plain_response code = \<lparr>rs_code = code, rs_content_type = '''', rs_body = None\<rparr>"

definition StatusOK :: int where "StatusOK = 200"
definition StatusCreated :: int where "StatusCreated = 201"
definition StatusNoContent :: int where "StatusNoContent = 204"
definition StatusBadRequest :: int where "StatusBadRequest = 400"
definition StatusNotFound :: int where "StatusNotFound = 404"
definition StatusMethodNotAllowed :: int where "StatusMethodNotAllowed = 405"
definition StatusUnsupportedMediaType :: int where "StatusUnsupportedMediaType = 415"
definition StatusInternalServerError :: int where "StatusInternalServerError = 500"

lemmas status_codes = StatusOK_def StatusCreated_def StatusNoContent_def StatusBadRequest_def
  StatusNotFound_def StatusMethodNotAllowed_def StatusUnsupportedMediaType_def
  StatusInternalServerError_def

section \<open>Payloads\<close>

text \<open>\<open>DeletionTimePayload\<close>: a missing field leaves the zero time.\<close>

definition deletion_time_json :: "time \<Rightarrow> json option" where
  "deletion_time_json t = (if time_ok t then Some (JObj [(''deletion_time'', JTime t)]) else None)"

fun deletion_time_of_json :: "json \<Rightarrow> time option" where
  "deletion_time_of_json (JObj obj) = fill as_time (field_values ''deletion_time'' obj) zero_time"
| "deletion_time_of_json JNull = Some zero_time"
| "deletion_time_of_json _ = None"

text \<open>\<open>Status\<close>: \<open>json.Marshal\<close> fails on a time outside the years it can print.\<close>

definition status_times_ok :: "status \<Rightarrow> bool" where
  "status_times_ok st \<longleftrightarrow>
     pred_option time_ok (st_finished_at st) \<and> pred_option time_ok (st_deletion_time st)"

definition status_json :: "status \<Rightarrow> json option" where
  "status_json st =
     (if \<not> status_times_ok st then None
      else Some (JObj (
        omit_empty ''state'' (st_state st = '''') (JStr (st_state st)) @
        omit_empty ''result'' (st_result st = '''') (JStr (st_result st)) @
        omit_nil ''finished_at'' JTime (st_finished_at st) @
        omit_nil ''deletion_time'' JTime (st_deletion_time st) @
        omit_nil ''extend'' JBool (st_extend st) @
        omit_nil ''job_info'' job_info_json (st_job_info st) @
        omit_empty ''slack_channel'' (st_slack_channel st = '''') (JStr (st_slack_channel st)))))"

text \<open>Filling a pointer field: \<open>null\<close> makes it nil.\<close>

fun fill_ptr :: "(json \<Rightarrow> 'a option) \<Rightarrow> json list \<Rightarrow> 'a option \<Rightarrow> 'a option option" where
  "fill_ptr dec [] x = Some x"
| "fill_ptr dec (v # vs) x =
     (if v = JNull then fill_ptr dec vs None
      else case dec v of None \<Rightarrow> None | Some y \<Rightarrow> fill_ptr dec vs (Some y))"

definition empty_status :: status where
  "empty_status = \<lparr>st_state = '''', st_result = '''', st_finished_at = None,
     st_deletion_time = None, st_extend = None, st_job_info = None, st_slack_channel = ''''\<rparr>"

fun status_of_json :: "json \<Rightarrow> status option" where
  "status_of_json (JObj obj) =
     Option.bind (fill as_string (field_values ''state'' obj) '''') (\<lambda>state.
     Option.bind (fill as_string (field_values ''result'' obj) '''') (\<lambda>result.
     Option.bind (fill_ptr as_time (field_values ''finished_at'' obj) None) (\<lambda>finished.
     Option.bind (fill_ptr as_time (field_values ''deletion_time'' obj) None) (\<lambda>deletion.
     Option.bind (fill_ptr as_bool (field_values ''extend'' obj) None) (\<lambda>extend.
     Option.bind (fill_ptr job_info_of_json (field_values ''job_info'' obj) None) (\<lambda>info.
     Option.bind (fill as_string (field_values ''slack_channel'' obj) '''') (\<lambda>channel.
       Some \<lparr>st_state = state, st_result = result, st_finished_at = finished,
         st_deletion_time = deletion, st_extend = extend, st_job_info = info,
         st_slack_channel = channel\<rparr>)))))))"
| "status_of_json JNull = Some empty_status"
| "status_of_json _ = None"

section \<open>Handlers\<close>

definition deletionTimeHandler :: "http_request \<Rightarrow> runner \<Rightarrow> http_response \<times> runner" where
  "deletionTimeHandler req r =
     (if rq_method req \<noteq> ''PUT'' then (plain_response StatusMethodNotAllowed, r)
      else if rq_content_type req \<noteq> ''application/json''
      then (plain_response StatusUnsupportedMediaType, r)
      else case Option.bind (rq_body req) deletion_time_of_json of
          None \<Rightarrow> (plain_response StatusBadRequest, r)
        | Some dt \<Rightarrow> (plain_response StatusNoContent, r\<lparr>rn_deletion_time := Some dt\<rparr>))"

definition runner_status :: "runner \<Rightarrow> status" where
  "runner_status r = \<lparr>st_state = rn_state r, st_result = rn_result r,
     st_finished_at = rn_finished_at r, st_deletion_time = rn_deletion_time r,
     st_extend = rn_extend r, st_job_info = rn_job_info r, st_slack_channel = rn_slack_channel r\<rparr>"

definition statusHandler :: "http_request \<Rightarrow> runner \<Rightarrow> http_response" where
  "statusHandler req r =
     (if rq_method req \<noteq> ''GET'' then plain_response StatusMethodNotAllowed
      else case status_json (runner_status r) of
          None \<Rightarrow> plain_response StatusInternalServerError
        | Some j \<Rightarrow> \<lparr>rs_code = StatusOK, rs_content_type = ''application/json'', rs_body = Some j\<rparr>)"

text \<open>The routes \<open>Run\<close> registers; the page of \<open>/metrics\<close> is the Prometheus library's.\<close>

definition serve :: "http_request \<Rightarrow> runner \<Rightarrow> http_response \<times> runner" where
  "serve req r =
     (if rq_path req = ''/'' @ DeletionTimeEndpoint then deletionTimeHandler req r
      else if rq_path req = ''/'' @ StatusEndPoint then (statusHandler req r, r)
      else if rq_path req = ''/metrics'' then (plain_response StatusOK, r)
      else (plain_response StatusNotFound, r))"

section \<open>The client\<close>

text \<open>
  The runner pods by address, and what the network does to a request to an address: deliver it,
  drop it, or lose the reply. A URL \<open>http://host:port/path\<close> is the triple of its parts.
\<close>

datatype link = Up | Down | ReplyLost

record network =
  net_pods :: "string \<rightharpoonup> runner"
  net_link :: "string \<Rightarrow> link"

type_synonym url = "string \<times> int \<times> string"

definition getStatusURL :: "string \<Rightarrow> url" where
  "getStatusURL ip = (ip, RunnerListenPort, ''/'' @ StatusEndPoint)"

definition getDeletionTimeURL :: "string \<Rightarrow> url" where
  "getDeletionTimeURL ip = (ip, RunnerListenPort, ''/'' @ DeletionTimeEndpoint)"

definition http_do ::
  "network \<Rightarrow> url \<Rightarrow> http_request \<Rightarrow> (go_error + http_response) \<times> network" where
  "http_do net u req = (case u of (host, port, path) \<Rightarrow>
     case net_pods net host of
       None \<Rightarrow> (Inl ''no route to host'', net)
     | Some r \<Rightarrow>
         if net_link net host = Down \<or> port \<noteq> RunnerListenPort then (Inl ''connection refused'', net)
         else let (res, r') = serve (req\<lparr>rq_path := path\<rparr>) r;
                  net' = net\<lparr>net_pods := (net_pods net)(host \<mapsto> r')\<rparr>
              in if net_link net host = ReplyLost then (Inl ''connection reset'', net')
                 else (Inr res, net'))"

definition PutDeletionTime :: "network \<Rightarrow> string \<Rightarrow> time \<Rightarrow> go_error option \<times> network" where
  "PutDeletionTime net ip tm = (case deletion_time_json tm of
       None \<Rightarrow> (Some ''failed to marshal'', net)
     | Some b \<Rightarrow>
         (case http_do net (getDeletionTimeURL ip)
             \<lparr>rq_path = '''', rq_method = ''PUT'', rq_content_type = ''application/json'',
               rq_body = Some b\<rparr> of
            (Inl e, net') \<Rightarrow> (Some e, net')
          | (Inr res, net') \<Rightarrow>
              if rs_code res \<noteq> StatusNoContent
              then (Some (''runner pod ('' @ ip @ '') return '' @ itoa (rs_code res)), net')
              else (None, net')))"

definition GetStatus :: "network \<Rightarrow> string \<Rightarrow> go_error + status" where
  "GetStatus net ip = (case fst (http_do net (getStatusURL ip)
         \<lparr>rq_path = '''', rq_method = ''GET'', rq_content_type = '''', rq_body = None\<rparr>) of
       Inl e \<Rightarrow> Inl e
     | Inr res \<Rightarrow>
         if rs_code res \<noteq> StatusOK
         then Inl (''runner pod ('' @ ip @ '') return '' @ itoa (rs_code res))
         else (case Option.bind (rs_body res) status_of_json of
                 None \<Rightarrow> Inl ''failed to unmarshal'' | Some s \<Rightarrow> Inr s))"

subsection \<open>The fake client\<close>

type_synonym fake_client = "string \<rightharpoonup> status"

definition fake_put :: "fake_client \<Rightarrow> string \<Rightarrow> time \<Rightarrow> go_error option \<times> fake_client" where
  "fake_put c ip tm = (case c ip of
       None \<Rightarrow> (Some (''[FakeClient.PutDeletionTime] runner pod ('' @ ip @ '') status is not defined''), c)
     | Some st \<Rightarrow> (None, c(ip \<mapsto> st\<lparr>st_deletion_time := Some tm\<rparr>)))"

definition fake_get :: "fake_client \<Rightarrow> string \<Rightarrow> go_error + status" where
  "fake_get c ip = (case c ip of
       Some st \<Rightarrow> Inr st
     | None \<Rightarrow> Inl (''[FakeClient.GetStatus] runner pod ('' @ ip @ '') status is not defined''))"

definition fake_set :: "fake_client \<Rightarrow> string \<Rightarrow> status \<Rightarrow> fake_client" where
  "fake_set c ip st = c(ip \<mapsto> st)"

section \<open>The contract of runner.Client\<close>

locale runner_client =
  fixes put :: "'s \<Rightarrow> string \<Rightarrow> time \<Rightarrow> go_error option \<times> 's"
    and get :: "'s \<Rightarrow> string \<Rightarrow> go_error + status"
  assumes get_after_put:
      "put s ip t = (None, s') \<Longrightarrow> get s ip = Inr st \<Longrightarrow> get s' ip = Inr (st\<lparr>st_deletion_time := Some t\<rparr>)"
    and get_after_put_other: "put s ip t = (e, s') \<Longrightarrow> ip' \<noteq> ip \<Longrightarrow> get s' ip' = get s ip'"
    and put_succeeds: "get s ip = Inr st \<Longrightarrow> time_ok t \<Longrightarrow> fst (put s ip t) = None"
begin

text \<open>The last of two puts is the one that counts.\<close>

lemma put_put:
  assumes "put s ip t = (None, s1)" and "put s1 ip t' = (None, s2)" and "get s ip = Inr st"
  shows "get s2 ip = Inr (st\<lparr>st_deletion_time := Some t'\<rparr>)"
  using get_after_put [OF assms(2) get_after_put [OF assms(1,3)]] by simp

text \<open>Puts to different pods do not disturb each other.\<close>

lemma put_independent:
  assumes "put s ip t = (None, s1)" and "put s1 ip' t' = (e, s2)" and "ip' \<noteq> ip"
    and "get s ip = Inr st"
  shows "get s2 ip = Inr (st\<lparr>st_deletion_time := Some t\<rparr>)"
  using get_after_put [OF assms(1,4)] get_after_put_other [OF assms(2)] assms(3) by simp

lemma put_keeps_state:
  "put s ip t = (None, s') \<Longrightarrow> get s ip = Inr st \<Longrightarrow> \<exists>st'. get s' ip = Inr st' \<and> st_state st' = st_state st"
  by (metis get_after_put status.select_convs(1) status.surjective status.update_convs(4))

end

interpretation fake: runner_client fake_put fake_get
  by unfold_locales (auto simp: fake_put_def fake_get_def split: option.splits)

subsection \<open>The real client keeps it\<close>

lemma endpoints_differ [simp]: "StatusEndPoint \<noteq> DeletionTimeEndpoint" "DeletionTimeEndpoint \<noteq> StatusEndPoint"
  by (simp_all add: meows_consts)

lemma serve_put:
  "time_ok t \<Longrightarrow>
   serve \<lparr>rq_path = CHR ''/'' # DeletionTimeEndpoint, rq_method = ''PUT'',
     rq_content_type = ''application/json'', rq_body = Some (JObj [(''deletion_time'', JTime t)])\<rparr> r =
   (plain_response StatusNoContent, r\<lparr>rn_deletion_time := Some t\<rparr>)"
  by (simp add: serve_def deletionTimeHandler_def json_simps lower_char_def)

lemma fill_unless [json_simps]:
  "v \<noteq> JNull \<Longrightarrow> fill dec (if b then [v] else []) x = (if b then dec v else Some x)"
  by (simp split: option.splits)

lemma job_info_decode:
  "job_info_of_json (job_info_json i) = (if job_info_ok i then Some i else None)"
  by (simp add: job_info_json_def job_info_ok_def in_int64_def json_simps lower_char_def)

definition status_ok :: "status \<Rightarrow> bool" where
  "status_ok st \<longleftrightarrow> status_times_ok st \<and> pred_option job_info_ok (st_job_info st)"

lemma status_fields:
  "fill_ptr as_time (case v of None \<Rightarrow> [] | Some x \<Rightarrow> [JTime x]) None =
     (if pred_option time_ok v then Some v else None)"
  "fill_ptr as_bool (case w of None \<Rightarrow> [] | Some x \<Rightarrow> [JBool x]) None = Some w"
  "fill_ptr job_info_of_json (case i of None \<Rightarrow> [] | Some x \<Rightarrow> [job_info_json x]) None =
     (if pred_option job_info_ok i then Some i else None)"
    apply (cases v; simp)
   apply (cases w; simp)
  apply (cases i; simp add: job_info_decode job_info_json_def [THEN arg_cong, of "\<lambda>j. j = JNull"])
  done

lemma status_roundtrip: "status_ok st \<Longrightarrow> Option.bind (status_json st) status_of_json = Some st"
  by (simp add: status_ok_def status_json_def status_times_ok_def json_simps lower_char_def status_fields)

interpretation status: codec status_json "\<lambda>j. Option.bind j status_of_json" status_ok
  by unfold_locales (rule status_roundtrip)

lemma status_decode_fails:
  "\<not> status_ok st \<Longrightarrow> Option.bind (status_json st) status_of_json = None"
  by (simp add: status_ok_def status_json_def status_times_ok_def json_simps lower_char_def status_fields)

lemma GetStatus_eq:
  "GetStatus net ip = Inr st \<longleftrightarrow>
   (\<exists>r. net_pods net ip = Some r \<and> net_link net ip = Up \<and> status_ok (runner_status r) \<and>
      st = runner_status r)"
proof (cases "net_pods net ip")
  case None
  then show ?thesis by (simp add: GetStatus_def http_do_def getStatusURL_def)
next
  case (Some r)
  show ?thesis
    using Some status_roundtrip [of "runner_status r"] status_decode_fails [of "runner_status r"]
    by (cases "net_link net ip"; cases "status_json (runner_status r)";
        cases "status_ok (runner_status r)")
      (auto simp: GetStatus_def http_do_def getStatusURL_def serve_def statusHandler_def
        plain_response_def status_codes Let_def)
qed

lemma GetStatus_cong:
  "net_pods net ip = net_pods net' ip \<Longrightarrow> net_link net ip = net_link net' ip \<Longrightarrow>
   GetStatus net ip = GetStatus net' ip"
  by (simp add: GetStatus_def http_do_def getStatusURL_def Let_def split: option.splits prod.splits)

lemma PutDeletionTime_ok:
  "PutDeletionTime net ip t = (None, net') \<Longrightarrow>
   \<exists>r. net_pods net ip = Some r \<and> net_link net ip = Up \<and> time_ok t \<and>
     net' = net\<lparr>net_pods := (net_pods net)(ip \<mapsto> r\<lparr>rn_deletion_time := Some t\<rparr>)\<rparr>"
  by (cases "net_link net ip")
    (auto simp: PutDeletionTime_def http_do_def getDeletionTimeURL_def serve_put Let_def
      deletion_time_json_def split: option.splits if_splits prod.splits)

lemma PutDeletionTime_other:
  "PutDeletionTime net ip t = (e, net') \<Longrightarrow> ip' \<noteq> ip \<Longrightarrow>
   net_pods net' ip' = net_pods net ip' \<and> net_link net' ip' = net_link net ip'"
  by (auto simp: PutDeletionTime_def http_do_def getDeletionTimeURL_def Let_def
      split: option.splits if_splits prod.splits sum.splits)

lemma runner_status_deletion [simp]:
  "runner_status (r\<lparr>rn_deletion_time := t\<rparr>) = (runner_status r)\<lparr>st_deletion_time := t\<rparr>"
  by (simp add: runner_status_def)

lemma status_ok_deletion: "status_ok st \<Longrightarrow> time_ok t \<Longrightarrow> status_ok (st\<lparr>st_deletion_time := Some t\<rparr>)"
  by (simp add: status_ok_def status_times_ok_def)

interpretation http_client: runner_client PutDeletionTime GetStatus
proof
  fix net ip t net' st
  assume "PutDeletionTime net ip t = (None, net')" and "GetStatus net ip = Inr st"
  then show "GetStatus net' ip = Inr (st\<lparr>st_deletion_time := Some t\<rparr>)"
    by (auto simp: GetStatus_eq status_ok_deletion dest!: PutDeletionTime_ok)
next
  fix net ip st and t :: time
  assume "GetStatus net ip = Inr st" and "time_ok t"
  then show "fst (PutDeletionTime net ip t) = None"
    by (auto simp: GetStatus_eq PutDeletionTime_def http_do_def getDeletionTimeURL_def serve_put
        deletion_time_json_def plain_response_def Let_def)
next
  fix net ip t e net' and ip' :: string
  assume "PutDeletionTime net ip t = (e, net')" and "ip' \<noteq> ip"
  then show "GetStatus net' ip' = GetStatus net ip'"
    by (metis GetStatus_cong PutDeletionTime_other)
qed

end
