(* ===== verification/Slack_Agent.thy ===== *)
theory Slack_Agent
  imports RunnerPool_API Runner_Http
begin

text \<open>
  The Slack agent (package \<open>agent\<close>): the payload of a job result and the client that sends it
  (\<open>client.go\<close>), the server that posts it to Slack (\<open>server.go\<close>), the message with its buttons
  (\<open>message.go\<close>), and the events those buttons send back, which extend or end the life of a
  runner pod (\<open>socket.go\<close>). Slack, the Kubernetes API and the clock are the environment.
\<close>

section \<open>Messages\<close>

definition extendBlockID :: string where "extendBlockID = ''slack-agent-extend''"
definition extendButtonActionID :: string where "extendButtonActionID = ''slack-agent-extend-button''"
definition deleteBlockID :: string where "deleteBlockID = ''slack-agent-delete''"
definition deleteButtonActionID :: string where "deleteButtonActionID = ''slack-agent-delete-button''"

definition extendDurationHours :: int where "extendDurationHours = 2"
definition extendLimitHours :: int where "extendLimitHours = 6"
definition extendDurationString :: string where "extendDurationString = ''2 hours''"

lemmas button_ids = extendBlockID_def extendButtonActionID_def deleteBlockID_def deleteButtonActionID_def

record button =
  bt_action_id :: string
  bt_value :: string
  bt_text :: string

datatype block = SectionBlock string "string list" | ActionBlock string button

text \<open>The two text messages carry the time itself, which the code prints with \<open>%s\<close>.\<close>

datatype message =
    AttachmentMsg string "block list"
  | PodExtendSuccess string time
  | PodExtendFailure string

definition newline :: string where "newline = [CHR 0x0A]"

definition messageCIResult :: "string \<Rightarrow> string \<Rightarrow> string \<Rightarrow> string \<Rightarrow> bool \<Rightarrow> message" where
  "messageCIResult color txt job pod withExtend = AttachmentMsg color
     ([SectionBlock txt [''*Job*'' @ newline @ job, ''*Pod*'' @ newline @ pod]] @
      (if withExtend then
         [ActionBlock extendBlockID \<lparr>bt_action_id = extendButtonActionID, bt_value = pod,
            bt_text = ''Extend '' @ extendDurationString\<rparr>,
          ActionBlock deleteBlockID \<lparr>bt_action_id = deleteButtonActionID, bt_value = pod,
            bt_text = ''Delete immediately''\<rparr>]
       else []))"

definition messagePodExtendSuccess :: "string \<Rightarrow> time \<Rightarrow> message" where
  "messagePodExtendSuccess pod extendedTime = PodExtendSuccess pod extendedTime"

definition messagePodExtendFailure :: "string \<Rightarrow> message" where
  "messagePodExtendFailure pod = PodExtendFailure pod"

section \<open>The payload of a result\<close>

definition colors :: "string \<rightharpoonup> string" where
  "colors = Map.empty(JobResultSuccess \<mapsto> ''#03af7a'', JobResultFailure \<mapsto> ''#ff4b00'',
     JobResultCancelled \<mapsto> ''#84919e'', JobResultUnknown \<mapsto> ''#fff100'')"

definition captions :: "string \<rightharpoonup> string" where
  "captions = Map.empty(JobResultSuccess \<mapsto> ''Success'', JobResultFailure \<mapsto> ''Failure'',
     JobResultCancelled \<mapsto> ''Cancelled'', JobResultUnknown \<mapsto> ''Finished(Unknown)'')"

text \<open>A map lookup without \<open>ok\<close>: the empty string for a missing key.\<close>

definition str_of :: "string option \<Rightarrow> string" where
  "str_of v = (case v of None \<Rightarrow> '''' | Some s \<Rightarrow> s)"

record result_payload =
  pl_color :: string
  pl_text :: string
  pl_job :: string
  pl_pod :: string
  pl_extend :: bool
  pl_channel :: string

definition makePayload :: "string \<Rightarrow> string \<Rightarrow> string \<Rightarrow> job_info option \<Rightarrow> result_payload" where
  "makePayload result namespaceName podName info =
     (let color = (case colors result of Some c \<Rightarrow> c | None \<Rightarrow> str_of (colors JobResultUnknown));
          head = (case captions result of Some h \<Rightarrow> h | None \<Rightarrow> str_of (captions JobResultUnknown));
          pod = namespaceName @ ''/'' @ podName
      in case info of
           Some i \<Rightarrow> \<lparr>pl_color = color,
             pl_text = head @ '': '' @ ji_actor i @ [CHR 0x27] @ ''s CI job in <'' @ RepositoryURL i @
               ''|'' @ ji_repository i @ ''>'',
             pl_job = ''<'' @ WorkflowURL i @ ''|'' @ ji_workflow_name i @ '' #'' @
               itoa (ji_run_number i) @ ''> ['' @ ji_job_id i @ '']'',
             pl_pod = pod, pl_extend = False, pl_channel = ''''\<rparr>
         | None \<Rightarrow> \<lparr>pl_color = color, pl_text = head @ '': (failed to get job status)'',
             pl_job = ''(unknown)'', pl_pod = pod, pl_extend = False, pl_channel = ''''\<rparr>)"

definition payload_json :: "result_payload \<Rightarrow> json" where
  "payload_json p = JObj [(''color'', JStr (pl_color p)), (''text'', JStr (pl_text p)),
     (''job'', JStr (pl_job p)), (''pod'', JStr (pl_pod p)), (''extend'', JBool (pl_extend p)),
     (''channel'', JStr (pl_channel p))]"

text \<open>
  Decoding into a pointer to a pointer, as the server does: JSON \<open>null\<close> makes it nil
  (\<open>Some None\<close>), a value of the wrong shape is an error (\<open>None\<close>).
\<close>

fun payload_of_json :: "json \<Rightarrow> result_payload option option" where
  "payload_of_json JNull = Some None"
| "payload_of_json (JObj obj) =
     Option.bind (fill as_string (field_values ''color'' obj) '''') (\<lambda>color.
     Option.bind (fill as_string (field_values ''text'' obj) '''') (\<lambda>txt.
     Option.bind (fill as_string (field_values ''job'' obj) '''') (\<lambda>job.
     Option.bind (fill as_string (field_values ''pod'' obj) '''') (\<lambda>pod.
     Option.bind (fill as_bool (field_values ''extend'' obj) False) (\<lambda>withExtend.
     Option.bind (fill as_string (field_values ''channel'' obj) '''') (\<lambda>channel.
       Some (Some \<lparr>pl_color = color, pl_text = txt, pl_job = job, pl_pod = pod,
         pl_extend = withExtend, pl_channel = channel\<rparr>)))))))"
| "payload_of_json _ = None"

lemma payload_roundtrip: "payload_of_json (payload_json p) = Some (Some p)"
  by (simp add: payload_json_def json_simps lower_char_def)

interpretation payload: codec payload_json "\<lambda>j. Option.bind (payload_of_json j) id" "\<lambda>_. True"
  by unfold_locales (simp add: payload_roundtrip)

section \<open>The client\<close>

text \<open>
  \<open>url.Parse\<close> is passed in; of its result the code reads the scheme. The client holds the parsed
  URL of the server.
\<close>

record server_url =
  url_scheme :: string
  url_text :: string

definition UpdateServerURL ::
  "(string \<Rightarrow> go_error + server_url) \<Rightarrow> server_url option \<Rightarrow> string \<Rightarrow> go_error option \<times> server_url option"
where
  "UpdateServerURL parse_url c serverURL = (case parse_url serverURL of
       Inl err \<Rightarrow> (Some err, c)
     | Inr u \<Rightarrow>
         if url_scheme u = '''' then
           (case parse_url (''http://'' @ serverURL) of
              Inl err \<Rightarrow> (Some err, c)
            | Inr u' \<Rightarrow> (None, Some u'))
         else (None, Some u))"

definition NewClient :: "(string \<Rightarrow> go_error + server_url) \<Rightarrow> string \<Rightarrow> go_error + server_url option" where
  "NewClient parse_url serverURL = (case UpdateServerURL parse_url None serverURL of
       (Some err, _) \<Rightarrow> Inl err
     | (None, c) \<Rightarrow> Inr c)"

definition resultAPIPath :: string where "resultAPIPath = ''/result''"

definition result_request :: "string \<Rightarrow> string \<Rightarrow> bool \<Rightarrow> string \<Rightarrow> string \<Rightarrow> job_info option \<Rightarrow> http_request" where
  "result_request channel result withExtend namespaceName podName info =
     (let payload = (makePayload result namespaceName podName info)
            \<lparr>pl_channel := channel, pl_extend := withExtend\<rparr>
      in \<lparr>rq_path = resultAPIPath, rq_method = ''POST'', rq_content_type = ''application/json'',
           rq_body = Some (payload_json payload)\<rparr>)"

text \<open>\<open>do_request\<close> is the transport to the server; the error texts keep the status code.\<close>

definition PostResult ::
  "(http_request \<Rightarrow> go_error + http_response) \<Rightarrow> string \<Rightarrow> string \<Rightarrow> bool \<Rightarrow> string \<Rightarrow> string \<Rightarrow>
   job_info option \<Rightarrow> go_error option" where
  "PostResult do_request channel result withExtend namespaceName podName info =
     (case do_request (result_request channel result withExtend namespaceName podName info) of
        Inl err \<Rightarrow> Some err
      | Inr res \<Rightarrow>
          if rs_code res \<noteq> StatusOK then Some (''status code: '' @ itoa (rs_code res)) else None)"

section \<open>The server\<close>

datatype agent_event =
    EvPost string message "go_error option"
  | EvGetPod string string "go_error + string"
  | EvStatus string "go_error + status"
  | EvPut string time "go_error option"
  | EvNow time
  | EvRand nat
  | EvAck nat

record agent_env =
  ae_post :: "agent_event list \<Rightarrow> string \<Rightarrow> message \<Rightarrow> go_error option"
  ae_get_pod :: "agent_event list \<Rightarrow> string \<Rightarrow> string \<Rightarrow> go_error + string"
  ae_status :: "agent_event list \<Rightarrow> string \<Rightarrow> go_error + status"
  ae_put :: "agent_event list \<Rightarrow> string \<Rightarrow> time \<Rightarrow> go_error option"
  ae_now :: "agent_event list \<Rightarrow> time"
  ae_rand :: "agent_event list \<Rightarrow> nat"

record server =
  defaultChannel :: string
  devMood :: bool

definition post_message :: "agent_env \<Rightarrow> string \<Rightarrow> message \<Rightarrow> (agent_event, go_error option) prog" where
  "post_message E channel msg = ext_call (\<lambda>tr. ae_post E tr channel msg) (EvPost channel msg)"

definition agent_now :: "agent_env \<Rightarrow> (agent_event, time) prog" where
  "agent_now E = ext_call (ae_now E) EvNow"

definition ServeHTTP :: "agent_env \<Rightarrow> server \<Rightarrow> http_request \<Rightarrow> (agent_event, http_response) prog" where
  "ServeHTTP E s r =
     (if rq_path r \<noteq> resultAPIPath then ret (plain_response StatusNotFound)
      else if rq_method r \<noteq> ''POST'' then ret (plain_response StatusMethodNotAllowed)
      else if rq_content_type r \<noteq> ''application/json''
      then ret (plain_response StatusUnsupportedMediaType)
      else case Option.bind (rq_body r) payload_of_json of
          None \<Rightarrow> ret (plain_response StatusBadRequest)
        | Some None \<Rightarrow> panic
        | Some (Some payload) \<Rightarrow>
            if pl_channel payload = '''' \<and> defaultChannel s = ''''
            then ret (plain_response StatusBadRequest)
            else let channel = (if pl_channel payload \<noteq> '''' then pl_channel payload else defaultChannel s);
                     msg = messageCIResult (pl_color payload) (pl_text payload) (pl_job payload)
                             (pl_pod payload) (pl_extend payload)
                 in and_then (post_message E channel msg) (\<lambda>err. case err of
                      Some _ \<Rightarrow> ret (plain_response StatusInternalServerError)
                    | None \<Rightarrow> ret (plain_response StatusOK)))"

section \<open>Button events\<close>

record block_action =
  ba_block_id :: string
  ba_action_id :: string
  ba_value :: string

record callback =
  cb_type :: string
  cb_channel_id :: string
  cb_block_actions :: "block_action list"

definition InteractionTypeBlockActions :: string where
  "InteractionTypeBlockActions = ''block_actions''"

text \<open>The checks return early, so \<open>BlockActions[0]\<close> is read only where it exists.\<close>

definition isExtendButtonEvent :: "callback \<Rightarrow> bool" where
  "isExtendButtonEvent cb =
     (if cb_type cb \<noteq> InteractionTypeBlockActions then False
      else case cb_block_actions cb of
          [a] \<Rightarrow> ba_block_id a = extendBlockID \<and> ba_action_id a = extendButtonActionID
        | _ \<Rightarrow> False)"

definition isDeleteButtonEvent :: "callback \<Rightarrow> bool" where
  "isDeleteButtonEvent cb =
     (if cb_type cb \<noteq> InteractionTypeBlockActions then False
      else case cb_block_actions cb of
          [a] \<Rightarrow> ba_block_id a = deleteBlockID \<and> ba_action_id a = deleteButtonActionID
        | _ \<Rightarrow> False)"

definition split_pod :: "string \<Rightarrow> (string \<times> string) option" where
  "split_pod v = (case go_split (CHR ''/'') v of [ns, pod] \<Rightarrow> Some (ns, pod) | _ \<Rightarrow> None)"

definition getPodFromCallbackEvent :: "callback \<Rightarrow> (go_error + string \<times> string) outcome" where
  "getPodFromCallbackEvent cb = (case cb_block_actions cb of
       [] \<Rightarrow> Panic
     | a # _ \<Rightarrow>
         (case split_pod (ba_value a) of
            None \<Rightarrow> Ret (Inl ''failed to get pod name from callback'')
          | Some p \<Rightarrow> Ret (Inr p)))"

text \<open>\<open>putDeletionTime\<close>; in development mode a coin decides what message is sent.\<close>

definition put_or_simulate :: "agent_env \<Rightarrow> server \<Rightarrow> string \<Rightarrow> time \<Rightarrow> (agent_event, bool) prog" where
  "put_or_simulate E s ip tm =
     (if \<not> devMood s
      then and_then (ext_call (\<lambda>tr. ae_put E tr ip tm) (EvPut ip tm)) (\<lambda>err. ret (err = None))
      else and_then (ext_call (ae_rand E) EvRand) (\<lambda>n. ret (n mod 2 = 0)))"

definition putDeletionTime ::
  "agent_env \<Rightarrow> server \<Rightarrow> string \<Rightarrow> string \<Rightarrow> string \<Rightarrow> string \<Rightarrow> time \<Rightarrow> (agent_event, go_error option) prog"
where
  "putDeletionTime E s channel namespace pod ip tm =
     and_then (put_or_simulate E s ip tm) (\<lambda>success.
       post_message E channel
         (if success then messagePodExtendSuccess (namespace @ ''/'' @ pod) tm
          else messagePodExtendFailure (namespace @ ''/'' @ pod)))"

text \<open>
  Looking the pod up. In development mode the server has no Kubernetes client and this call is made
  on a nil pointer; what client-go then does is left to the environment, like its other answers.
\<close>

definition get_pod :: "agent_env \<Rightarrow> string \<Rightarrow> string \<Rightarrow> (agent_event, go_error + string) prog" where
  "get_pod E namespace pod = ext_call (\<lambda>tr. ae_get_pod E tr namespace pod) (EvGetPod namespace pod)"

text \<open>The extended time: two hours more, at most six hours from now.\<close>

definition extend_time :: "time \<Rightarrow> time \<Rightarrow> time" where
  "extend_time tm now =
     (let tm' = tm + Hour * extendDurationHours; limit = now + Hour * extendLimitHours
      in if after tm' limit then limit else tm')"

definition extendPod ::
  "agent_env \<Rightarrow> server \<Rightarrow> string \<Rightarrow> string \<Rightarrow> string \<Rightarrow> (agent_event, go_error option) prog" where
  "extendPod E s channel namespace pod =
     and_then (get_pod E namespace pod) (\<lambda>po. case po of
         Inl err \<Rightarrow> ret (Some err)
       | Inr ip \<Rightarrow>
           and_then (ext_call (\<lambda>tr. ae_status E tr ip) (EvStatus ip)) (\<lambda>st. case st of
               Inl err \<Rightarrow> ret (Some err)
             | Inr status \<Rightarrow>
                 and_then (case st_deletion_time status of
                     Some t \<Rightarrow> ret t
                   | None \<Rightarrow> agent_now E) (\<lambda>tm.
                 and_then (agent_now E) (\<lambda>now.
                   putDeletionTime E s channel namespace pod ip (extend_time tm now)))))"

definition deletePod ::
  "agent_env \<Rightarrow> server \<Rightarrow> string \<Rightarrow> string \<Rightarrow> string \<Rightarrow> (agent_event, go_error option) prog" where
  "deletePod E s channel namespace pod =
     and_then (get_pod E namespace pod) (\<lambda>po. case po of
         Inl err \<Rightarrow> ret (Some err)
       | Inr ip \<Rightarrow> putDeletionTime E s channel namespace pod ip zero_time)"

text \<open>
  \<open>listenInteractiveEvents\<close> over the events its select receives; \<open>Waiting\<close> is the loop blocked
  on the next one.
\<close>

datatype socket_event =
    CtxDone
  | ChannelClosed
  | OtherEnvelope
  | UnknownData
  | Interactive callback nat

datatype socket_outcome = Waiting | SocketReturned go_error

definition handle_callback ::
  "agent_env \<Rightarrow> server \<Rightarrow> callback \<Rightarrow> (agent_event, go_error option) prog" where
  "handle_callback E s cb =
     (if isExtendButtonEvent cb then
        and_then (of_outcome (getPodFromCallbackEvent cb)) (\<lambda>p. case p of
            Inl err \<Rightarrow> ret (Some err)
          | Inr (namespace, pod) \<Rightarrow> extendPod E s (cb_channel_id cb) namespace pod)
      else if isDeleteButtonEvent cb then
        and_then (of_outcome (getPodFromCallbackEvent cb)) (\<lambda>p. case p of
            Inl err \<Rightarrow> ret (Some err)
          | Inr (namespace, pod) \<Rightarrow> deletePod E s (cb_channel_id cb) namespace pod)
      else ret None)"

fun listenInteractiveEvents ::
  "agent_env \<Rightarrow> server \<Rightarrow> socket_event list \<Rightarrow> (agent_event, socket_outcome) prog" where
  "listenInteractiveEvents E s [] = ret Waiting"
| "listenInteractiveEvents E s (CtxDone # rest) = ret (SocketReturned ''context canceled'')"
| "listenInteractiveEvents E s (ChannelClosed # rest) = ret (SocketReturned ''channel is closed'')"
| "listenInteractiveEvents E s (OtherEnvelope # rest) = listenInteractiveEvents E s rest"
| "listenInteractiveEvents E s (UnknownData # rest) = listenInteractiveEvents E s rest"
| "listenInteractiveEvents E s (Interactive cb req # rest) =
     and_then (handle_callback E s cb) (\<lambda>err. case err of
         Some e \<Rightarrow> ret (SocketReturned e)
       | None \<Rightarrow> and_then (ext_call (\<lambda>_. ()) (\<lambda>_. EvAck req)) (\<lambda>_.
           listenInteractiveEvents E s rest))"

section \<open>The agent over a client of the runner pods\<close>

text \<open>
  The agent's environment with the runner pods behind a \<open>runner.Client\<close>: the state of the pods
  after a history is the start state with the puts of the history applied.
\<close>

fun replay ::
  "('s \<Rightarrow> string \<Rightarrow> time \<Rightarrow> go_error option \<times> 's) \<Rightarrow> 's \<Rightarrow> agent_event list \<Rightarrow> 's" where
  "replay put s [] = s"
| "replay put s (EvPut ip t e # es) = replay put (snd (put s ip t)) es"
| "replay put s (_ # es) = replay put s es"

definition agent_on ::
  "('s \<Rightarrow> string \<Rightarrow> time \<Rightarrow> go_error option \<times> 's) \<Rightarrow> ('s \<Rightarrow> string \<Rightarrow> go_error + status) \<Rightarrow> 's \<Rightarrow>
   agent_env \<Rightarrow> agent_env" where
  "agent_on put get s0 E = E\<lparr>ae_status := (\<lambda>tr ip. get (replay put s0 tr) ip),
     ae_put := (\<lambda>tr ip t. fst (put (replay put s0 tr) ip t))\<rparr>"

lemma extend_time_min: "extend_time tm now = min (tm + 2 * Hour) (now + 6 * Hour)"
  by (simp add: extend_time_def after_def extendDurationHours_def extendLimitHours_def min_def)

lemmas agent_defs = get_pod_def agent_now_def post_message_def putDeletionTime_def
  put_or_simulate_def

context runner_client begin

lemma extendPod_visible:
  assumes "\<not> devMood s" and "ae_get_pod E [] ns pod = Inr ip"
    and st: "get s0 ip = Inr st" and d: "st_deletion_time st = Some d"
    and now: "now = ae_now E [EvGetPod ns pod (Inr ip), EvStatus ip (Inr st)]"
    and t: "t = min (d + 2 * Hour) (now + 6 * Hour)" and "time_ok t"
  shows "get (replay put s0 (snd (extendPod (agent_on put get s0 E) s ch ns pod []))) ip =
    Inr (st\<lparr>st_deletion_time := Some t\<rparr>)"
proof -
  from put_succeeds [OF st \<open>time_ok t\<close>] obtain s1 where put: "put s0 ip t = (None, s1)"
    by (cases "put s0 ip t") simp
  with get_after_put [OF put st] assms show ?thesis
    by (simp add: extendPod_def agent_defs agent_on_def prog_defs extend_time_min)
qed

lemma deletePod_visible:
  assumes "\<not> devMood s" and "ae_get_pod E [] ns pod = Inr ip" and st: "get s0 ip = Inr st"
  shows "get (replay put s0 (snd (deletePod (agent_on put get s0 E) s ch ns pod []))) ip =
    Inr (st\<lparr>st_deletion_time := Some zero_time\<rparr>)"
proof -
  have "time_ok zero_time" by (simp add: time_ok_def zero_time_def)
  from put_succeeds [OF st this] obtain s1 where put: "put s0 ip zero_time = (None, s1)"
    by (cases "put s0 ip zero_time") simp
  with get_after_put [OF put st] assms show ?thesis
    by (simp add: deletePod_def agent_defs agent_on_def prog_defs)
qed

end

section \<open>Lemmas\<close>

interpretation pod_name: codec "\<lambda>(ns, pod). namespaced_name ns pod" split_pod
  "\<lambda>(ns, pod). CHR ''/'' \<notin> set ns \<and> CHR ''/'' \<notin> set pod"
  by unfold_locales (auto simp: namespaced_name_def split_pod_def go_split_at go_split_no_sep)

text \<open>Pressing a button, as the payload in \<open>socket.go\<close> shows it.\<close>

definition press :: "string \<Rightarrow> string \<Rightarrow> button \<Rightarrow> callback" where
  "press channel block_id b = \<lparr>cb_type = InteractionTypeBlockActions, cb_channel_id = channel,
     cb_block_actions = [\<lparr>ba_block_id = block_id, ba_action_id = bt_action_id b, ba_value = bt_value b\<rparr>]\<rparr>"

fun presses :: "string \<Rightarrow> message \<Rightarrow> callback list" where
  "presses channel (AttachmentMsg color blocks) =
     concat (map (\<lambda>b. case b of ActionBlock i bt \<Rightarrow> [press channel i bt] | _ \<Rightarrow> []) blocks)"
| "presses channel _ = []"

lemma handle_callback_no_panic: "ensures (handle_callback E s cb) (\<lambda>r es. r \<noteq> Panic)"
proof -
  have "getPodFromCallbackEvent cb \<noteq> Panic" if "isExtendButtonEvent cb \<or> isDeleteButtonEvent cb"
    using that by (auto simp: isExtendButtonEvent_def isDeleteButtonEvent_def
        getPodFromCallbackEvent_def split: if_splits list.splits option.splits)
  then show ?thesis
    unfolding handle_callback_def extendPod_def deletePod_def agent_defs
    by (intro ensures_intros; (auto split: outcome.splits intro!: ensures_intros)?)
qed

end
