(* ===== verification/Manager_Turns.thy ===== *)
theory Manager_Turns
  imports Manager_Pods
begin

text \<open>
  What a round of a runner manager may do to a pod: a specification of the runs of a pod's turn
  as inductive relations, the refinement of \<open>Manager_Pods\<close> to it, and the facts about turns and
  rounds that follow by cases on the runs.
\<close>

section \<open>The turns of a pod\<close>

text \<open>
  The specification of a turn: the runs of each phase, as the calls made with their answers and
  the outcome. \<open>maintain_pod\<close> makes no other run, so what holds of every run holds of the code.
\<close>

text \<open>
  When a pod is to be deleted, given the status it reports: its container was restarted; its job
  has ended and the time to keep it is over or was not asked for; or it outlived the recreate
  deadline without a job.
\<close>

definition may_delete :: "mgr_round \<Rightarrow> pod \<Rightarrow> status \<Rightarrow> bool" where
  "may_delete rd po st \<longleftrightarrow>
     st_state st = RunnerPodStateStale \<or>
     st_state st = RunnerPodStateDebugging \<and>
       (case st_deletion_time st of
          Some d \<Rightarrow> d < rd_now rd
        | None \<Rightarrow> st_extend st \<noteq> Some True \<or> rd_extend_duration rd = 0 \<or>
            (\<exists>f. st_finished_at st = Some f \<and> f + rd_extend_duration rd < rd_now rd)) \<or>
     st_state st \<noteq> RunnerPodStateDebugging \<and> \<not> runnerBusy (rd_runners rd) (po_name po) \<and>
       po_created po + rd_recreate_deadline rd < rd_now rd"

lemma need_delete_True:
  "need_delete rd st = Ret True \<longleftrightarrow> (case st_deletion_time st of
     Some d \<Rightarrow> d < rd_now rd
   | None \<Rightarrow> st_extend st \<noteq> Some True \<or> rd_extend_duration rd = 0 \<or>
       (\<exists>f. st_finished_at st = Some f \<and> f + rd_extend_duration rd < rd_now rd))"
  by (auto simp: need_delete_def needExtend_def after_def split: option.splits)

lemma recreate_due_iff:
  "recreate_due rd po st \<longleftrightarrow> st_state st \<noteq> RunnerPodStateDebugging \<and>
     \<not> runnerBusy (rd_runners rd) (po_name po) \<and> po_created po + rd_recreate_deadline rd < rd_now rd"
  by (auto simp: recreate_due_def busy_or_debugging_def before_def)

lemma may_delete_iff:
  "may_delete rd po st \<longleftrightarrow> st_state st = RunnerPodStateStale \<or>
     st_state st = RunnerPodStateDebugging \<and> need_delete rd st = Ret True \<or> recreate_due rd po st"
  by (simp add: may_delete_def need_delete_True recreate_due_iff)

definition unprotected :: "mgr_round \<Rightarrow> pod \<Rightarrow> bool" where
  "unprotected rd po \<longleftrightarrow> rd_deny_disruption rd \<and> go_index (po_labels po) RunnerPodName \<noteq> po_name po"

definition announces :: "mgr_round \<Rightarrow> status \<Rightarrow> bool" where
  "announces rd st \<longleftrightarrow> rd_need_notification rd \<and>
     (\<exists>finished. st_finished_at st = Some finished \<and> after finished (rd_last_check rd))"

inductive notify_run :: "mgr_round \<Rightarrow> pod \<Rightarrow> status \<Rightarrow> unit outcome \<Rightarrow> mgr_event list \<Rightarrow> bool"
  for rd po st where
  no_finish: "rd_need_notification rd \<Longrightarrow> st_finished_at st = None \<Longrightarrow> notify_run rd po st Panic []"
| silent: "\<not> announces rd st \<Longrightarrow> notify_run rd po st (Ret ()) []"
| announced: "announces rd st \<Longrightarrow>
    ch = (if st_slack_channel st \<noteq> '''' then st_slack_channel st else rd_slack_channel rd) \<Longrightarrow>
    notify_run rd po st (Ret ()) [EvNotify ch (st_result st) (needExtend rd st) (po_namespace po)
      (po_name po) (st_job_info st) err]"

inductive put_run :: "mgr_round \<Rightarrow> pod \<Rightarrow> status \<Rightarrow> mgr_event list \<Rightarrow> bool"
  for rd po st where
  no_put: "put_run rd po st []"
| put: "st_deletion_time st = None \<Longrightarrow> st_finished_at st = Some finished \<Longrightarrow>
    after finished (rd_last_check rd) \<Longrightarrow>
    put_run rd po st [EvPutDeletion (po_ip po) (finished + rd_extend_duration rd) err]"

inductive protect_run :: "mgr_round \<Rightarrow> pod \<Rightarrow> pod option outcome \<Rightarrow> mgr_event list \<Rightarrow> bool"
  for rd po where
  no_need: "\<not> unprotected rd po \<Longrightarrow> protect_run rd po (Ret (Some po)) []"
| no_budget: "unprotected rd po \<Longrightarrow> protect_run rd po (Ret None) [EvPDB po (Some err)]"
| no_labels: "unprotected rd po \<Longrightarrow> po_labels po = None \<Longrightarrow> protect_run rd po Panic [EvPDB po None]"
| relabel: "unprotected rd po \<Longrightarrow> go_put (po_labels po) RunnerPodName (po_name po) = Ret labels \<Longrightarrow>
    res = (case answer of Inl _ \<Rightarrow> None | Inr q \<Rightarrow> Some q) \<Longrightarrow>
    protect_run rd po (Ret res) [EvPDB po None, EvRelabel (po\<lparr>po_labels := labels\<rparr>) answer]"

inductive unlink_run :: "pod \<Rightarrow> int32 \<Rightarrow> int32 \<Rightarrow> mgr_event list \<Rightarrow> bool"
  for po n where
  keep: "unlink_run po n n []"
| no_unlink: "p = po\<lparr>po_labels := go_delete (po_labels po) DefaultDeploymentUniqueLabelKey\<rparr> \<Longrightarrow>
    unlink_run po n n [EvUnlink p (Inl err)]"
| unlinked: "0 < sint n \<Longrightarrow> go_get (po_labels po) DefaultDeploymentUniqueLabelKey \<noteq> None \<Longrightarrow>
    p = po\<lparr>po_labels := go_delete (po_labels po) DefaultDeploymentUniqueLabelKey\<rparr> \<Longrightarrow>
    unlink_run po n (n - 1) [EvUnlink p (Inr q)]"

inductive after_run :: "mgr_round \<Rightarrow> pod \<Rightarrow> status \<Rightarrow> int32 \<Rightarrow> int32 outcome \<Rightarrow> mgr_event list \<Rightarrow> bool"
  for rd po st n where
  recreate: "recreate_due rd po st \<Longrightarrow> after_run rd po st n (Ret n) [EvDelete po err]"
| idle: "\<not> recreate_due rd po st \<Longrightarrow> \<not> busy_or_debugging rd po st \<Longrightarrow> after_run rd po st n (Ret n) []"
| guard_panics: "busy_or_debugging rd po st \<Longrightarrow> protect_run rd po Panic es \<Longrightarrow>
    after_run rd po st n Panic es"
| guard_fails: "busy_or_debugging rd po st \<Longrightarrow> protect_run rd po (Ret None) es \<Longrightarrow>
    after_run rd po st n (Ret n) es"
| guarded: "busy_or_debugging rd po st \<Longrightarrow> protect_run rd po (Ret (Some q)) es \<Longrightarrow>
    unlink_run q n n' es' \<Longrightarrow> after_run rd po st n (Ret n') (es @ es')"

inductive report_run :: "mgr_round \<Rightarrow> pod \<Rightarrow> status \<Rightarrow> int32 \<Rightarrow> int32 outcome \<Rightarrow> mgr_event list \<Rightarrow> bool"
  for rd po st n where
  stale: "st_state st = RunnerPodStateStale \<Longrightarrow> report_run rd po st n (Ret n) [EvDelete po err]"
| notify_panics: "st_state st = RunnerPodStateDebugging \<Longrightarrow> notify_run rd po st Panic es \<Longrightarrow>
    report_run rd po st n Panic es"
| delete_panics: "st_state st = RunnerPodStateDebugging \<Longrightarrow> notify_run rd po st (Ret ()) es \<Longrightarrow>
    need_delete rd st = Panic \<Longrightarrow> report_run rd po st n Panic es"
| finished: "st_state st = RunnerPodStateDebugging \<Longrightarrow> notify_run rd po st (Ret ()) es \<Longrightarrow>
    need_delete rd st = Ret True \<Longrightarrow> report_run rd po st n (Ret n) (es @ [EvDelete po err])"
| kept: "st_state st = RunnerPodStateDebugging \<Longrightarrow> notify_run rd po st (Ret ()) es \<Longrightarrow>
    need_delete rd st = Ret False \<Longrightarrow> put_run rd po st es' \<Longrightarrow> after_run rd po st n r es'' \<Longrightarrow>
    report_run rd po st n r (es @ es' @ es'')"
| other: "st_state st \<noteq> RunnerPodStateStale \<Longrightarrow> st_state st \<noteq> RunnerPodStateDebugging \<Longrightarrow>
    after_run rd po st n r es \<Longrightarrow> report_run rd po st n r es"

inductive pod_turn :: "mgr_round \<Rightarrow> pod \<Rightarrow> int32 \<Rightarrow> int32 outcome \<Rightarrow> mgr_event list \<Rightarrow> bool"
  for rd po n where
  not_running: "po_phase po \<noteq> PodRunning \<Longrightarrow> pod_turn rd po n (Ret n) []"
| no_status: "po_phase po = PodRunning \<Longrightarrow> pod_turn rd po n (Ret n) [EvGetStatus (po_ip po) (Inl err)]"
| reported: "po_phase po = PodRunning \<Longrightarrow> report_run rd po st n r es \<Longrightarrow>
    pod_turn rd po n r (EvGetStatus (po_ip po) (Inr st) # es)"

inductive_cases notify_runE: "notify_run rd po st r es"
inductive_cases put_runE: "put_run rd po st es"
inductive_cases protect_runE: "protect_run rd po r es"
inductive_cases unlink_runE: "unlink_run po n n' es"
inductive_cases after_runE: "after_run rd po st n r es"
inductive_cases report_runE: "report_run rd po st n r es"
inductive_cases pod_turnE: "pod_turn rd po n r es"

lemmas run_cases = notify_runE put_runE protect_runE unlink_runE after_runE report_runE pod_turnE

subsection \<open>The code makes these runs\<close>

lemma notify_result_runs: "ensures (notify_result E rd po st) (notify_run rd po st)"
  by (auto simp: ensures_def notify_result_def prog_defs Let_def announces_def intro: notify_run.intros
      split: option.splits)

lemma put_extension_runs:
  "ensures (put_extension E rd po st) (\<lambda>r es. r = Ret () \<and> put_run rd po st es)"
  by (auto simp: ensures_def put_extension_def prog_defs intro: put_run.intros split: option.splits)

lemma protect_pod_runs: "ensures (protect_pod E rd po) (protect_run rd po)"
  by (auto simp: ensures_def protect_pod_def prog_defs Let_def unprotected_def go_put_panic_iff
      intro: protect_run.intros split: option.splits outcome.splits sum.splits)

lemma unlink_pod_runs:
  "ensures (unlink_pod E po n) (\<lambda>r es. \<exists>n'. r = Ret n' \<and> unlink_run po n n' es)"
  by (auto simp: ensures_def unlink_pod_def prog_defs Let_def intro: unlink_run.intros split: sum.splits)

lemma after_status_runs: "ensures (after_status E rd po st n) (after_run rd po st n)"
  unfolding after_status_def delete_pod_def
proof (intro ensures_intros)
  assume "recreate_due rd po st"
  then show "case Ret x of Panic \<Rightarrow> after_run rd po st n Panic [EvDelete po x]
      | Ret y \<Rightarrow> ensures (ret n) (\<lambda>r es. after_run rd po st n r ([EvDelete po x] @ es))" for x
    by (auto intro!: ensures_ret after_run.recreate)
next
  assume "\<not> recreate_due rd po st" and b: "busy_or_debugging rd po st"
  show "ensures (protect_pod E rd po) (\<lambda>r es. case r of Panic \<Rightarrow> after_run rd po st n Panic es
     | Ret x \<Rightarrow> ensures (case x of None \<Rightarrow> ret n | Some po' \<Rightarrow> unlink_pod E po' n)
        (\<lambda>r' es'. after_run rd po st n r' (es @ es')))"
    apply (rule ensures_mono [OF protect_pod_runs])
    using b apply (auto split: outcome.splits option.splits intro!: ensures_ret intro: after_run.intros)
    apply (rule ensures_mono [OF unlink_pod_runs])
    apply (auto intro: after_run.intros)
    done
next
  assume "\<not> recreate_due rd po st" and "\<not> busy_or_debugging rd po st"
  then show "after_run rd po st n (Ret n) []" by (rule after_run.idle)
qed


definition debugging_run :: "mgr_round \<Rightarrow> pod \<Rightarrow> status \<Rightarrow> bool outcome \<Rightarrow> mgr_event list \<Rightarrow> bool" where
  "debugging_run rd po st r es \<longleftrightarrow> (case r of
       Panic \<Rightarrow> notify_run rd po st Panic es \<or>
         notify_run rd po st (Ret ()) es \<and> need_delete rd st = Panic
     | Ret True \<Rightarrow> need_delete rd st = Ret True \<and>
         (\<exists>es' err. es = es' @ [EvDelete po err] \<and> notify_run rd po st (Ret ()) es')
     | Ret False \<Rightarrow> need_delete rd st = Ret False \<and>
         (\<exists>es1 es2. es = es1 @ es2 \<and> notify_run rd po st (Ret ()) es1 \<and> put_run rd po st es2))"

lemma debugging_phase_runs: "ensures (debugging_phase E rd po st) (debugging_run rd po st)"
  unfolding debugging_phase_def delete_pod_def
  apply (rule ensures_and_then, rule ensures_mono [OF notify_result_runs])
  apply (auto split: outcome.splits simp: debugging_run_def)
  apply (rule ensures_and_then, rule ensures_of_outcome)
  apply (auto split: outcome.splits)
   apply (rule ensures_and_then, rule ensures_ext_call)
   apply (auto intro!: ensures_ret)
  apply (rule ensures_and_then, rule ensures_mono [OF put_extension_runs])
  apply (auto intro!: ensures_ret)
  apply blast
  done

lemma maintain_pod_runs: "ensures (maintain_pod E rd po n) (pod_turn rd po n)"
proof (cases "po_phase po = PodRunning")
  case False
  then show ?thesis by (simp add: maintain_pod_def ensures_ret pod_turn.not_running)
next
  case True
  have stale: "ensures (and_then (delete_pod E po) (\<lambda>_. ret n)) (report_run rd po st n)"
    if "st_state st = RunnerPodStateStale" for st
    using that by (auto simp: ensures_def prog_defs delete_pod_def intro: report_run.stale)
  have debugging: "ensures (and_then (debugging_phase E rd po st)
      (\<lambda>deleted. if deleted then ret n else after_status E rd po st n)) (report_run rd po st n)"
    if "st_state st = RunnerPodStateDebugging" for st
    apply (rule ensures_and_then, rule ensures_mono [OF debugging_phase_runs])
    using that apply (auto split: outcome.splits bool.splits simp: debugging_run_def intro!: ensures_ret
        intro: report_run.intros)
    apply (rule ensures_mono [OF after_status_runs])
    apply (auto intro: report_run.kept [simplified append_assoc])
    done
  have other: "ensures (after_status E rd po st n) (report_run rd po st n)"
    if "st_state st \<noteq> RunnerPodStateStale" and "st_state st \<noteq> RunnerPodStateDebugging" for st
    using that by (auto intro: ensures_mono [OF after_status_runs] report_run.other)
  have report: "ensures (if st_state st = RunnerPodStateStale then and_then (delete_pod E po) (\<lambda>_. ret n)
      else if st_state st = RunnerPodStateDebugging then and_then (debugging_phase E rd po st)
        (\<lambda>deleted. if deleted then ret n else after_status E rd po st n)
      else after_status E rd po st n) (\<lambda>r es. pod_turn rd po n r (EvGetStatus (po_ip po) (Inr st) # es))"
    for st
    by (rule ensures_mono [where Q = "report_run rd po st n"])
      (use True in \<open>auto simp: stale debugging other intro: pod_turn.reported\<close>)
  show ?thesis
    unfolding maintain_pod_def
    by (simp add: True) (intro ensures_intros;
        simp add: True report pod_turn.no_status ensures_ret split: sum.splits)
qed


subsection \<open>Facts about turns\<close>

lemma states_distinct [simp]: "RunnerPodStateStale \<noteq> RunnerPodStateDebugging"
    "RunnerPodStateDebugging \<noteq> RunnerPodStateStale"
  by (simp_all add: meows_consts)

lemma turn_delete:
  "pod_turn rd po n r es \<Longrightarrow> EvDelete p err \<in> set es \<Longrightarrow>
   p = po \<and> po_phase po = PodRunning \<and>
   (\<exists>st. EvGetStatus (po_ip po) (Inr st) \<in> set es \<and> may_delete rd po st)"
  by (auto simp: may_delete_iff elim!: run_cases)

lemma turn_due:
  "pod_turn rd po n (Ret n') es \<Longrightarrow> po_phase po = PodRunning \<Longrightarrow>
   \<exists>res. EvGetStatus (po_ip po) res \<in> set es \<and>
     (\<forall>st. res = Inr st \<longrightarrow> may_delete rd po st \<longrightarrow> (\<exists>err. EvDelete po err \<in> set es))"
proof (erule pod_turnE)
  fix es' st
  assume run: "report_run rd po st n (Ret n') es'" and es: "es = EvGetStatus (po_ip po) (Inr st) # es'"
  have "\<exists>err. EvDelete po err \<in> set es'" if "may_delete rd po st"
    using run that
    by (auto simp: may_delete_iff recreate_due_def busy_or_debugging_def
        elim!: report_runE after_runE)
  with es show ?thesis by auto
qed auto

lemma turn_panic:
  "pod_turn rd po n Panic es \<Longrightarrow>
   po_labels po = None \<or> (\<exists>st. EvGetStatus (po_ip po) (Inr st) \<in> set es \<and>
     st_state st = RunnerPodStateDebugging \<and> st_finished_at st = None)"
  by (auto simp: need_delete_def split: option.splits if_splits elim!: run_cases)

lemma turn_notify:
  "pod_turn rd po n r es \<Longrightarrow> EvNotify ch res ext ns name info err \<in> set es \<Longrightarrow>
   ns = po_namespace po \<and> name = po_name po \<and> rd_need_notification rd \<and>
   (\<exists>st finished. EvGetStatus (po_ip po) (Inr st) \<in> set es \<and> st_state st = RunnerPodStateDebugging \<and>
      st_finished_at st = Some finished \<and> rd_last_check rd < finished \<and> res = st_result st \<and>
      info = st_job_info st \<and> ext = needExtend rd st \<and>
      ch = (if st_slack_channel st = '''' then rd_slack_channel rd else st_slack_channel st))"
  by (auto simp: announces_def after_def elim!: run_cases)

lemma turn_put:
  "pod_turn rd po n r es \<Longrightarrow> EvPutDeletion ip t err \<in> set es \<Longrightarrow>
   ip = po_ip po \<and>
   (\<exists>st finished. EvGetStatus (po_ip po) (Inr st) \<in> set es \<and> st_state st = RunnerPodStateDebugging \<and>
      st_deletion_time st = None \<and> needExtend rd st \<and> st_finished_at st = Some finished \<and>
      t = finished + rd_extend_duration rd \<and> rd_last_check rd < finished \<and> rd_now rd \<le> t)"
  by (auto simp: need_delete_def after_def split: option.splits if_splits elim!: run_cases)

text \<open>The number of pods unlinked.\<close>

fun is_unlink :: "mgr_event \<Rightarrow> bool" where
  "is_unlink (EvUnlink p (Inr q)) = True"
| "is_unlink _ = False"

definition n_unlinks :: "mgr_event list \<Rightarrow> nat" where
  "n_unlinks es = length (filter is_unlink es)"

lemma turn_unlinks:
  "pod_turn rd po n (Ret n') es \<Longrightarrow>
   n_unlinks es = 0 \<and> n' = n \<or> n_unlinks es = 1 \<and> 0 < sint n \<and> n' = n - 1"
  by (auto simp: n_unlinks_def elim!: run_cases)

lemma turn_panic_unlinks: "pod_turn rd po n Panic es \<Longrightarrow> n_unlinks es = 0"
  by (auto simp: n_unlinks_def elim!: run_cases)

text \<open>
  Under \<open>denyDisruption\<close> a pod is unlinked only with a disruption budget of its own: it bore the
  label the budget selects, or the budget was made and then the label set.
\<close>

lemma turn_unlink_guard:
  assumes "pod_turn rd po n r (a @ EvUnlink p res # b)"
  shows "\<exists>q. p = q\<lparr>po_labels := go_delete (po_labels q) DefaultDeploymentUniqueLabelKey\<rparr> \<and>
     (q = po \<and> \<not> unprotected rd po \<or>
      (\<exists>labels. go_put (po_labels po) RunnerPodName (po_name po) = Ret labels \<and>
         EvPDB po None \<in> set a \<and> EvRelabel (po\<lparr>po_labels := labels\<rparr>) (Inr q) \<in> set a))"
  using assms
  by (auto simp: append_eq_append_conv2 append_eq_Cons_conv Cons_eq_append_conv
      split: sum.splits elim!: run_cases)

text \<open>A turn asks for the status of its pod first, and only once.\<close>

lemma turn_status:
  "pod_turn rd po n r es \<Longrightarrow> EvGetStatus ip res \<in> set es \<Longrightarrow>
   ip = po_ip po \<and> hd es = EvGetStatus (po_ip po) res"
  by (auto elim!: run_cases)

lemma maintain_pod_asks:
  "ensures (maintain_pod E rd po n) (\<lambda>r es.
     pod_turn rd po n r es \<and> (es \<noteq> [] \<longrightarrow> (\<exists>tr. hd es = EvGetStatus (po_ip po) (me_status E tr (po_ip po)))))"
proof (rule ensures_conj [OF maintain_pod_runs])
  have any: "ensures (if st_state st = RunnerPodStateStale then and_then (delete_pod E po) (\<lambda>_. ret n)
      else if st_state st = RunnerPodStateDebugging then and_then (debugging_phase E rd po st)
        (\<lambda>deleted. if deleted then ret n else after_status E rd po st n)
      else after_status E rd po st n) (\<lambda>r es. True)" for st
    by (intro ensures_intros ensures_mono [OF debugging_phase_runs] ensures_mono [OF after_status_runs])
      (auto simp: delete_pod_def split: outcome.splits
        intro!: ensures_intros ensures_mono [OF after_status_runs])
  show "ensures (maintain_pod E rd po n)
      (\<lambda>r es. es \<noteq> [] \<longrightarrow> (\<exists>tr. hd es = EvGetStatus (po_ip po) (me_status E tr (po_ip po))))"
  proof (cases "po_phase po = PodRunning")
    case True
    then have running: "\<not> po_phase po \<noteq> PodRunning" by simp
    show ?thesis
      unfolding maintain_pod_def if_not_P [OF running]
    proof (rule ensures_and_then, rule ensures_ext_call_answer)
      fix tr
      let ?k = "\<lambda>st. if st_state st = RunnerPodStateStale then and_then (delete_pod E po) (\<lambda>_. ret n)
        else if st_state st = RunnerPodStateDebugging then and_then (debugging_phase E rd po st)
          (\<lambda>deleted. if deleted then ret n else after_status E rd po st n)
        else after_status E rd po st n"
      let ?ev = "EvGetStatus (po_ip po) (me_status E tr (po_ip po))"
      let ?Q = "\<lambda>es. es \<noteq> [] \<longrightarrow> (\<exists>tr. hd es = EvGetStatus (po_ip po) (me_status E tr (po_ip po)))"
      show "case Ret (me_status E tr (po_ip po)) of Panic \<Rightarrow> ?Q [?ev]
        | Ret x \<Rightarrow> ensures (case x of Inl _ \<Rightarrow> ret n | Inr st \<Rightarrow> ?k st) (\<lambda>r' es'. ?Q ([?ev] @ es'))"
        by (cases "me_status E tr (po_ip po)")
          (auto intro!: ensures_ret ensures_mono [OF any] exI [of _ tr] split del: if_split)
    qed
  qed (simp add: maintain_pod_def ensures_ret)
qed

section \<open>Rounds\<close>

lemma maintain_pods_runs: "ensures (maintain_pods E rd pods n) (runs_of (pod_turn rd) pods n)"
  unfolding maintain_pods_def by (rule ensures_for_each_runs) (rule maintain_pod_runs)

lemma round_unlinks:
  "runs_of (pod_turn rd) pods n r es \<Longrightarrow> int (n_unlinks es) \<le> max 0 (sint n)"
proof (induction pods arbitrary: n es)
  case Nil
  then show ?case by (simp add: n_unlinks_def)
next
  case (Cons po pods)
  from Cons.prems consider "pod_turn rd po n Panic es"
    | n' es1 es2 where "es = es1 @ es2" "pod_turn rd po n (Ret n') es1" "runs_of (pod_turn rd) pods n' r es2"
    by auto
  then show ?case
  proof cases
    case 1
    then show ?thesis by (simp add: turn_panic_unlinks)
  next
    case (2 n' es1 es2)
    have "n_unlinks es = n_unlinks es1 + n_unlinks es2" by (simp add: 2(1) n_unlinks_def)
    with turn_unlinks [OF 2(2)] Cons.IH [OF 2(3)] sint_minus_one [of n] show ?thesis by auto
  qed
qed

end
