(* ===== verification/Process_Table.thy ===== *)
theory Process_Table
  imports Github_Client RunnerPool_API
begin

text \<open>
  The contract the reconciler has with the runner manager and with the secret updater: a table of
  processes by the namespaced name of their RunnerPool, with a start, a stop and a final stop of
  all. Both components interpret it; what follows from the contract alone is proved here once.
\<close>

datatype table_op = StartOp runner_pool client_credential | StopOp runner_pool | StopAllOp

locale process_table =
  fixes start :: "'t \<Rightarrow> runner_pool \<Rightarrow> client_credential \<Rightarrow> (go_error option \<times> 't) outcome"
    and stop :: "'t \<Rightarrow> runner_pool \<Rightarrow> go_error option \<times> 't"
    and stop_all :: "'t \<Rightarrow> 't"
    and running :: "'t \<Rightarrow> string set"
    and stopped :: "'t \<Rightarrow> bool"
    and valid :: "'t \<Rightarrow> bool"
  assumes start_none: "valid t \<Longrightarrow> start t rp c = Ret (None, t') \<Longrightarrow>
        running t' = insert (rp_namespaced_name rp) (running t) \<and> \<not> stopped t \<and> \<not> stopped t' \<and> valid t'"
    and start_some: "valid t \<Longrightarrow> start t rp c = Ret (Some e, t') \<Longrightarrow>
        running t' = running t \<and> stopped t' = stopped t \<and> valid t'"
    and start_no_panic: "valid t \<Longrightarrow> well_formed_spec (rp_spec rp) \<Longrightarrow> start t rp c \<noteq> Panic"
    and stop_none: "valid t \<Longrightarrow> stop t rp = (None, t') \<Longrightarrow>
        running t' = running t - {rp_namespaced_name rp} \<and> stopped t' = stopped t \<and> valid t'"
    and stop_some: "valid t \<Longrightarrow> stop t rp = (Some e, t') \<Longrightarrow>
        running t' = running t \<and> stopped t' = stopped t \<and> valid t' \<and> (\<exists>t''. stop t' rp = (None, t''))"
    and stop_all_empty: "valid t \<Longrightarrow> running (stop_all t) = {} \<and> stopped (stop_all t) \<and> valid (stop_all t)"
begin

fun apply_op :: "'t \<Rightarrow> table_op \<Rightarrow> 't outcome" where
  "apply_op t (StartOp rp c) = (case start t rp c of Panic \<Rightarrow> Panic | Ret (_, t') \<Rightarrow> Ret t')"
| "apply_op t (StopOp rp) = Ret (snd (stop t rp))"
| "apply_op t StopAllOp = Ret (stop_all t)"

fun apply_ops :: "'t \<Rightarrow> table_op list \<Rightarrow> 't outcome" where
  "apply_ops t [] = Ret t"
| "apply_ops t (x # xs) = (case apply_op t x of Panic \<Rightarrow> Panic | Ret t' \<Rightarrow> apply_ops t' xs)"

lemma apply_op_keeps:
  assumes "valid t" and "apply_op t x = Ret t'"
  shows "valid t' \<and> (stopped t \<longrightarrow> stopped t' \<and> running t' \<subseteq> running t)"
proof (cases x)
  case (StartOp rp c)
  with assms(2) obtain e where e: "start t rp c = Ret (e, t')"
    by (auto split: outcome.splits)
  show ?thesis
  proof (cases e)
    case None
    with start_none [OF assms(1)] e show ?thesis by auto
  next
    case (Some err)
    with start_some [OF assms(1)] e show ?thesis by auto
  qed
next
  case (StopOp rp)
  with assms(2) obtain e where e: "stop t rp = (e, t')" by (cases "stop t rp") auto
  show ?thesis
  proof (cases e)
    case None
    with stop_none [OF assms(1)] e show ?thesis by auto
  next
    case (Some err)
    with stop_some [OF assms(1)] e show ?thesis by auto
  qed
next
  case StopAllOp
  with assms stop_all_empty [OF assms(1)] show ?thesis by auto
qed

lemma apply_ops_stopped:
  "valid t \<Longrightarrow> stopped t \<Longrightarrow> apply_ops t xs = Ret t' \<Longrightarrow> stopped t' \<and> running t' \<subseteq> running t"
proof (induction xs arbitrary: t)
  case (Cons x xs)
  then obtain t1 where "apply_op t x = Ret t1" and "apply_ops t1 xs = Ret t'"
    by (auto split: outcome.splits)
  with Cons apply_op_keeps show ?case by blast
qed simp

lemma apply_ops_valid: "valid t \<Longrightarrow> apply_ops t xs = Ret t' \<Longrightarrow> valid t'"
proof (induction xs arbitrary: t)
  case (Cons x xs)
  then obtain t1 where "apply_op t x = Ret t1" and "apply_ops t1 xs = Ret t'"
    by (auto split: outcome.splits)
  with Cons apply_op_keeps show ?case by blast
qed simp

lemma apply_ops_append:
  "apply_ops t (xs @ ys) = (case apply_ops t xs of Panic \<Rightarrow> Panic | Ret t' \<Rightarrow> apply_ops t' ys)"
  by (induction xs arbitrary: t) (auto split: outcome.splits)

text \<open>After a stop of all, nothing runs again, whatever is asked for.\<close>

lemma stop_all_final:
  assumes "valid t" and "apply_ops t (xs @ StopAllOp # ys) = Ret t'"
  shows "running t' = {} \<and> stopped t'"
proof -
  from assms(2) obtain t1 where t1: "apply_ops t xs = Ret t1" and "apply_ops (stop_all t1) ys = Ret t'"
    by (auto simp: apply_ops_append split: outcome.splits)
  with stop_all_empty [OF apply_ops_valid [OF assms(1) t1]] apply_ops_stopped [of "stop_all t1" ys t']
  show ?thesis by auto
qed

text \<open>Stopping twice is enough: after two attempts the process of a pool is gone.\<close>

lemma stop_twice:
  "valid t \<Longrightarrow> rp_namespaced_name rp \<notin> running (snd (stop (snd (stop t rp)) rp))"
proof (cases "stop t rp")
  case (Pair e t1)
  assume valid: "valid t"
  show ?thesis
  proof (cases e)
    case None
    with stop_none [OF valid] Pair have t1: "valid t1" "rp_namespaced_name rp \<notin> running t1" by auto
    obtain e' t2 where t2: "stop t1 rp = (e', t2)" by (cases "stop t1 rp")
    with t1 Pair stop_none [OF t1(1)] stop_some [OF t1(1)] show ?thesis by (cases e') auto
  next
    case (Some err)
    with stop_some [OF valid] Pair obtain t2 where "valid t1" and "stop t1 rp = (None, t2)" by blast
    with Pair stop_none show ?thesis by auto
  qed
qed

end

end
