(* ===== verification/Runner_Manager.thy ===== *)
theory Runner_Manager
  imports Manager_Turns Process_Table
begin

text \<open>
  The runner manager (\<open>controllers/runner_manager.go\<close>): the process it keeps per RunnerPool (its
  settings, a round \<open>runOnce\<close>, the loop around it and what its goroutine does when stopped) and
  the table of processes behind \<open>StartOrUpdate\<close>, \<open>Stop\<close> and \<open>StopAll\<close>. The locale
  \<open>process_table\<close> is the contract such a table gives the reconciler.
\<close>

section \<open>The process\<close>

record manage_process =
  mp_github_client :: api_client
  mp_slack_agent_client :: "server_url option"
  mp_interval :: duration
  mp_rp_namespace :: string
  mp_rp_name :: string
  mp_owner :: string
  mp_repo :: string
  mp_replicas :: int32
  mp_max_runner_pods :: int32
  mp_need_slack_notification :: bool
  mp_slack_channel :: string
  mp_slack_agent_service_name :: string
  mp_extend_duration :: duration
  mp_recreate_deadline :: duration
  mp_deny_disruption :: bool
  mp_last_check_time :: time
  mp_prev_runner_names :: "string list"
  mp_cancel :: bool

text \<open>\<open>mp_cancel\<close> tells whether \<open>cancel\<close> is set, that is whether the goroutine was started.\<close>

definition agent_name :: "runner_pool \<Rightarrow> string" where
  "agent_name rp =
     (let name = slack_agent_service_name (notif_slack (spec_notification (rp_spec rp)))
      in if name \<noteq> '''' then name else DefaultSlackAgentServiceName)"

definition newManageProcess ::
  "(string \<Rightarrow> go_error + server_url) \<Rightarrow> time \<Rightarrow> api_client \<Rightarrow> duration \<Rightarrow> runner_pool \<Rightarrow>
   (go_error + manage_process) outcome" where
  "newManageProcess parse_url now githubClient interval rp =
     (let spec = rp_spec rp; notif = spec_notification spec
      in case NewClient parse_url (agent_name rp) of
           Inl err \<Rightarrow> Ret (Inl err)
         | Inr agentClient \<Rightarrow>
             (case GetRepository rp of
                Panic \<Rightarrow> Panic
              | Ret repo \<Rightarrow> Ret (Inr \<lparr>
                  mp_github_client = githubClient, mp_slack_agent_client = agentClient,
                  mp_interval = interval,
                  mp_rp_namespace = rp_namespace rp, mp_rp_name = rp_name rp,
                  mp_owner = GetOwner rp, mp_repo = repo,
                  mp_replicas = spec_replicas spec, mp_max_runner_pods = spec_max_runner_pods spec,
                  mp_need_slack_notification = slack_enable (notif_slack notif),
                  mp_slack_channel = slack_channel (notif_slack notif),
                  mp_slack_agent_service_name = agent_name rp,
                  mp_extend_duration = duration_or_zero (notif_extend_duration notif),
                  mp_recreate_deadline = duration_or_zero (spec_recreate_deadline spec),
                  mp_deny_disruption = spec_deny_disruption spec,
                  mp_last_check_time = now, mp_prev_runner_names = [], mp_cancel = False\<rparr>)))"

definition update_process ::
  "(string \<Rightarrow> go_error + server_url) \<Rightarrow> runner_pool \<Rightarrow> manage_process \<Rightarrow> go_error option \<times> manage_process"
where
  "update_process parse_url rp p =
     (let spec = rp_spec rp; notif = spec_notification spec;
          p1 = p\<lparr>mp_replicas := spec_replicas spec, mp_max_runner_pods := spec_max_runner_pods spec,
            mp_need_slack_notification := slack_enable (notif_slack notif),
            mp_slack_channel := slack_channel (notif_slack notif),
            mp_extend_duration := duration_or_zero (notif_extend_duration notif),
            mp_recreate_deadline := duration_or_zero (spec_recreate_deadline spec),
            mp_deny_disruption := spec_deny_disruption spec\<rparr>
      in if mp_slack_agent_service_name p1 = agent_name rp then (None, p1)
         else case UpdateServerURL parse_url (mp_slack_agent_client p1) (agent_name rp) of
             (Some err, c) \<Rightarrow> (Some err, p1\<lparr>mp_slack_agent_client := c\<rparr>)
           | (None, c) \<Rightarrow> (None, p1\<lparr>mp_slack_agent_client := c,
               mp_slack_agent_service_name := agent_name rp\<rparr>))"

definition rpNamespacedName :: "manage_process \<Rightarrow> string" where
  "rpNamespacedName p = mp_rp_namespace p @ ''/'' @ mp_rp_name p"

section \<open>A round\<close>

definition runner_selector :: "manage_process \<Rightarrow> go_map" where
  "runner_selector p = Some (Map.empty(AppNameLabelKey \<mapsto> AppName,
     AppComponentLabelKey \<mapsto> AppComponentRunner, AppInstanceLabelKey \<mapsto> mp_rp_name p))"

definition fetchRunnerPods :: "mgr_env \<Rightarrow> manage_process \<Rightarrow> (mgr_event, go_error + pod list) prog" where
  "fetchRunnerPods E p = ext_call (\<lambda>tr. me_list_pods E tr (mp_rp_namespace p) (runner_selector p))
     (EvListPods (mp_rp_namespace p) (runner_selector p))"

definition fetchRunners :: "mgr_env \<Rightarrow> manage_process \<Rightarrow> (mgr_event, go_error + runner_info list) prog" where
  "fetchRunners E p =
     ext_call (\<lambda>tr. me_list_runners E tr (mp_owner p) (mp_repo p) [rpNamespacedName p])
       (EvListRunners (mp_owner p) (mp_repo p) [rpNamespacedName p])"

definition difference :: "string list \<Rightarrow> string list \<Rightarrow> string list" where
  "difference prev current = filter (\<lambda>val. val \<notin> set current) prev"

definition updateMetrics ::
  "runner_info list \<Rightarrow> manage_process \<times> controller_metrics \<Rightarrow> manage_process \<times> controller_metrics" where
  "updateMetrics runnerList = (\<lambda>(p, m).
     let m1 = UpdateRunnerPoolMetrics (rpNamespacedName p) (sint (mp_replicas p)) m;
         m2 = fold (\<lambda>r. UpdateRunnerMetrics (rpNamespacedName p) (ri_name r) (ri_online r) (ri_busy r))
                runnerList m1;
         current = map ri_name runnerList;
         removed = difference (mp_prev_runner_names p) current
     in (p\<lparr>mp_prev_runner_names := current\<rparr>, DeleteRunnerMetrics (rpNamespacedName p) removed m2))"

definition round_of :: "manage_process \<Rightarrow> time \<Rightarrow> runner_info list \<Rightarrow> mgr_round" where
  "round_of p now runnerList = \<lparr>rd_now = now, rd_last_check = mp_last_check_time p,
     rd_need_notification = mp_need_slack_notification p, rd_slack_channel = mp_slack_channel p,
     rd_extend_duration = mp_extend_duration p, rd_recreate_deadline = mp_recreate_deadline p,
     rd_deny_disruption = mp_deny_disruption p, rd_runners = runnerList\<rparr>"

text \<open>\<open>numRemovablePods\<close>, in 32 bits as the code computes it.\<close>

definition removable_pods :: "manage_process \<Rightarrow> pod list \<Rightarrow> int32" where
  "removable_pods p pods = mp_max_runner_pods p - mp_replicas p - unlabeled_pods pods"

definition maintainRunnerPods ::
  "mgr_env \<Rightarrow> runner_info list \<Rightarrow> pod list \<Rightarrow> manage_process \<Rightarrow> (mgr_event, manage_process) prog" where
  "maintainRunnerPods E runnerList pods p = and_then (ext_call (me_now E) EvClock) (\<lambda>now.
     and_then (maintain_pods E (round_of p now runnerList) pods (removable_pods p pods)) (\<lambda>_.
       ret (p\<lparr>mp_last_check_time := now\<rparr>)))"

definition remove_runner :: "mgr_env \<Rightarrow> manage_process \<Rightarrow> runner_info \<Rightarrow> (mgr_event, go_error option) prog" where
  "remove_runner E p r = ext_call (\<lambda>tr. me_remove E tr (mp_owner p) (mp_repo p) (ri_id r))
     (EvRemoveRunner (mp_owner p) (mp_repo p) (ri_id r))"

definition deleteOfflineRunners ::
  "mgr_env \<Rightarrow> manage_process \<Rightarrow> runner_info list \<Rightarrow> pod list \<Rightarrow> (mgr_event, go_error option) prog" where
  "deleteOfflineRunners E p runnerList pods = for_each_err (\<lambda>r.
     if ri_online r \<or> podExists (ri_name r) pods then ret None else remove_runner E p r) runnerList"

definition deleteAllRunners :: "mgr_env \<Rightarrow> manage_process \<Rightarrow> (mgr_event, go_error option) prog" where
  "deleteAllRunners E p = and_then (fetchRunners E p) (\<lambda>r. case r of
       Inl err \<Rightarrow> ret (Some err)
     | Inr runnerList \<Rightarrow> for_each_err (remove_runner E p) runnerList)"

definition runOnce ::
  "mgr_env \<Rightarrow> manage_process \<times> controller_metrics \<Rightarrow>
   (mgr_event, go_error option \<times> manage_process \<times> controller_metrics) prog" where
  "runOnce E = (\<lambda>(p, m).
     and_then (fetchRunnerPods E p) (\<lambda>r. case r of
         Inl err \<Rightarrow> ret (Some err, p, m)
       | Inr pods \<Rightarrow>
     and_then (fetchRunners E p) (\<lambda>r. case r of
         Inl err \<Rightarrow> ret (Some err, p, m)
       | Inr runnerList \<Rightarrow>
           let (p1, m1) = updateMetrics runnerList (p, m)
           in and_then (maintainRunnerPods E runnerList pods p1) (\<lambda>p2.
              and_then (deleteOfflineRunners E p2 runnerList pods) (\<lambda>err.
                ret (err, p2, m1))))))"

section \<open>The loop and the goroutine\<close>

text \<open>
  What the loop is woken by: the ticker, the context, or a change of its settings by the
  reconciler while it waits. \<open>Blocked\<close> is the loop waiting for the next one. An error of a round
  is logged and the loop goes on.
\<close>

datatype wakeup = Tick | Done | Configured runner_pool

datatype loop_state = Blocked | Stopped

fun run_loop ::
  "mgr_env \<Rightarrow> (string \<Rightarrow> go_error + server_url) \<Rightarrow> wakeup list \<Rightarrow> manage_process \<times> controller_metrics \<Rightarrow>
   (mgr_event, loop_state \<times> manage_process \<times> controller_metrics) prog" where
  "run_loop E parse_url [] s = ret (Blocked, s)"
| "run_loop E parse_url (Done # ws) s = ret (Stopped, s)"
| "run_loop E parse_url (Configured rp # ws) s =
     run_loop E parse_url ws (snd (update_process parse_url rp (fst s)), snd s)"
| "run_loop E parse_url (Tick # ws) s = and_then (runOnce E s) (\<lambda>(err, s'). run_loop E parse_url ws s')"

definition deleteMetrics :: "string \<Rightarrow> controller_metrics \<Rightarrow> controller_metrics" where
  "deleteMetrics key m = DeleteRunnerPoolMetrics key (DeleteAllRunnerMetrics key m)"

definition manage_goroutine ::
  "mgr_env \<Rightarrow> (string \<Rightarrow> go_error + server_url) \<Rightarrow> wakeup list \<Rightarrow> manage_process \<times> controller_metrics \<Rightarrow>
   (mgr_event, loop_state \<times> manage_process \<times> controller_metrics) prog" where
  "manage_goroutine E parse_url ws s = and_then (run_loop E parse_url ws s) (\<lambda>(st, p, m). case st of
       Blocked \<Rightarrow> ret (Blocked, p, m)
     | Stopped \<Rightarrow> let m' = deleteMetrics (rpNamespacedName p) m
         in and_then (deleteAllRunners E p) (\<lambda>_. ret (Stopped, p, m')))"

definition stop_process :: "go_error option \<Rightarrow> manage_process \<Rightarrow> go_error option \<times> manage_process" where
  "stop_process wait_err p = (if mp_cancel p then (wait_err, p\<lparr>mp_cancel := False\<rparr>) else (None, p))"

section \<open>The table of processes\<close>

text \<open>
  \<open>rm_processes\<close> is nil after \<open>StopAll\<close>. \<open>wait_err\<close> is the error of waiting for a goroutine to
  end; the clients' factory and the clock are passed in.
\<close>

record runner_manager =
  rm_interval :: duration
  rm_stopped :: bool
  rm_processes :: "(string \<rightharpoonup> manage_process) option"

definition rm_lookup :: "runner_manager \<Rightarrow> string \<Rightarrow> manage_process option" where
  "rm_lookup m key = Option.bind (rm_processes m) (\<lambda>ps. ps key)"

definition NewRunnerManager :: "duration \<Rightarrow> runner_manager" where
  "NewRunnerManager interval = \<lparr>rm_interval = interval, rm_stopped = False, rm_processes = Some Map.empty\<rparr>"

definition rm_store :: "string \<Rightarrow> manage_process \<Rightarrow> runner_manager \<Rightarrow> runner_manager outcome" where
  "rm_store key p m = (case rm_processes m of
       None \<Rightarrow> Panic
     | Some ps \<Rightarrow> Ret (m\<lparr>rm_processes := Some (ps(key \<mapsto> p))\<rparr>))"

definition StartOrUpdate ::
  "(client_credential \<Rightarrow> go_error + api_client) \<Rightarrow> (string \<Rightarrow> go_error + server_url) \<Rightarrow> time \<Rightarrow>
   runner_manager \<Rightarrow> runner_pool \<Rightarrow> client_credential \<Rightarrow> (go_error option \<times> runner_manager) outcome" where
  "StartOrUpdate new_client parse_url now m rp cred =
     (if rm_stopped m then Ret (Some ''RunnerManager is already stopped'', m)
      else case rm_lookup m (rp_namespaced_name rp) of
          None \<Rightarrow>
            (case new_client cred of
               Inl err \<Rightarrow> Ret (Some (''failed to create a github client; '' @ err), m)
             | Inr githubClient \<Rightarrow>
                 (case newManageProcess parse_url now githubClient (rm_interval m) rp of
                    Panic \<Rightarrow> Panic
                  | Ret (Inl err) \<Rightarrow> Ret (Some err, m)
                  | Ret (Inr p) \<Rightarrow>
                      (case rm_store (rp_namespaced_name rp) (p\<lparr>mp_cancel := True\<rparr>) m of
                         Panic \<Rightarrow> Panic
                       | Ret m' \<Rightarrow> Ret (None, m'))))
        | Some p \<Rightarrow>
            (case update_process parse_url rp p of (err, p') \<Rightarrow>
               (case rm_store (rp_namespaced_name rp) p' m of
                  Panic \<Rightarrow> Panic
                | Ret m' \<Rightarrow> Ret (err, m'))))"

definition rm_Stop ::
  "(string \<Rightarrow> go_error option) \<Rightarrow> runner_manager \<Rightarrow> runner_pool \<Rightarrow> go_error option \<times> runner_manager" where
  "rm_Stop wait_err m rp = (let key = rp_namespaced_name rp in case rm_lookup m key of
       None \<Rightarrow> (None, m)
     | Some p \<Rightarrow>
         (case stop_process (wait_err key) p of
            (Some err, p') \<Rightarrow>
              (Some err, m\<lparr>rm_processes := map_option (\<lambda>ps. ps(key \<mapsto> p')) (rm_processes m)\<rparr>)
          | (None, p') \<Rightarrow>
              (None, m\<lparr>rm_processes := map_option (\<lambda>ps. ps(key := None)) (rm_processes m)\<rparr>)))"

definition rm_StopAll :: "runner_manager \<Rightarrow> runner_manager" where
  "rm_StopAll m = m\<lparr>rm_processes := None, rm_stopped := True\<rparr>"

text \<open>A table that is nil was stopped.\<close>

definition rm_valid :: "runner_manager \<Rightarrow> bool" where
  "rm_valid m \<longleftrightarrow> (rm_processes m = None \<longleftrightarrow> rm_stopped m)"

definition rm_running :: "runner_manager \<Rightarrow> string set" where
  "rm_running m = {key. rm_lookup m key \<noteq> None}"

lemmas rm_defs = rm_valid_def rm_running_def rm_lookup_def rm_store_def

interpretation manager_table: process_table
  "StartOrUpdate new_client parse_url now" "rm_Stop wait_err" rm_StopAll rm_running rm_stopped rm_valid
  for new_client parse_url now wait_err
proof unfold_locales
  fix t :: runner_manager and rp :: runner_pool and c t'
  assume "rm_valid t" and "StartOrUpdate new_client parse_url now t rp c = Ret (None, t')"
  then show "rm_running t' = insert (rp_namespaced_name rp) (rm_running t) \<and> \<not> rm_stopped t \<and>
      \<not> rm_stopped t' \<and> rm_valid t'"
    by (auto simp: StartOrUpdate_def rm_defs split: if_splits option.splits sum.splits outcome.splits prod.splits)
next
  fix t :: runner_manager and rp :: runner_pool and c e t'
  assume "rm_valid t" and "StartOrUpdate new_client parse_url now t rp c = Ret (Some e, t')"
  then show "rm_running t' = rm_running t \<and> rm_stopped t' = rm_stopped t \<and> rm_valid t'"
    by (auto simp: StartOrUpdate_def rm_defs split: if_splits option.splits sum.splits outcome.splits prod.splits)
next
  fix t :: runner_manager and rp :: runner_pool and c
  assume "rm_valid t" and "well_formed_spec (rp_spec rp)"
  then show "StartOrUpdate new_client parse_url now t rp c \<noteq> Panic"
    using GetRepository_no_panic [of rp]
    by (auto simp: StartOrUpdate_def newManageProcess_def Let_def rm_defs
        split: if_splits option.splits sum.splits outcome.splits prod.splits)
next
  fix t :: runner_manager and rp :: runner_pool and t'
  assume "rm_valid t" and "rm_Stop wait_err t rp = (None, t')"
  then show "rm_running t' = rm_running t - {rp_namespaced_name rp} \<and> rm_stopped t' = rm_stopped t \<and>
      rm_valid t'"
    by (auto simp: rm_Stop_def rm_defs Let_def split: option.splits prod.splits if_splits)
next
  fix t :: runner_manager and rp :: runner_pool and e t'
  assume "rm_valid t" and "rm_Stop wait_err t rp = (Some e, t')"
  then show "rm_running t' = rm_running t \<and> rm_stopped t' = rm_stopped t \<and> rm_valid t' \<and>
      (\<exists>t''. rm_Stop wait_err t' rp = (None, t''))"
    by (auto simp: rm_Stop_def stop_process_def rm_defs Let_def split: option.splits prod.splits if_splits)
qed (simp add: rm_StopAll_def rm_defs)

end
