(* ===== verification/Pod_Life.thy ===== *)
theory Pod_Life
  imports Runner_Http
begin

text \<open>
  The life of a runner pod as a state machine over \<open>Runner_Pod\<close> and \<open>Runner_Http\<close>, with its
  invariants by rule induction: a pod registers and listens for a job at most once however often
  its container restarts, and the status it serves always has the shape its readers rely on.
\<close>

section \<open>Steps of a pod\<close>

text \<open>
  A restart of the container builds the Runner anew (same environment, same paths) over the same
  volumes.
\<close>

definition fresh_runner :: "runner \<Rightarrow> runner" where
  "fresh_runner r = r\<lparr>rn_state := '''', rn_result := '''', rn_finished_at := None,
     rn_deletion_time := None, rn_extend := None, rn_job_info := None, rn_slack_channel := ''''\<rparr>"

text \<open>
  One step of the pod: the main goroutine; an HTTP request, served at any moment; the setup command
  or the job, which may write any file but the started flag while it runs; the kubelet refreshing
  the mounted token; a restart of the container.
\<close>

inductive pod_step :: "(string \<Rightarrow> json option) \<Rightarrow> pod_sys \<Rightarrow> pod_sys \<Rightarrow> bool"
  for parse_json :: "string \<Rightarrow> json option" where
  main: "time_ok (an_now a) \<Longrightarrow> pod_step parse_json s (listener_step parse_json a s)"
| http: "pod_step parse_json s (s\<lparr>sys_runner := snd (serve req (sys_runner s))\<rparr>)"
| job: "sys_pc s \<in> {AtSetup, Listening} \<Longrightarrow>
     fs (rn_started_flag_file (sys_runner s)) = sys_files s (rn_started_flag_file (sys_runner s)) \<Longrightarrow>
     pod_step parse_json s (s\<lparr>sys_files := fs\<rparr>)"
| token: "rn_token_path (sys_runner s) \<noteq> rn_started_flag_file (sys_runner s) \<Longrightarrow>
     pod_step parse_json s (s\<lparr>sys_files := (sys_files s)(rn_token_path (sys_runner s) := f)\<rparr>)"
| restart: "pod_step parse_json s (s\<lparr>sys_pc := AtStart, sys_runner := fresh_runner (sys_runner s),
     sys_metrics := InitRunnerPodMetrics\<rparr>)"

inductive_cases pod_stepE: "pod_step parse_json s t"

text \<open>A pod starts with a new Runner on volumes that hold no started flag.\<close>

definition pod_init :: "runner \<Rightarrow> files \<Rightarrow> pod_sys" where
  "pod_init r fs = \<lparr>sys_files = fs, sys_pc = AtStart, sys_runner = fresh_runner r,
     sys_metrics = InitRunnerPodMetrics, sys_calls = []\<rparr>"

inductive pod_reachable :: "(string \<Rightarrow> json option) \<Rightarrow> pod_sys \<Rightarrow> bool"
  for parse_json :: "string \<Rightarrow> json option" where
  init: "fs (rn_started_flag_file r) = None \<Longrightarrow> pod_reachable parse_json (pod_init r fs)"
| step: "pod_reachable parse_json s \<Longrightarrow> pod_step parse_json s t \<Longrightarrow> pod_reachable parse_json t"

section \<open>At most one job\<close>

fun is_configure :: "listener_call \<Rightarrow> bool" where
  "is_configure (CallConfigure _) = True"
| "is_configure _ = False"

definition n_configures :: "pod_sys \<Rightarrow> nat" where
  "n_configures s = length (filter is_configure (sys_calls s))"

definition n_listens :: "pod_sys \<Rightarrow> nat" where
  "n_listens s = count_list (sys_calls s) CallListen"

definition started :: "pod_sys \<Rightarrow> bool" where
  "started s \<longleftrightarrow> isFileExists (sys_files s) (rn_started_flag_file (sys_runner s))"

text \<open>How many calls each position still has in front of it.\<close>

fun calls_allowed :: "pc \<Rightarrow> nat \<Rightarrow> nat \<Rightarrow> bool" where
  "calls_allowed AtSetup c l = (c = 0 \<and> l = 0)"
| "calls_allowed AtToken c l = (c = 0 \<and> l = 0)"
| "calls_allowed (AtConfigure b) c l = (c = 0 \<and> l = 0)"
| "calls_allowed AtListen c l = (c \<le> 1 \<and> l = 0)"
| "calls_allowed _ c l = (c \<le> 1 \<and> l \<le> 1)"

lemma calls_allowed_le: "calls_allowed pc c l \<Longrightarrow> c \<le> 1 \<and> l \<le> 1"
  by (cases pc) auto

definition job_inv :: "pod_sys \<Rightarrow> bool" where
  "job_inv s \<longleftrightarrow> calls_allowed (sys_pc s) (n_configures s) (n_listens s) \<and>
     (\<not> started s \<longrightarrow> sys_calls s = [] \<and> (sys_pc s = AtStart \<or> (\<exists>e. sys_pc s = Exited e)))"

lemma serve_frame [simp]:
  "rn_started_flag_file (snd (serve req r)) = rn_started_flag_file r"
  "rn_state (snd (serve req r)) = rn_state r"
  "rn_result (snd (serve req r)) = rn_result r"
  "rn_finished_at (snd (serve req r)) = rn_finished_at r"
  "rn_extend (snd (serve req r)) = rn_extend r"
  "rn_job_info (snd (serve req r)) = rn_job_info r"
  "rn_slack_channel (snd (serve req r)) = rn_slack_channel r"
  by (auto simp: serve_def deletionTimeHandler_def split: option.splits)

lemma fresh_runner_frame [simp]:
  "rn_started_flag_file (fresh_runner r) = rn_started_flag_file r"
  "rn_token_path (fresh_runner r) = rn_token_path r"
  by (simp_all add: fresh_runner_def)

lemma updateToDebuggingState_frame [simp]:
  "rn_started_flag_file (updateToDebuggingState parse_json fs now r) = rn_started_flag_file r"
  by (simp add: updateToDebuggingState_def Let_def)

lemmas job_inv_defs = job_inv_def n_configures_def n_listens_def started_def isFileExists_def

lemma job_inv_main: "job_inv s \<Longrightarrow> job_inv (listener_step parse_json a s)"
  by (cases "sys_pc s")
    (auto simp: job_inv_defs listener_step_def Let_def enter_state_def updateState_def fail_or_def
      record_call_def split: option.splits pod_file.splits)

lemma job_inv_step: "pod_step parse_json s t \<Longrightarrow> job_inv s \<Longrightarrow> job_inv t"
proof (induction rule: pod_step.induct)
  case (main a s)
  then show ?case by (simp add: job_inv_main)
qed (auto simp: job_inv_defs dest: calls_allowed_le)

lemma job_inv_reachable: "pod_reachable parse_json s \<Longrightarrow> job_inv s"
proof (induction rule: pod_reachable.induct)
  case (init fs r)
  then show ?case by (simp add: pod_init_def job_inv_defs)
next
  case (step s t)
  then show ?case by (blast intro: job_inv_step)
qed

section \<open>The shape of the status\<close>

text \<open>
  What the readers of a status rely on: its state is one of the four (or empty before the first),
  a debugging runner has a result, a finish time and an extend flag, and any other runner has
  none of the fields of a finished job.
\<close>

definition job_results :: "string set" where
  "job_results = {JobResultSuccess, JobResultFailure, JobResultCancelled, JobResultUnknown}"

definition status_shape :: "status \<Rightarrow> bool" where
  "status_shape st \<longleftrightarrow>
     st_state st \<in> insert '''' (set allRunnerPodState) \<and>
     (if st_state st = RunnerPodStateDebugging
      then st_result st \<in> job_results \<and> st_finished_at st \<noteq> None \<and> st_extend st \<noteq> None
      else st_result st = '''' \<and> st_finished_at st = None \<and> st_extend st = None \<and>
           st_job_info st = None \<and> st_slack_channel st = '''')"

definition status_inv :: "pod_sys \<Rightarrow> bool" where
  "status_inv s \<longleftrightarrow>
     status_shape (runner_status (sys_runner s)) \<and> status_ok (runner_status (sys_runner s)) \<and>
     (rn_state (sys_runner s) = RunnerPodStateDebugging \<longrightarrow> sys_pc s = WaitDone \<or> (\<exists>e. sys_pc s = Exited e))"

lemma job_result_in: "job_result fs r \<in> job_results"
  by (simp add: job_result_def job_results_def)

lemma time_ok_zero: "time_ok zero_time"
  by (simp add: time_ok_def zero_time_def)

lemma fill_time_ok: "fill as_time vs x = Some t \<Longrightarrow> time_ok x \<Longrightarrow> time_ok t"
proof (induction vs arbitrary: x)
  case (Cons v vs)
  have "time_ok y" if "as_time v = Some y" for y using that by (cases v) (auto split: if_splits)
  with Cons show ?case by (auto split: if_splits option.splits)
qed simp

lemma deletion_time_decoded_ok: "deletion_time_of_json j = Some t \<Longrightarrow> time_ok t"
  by (cases j rule: deletion_time_of_json.cases) (auto intro: fill_time_ok time_ok_zero simp: time_ok_zero)

lemma serve_deletion_time:
  "rn_deletion_time (snd (serve req r)) = Some t \<Longrightarrow> rn_deletion_time r = Some t \<or> time_ok t"
  by (auto simp: serve_def deletionTimeHandler_def bind_eq_Some_conv dest: deletion_time_decoded_ok
      split: option.splits if_splits)

lemma fill_int_ok: "fill as_int vs x = Some i \<Longrightarrow> in_int64 x \<Longrightarrow> in_int64 i"
proof (induction vs arbitrary: x)
  case (Cons v vs)
  have "in_int64 y" if "as_int v = Some y" for y using that by (cases v) (auto split: if_splits)
  with Cons show ?case by (auto split: if_splits option.splits)
qed simp

lemma job_info_decoded_ok: "job_info_of_json j = Some i \<Longrightarrow> job_info_ok i"
proof (cases j rule: job_info_of_json.cases)
  case (1 obj)
  have "in_int64 0" by (simp add: in_int64_def)
  moreover assume "job_info_of_json j = Some i"
  ultimately show ?thesis
    using 1 by (auto simp: bind_eq_Some_conv job_info_ok_def intro: fill_int_ok)
qed (auto simp: empty_job_info_def job_info_ok_def in_int64_def)

lemma job_info_decoded_opt [simp]: "pred_option job_info_ok (job_info_of_json j)"
  using job_info_decoded_ok [of j] by (cases "job_info_of_json j") auto

lemma job_info_file_ok: "GetJobInfoFromFile parse_json fs f = Inr v \<Longrightarrow> pred_option job_info_ok v"
  by (auto simp: GetJobInfoFromFile_def bind_eq_Some_conv intro: job_info_decoded_ok
      split: option.splits pod_file.splits if_splits)

lemma pod_states_distinct [simp]:
  "RunnerPodStateStale \<noteq> RunnerPodStateDebugging" "RunnerPodStateInitializing \<noteq> RunnerPodStateDebugging"
  "RunnerPodStateRunning \<noteq> RunnerPodStateDebugging" "RunnerPodStateDebugging \<noteq> ''''"
  by (simp_all add: meows_consts)

lemmas pod_states_distinct_sym [simp] = pod_states_distinct [symmetric]

lemma debugging_status_shape:
  "status_shape (runner_status (updateToDebuggingState parse_json fs now r))"
  by (simp add: status_shape_def runner_status_def updateToDebuggingState_def allRunnerPodState_def
      job_result_in)

lemma debugging_status_ok:
  "status_ok (runner_status r) \<Longrightarrow> time_ok now \<Longrightarrow>
   status_ok (runner_status (updateToDebuggingState parse_json fs now r))"
  by (auto simp: status_ok_def status_times_ok_def runner_status_def updateToDebuggingState_def
      dest: job_info_file_ok split: sum.splits option.splits)

lemmas status_inv_defs = status_inv_def status_shape_def status_ok_def status_times_ok_def
  runner_status_def allRunnerPodState_def

lemma status_inv_main:
  assumes "status_inv s" and "time_ok (an_now a)"
  shows "status_inv (listener_step parse_json a s)"
proof (cases "sys_pc s = AtFinish")
  case True
  with assms show ?thesis
    by (simp add: status_inv_def listener_step_def debugging_status_shape debugging_status_ok)
next
  case False
  with assms(1) show ?thesis
    by (cases "sys_pc s")
      (auto simp: status_inv_defs listener_step_def Let_def enter_state_def updateState_def
        fail_or_def record_call_def split: option.splits pod_file.splits if_splits)
qed

lemma status_inv_http:
  assumes "status_inv s"
  shows "status_inv (s\<lparr>sys_runner := snd (serve req (sys_runner s))\<rparr>)"
proof -
  let ?d = "rn_deletion_time (snd (serve req (sys_runner s)))"
  from assms have "pred_option time_ok (rn_deletion_time (sys_runner s))"
    by (simp add: status_inv_def status_ok_def status_times_ok_def runner_status_def)
  then have "pred_option time_ok ?d"
    using serve_deletion_time [of req "sys_runner s"] by (cases ?d) auto
  with assms show ?thesis by (auto simp: status_inv_defs split: if_splits)
qed

lemma status_inv_step: "pod_step parse_json s t \<Longrightarrow> status_inv s \<Longrightarrow> status_inv t"
proof (induction rule: pod_step.induct)
  case (main a s)
  then show ?case by (simp add: status_inv_main)
next
  case (http s req)
  then show ?case by (simp add: status_inv_http)
qed (auto simp: status_inv_defs fresh_runner_def)

lemma status_inv_reachable: "pod_reachable parse_json s \<Longrightarrow> status_inv s"
proof (induction rule: pod_reachable.induct)
  case (init fs r)
  then show ?case by (simp add: pod_init_def status_inv_defs fresh_runner_def)
next
  case (step s t)
  then show ?case by (blast intro: status_inv_step)
qed

section \<open>An example pod\<close>

definition ex_runner :: runner where
  "ex_runner = \<lparr>rn_envs = \<lparr>re_podName = ''pod-1'', re_podNamespace = ''ns'', re_runnerOrg = ''org'',
       re_runnerRepo = '''', re_runnerPoolName = ''pool'', re_setupCommand = []\<rparr>,
     rn_listen_addr = '':8080'', rn_state = '''', rn_result = '''', rn_finished_at = None,
     rn_deletion_time = None, rn_extend = None, rn_job_info = None, rn_slack_channel = '''',
     rn_runner_dir = ''/runner'', rn_work_dir = ''/runner/_work'',
     rn_token_path = ''/var/meows/secrets/runnertoken'', rn_job_info_file = ''/var/meows/github.env'',
     rn_slack_channel_file = ''/var/meows/slack_channel'', rn_started_flag_file = ''/var/meows/started'',
     rn_extend_flag_file = ''/var/meows/extend'', rn_failure_flag_file = ''/var/meows/failure'',
     rn_cancelled_flag_file = ''/var/meows/cancelled'', rn_success_flag_file = ''/var/meows/success''\<rparr>"

definition ex_files :: files where
  "ex_files = Map.empty(''/var/meows/secrets/runnertoken'' \<mapsto> Text ''token'')"

lemma ex_pod_reachable: "pod_reachable parse_json (pod_init ex_runner ex_files)"
  by (rule pod_reachable.init) (simp add: ex_runner_def ex_files_def)

lemma run_steps_reachable:
  "pod_reachable parse_json s \<Longrightarrow> time_ok (an_now a) \<Longrightarrow> pod_reachable parse_json (run_steps n parse_json a s)"
  by (induction n arbitrary: s) (auto intro: pod_reachable.step pod_step.main)

definition ex_step_answers :: step_answers where
  "ex_step_answers = \<lparr>an_create = None, an_setup = None, an_configure = None, an_listen = None, an_now = 0\<rparr>"

text \<open>A pod whose job has ended, and the same pod after a restart of its container.\<close>

definition ex_pod_done :: "(string \<Rightarrow> json option) \<Rightarrow> pod_sys" where
  "ex_pod_done parse_json = run_steps 7 parse_json ex_step_answers (pod_init ex_runner ex_files)"

definition ex_pod_restarted :: "(string \<Rightarrow> json option) \<Rightarrow> pod_sys" where
  "ex_pod_restarted parse_json = (ex_pod_done parse_json)\<lparr>sys_pc := AtStart,
     sys_runner := fresh_runner (sys_runner (ex_pod_done parse_json)), sys_metrics := InitRunnerPodMetrics\<rparr>"

lemma ex_pod_done_reachable: "pod_reachable parse_json (ex_pod_done parse_json)"
  unfolding ex_pod_done_def
  by (rule run_steps_reachable [OF ex_pod_reachable]) (simp add: ex_step_answers_def time_ok_def)

lemma ex_pod_restarted_reachable: "pod_reachable parse_json (ex_pod_restarted parse_json)"
  unfolding ex_pod_restarted_def by (rule pod_reachable.step [OF ex_pod_done_reachable pod_step.restart])

lemma ex_pod_done_state:
  "sys_calls (ex_pod_done parse_json) \<noteq> []"
  "rn_state (sys_runner (ex_pod_done parse_json)) = RunnerPodStateDebugging"
  by (simp_all add: ex_pod_done_def numeral_eq_Suc pod_init_def ex_runner_def ex_files_def fresh_runner_def
      ex_step_answers_def listener_step_def Let_def isFileExists_def enter_state_def updateState_def
      fail_or_def record_call_def updateToDebuggingState_def)

end
