(* ===== verification/Manager_Props.thy ===== *)
theory Manager_Props
  imports Runner_Manager Pod_Life
begin

text \<open>
  What the runner manager guarantees: which pods a round deletes, announces, protects and
  unlinks; when it can panic; the metrics it leaves; and the runners it removes from GitHub.
\<close>

section \<open>A round of maintenance\<close>

definition maintain_run ::
  "mgr_env \<Rightarrow> runner_info list \<Rightarrow> pod list \<Rightarrow> manage_process \<Rightarrow> manage_process outcome \<Rightarrow> mgr_event list \<Rightarrow> bool"
where
  "maintain_run E runnerList pods p r es \<longleftrightarrow> (\<exists>now es' r'.
     es = EvClock now # es' \<and>
     runs_of (pod_turn (round_of p now runnerList)) pods (removable_pods p pods) r' es' \<and>
     r = (case r' of Panic \<Rightarrow> Panic | Ret _ \<Rightarrow> Ret (p\<lparr>mp_last_check_time := now\<rparr>)))"

lemma maintainRunnerPods_runs:
  "ensures (maintainRunnerPods E runnerList pods p) (maintain_run E runnerList pods p)"
  unfolding maintainRunnerPods_def
  apply (rule ensures_and_then, rule ensures_ext_call)
  apply (simp add: maintain_run_def)
  apply (rule ensures_and_then, rule ensures_mono [OF maintain_pods_runs])
  apply (force split: outcome.splits intro!: ensures_ret)
  done

lemma maintain_runE:
  assumes "maintainRunnerPods E runnerList pods p tr = (r, tr @ es)"
  obtains now es' r' where "es = EvClock now # es'"
    and "runs_of (pod_turn (round_of p now runnerList)) pods (removable_pods p pods) r' es'"
    and "r = (case r' of Panic \<Rightarrow> Panic | Ret _ \<Rightarrow> Ret (p\<lparr>mp_last_check_time := now\<rparr>))"
  using ensuresD [OF maintainRunnerPods_runs assms] by (auto simp: maintain_run_def)

lemma runs_of_mem:
  assumes "runs_of R xs s r es" and "e \<in> set es"
  obtains x s1 r1 es1 where "x \<in> set xs" and "R x s1 r1 es1" and "e \<in> set es1" and "set es1 \<subseteq> set es"
proof -
  from assms(2) obtain a b where "es = a @ e # b" by (auto simp: in_set_conv_decomp)
  with runs_of_event [of R xs s r a e b] assms(1) that show thesis by fastforce
qed

lemma sint_of_nat_small: "k < 2 ^ 31 \<Longrightarrow> sint (of_nat k :: int32) = int k"
  by (simp add: signed_of_nat signed_take_bit_int_eq_self)

lemma sint_minus_in_range:
  fixes a b :: int32
  assumes "- (2 ^ 31) \<le> sint a - sint b" and "sint a - sint b < 2 ^ 31"
  shows "sint (a - b) = sint a - sint b"
  using assms by (simp add: sint_word_ariths signed_take_bit_int_eq_self)

lemma unlabeled_pods_count:
  "unlabeled_pods pods =
     of_nat (length (filter (\<lambda>po. go_get (po_labels po) DefaultDeploymentUniqueLabelKey = None) pods))"
proof -
  have "fold (\<lambda>po n. if go_get (po_labels po) DefaultDeploymentUniqueLabelKey = None then n + 1 else n) pods m =
      m + of_nat (length (filter (\<lambda>po. go_get (po_labels po) DefaultDeploymentUniqueLabelKey = None) pods))"
    for m :: int32
    by (induction pods arbitrary: m) simp_all
  then show ?thesis by (simp add: unlabeled_pods_def)
qed

definition unlabeled_count :: "pod list \<Rightarrow> nat" where
  "unlabeled_count pods =
     length (filter (\<lambda>po. go_get (po_labels po) DefaultDeploymentUniqueLabelKey = None) pods)"

lemma removable_pods_value:
  assumes "0 \<le> sint (mp_max_runner_pods p)" and "0 \<le> sint (mp_replicas p)"
    and len: "sint (mp_replicas p) + int (length pods) < 2 ^ 31"
  shows "sint (removable_pods p pods) =
    sint (mp_max_runner_pods p) - sint (mp_replicas p) - int (unlabeled_count pods)"
proof -
  have "unlabeled_count pods \<le> length pods" by (simp add: unlabeled_count_def)
  with assms have k: "sint (mp_replicas p) + int (unlabeled_count pods) < 2 ^ 31"
    and "int (unlabeled_count pods) < 2 ^ 31" by linarith+
  then have small: "unlabeled_count pods < 2 ^ 31" by simp
  from small have u: "sint (unlabeled_pods pods) = int (unlabeled_count pods)"
    unfolding unlabeled_pods_count unlabeled_count_def [symmetric] by (rule sint_of_nat_small)
  have max: "sint (mp_max_runner_pods p) < 2 ^ 31" and rep: "sint (mp_replicas p) < 2 ^ 31"
    using sint_lt [of "mp_max_runner_pods p"] sint_lt [of "mp_replicas p"] by simp_all
  have d: "sint (mp_max_runner_pods p - mp_replicas p) = sint (mp_max_runner_pods p) - sint (mp_replicas p)"
    using assms(1,2) max rep by (intro sint_minus_in_range; linarith)
  show ?thesis
    unfolding removable_pods_def
    using d u k max assms(1,2) by (subst sint_minus_in_range; linarith)
qed

lemma round_of_sel [simp]:
  "rd_now (round_of p now rs) = now" "rd_last_check (round_of p now rs) = mp_last_check_time p"
  "rd_need_notification (round_of p now rs) = mp_need_slack_notification p"
  "rd_slack_channel (round_of p now rs) = mp_slack_channel p"
  "rd_extend_duration (round_of p now rs) = mp_extend_duration p"
  "rd_deny_disruption (round_of p now rs) = mp_deny_disruption p"
  by (simp_all add: round_of_def)

section \<open>An example round\<close>

text \<open>A pool with one pod, and an outside that answers every call with success.\<close>

definition ex_pod :: pod where
  "ex_pod = \<lparr>po_name = ''pod-1'', po_namespace = ''ns'',
     po_labels = Some (Map.empty(DefaultDeploymentUniqueLabelKey \<mapsto> ''hash'')),
     po_phase = PodRunning, po_ip = ''10.0.0.1'', po_created = 0\<rparr>"

definition ex_status :: "string \<Rightarrow> time \<Rightarrow> status" where
  "ex_status state finished = \<lparr>st_state = state, st_result = JobResultFailure,
     st_finished_at = Some finished, st_deletion_time = None, st_extend = Some True,
     st_job_info = None, st_slack_channel = ''''\<rparr>"

definition ex_env :: "time \<Rightarrow> status \<Rightarrow> mgr_env" where
  "ex_env now st = \<lparr>me_now = (\<lambda>_. now), me_list_pods = (\<lambda>_ _ _. Inr [ex_pod]),
     me_list_runners = (\<lambda>_ _ _ _. Inr []), me_status = (\<lambda>_ _. Inr st),
     me_notify = (\<lambda>_ _ _ _ _ _ _. None), me_put = (\<lambda>_ _ _. None), me_delete = (\<lambda>_ _. None),
     me_create_or_update = (\<lambda>_ _ _ _. None), me_set_controller = (\<lambda>_ b. Inr b),
     me_update = (\<lambda>_ po. Inr po), me_remove = (\<lambda>_ _ _ _. None)\<rparr>"

definition ex_process :: manage_process where
  "ex_process = \<lparr>mp_github_client = PatClient ''token'', mp_slack_agent_client = None,
     mp_interval = Second, mp_rp_namespace = ''ns'', mp_rp_name = ''pool'', mp_owner = ''org'',
     mp_repo = '''', mp_replicas = 1, mp_max_runner_pods = 2, mp_need_slack_notification = True,
     mp_slack_channel = ''#ci'', mp_slack_agent_service_name = ''agent'', mp_extend_duration = 5000,
     mp_recreate_deadline = 100000, mp_deny_disruption = True, mp_last_check_time = 500,
     mp_prev_runner_names = [], mp_cancel = True\<rparr>"

definition ex_relabeled :: pod where
  "ex_relabeled = ex_pod\<lparr>po_labels := Some (Map.empty(DefaultDeploymentUniqueLabelKey \<mapsto> ''hash'',
     RunnerPodName \<mapsto> ''pod-1''))\<rparr>"

definition ex_unlinked :: pod where
  "ex_unlinked = ex_pod\<lparr>po_labels := Some (Map.empty(RunnerPodName \<mapsto> ''pod-1''))\<rparr>"

lemmas ex_round_defs = maintainRunnerPods_def maintain_pods_def maintain_pod_def manager_phases
  need_delete_def needExtend_def recreate_due_def busy_or_debugging_def round_of_def
  removable_pods_def unlabeled_pods_def ex_pod_def ex_status_def ex_env_def ex_process_def
  ex_relabeled_def ex_unlinked_def after_def before_def prog_defs Let_def go_put_def go_index_def go_delete_def

lemma labels_distinct [simp]: "RunnerPodName \<noteq> DefaultDeploymentUniqueLabelKey"
    "DefaultDeploymentUniqueLabelKey \<noteq> RunnerPodName"
  by (simp_all add: RunnerPodName_def DefaultDeploymentUniqueLabelKey_def)

lemma ex_stale_round:
  "maintainRunnerPods (ex_env 1000 (ex_status RunnerPodStateStale 0)) [] [ex_pod] ex_process [] =
   (Ret (ex_process\<lparr>mp_last_check_time := 1000\<rparr>),
    [] @ [EvClock 1000, EvGetStatus ''10.0.0.1'' (Inr (ex_status RunnerPodStateStale 0)), EvDelete ex_pod None])"
  by (simp add: ex_round_defs)

lemma ex_debugging_round:
  "maintainRunnerPods (ex_env 1000 (ex_status RunnerPodStateDebugging 600)) [] [ex_pod] ex_process [] =
   (Ret (ex_process\<lparr>mp_last_check_time := 1000\<rparr>),
    [] @ [EvClock 1000, EvGetStatus ''10.0.0.1'' (Inr (ex_status RunnerPodStateDebugging 600)),
      EvNotify ''#ci'' JobResultFailure True ''ns'' ''pod-1'' None None,
      EvPutDeletion ''10.0.0.1'' 5600 None,
      EvPDB ex_pod None, EvRelabel ex_relabeled (Inr ex_relabeled)] @
      EvUnlink ex_unlinked (Inr ex_unlinked) # [])"
  by (simp add: ex_round_defs fun_upd_twist)

definition ex_calls :: "mgr_event list" where
  "ex_calls = [EvGetStatus ''10.0.0.1'' (Inr (ex_status RunnerPodStateDebugging 600)),
     EvNotify ''#ci'' JobResultFailure True ''ns'' ''pod-1'' None None,
     EvPutDeletion ''10.0.0.1'' 5600 None, EvPDB ex_pod None, EvRelabel ex_relabeled (Inr ex_relabeled),
     EvUnlink ex_unlinked (Inr ex_unlinked)]"

lemma ex_debugging_run:
  "maintainRunnerPods (ex_env 1000 (ex_status RunnerPodStateDebugging 600)) [] [ex_pod] ex_process [] =
   (Ret (ex_process\<lparr>mp_last_check_time := 1000\<rparr>), [] @ EvClock 1000 # ex_calls)"
  by (simp add: ex_debugging_round ex_calls_def)

section \<open>What a round does to the pods\<close>

text \<open>C2. A round deletes a pod only if the pod is running and reported, in this round, a status by
  which it is due: stale, finished with no time left, or past the recreate deadline and not busy.\<close>
theorem round_deletes_only_due:
  assumes "maintainRunnerPods E runnerList pods p tr = (r, tr @ EvClock now # es)"
    and "EvDelete po err \<in> set es"
  shows "po \<in> set pods \<and> po_phase po = PodRunning \<and>
    (\<exists>st. EvGetStatus (po_ip po) (Inr st) \<in> set es \<and> may_delete (round_of p now runnerList) po st)"
proof -
  from assms(1) obtain r' where "runs_of (pod_turn (round_of p now runnerList)) pods (removable_pods p pods) r' es"
    by (rule maintain_runE) auto
  from this assms(2) obtain x s1 r1 es1 where "x \<in> set pods"
    and t: "pod_turn (round_of p now runnerList) x s1 r1 es1" "EvDelete po err \<in> set es1" and "set es1 \<subseteq> set es"
    by (rule runs_of_mem)
  with turn_delete [OF t] show ?thesis by blast
qed

theorem round_deletes_only_due_witness:
  "ex_pod \<in> set [ex_pod] \<and> po_phase ex_pod = PodRunning \<and>
   (\<exists>st. EvGetStatus (po_ip ex_pod) (Inr st) \<in> set [EvGetStatus ''10.0.0.1'' (Inr (ex_status RunnerPodStateStale 0)),
       EvDelete ex_pod None] \<and> may_delete (round_of ex_process 1000 []) ex_pod st)"
  by (rule round_deletes_only_due [OF ex_stale_round]) simp

text \<open>C3. A round that ends deletes every running pod that reports a status by which it is due;
  every running pod is asked for its status.\<close>
theorem round_deletes_every_due:
  assumes "maintainRunnerPods E runnerList pods p tr = (Ret p', tr @ EvClock now # es)"
    and "po \<in> set pods" and "po_phase po = PodRunning"
  shows "\<exists>res. EvGetStatus (po_ip po) res \<in> set es \<and>
    (\<forall>st. res = Inr st \<longrightarrow> may_delete (round_of p now runnerList) po st \<longrightarrow> (\<exists>err. EvDelete po err \<in> set es))"
proof -
  from assms(1) obtain n where run: "runs_of (pod_turn (round_of p now runnerList)) pods (removable_pods p pods) (Ret n) es"
    by (rule maintain_runE) (auto split: outcome.splits)
  from runs_of_each [OF run assms(2)] obtain s1 s2 es1
    where t: "pod_turn (round_of p now runnerList) po s1 (Ret s2) es1" and sub: "set es1 \<subseteq> set es" by blast
  from turn_due [OF t assms(3)] sub show ?thesis by blast
qed

theorem round_deletes_every_due_witness:
  "\<exists>res. EvGetStatus (po_ip ex_pod) res \<in> set [EvGetStatus ''10.0.0.1'' (Inr (ex_status RunnerPodStateStale 0)),
       EvDelete ex_pod None] \<and>
    (\<forall>st. res = Inr st \<longrightarrow> may_delete (round_of ex_process 1000 []) ex_pod st \<longrightarrow>
       (\<exists>err. EvDelete ex_pod err \<in> set [EvGetStatus ''10.0.0.1'' (Inr (ex_status RunnerPodStateStale 0)),
         EvDelete ex_pod None]))"
  using round_deletes_every_due [OF ex_stale_round, of ex_pod]
  by (simp add: ex_pod_def)

text \<open>C5. A round takes at most as many pods out of the ReplicaSet as \<open>maxRunnerPods\<close> leaves room
  for beside the replicas and the pods taken out before; with a limit of 0 it takes none out.\<close>
theorem round_unlinks_within_limit:
  assumes "maintainRunnerPods E runnerList pods p tr = (r, tr @ es)"
    and "0 \<le> sint (mp_max_runner_pods p)" and "0 \<le> sint (mp_replicas p)"
    and "sint (mp_replicas p) + int (length pods) < 2 ^ 31"
  shows "int (n_unlinks es) \<le>
    max 0 (sint (mp_max_runner_pods p) - sint (mp_replicas p) - int (unlabeled_count pods))"
proof -
  from assms(1) obtain now es' r' where "es = EvClock now # es'"
    and run: "runs_of (pod_turn (round_of p now runnerList)) pods (removable_pods p pods) r' es'"
    by (rule maintain_runE)
  then have "n_unlinks es = n_unlinks es'" by (simp add: n_unlinks_def)
  with round_unlinks [OF run] removable_pods_value [OF assms(2-4)] show ?thesis by simp
qed

theorem round_unlinks_within_limit_witness:
  "n_unlinks (snd (maintainRunnerPods (ex_env 1000 (ex_status RunnerPodStateDebugging 600)) [] [ex_pod] ex_process [])) = 1 \<and>
   int (n_unlinks (snd (maintainRunnerPods (ex_env 1000 (ex_status RunnerPodStateDebugging 600)) [] [ex_pod] ex_process []))) \<le>
    max 0 (sint (mp_max_runner_pods ex_process) - sint (mp_replicas ex_process) - int (unlabeled_count [ex_pod]))"
  using round_unlinks_within_limit [OF ex_debugging_round]
  by (simp add: ex_debugging_round) (simp add: ex_process_def n_unlinks_def)

text \<open>C6. With \<open>denyDisruption\<close>, a pod is taken out of its ReplicaSet only under a disruption
  budget: it bears its own name as the label the budget selects, or the budget was made and the
  pod then given that label, both earlier in the round and with success.\<close>
theorem round_protects_before_unlink:
  assumes "maintainRunnerPods E runnerList pods p tr = (r, tr @ es @ EvUnlink po res # es')"
    and "mp_deny_disruption p"
  shows "\<exists>q0 q. q0 \<in> set pods \<and>
    po = q\<lparr>po_labels := go_delete (po_labels q) DefaultDeploymentUniqueLabelKey\<rparr> \<and>
    (q = q0 \<and> go_index (po_labels q0) RunnerPodName = po_name q0 \<or>
     (\<exists>labels. EvPDB q0 None \<in> set es \<and> EvRelabel (q0\<lparr>po_labels := labels\<rparr>) (Inr q) \<in> set es \<and>
        go_get labels RunnerPodName = Some (po_name q0)))"
proof -
  from assms(1) obtain now es2 r' where "es @ EvUnlink po res # es' = EvClock now # es2"
    and run: "runs_of (pod_turn (round_of p now runnerList)) pods (removable_pods p pods) r' es2"
    by (rule maintain_runE)
  then obtain a where es: "es = EvClock now # a" and es2: "es2 = a @ EvUnlink po res # es'"
    by (auto simp: append_eq_Cons_conv)
  from runs_of_event [OF run [unfolded es2]] obtain x s1 r1 pre a' b' where x: "x \<in> set pods"
    and t: "pod_turn (round_of p now runnerList) x s1 r1 (a' @ EvUnlink po res # b')" and "a = pre @ a'"
    by blast
  with es have sub: "set a' \<subseteq> set es" by auto
  from turn_unlink_guard [OF t] obtain q
    where q: "po = q\<lparr>po_labels := go_delete (po_labels q) DefaultDeploymentUniqueLabelKey\<rparr>"
    and c: "q = x \<and> \<not> unprotected (round_of p now runnerList) x \<or>
      (\<exists>labels. go_put (po_labels x) RunnerPodName (po_name x) = Ret labels \<and>
         EvPDB x None \<in> set a' \<and> EvRelabel (x\<lparr>po_labels := labels\<rparr>) (Inr q) \<in> set a')" by blast
  from c show ?thesis
  proof
    assume "q = x \<and> \<not> unprotected (round_of p now runnerList) x"
    with x q assms(2) show ?thesis
      by (intro exI [of _ x] exI [of _ q]) (simp add: unprotected_def round_of_def)
  next
    assume "\<exists>labels. go_put (po_labels x) RunnerPodName (po_name x) = Ret labels \<and>
      EvPDB x None \<in> set a' \<and> EvRelabel (x\<lparr>po_labels := labels\<rparr>) (Inr q) \<in> set a'"
    then obtain labels where "go_put (po_labels x) RunnerPodName (po_name x) = Ret labels"
      and "EvPDB x None \<in> set es" and "EvRelabel (x\<lparr>po_labels := labels\<rparr>) (Inr q) \<in> set es"
      using sub by blast
    with x q go_get_put [of "po_labels x" RunnerPodName "po_name x" labels RunnerPodName] show ?thesis
      by (intro exI [of _ x] exI [of _ q]) auto
  qed
qed

theorem round_protects_before_unlink_witness:
  "\<exists>q0 q. q0 \<in> set [ex_pod] \<and>
    ex_unlinked = q\<lparr>po_labels := go_delete (po_labels q) DefaultDeploymentUniqueLabelKey\<rparr> \<and>
    (q = q0 \<and> go_index (po_labels q0) RunnerPodName = po_name q0 \<or>
     (\<exists>labels. EvPDB q0 None \<in> set [EvClock 1000,
          EvGetStatus ''10.0.0.1'' (Inr (ex_status RunnerPodStateDebugging 600)),
          EvNotify ''#ci'' JobResultFailure True ''ns'' ''pod-1'' None None,
          EvPutDeletion ''10.0.0.1'' 5600 None, EvPDB ex_pod None, EvRelabel ex_relabeled (Inr ex_relabeled)] \<and>
        EvRelabel (q0\<lparr>po_labels := labels\<rparr>) (Inr q) \<in> set [EvClock 1000,
          EvGetStatus ''10.0.0.1'' (Inr (ex_status RunnerPodStateDebugging 600)),
          EvNotify ''#ci'' JobResultFailure True ''ns'' ''pod-1'' None None,
          EvPutDeletion ''10.0.0.1'' 5600 None, EvPDB ex_pod None, EvRelabel ex_relabeled (Inr ex_relabeled)] \<and>
        go_get labels RunnerPodName = Some (po_name q0)))"
  by (rule round_protects_before_unlink [OF ex_debugging_round]) (simp add: ex_process_def)

text \<open>C10. A round tells Slack only about pods that report a finished job, only if notifications
  are on, and only about jobs that ended after the previous round's clock; the message names that
  pod, carries its result and job information, goes to the channel the job chose (the pool's
  otherwise) and offers an extension exactly if the job asked for one and the pool grants it.\<close>
theorem round_announces_new_results:
  assumes "maintainRunnerPods E runnerList pods p tr = (r, tr @ EvClock now # es)"
    and "EvNotify ch res ext ns name info err \<in> set es"
  shows "mp_need_slack_notification p \<and>
    (\<exists>po st finished. po \<in> set pods \<and> ns = po_namespace po \<and> name = po_name po \<and>
       EvGetStatus (po_ip po) (Inr st) \<in> set es \<and> st_state st = RunnerPodStateDebugging \<and>
       st_finished_at st = Some finished \<and> mp_last_check_time p < finished \<and>
       res = st_result st \<and> info = st_job_info st \<and>
       (ext \<longleftrightarrow> st_extend st = Some True \<and> mp_extend_duration p \<noteq> 0) \<and>
       ch = (if st_slack_channel st = '''' then mp_slack_channel p else st_slack_channel st))"
proof -
  from assms(1) obtain r' where "runs_of (pod_turn (round_of p now runnerList)) pods (removable_pods p pods) r' es"
    by (rule maintain_runE) auto
  from this assms(2) obtain x s1 r1 es1 where x: "x \<in> set pods"
    and t: "pod_turn (round_of p now runnerList) x s1 r1 es1" "EvNotify ch res ext ns name info err \<in> set es1"
    and sub: "set es1 \<subseteq> set es"
    by (rule runs_of_mem)
  from turn_notify [OF t, unfolded round_of_sel] obtain st finished where
    "EvGetStatus (po_ip x) (Inr st) \<in> set es1 \<and> st_state st = RunnerPodStateDebugging \<and>
     st_finished_at st = Some finished \<and> mp_last_check_time p < finished \<and>
     res = st_result st \<and> info = st_job_info st \<and> ext = needExtend (round_of p now runnerList) st \<and>
     ch = (if st_slack_channel st = '''' then mp_slack_channel p else st_slack_channel st)"
    and "ns = po_namespace x \<and> name = po_name x \<and> mp_need_slack_notification p" by blast
  with x sub show ?thesis
    by (intro conjI exI [of _ x] exI [of _ st] exI [of _ finished]) (auto simp: needExtend_def)
qed

theorem round_announces_new_results_witness:
  "mp_need_slack_notification ex_process \<and>
    (\<exists>po st finished. po \<in> set [ex_pod] \<and> ''ns'' = po_namespace po \<and> ''pod-1'' = po_name po \<and>
       EvGetStatus (po_ip po) (Inr st) \<in> set ex_calls \<and>
       st_state st = RunnerPodStateDebugging \<and>
       st_finished_at st = Some finished \<and> mp_last_check_time ex_process < finished \<and>
       JobResultFailure = st_result st \<and> None = st_job_info st \<and>
       (True \<longleftrightarrow> st_extend st = Some True \<and> mp_extend_duration ex_process \<noteq> 0) \<and>
       ''#ci'' = (if st_slack_channel st = '''' then mp_slack_channel ex_process else st_slack_channel st))"
  by (rule round_announces_new_results [OF ex_debugging_run]) (simp add: ex_calls_def)

text \<open>C11. The next round announces no job that had ended by the clock of this one, whatever
  settings the reconciler changes in between: a result the round saw is not announced again.\<close>
theorem result_not_announced_again:
  assumes "maintainRunnerPods E runnerList pods p tr = (Ret p1, tr @ EvClock now # es)"
    and "p2 = snd (update_process parse_url rp p1)"
    and "maintainRunnerPods E' runnerList' pods' p2 tr' = (r, tr' @ EvClock now' # es')"
    and "EvNotify ch res ext ns name info err \<in> set es'"
  shows "\<exists>po st finished. po \<in> set pods' \<and> ns = po_namespace po \<and> name = po_name po \<and>
    EvGetStatus (po_ip po) (Inr st) \<in> set es' \<and> st_finished_at st = Some finished \<and> now < finished"
proof -
  from assms(1) have "p1 = p\<lparr>mp_last_check_time := now\<rparr>"
    by (rule maintain_runE) (auto split: outcome.splits)
  then have last: "mp_last_check_time p2 = now"
    by (simp add: assms(2) update_process_def Let_def split: prod.splits option.splits)
  from assms(3) obtain r' where "runs_of (pod_turn (round_of p2 now' runnerList')) pods' (removable_pods p2 pods') r' es'"
    by (rule maintain_runE) auto
  from this assms(4) obtain x s1 r1 es1 where x: "x \<in> set pods'"
    and t: "pod_turn (round_of p2 now' runnerList') x s1 r1 es1" "EvNotify ch res ext ns name info err \<in> set es1"
    and sub: "set es1 \<subseteq> set es'"
    by (rule runs_of_mem)
  from turn_notify [OF t] x sub last show ?thesis by (auto simp: round_of_def)
qed

definition ex_parse_url :: "string \<Rightarrow> go_error + server_url" where
  "ex_parse_url u = Inr \<lparr>url_scheme = ''http'', url_text = u\<rparr>"

definition ex_updated :: manage_process where
  "ex_updated = snd (update_process ex_parse_url ex_pool (ex_process\<lparr>mp_last_check_time := 1000\<rparr>))"

definition late_status :: "time option \<Rightarrow> status" where
  "late_status deletion = (ex_status RunnerPodStateDebugging 1500)\<lparr>st_deletion_time := deletion\<rparr>"

lemmas ex_update_defs = ex_updated_def update_process_def UpdateServerURL_def ex_parse_url_def
  ex_pool_def agent_name_def duration_or_zero_def parse_duration_def late_status_def

lemma ex_late_rounds:
  "maintainRunnerPods (ex_env 1000 (late_status None)) [] [] ex_process [] =
     (Ret (ex_process\<lparr>mp_last_check_time := 1000\<rparr>), [] @ EvClock 1000 # [])"
  "maintainRunnerPods (ex_env 2000 (late_status (Some 6500))) [] [ex_pod] ex_updated [] =
   (Ret (ex_updated\<lparr>mp_last_check_time := 2000\<rparr>), [] @ EvClock 2000 #
     [EvGetStatus ''10.0.0.1'' (Inr (late_status (Some 6500))),
      EvNotify ''#ci'' JobResultFailure False ''ns'' ''pod-1'' None None,
      EvPDB ex_pod None, EvRelabel ex_relabeled (Inr ex_relabeled), EvUnlink ex_unlinked (Inr ex_unlinked)])"
  by (simp_all add: ex_update_defs ex_round_defs fun_upd_twist)

theorem result_not_announced_again_witness:
  "\<exists>po st finished. po \<in> set [ex_pod] \<and> ''ns'' = po_namespace po \<and> ''pod-1'' = po_name po \<and>
    EvGetStatus (po_ip po) (Inr st) \<in> set [EvGetStatus ''10.0.0.1'' (Inr (late_status (Some 6500))),
      EvNotify ''#ci'' JobResultFailure False ''ns'' ''pod-1'' None None,
      EvPDB ex_pod None, EvRelabel ex_relabeled (Inr ex_relabeled), EvUnlink ex_unlinked (Inr ex_unlinked)] \<and>
    st_finished_at st = Some finished \<and> 1000 < finished"
  by (rule result_not_announced_again [OF ex_late_rounds(1) ex_updated_def ex_late_rounds(2),
        where ch = "''#ci''" and res = JobResultFailure and ext = False and info = None and err = None]) simp

text \<open>
  A job that ends between a round's clock and its status read is past the previous clock in two
  rounds: both announce it.
\<close>

lemma late_finish_announced_twice:
  "EvNotify ''#ci'' JobResultFailure True ''ns'' ''pod-1'' None None \<in>
     set (snd (maintainRunnerPods (ex_env 1000 (late_status None)) [] [ex_pod] ex_process [])) \<and>
   EvNotify ''#ci'' JobResultFailure True ''ns'' ''pod-1'' None None \<in>
     set (snd (maintainRunnerPods (ex_env 2000 (late_status (Some 6500))) [] [ex_pod]
       (ex_process\<lparr>mp_last_check_time := 1000\<rparr>) []))"
  by (simp add: late_status_def ex_round_defs)

text \<open>C12. A round sets the deletion time of a pod only for a finished job that asked for an
  extension and has no deletion time yet: to the end of the job plus the extend duration.\<close>
theorem round_puts_extension:
  assumes "maintainRunnerPods E runnerList pods p tr = (r, tr @ EvClock now # es)"
    and "EvPutDeletion ip t err \<in> set es"
  shows "\<exists>po st finished. po \<in> set pods \<and> ip = po_ip po \<and> EvGetStatus ip (Inr st) \<in> set es \<and>
    st_state st = RunnerPodStateDebugging \<and> st_deletion_time st = None \<and> st_extend st = Some True \<and>
    st_finished_at st = Some finished \<and> t = finished + mp_extend_duration p \<and> now \<le> t"
proof -
  from assms(1) obtain r' where "runs_of (pod_turn (round_of p now runnerList)) pods (removable_pods p pods) r' es"
    by (rule maintain_runE) auto
  from this assms(2) obtain x s1 r1 es1 where x: "x \<in> set pods"
    and t: "pod_turn (round_of p now runnerList) x s1 r1 es1" "EvPutDeletion ip t err \<in> set es1"
    and sub: "set es1 \<subseteq> set es"
    by (rule runs_of_mem)
  from turn_put [OF t] x sub show ?thesis by (auto simp: round_of_def needExtend_def)
qed

theorem round_puts_extension_witness:
  "\<exists>po st finished. po \<in> set [ex_pod] \<and> ''10.0.0.1'' = po_ip po \<and>
    EvGetStatus ''10.0.0.1'' (Inr st) \<in> set ex_calls \<and>
    st_state st = RunnerPodStateDebugging \<and> st_deletion_time st = None \<and> st_extend st = Some True \<and>
    st_finished_at st = Some finished \<and> 5600 = finished + mp_extend_duration ex_process \<and> 1000 \<le> (5600::int)"
  by (rule round_puts_extension [OF ex_debugging_run]) (simp add: ex_calls_def)

section \<open>Panics\<close>

text \<open>C13. The manager does not panic on the pods of its pool: if every status it reads is read
  over HTTP from a runner pod in a reachable state of the runner program, and the listed pods have
  labels, a round of maintenance returns.\<close>
theorem round_no_panic:
  assumes status: "\<And>tr ip st. me_status E tr ip = Inr st \<Longrightarrow>
      \<exists>net r s. GetStatus net ip = Inr st \<and> net_pods net ip = Some r \<and> pod_reachable parse_json s \<and> sys_runner s = r"
    and labels: "\<And>po. po \<in> set pods \<Longrightarrow> po_labels po \<noteq> None"
  shows "fst (maintainRunnerPods E runnerList pods p tr) \<noteq> Panic"
proof -
  have finished: "st_finished_at st \<noteq> None"
    if st: "me_status E tr ip = Inr st" "st_state st = RunnerPodStateDebugging" for tr ip st
  proof -
    from status [OF st(1)] obtain net r s where get: "GetStatus net ip = Inr st" "net_pods net ip = Some r"
      and s: "pod_reachable parse_json s" "sys_runner s = r" by blast
    from get have "st = runner_status r" by (auto simp: GetStatus_eq)
    with status_inv_reachable [OF s(1)] s(2) st(2) show ?thesis
      by (simp add: status_inv_def status_shape_def)
  qed
  have turn: "ensures (maintain_pod E rd po n) (\<lambda>r es. r \<noteq> Panic)" if "po \<in> set pods" for rd po n
  proof (rule ensures_mono [OF maintain_pod_asks], rule notI)
    fix r es
    assume *: "pod_turn rd po n r es \<and>
      (es \<noteq> [] \<longrightarrow> (\<exists>tr. hd es = EvGetStatus (po_ip po) (me_status E tr (po_ip po))))" and "r = Panic"
    with turn_panic [of rd po n es] labels [OF that] obtain st
      where st: "EvGetStatus (po_ip po) (Inr st) \<in> set es" "st_state st = RunnerPodStateDebugging"
        "st_finished_at st = None" by auto
    from st(1) have "es \<noteq> []" by auto
    with * obtain tr where tr: "hd es = EvGetStatus (po_ip po) (me_status E tr (po_ip po))" by blast
    from * have "pod_turn rd po n r es" ..
    from turn_status [OF this st(1)] tr have "me_status E tr (po_ip po) = Inr st" by simp
    with finished st show False by blast
  qed
  have "ensures (maintainRunnerPods E runnerList pods p) (\<lambda>r es. r \<noteq> Panic)"
    unfolding maintainRunnerPods_def
    apply (rule ensures_and_then, rule ensures_ext_call)
    apply (simp add: maintain_pods_def)
    apply (rule ensures_and_then, rule ensures_mono [OF ensures_for_each_no_panic [OF turn]])
     apply (auto split: outcome.splits intro: ensures_ret)
    done
  then show ?thesis by (auto simp: ensures_def)
qed

theorem round_no_panic_witness:
  "fst (maintainRunnerPods ((ex_env 1000 (ex_status RunnerPodStateStale 0))\<lparr>me_status :=
     (\<lambda>_ ip. GetStatus \<lparr>net_pods = Map.empty(''10.0.0.1'' \<mapsto> sys_runner (pod_init ex_runner ex_files)),
        net_link = (\<lambda>_. Up)\<rparr> ip)\<rparr>) [] [ex_pod] ex_process []) \<noteq> Panic"
proof (rule round_no_panic [where parse_json = "\<lambda>_. None"])
  fix tr ip st
  let ?net = "\<lparr>net_pods = Map.empty(''10.0.0.1'' \<mapsto> sys_runner (pod_init ex_runner ex_files)), net_link = (\<lambda>_. Up)\<rparr>"
  assume "me_status ((ex_env 1000 (ex_status RunnerPodStateStale 0))\<lparr>me_status := (\<lambda>_ ip. GetStatus ?net ip)\<rparr>) tr ip = Inr st"
  then have get: "GetStatus ?net ip = Inr st" by simp
  then obtain r where "net_pods ?net ip = Some r" by (auto simp: GetStatus_eq)
  moreover from this have "r = sys_runner (pod_init ex_runner ex_files)" by (auto split: if_splits)
  ultimately show "\<exists>net r s. GetStatus net ip = Inr st \<and> net_pods net ip = Some r \<and>
      pod_reachable (\<lambda>_. None) s \<and> sys_runner s = r"
    using get ex_pod_reachable
    by (intro exI [of _ ?net] exI [of _ r] exI [of _ "pod_init ex_runner ex_files"]) simp
qed (simp add: ex_pod_def)

end
