(* ===== verification/Manager_Cleanup.thy ===== *)
theory Manager_Cleanup
  imports Manager_Props
begin

text \<open>
  What the runner manager leaves behind outside the cluster: the metrics of its pool, during its
  life and after its end, and the runners registered in GitHub, over any client that keeps the
  contract \<open>github_client\<close>.
\<close>

section \<open>Metrics\<close>

abbreviation show_runner :: "string \<Rightarrow> runner_info \<Rightarrow> controller_metrics \<Rightarrow> controller_metrics" where
  "show_runner key r \<equiv> UpdateRunnerMetrics key (ri_name r) (ri_online r) (ri_busy r)"

lemma metrics_ok_fold: "metrics_ok m \<Longrightarrow> metrics_ok (fold (show_runner key) rs m)"
  by (induction rs arbitrary: m) (simp_all add: metrics_ok_update)

lemma labels_of_fold [simp]:
  "labels_of q (fold (show_runner key) rs m) =
     (if q = key then labels_of q m \<union> ri_name ` set rs else labels_of q m)"
  by (induction rs arbitrary: m) auto

lemma pool_replicas_fold [simp]: "pool_replicas (fold (show_runner key) rs m) = pool_replicas m"
  by (induction rs arbitrary: m) (simp_all add: UpdateRunnerMetrics_def Let_def)

lemma runner_gauges_update:
  "runner_online (UpdateRunnerMetrics key n on b m) = (runner_online m)((key, n) \<mapsto> (if on then 1 else 0))"
  "runner_busy (UpdateRunnerMetrics key n on b m) = (runner_busy m)((key, n) \<mapsto> (if b then 1 else 0))"
  by (simp_all add: UpdateRunnerMetrics_def Let_def)

lemma fold_gauges_other:
  "q \<noteq> key \<or> n \<notin> ri_name ` set rs \<Longrightarrow>
   runner_online (fold (show_runner key) rs m) (q, n) = runner_online m (q, n) \<and>
   runner_busy (fold (show_runner key) rs m) (q, n) = runner_busy m (q, n)"
  by (induction rs arbitrary: m) (auto simp: runner_gauges_update)

lemma fold_gauges:
  "distinct (map ri_name rs) \<Longrightarrow> r \<in> set rs \<Longrightarrow>
   runner_online (fold (show_runner key) rs m) (key, ri_name r) = Some (if ri_online r then 1 else 0) \<and>
   runner_busy (fold (show_runner key) rs m) (key, ri_name r) = Some (if ri_busy r then 1 else 0)"
proof (induction rs arbitrary: m)
  case (Cons x xs)
  show ?case
  proof (cases "r = x")
    case True
    with Cons.prems have "ri_name x \<notin> ri_name ` set xs" by auto
    with True fold_gauges_other [of key key "ri_name x" xs] show ?thesis
      by (simp add: runner_gauges_update)
  qed (use Cons in auto)
qed simp

lemma delete_gauges:
  "n \<notin> set rs \<or> q \<noteq> key \<Longrightarrow>
   runner_online (DeleteRunnerMetrics key rs m) (q, n) = runner_online m (q, n) \<and>
   runner_busy (DeleteRunnerMetrics key rs m) (q, n) = runner_busy m (q, n)"
  by (auto simp: DeleteRunnerMetrics_def drop_keys_def Let_def split: option.splits)

lemma pool_replicas_delete [simp]: "pool_replicas (DeleteRunnerMetrics key rs m) = pool_replicas m"
  by (simp add: DeleteRunnerMetrics_def Let_def split: option.splits)

lemma pool_metrics_frame [simp]:
  "labels_of q (UpdateRunnerPoolMetrics key n m) = labels_of q m"
  "runner_online (UpdateRunnerPoolMetrics key n m) = runner_online m"
  "runner_busy (UpdateRunnerPoolMetrics key n m) = runner_busy m"
  by (simp_all add: labels_of_def UpdateRunnerPoolMetrics_def)

lemma shown_iff_label: "metrics_ok m \<Longrightarrow> runner_online m (q, n) \<noteq> None \<longleftrightarrow> n \<in> labels_of q m"
  by (auto simp: metrics_ok_def label_pairs_def dom_def set_eq_iff)

lemma metrics_ok_updateMetrics:
  "updateMetrics rs (p, m) = (p', m') \<Longrightarrow> metrics_ok m \<Longrightarrow>
   metrics_ok m' \<and> rpNamespacedName p' = rpNamespacedName p"
  by (auto simp: updateMetrics_def Let_def metrics_ok_fold metrics_ok_delete rpNamespacedName_def)

text \<open>C14. After each listing, the metrics of a pool show exactly the listed runners, each with its
  listed state, beside the wanted replicas; runners that left GitHub are gone; the metrics of the
  other pools are untouched; and the invariant that makes it so holds again.\<close>
theorem metrics_follow_listing:
  assumes "metrics_ok m" and "labels_of (rpNamespacedName p) m = set (mp_prev_runner_names p)"
    and "distinct (map ri_name rs)" and "updateMetrics rs (p, m) = (p', m')"
  shows "metrics_ok m' \<and> labels_of (rpNamespacedName p) m' = set (mp_prev_runner_names p') \<and>
    {n. runner_online m' (rpNamespacedName p, n) \<noteq> None} = ri_name ` set rs \<and>
    (\<forall>r \<in> set rs. runner_online m' (rpNamespacedName p, ri_name r) = Some (if ri_online r then 1 else 0) \<and>
       runner_busy m' (rpNamespacedName p, ri_name r) = Some (if ri_busy r then 1 else 0)) \<and>
    pool_replicas m' (rpNamespacedName p) = Some (sint (mp_replicas p)) \<and>
    (\<forall>q n. q \<noteq> rpNamespacedName p \<longrightarrow> runner_online m' (q, n) = runner_online m (q, n))"
proof -
  let ?key = "rpNamespacedName p"
  let ?removed = "difference (mp_prev_runner_names p) (map ri_name rs)"
  let ?m2 = "fold (show_runner ?key) rs (UpdateRunnerPoolMetrics ?key (sint (mp_replicas p)) m)"
  from assms(4) have m': "m' = DeleteRunnerMetrics ?key ?removed ?m2"
    and p': "mp_prev_runner_names p' = map ri_name rs"
    by (auto simp: updateMetrics_def Let_def)
  from metrics_ok_updateMetrics [OF assms(4,1)] have ok: "metrics_ok m'" by simp
  have labels: "labels_of ?key m' = ri_name ` set rs"
    unfolding m' by (auto simp: assms(2) difference_def)
  moreover have "{n. runner_online m' (?key, n) \<noteq> None} = ri_name ` set rs"
    using labels shown_iff_label [OF ok] by blast
  moreover have "\<forall>r \<in> set rs. runner_online m' (?key, ri_name r) = Some (if ri_online r then 1 else 0) \<and>
      runner_busy m' (?key, ri_name r) = Some (if ri_busy r then 1 else 0)"
  proof
    fix r
    assume "r \<in> set rs"
    moreover from this have "ri_name r \<notin> set ?removed" by (auto simp: difference_def)
    ultimately show "runner_online m' (?key, ri_name r) = Some (if ri_online r then 1 else 0) \<and>
        runner_busy m' (?key, ri_name r) = Some (if ri_busy r then 1 else 0)"
      unfolding m' using fold_gauges [OF assms(3)] delete_gauges [of "ri_name r" ?removed ?key ?key ?m2]
      by auto
  qed
  moreover have "pool_replicas m' ?key = Some (sint (mp_replicas p))"
    unfolding m' by (simp add: UpdateRunnerPoolMetrics_def)
  moreover have "\<forall>q n. q \<noteq> ?key \<longrightarrow> runner_online m' (q, n) = runner_online m (q, n)"
    unfolding m' by (auto simp: delete_gauges fold_gauges_other)
  ultimately show ?thesis using ok p' by simp
qed

lemma gauges_delete_all:
  "metrics_ok m \<Longrightarrow> runner_online (DeleteAllRunnerMetrics key m) (key, n) = None \<and>
   runner_busy (DeleteAllRunnerMetrics key m) (key, n) = None"
proof -
  assume "metrics_ok m"
  then have "metrics_ok (DeleteAllRunnerMetrics key m)" by (rule metrics_ok_delete_all)
  then have "(key, n) \<notin> dom (runner_online (DeleteAllRunnerMetrics key m))"
    and "(key, n) \<notin> dom (runner_busy (DeleteAllRunnerMetrics key m))"
    by (simp_all add: metrics_ok_def label_pairs_def)
  then show ?thesis by (simp add: domIff)
qed

theorem metrics_follow_listing_witness:
  "metrics_ok (snd (updateMetrics [\<lparr>ri_id = 1, ri_name = ''a'', ri_online = True, ri_busy = False, ri_labels = []\<rparr>]
     (ex_process, InitControllerMetrics)))"
  using metrics_follow_listing [of InitControllerMetrics ex_process
      "[\<lparr>ri_id = 1, ri_name = ''a'', ri_online = True, ri_busy = False, ri_labels = []\<rparr>]"]
  by (simp add: metrics_ok_init prod_eq_iff)
     (simp add: ex_process_def InitControllerMetrics_def labels_of_def)

lemma deleteMetrics_gone:
  assumes "metrics_ok m"
  shows "metrics_ok (deleteMetrics key m) \<and> pool_replicas (deleteMetrics key m) key = None \<and>
    runner_online (deleteMetrics key m) (key, n) = None \<and> runner_busy (deleteMetrics key m) (key, n) = None"
  using gauges_delete_all [OF assms, of key n] metrics_ok_delete_all [OF assms, of key]
  by (simp add: deleteMetrics_def) (simp add: DeleteRunnerPoolMetrics_def)

section \<open>Removing runners\<close>

text \<open>The runs of a removal loop: every call succeeds, or the first that fails ends it.\<close>

definition removed_ok :: "manage_process \<Rightarrow> runner_info \<Rightarrow> mgr_event" where
  "removed_ok p x = EvRemoveRunner (mp_owner p) (mp_repo p) (ri_id x) None"

definition removal_run ::
  "manage_process \<Rightarrow> runner_info list \<Rightarrow> go_error option outcome \<Rightarrow> mgr_event list \<Rightarrow> bool" where
  "removal_run p rs r es \<longleftrightarrow>
     r = Ret None \<and> es = map (removed_ok p) rs \<or>
     (\<exists>e pre x post. rs = pre @ x # post \<and> r = Ret (Some e) \<and>
        es = map (removed_ok p) pre @ [EvRemoveRunner (mp_owner p) (mp_repo p) (ri_id x) (Some e)])"

lemma removal_run_Cons:
  "removal_run p xs r es \<Longrightarrow> removal_run p (x # xs) r (removed_ok p x # es)"
  unfolding removal_run_def by (metis append_Cons list.simps(9))

lemma remove_loop_runs: "ensures (for_each_err (remove_runner E p) rs) (removal_run p rs)"
proof (induction rs)
  case Nil
  then show ?case by (simp add: ensures_ret removal_run_def)
next
  case (Cons x xs)
  show ?case
    unfolding for_each_err.simps remove_runner_def
    apply (rule ensures_and_then, rule ensures_ext_call)
    apply (auto split: option.splits intro!: ensures_ret)
     apply (rule ensures_mono [OF Cons.IH [unfolded remove_runner_def]])
     apply (simp add: removal_run_Cons [unfolded removed_ok_def])
    apply (auto simp: removal_run_def)
    done
qed

lemma for_each_err_skip:
  "for_each_err (\<lambda>r. if c r then ret None else f r) xs = for_each_err f (filter (\<lambda>r. \<not> c r) xs)"
  by (induction xs) (auto simp: prog_defs split: prod.splits outcome.splits)

definition offline_runners :: "runner_info list \<Rightarrow> pod list \<Rightarrow> runner_info list" where
  "offline_runners rs pods = filter (\<lambda>r. \<not> ri_online r \<and> \<not> podExists (ri_name r) pods) rs"

lemma deleteOfflineRunners_loop:
  "deleteOfflineRunners E p rs pods = for_each_err (remove_runner E p) (offline_runners rs pods)"
  by (simp add: deleteOfflineRunners_def for_each_err_skip offline_runners_def)

lemma deleteOfflineRunners_runs:
  "ensures (deleteOfflineRunners E p rs pods) (removal_run p (offline_runners rs pods))"
  unfolding deleteOfflineRunners_loop by (rule remove_loop_runs)

section \<open>The end of a process\<close>

definition same_pool :: "manage_process \<Rightarrow> manage_process \<Rightarrow> bool" where
  "same_pool p q \<longleftrightarrow> rpNamespacedName p = rpNamespacedName q"

lemma maintain_same_pool:
  "ensures (maintainRunnerPods E rs pods p) (\<lambda>r es. \<forall>p'. r = Ret p' \<longrightarrow> same_pool p p')"
  by (rule ensures_mono [OF maintainRunnerPods_runs])
    (auto simp: maintain_run_def same_pool_def rpNamespacedName_def split: outcome.splits, metis outcome.exhaust)

lemma runOnce_metrics:
  assumes "metrics_ok m"
  shows "ensures (runOnce E (p, m)) (\<lambda>r es. \<forall>err p' m'. r = Ret (err, p', m') \<longrightarrow> metrics_ok m' \<and> same_pool p p')"
proof -
  define p1 where "p1 rs = fst (updateMetrics rs (p, m))" for rs
  define m1 where "m1 rs = snd (updateMetrics rs (p, m))" for rs
  have um: "updateMetrics rs (p, m) = (p1 rs, m1 rs)" for rs by (simp add: p1_def m1_def)
  have ok: "metrics_ok (m1 rs) \<and> same_pool p (p1 rs)" for rs
    using metrics_ok_updateMetrics [OF um assms] by (simp add: same_pool_def)
  show ?thesis
    unfolding runOnce_def fetchRunnerPods_def fetchRunners_def
    apply (simp add: um)
    apply (rule ensures_and_then, rule ensures_ext_call)
    apply (auto split: sum.splits simp: assms same_pool_def intro!: ensures_ret)
    apply (rule ensures_and_then, rule ensures_ext_call)
    apply (auto split: sum.splits simp: assms same_pool_def intro!: ensures_ret)
    apply (rule ensures_and_then, rule ensures_mono [OF maintain_same_pool])
    apply (auto split: outcome.splits)
    apply (rule ensures_and_then, rule ensures_mono [OF deleteOfflineRunners_runs])
    using ok apply (auto split: outcome.splits simp: same_pool_def intro!: ensures_ret)
    done
qed

lemma update_process_same_pool: "same_pool p (snd (update_process parse_url rp p))"
  by (simp add: update_process_def same_pool_def rpNamespacedName_def Let_def split: prod.splits option.splits)

lemma run_loop_metrics:
  "metrics_ok m \<Longrightarrow> ensures (run_loop E parse_url ws (p, m))
     (\<lambda>r es. \<forall>st p' m'. r = Ret (st, p', m') \<longrightarrow> metrics_ok m' \<and> same_pool p p')"
proof (induction ws arbitrary: p m)
  case Nil
  then show ?case by (auto simp: same_pool_def intro!: ensures_ret)
next
  case (Cons w ws)
  show ?case
  proof (cases w)
    case Tick
    show ?thesis
      unfolding Tick run_loop.simps
      apply (rule ensures_and_then, rule ensures_mono [OF runOnce_metrics [OF Cons.prems]])
      apply (auto split: outcome.splits)
      apply (rule ensures_mono [OF Cons.IH])
       apply (auto simp: same_pool_def)
      done
  next
    case Done
    with Cons.prems show ?thesis by (auto simp: same_pool_def intro!: ensures_ret)
  next
    case (Configured rp)
    with Cons.IH [OF Cons.prems] update_process_same_pool [of p parse_url rp] show ?thesis
      by (auto simp: same_pool_def elim!: ensures_mono)
  qed
qed

lemma deleteAllRunners_runs:
  "ensures (deleteAllRunners E p) (\<lambda>r es. r \<noteq> Panic)"
  unfolding deleteAllRunners_def fetchRunners_def
  apply (rule ensures_and_then, rule ensures_ext_call)
  apply (auto split: sum.splits intro!: ensures_ret)
  apply (rule ensures_mono [OF remove_loop_runs])
  apply (auto simp: removal_run_def)
  done

text \<open>C15. However a process ran, once its goroutine has ended no metric of its pool is left, and the
  invariant of the metrics holds.\<close>
theorem metrics_gone_after_stop:
  assumes "metrics_ok m" and "manage_goroutine E parse_url ws (p, m) tr = (Ret (Stopped, p', m'), tr @ es)"
  shows "metrics_ok m' \<and> pool_replicas m' (rpNamespacedName p) = None \<and>
    runner_online m' (rpNamespacedName p, n) = None \<and> runner_busy m' (rpNamespacedName p, n) = None"
proof -
  have "ensures (manage_goroutine E parse_url ws (p, m)) (\<lambda>r es. \<forall>p' m'. r = Ret (Stopped, p', m') \<longrightarrow>
      (\<exists>m0. metrics_ok m0 \<and> m' = deleteMetrics (rpNamespacedName p) m0))"
    unfolding manage_goroutine_def
    apply (rule ensures_and_then, rule ensures_mono [OF run_loop_metrics [OF assms(1)]])
    apply (auto split: outcome.splits loop_state.splits simp: Let_def intro!: ensures_ret)
    apply (rule ensures_and_then, rule ensures_mono [OF deleteAllRunners_runs])
    apply (auto split: outcome.splits simp: same_pool_def intro!: ensures_ret)
    done
  from ensuresD [OF this assms(2)] obtain m0
    where "metrics_ok m0" and "m' = deleteMetrics (rpNamespacedName p) m0" by blast
  with deleteMetrics_gone [of m0 "rpNamespacedName p" n] show ?thesis by simp
qed

lemma ex_goroutine:
  "manage_goroutine (ex_env 1000 (ex_status RunnerPodStateStale 0)) ex_parse_url [Tick, Done] (ex_process, InitControllerMetrics) [] =
   (Ret (Stopped, ex_process\<lparr>mp_last_check_time := 1000\<rparr>, InitControllerMetrics),
    [] @ [EvListPods ''ns'' (runner_selector ex_process) (Inr [ex_pod]),
      EvListRunners ''org'' '''' [''ns/pool''] (Inr []), EvClock 1000,
      EvGetStatus ''10.0.0.1'' (Inr (ex_status RunnerPodStateStale 0)), EvDelete ex_pod None,
      EvListRunners ''org'' '''' [''ns/pool''] (Inr [])])"
  by (simp add: ex_round_defs manage_goroutine_def runOnce_def fetchRunnerPods_def fetchRunners_def
      updateMetrics_def difference_def deleteOfflineRunners_def deleteAllRunners_def deleteMetrics_def
      rpNamespacedName_def runner_selector_def InitControllerMetrics_def UpdateRunnerPoolMetrics_def
      DeleteRunnerPoolMetrics_def DeleteRunnerMetrics_def DeleteAllRunnerMetrics_def)

theorem metrics_gone_after_stop_witness:
  "pool_replicas InitControllerMetrics (rpNamespacedName ex_process) = None"
  using metrics_gone_after_stop [OF metrics_ok_init ex_goroutine] by simp

text \<open>A round removes from GitHub exactly the listed runners that are offline and have no pod,
  in the order of the listing; the first failure ends the removals and is the error returned.\<close>
theorem offline_runners_removed:
  assumes "deleteOfflineRunners E p rs pods tr = (r, tr @ es)"
  shows "r = Ret None \<and> es = map (removed_ok p) (offline_runners rs pods) \<or>
    (\<exists>e pre x post. offline_runners rs pods = pre @ x # post \<and> r = Ret (Some e) \<and>
       es = map (removed_ok p) pre @ [EvRemoveRunner (mp_owner p) (mp_repo p) (ri_id x) (Some e)])"
  using ensuresD [OF deleteOfflineRunners_runs assms] by (simp add: removal_run_def)

section \<open>Over a client of GitHub\<close>

text \<open>
  A manager whose runner calls go to a client with a state: after a history, the state is the
  start state with the removals of the history applied.
\<close>

fun replay_removals ::
  "('s \<Rightarrow> string \<Rightarrow> string \<Rightarrow> int \<Rightarrow> go_error option \<times> 's) \<Rightarrow> 's \<Rightarrow> mgr_event list \<Rightarrow> 's" where
  "replay_removals remove s [] = s"
| "replay_removals remove s (EvRemoveRunner ow re i _ # es) =
     replay_removals remove (snd (remove s ow re i)) es"
| "replay_removals remove s (_ # es) = replay_removals remove s es"

lemma replay_removals_append:
  "replay_removals remove s (es @ es') = replay_removals remove (replay_removals remove s es) es'"
  by (induction remove s es rule: replay_removals.induct) simp_all

definition manager_on ::
  "('s \<Rightarrow> string \<Rightarrow> string \<Rightarrow> string list \<Rightarrow> go_error + runner_info list) \<Rightarrow>
   ('s \<Rightarrow> string \<Rightarrow> string \<Rightarrow> int \<Rightarrow> go_error option \<times> 's) \<Rightarrow> 's \<Rightarrow> mgr_env \<Rightarrow> mgr_env" where
  "manager_on list_runners remove s0 E = E\<lparr>
     me_list_runners := (\<lambda>tr ow re ls. list_runners (replay_removals remove s0 tr) ow re ls),
     me_remove := (\<lambda>tr ow re i. fst (remove (replay_removals remove s0 tr) ow re i))\<rparr>"

context github_client begin

lemma remove_loop:
  "\<exists>tr'. for_each_err (remove_runner (manager_on list_runners remove s0 E) p) rs tr =
      (Ret (fst (remove_all (replay_removals remove s0 tr) (mp_owner p) (mp_repo p) (map ri_id rs))), tr') \<and>
    replay_removals remove s0 tr' =
      snd (remove_all (replay_removals remove s0 tr) (mp_owner p) (mp_repo p) (map ri_id rs))"
proof (induction rs arbitrary: tr)
  case Nil
  then show ?case by (simp add: prog_defs)
next
  case (Cons x xs)
  let ?s = "replay_removals remove s0 tr"
  obtain e s1 where r: "remove ?s (mp_owner p) (mp_repo p) (ri_id x) = (e, s1)"
    by (cases "remove ?s (mp_owner p) (mp_repo p) (ri_id x)")
  let ?tr1 = "tr @ [EvRemoveRunner (mp_owner p) (mp_repo p) (ri_id x) e]"
  have s1: "replay_removals remove s0 ?tr1 = s1" by (simp add: replay_removals_append r)
  show ?case
  proof (cases e)
    case None
    with r s1 Cons.IH [of ?tr1] show ?thesis
      by (auto simp: prog_defs remove_runner_def manager_on_def)
  next
    case (Some err)
    with r s1 show ?thesis by (simp add: prog_defs remove_runner_def manager_on_def)
  qed
qed

lemma removes_selection:
  assumes "ok (replay_removals remove s0 tr)"
    and "list_runners (replay_removals remove s0 tr) (mp_owner p) (mp_repo p) ls = Inr rs"
    and "list_runners (replay_removals remove s0 tr) (mp_owner p) (mp_repo p) ls' = Inr rs'"
  shows "\<exists>tr'. for_each_err (remove_runner (manager_on list_runners remove s0 E) p) (filter c rs) tr = (Ret None, tr') \<and>
    list_runners (replay_removals remove s0 tr') (mp_owner p) (mp_repo p) ls' =
      Inr (filter (\<lambda>x. ri_id x \<notin> ri_id ` set (filter c rs)) rs')"
proof -
  have "distinct (map ri_id (filter c rs))"
    using list_ids [OF assms(1,2)] by (simp add: distinct_map_filter)
  moreover have "set (map ri_id (filter c rs)) \<subseteq> ri_id ` set rs" by auto
  ultimately obtain s' where "remove_all (replay_removals remove s0 tr) (mp_owner p) (mp_repo p)
        (map ri_id (filter c rs)) = (None, s')"
    and "list_runners s' (mp_owner p) (mp_repo p) ls' = Inr (filter (\<lambda>x. ri_id x \<notin> set (map ri_id (filter c rs))) rs')"
    using remove_all_listed [OF assms(1,2,3), of "map ri_id (filter c rs)"] by blast
  with remove_loop [of s0 E p "filter c rs" tr] show ?thesis by auto
qed

text \<open>The end of a process removes the runners of its pool and no other.\<close>

lemma deleteAllRunners_removes:
  assumes "ok s0" and "list_runners s0 (mp_owner p) (mp_repo p) [rpNamespacedName p] = Inr rs"
    and "list_runners s0 (mp_owner p) (mp_repo p) ls' = Inr rs'"
  shows "\<exists>tr'. deleteAllRunners (manager_on list_runners remove s0 E) p [] = (Ret None, tr') \<and>
    list_runners (replay_removals remove s0 tr') (mp_owner p) (mp_repo p) ls' =
      Inr (filter (\<lambda>x. ri_id x \<notin> ri_id ` set rs) rs')"
proof -
  let ?tr = "[EvListRunners (mp_owner p) (mp_repo p) [rpNamespacedName p] (Inr rs)]"
  have "fetchRunners (manager_on list_runners remove s0 E) p [] = (Ret (Inr rs), ?tr)"
    using assms(2) by (simp add: fetchRunners_def prog_defs manager_on_def)
  moreover have "\<exists>tr'. for_each_err (remove_runner (manager_on list_runners remove s0 E) p) rs ?tr = (Ret None, tr') \<and>
      list_runners (replay_removals remove s0 tr') (mp_owner p) (mp_repo p) ls' =
        Inr (filter (\<lambda>x. ri_id x \<notin> ri_id ` set rs) rs')"
    using removes_selection [of s0 ?tr p "[rpNamespacedName p]" rs ls' rs' E "\<lambda>_. True"] assms by simp
  ultimately show ?thesis by (auto simp: deleteAllRunners_def and_then_def)
qed

text \<open>A round's clean-up leaves exactly the runners that are online or have a pod.\<close>

lemma deleteOfflineRunners_leaves:
  assumes "ok s0" and "list_runners s0 (mp_owner p) (mp_repo p) ls = Inr rs"
  shows "\<exists>tr'. deleteOfflineRunners (manager_on list_runners remove s0 E) p rs pods [] = (Ret None, tr') \<and>
    list_runners (replay_removals remove s0 tr') (mp_owner p) (mp_repo p) ls =
      Inr (filter (\<lambda>r. ri_online r \<or> podExists (ri_name r) pods) rs)"
proof -
  have "filter (\<lambda>x. ri_id x \<notin> ri_id ` set (filter (\<lambda>r. \<not> ri_online r \<and> \<not> podExists (ri_name r) pods) rs)) rs =
      filter (\<lambda>r. ri_online r \<or> podExists (ri_name r) pods) rs"
  proof (rule filter_cong [OF refl])
    fix x
    assume x: "x \<in> set rs"
    from list_ids [OF assms] have inj: "inj_on ri_id (set rs)" by (simp add: distinct_map)
    show "(ri_id x \<notin> ri_id ` set (filter (\<lambda>r. \<not> ri_online r \<and> \<not> podExists (ri_name r) pods) rs)) =
        (ri_online x \<or> podExists (ri_name x) pods)"
      using x inj_onD [OF inj] by auto
  qed
  with removes_selection [of s0 "[]" p ls rs ls rs E "\<lambda>r. \<not> ri_online r \<and> \<not> podExists (ri_name r) pods"] assms
  show ?thesis by (simp add: deleteOfflineRunners_loop offline_runners_def)
qed

end


definition ex_github :: fake_runners where
  "ex_github = (\<lambda>_. [])(''org'' :=
     [\<lparr>ri_id = 1, ri_name = ''pod-1'', ri_online = False, ri_busy = False, ri_labels = [''ns/pool'']\<rparr>,
      \<lparr>ri_id = 2, ri_name = ''other'', ri_online = False, ri_busy = False, ri_labels = []\<rparr>])"

lemma ex_github_distinct: "distinct_ids ex_github"
  by (simp add: distinct_ids_def ex_github_def)

lemmas ex_github_defs = ex_github_def fake_ListRunners_def hasLabels_def genKey_def ex_process_def
  rpNamespacedName_def




end
