(* ===== verification/Pool_Life.thy ===== *)
theory Pool_Life
  imports Manager_Cleanup
begin

text \<open>
  The runner manager together with the pods it manages: the pods of a pool take steps of their own
  (\<open>pod_step\<close>) between any two calls of the manager, and the manager's calls to the pods are
  answered by them over the network. For the whole life of a manager process this shows what its
  deletions can hit: no pod whose job GitHub lists as running.
\<close>

section \<open>A pod after its job\<close>

text \<open>
  A pod is spent when its started flag is set and its program is past its job, or has not begun
  again after a restart. Nothing that can happen to a spent pod starts another job.
\<close>

definition spent :: "pod_sys \<Rightarrow> bool" where
  "spent s \<longleftrightarrow> started s \<and> (sys_pc s = AtStart \<or> sys_pc s = WaitDone \<or> (\<exists>e. sys_pc s = Exited e))"

lemma spent_step: "pod_step parse_json s t \<Longrightarrow> spent s \<Longrightarrow> spent t \<and> sys_calls t = sys_calls s"
  by (erule pod_stepE)
    (auto simp: spent_def started_def isFileExists_def listener_step_def Let_def enter_state_def
      updateState_def)

text \<open>Whatever happens to the pod from here, it runs no command and does not listen for a job.\<close>

definition job_over :: "(string \<Rightarrow> json option) \<Rightarrow> pod_sys \<Rightarrow> bool" where
  "job_over parse_json s \<longleftrightarrow>
     (\<forall>t. rtranclp (pod_step parse_json) s t \<longrightarrow> sys_pc t \<noteq> Listening \<and> sys_calls t = sys_calls s)"

lemma spent_steps:
  "rtranclp (pod_step parse_json) s t \<Longrightarrow> spent s \<Longrightarrow> spent t \<and> sys_calls t = sys_calls s"
  by (induction rule: rtranclp_induct) (auto dest: spent_step)

lemma spent_not_listening: "spent s \<Longrightarrow> sys_pc s \<noteq> Listening"
  by (auto simp: spent_def)

lemma spent_job_over: "spent s \<Longrightarrow> job_over parse_json s"
  unfolding job_over_def using spent_steps spent_not_listening by blast

text \<open>A pod that shows itself stale or finished is spent.\<close>

definition over_inv :: "pod_sys \<Rightarrow> bool" where
  "over_inv s \<longleftrightarrow> (rn_state (sys_runner s) \<in> {RunnerPodStateStale, RunnerPodStateDebugging} \<longrightarrow> spent s)"

lemma over_inv_main:
  assumes "job_inv s" and "over_inv s"
  shows "over_inv (listener_step parse_json a s)"
proof (cases "spent s")
  case True
  then have "spent (listener_step parse_json a s)"
    by (auto simp: spent_def started_def isFileExists_def listener_step_def Let_def enter_state_def updateState_def)
  then show ?thesis by (simp add: over_inv_def)
next
  case False
  with assms(2) have idle: "rn_state (sys_runner s) \<noteq> RunnerPodStateStale" "rn_state (sys_runner s) \<noteq> RunnerPodStateDebugging"
    by (auto simp: over_inv_def)
  have started: "started s" if "sys_pc s = AtFinish" using assms(1) that by (auto simp: job_inv_def)
  show ?thesis
    by (cases "sys_pc s")
      (use idle started in \<open>auto simp: over_inv_def spent_def started_def isFileExists_def listener_step_def
        Let_def enter_state_def updateState_def fail_or_def record_call_def meows_consts
        split: option.splits pod_file.splits\<close>)
qed

lemma over_inv_step:
  assumes "pod_step parse_json s t" and "job_inv s" and "over_inv s"
  shows "over_inv t"
  using assms(1)
proof cases
  case (main a)
  with over_inv_main [OF assms(2,3)] show ?thesis by simp
next
  case (http req)
  with assms(3) show ?thesis by (auto simp: over_inv_def spent_def started_def isFileExists_def)
next
  case (job fs)
  with assms(3) show ?thesis by (auto simp: over_inv_def spent_def started_def isFileExists_def)
next
  case (token f)
  with assms(3) show ?thesis by (auto simp: over_inv_def spent_def started_def isFileExists_def)
next
  case restart
  then show ?thesis by (simp add: over_inv_def fresh_runner_def meows_consts)
qed

lemma over_inv_reachable: "pod_reachable parse_json s \<Longrightarrow> over_inv s"
proof (induction rule: pod_reachable.induct)
  case (init fs r)
  show ?case by (simp add: over_inv_def pod_init_def fresh_runner_def meows_consts)
next
  case (step s t)
  then show ?case using over_inv_step job_inv_reachable by blast
qed

section \<open>The manager among its pods\<close>

text \<open>
  The pods by address, and the network they are reached over. Addresses are those of the pods there
  have been; none is given to another pod.
\<close>

type_synonym pods = "string \<rightharpoonup> pod_sys"

definition net_of :: "(string \<Rightarrow> link) \<Rightarrow> pods \<Rightarrow> network" where
  "net_of link W = \<lparr>net_pods = (\<lambda>ip. map_option sys_runner (W ip)), net_link = link\<rparr>"

definition with_net :: "pods \<Rightarrow> network \<Rightarrow> pods" where
  "with_net W net = (\<lambda>ip. case (W ip, net_pods net ip) of
       (Some s, Some r) \<Rightarrow> Some (s\<lparr>sys_runner := r\<rparr>)
     | _ \<Rightarrow> None)"

fun is_pod_call :: "mgr_event \<Rightarrow> bool" where
  "is_pod_call (EvGetStatus _ _) = True"
| "is_pod_call (EvPutDeletion _ _ _) = True"
| "is_pod_call _ = False"

text \<open>
  \<open>pool_run parse_json W0 es W\<close>: the manager made the calls \<open>es\<close> while the pods went from \<open>W0\<close> to
  \<open>W\<close>. Pods come up and take steps at any moment; a call to a pod is answered by the pod as it is
  then, over a network in any condition.
\<close>

inductive pool_run :: "(string \<Rightarrow> json option) \<Rightarrow> pods \<Rightarrow> mgr_event list \<Rightarrow> pods \<Rightarrow> bool"
  for parse_json :: "string \<Rightarrow> json option" and W0 :: pods where
  start: "pool_run parse_json W0 [] W0"
| new: "pool_run parse_json W0 es W \<Longrightarrow> W ip = None \<Longrightarrow> fs (rn_started_flag_file r) = None \<Longrightarrow>
     pool_run parse_json W0 es (W(ip \<mapsto> pod_init r fs))"
| pod: "pool_run parse_json W0 es W \<Longrightarrow> W ip = Some s \<Longrightarrow> pod_step parse_json s t \<Longrightarrow>
     pool_run parse_json W0 es (W(ip \<mapsto> t))"
| status: "pool_run parse_json W0 es W \<Longrightarrow>
     pool_run parse_json W0 (es @ [EvGetStatus ip (GetStatus (net_of link W) ip)]) W"
| put: "pool_run parse_json W0 es W \<Longrightarrow> PutDeletionTime (net_of link W) ip t = (err, net) \<Longrightarrow>
     pool_run parse_json W0 (es @ [EvPutDeletion ip t err]) (with_net W net)"
| other: "pool_run parse_json W0 es W \<Longrightarrow> \<not> is_pod_call ev \<Longrightarrow> pool_run parse_json W0 (es @ [ev]) W"

definition pods_reachable :: "(string \<Rightarrow> json option) \<Rightarrow> pods \<Rightarrow> bool" where
  "pods_reachable parse_json W \<longleftrightarrow> (\<forall>ip s. W ip = Some s \<longrightarrow> pod_reachable parse_json s)"

lemma http_do_serves:
  assumes "http_do net u req = (res, net')" and "net_pods net i = Some r"
  shows "net_pods net' i = Some r \<or> (\<exists>req'. net_pods net' i = Some (snd (serve req' r)))"
proof (cases u)
  case (fields host port path)
  show ?thesis
  proof (cases "i = host")
    case True
    obtain a b where served: "serve (req\<lparr>rq_path := path\<rparr>) r = (a, b)" by fastforce
    with True assms fields have "net_pods net' i = Some r \<or> net_pods net' i = Some b"
      by (auto simp: http_do_def Let_def split: if_splits)
    moreover from served have "b = snd (serve (req\<lparr>rq_path := path\<rparr>) r)" by simp
    ultimately show ?thesis by blast
  next
    case False
    with assms fields show ?thesis
      by (auto simp: http_do_def Let_def split: if_splits option.splits prod.splits)
  qed
qed

lemma PutDeletionTime_serves:
  assumes "PutDeletionTime net ip t = (err, net')" and "net_pods net i = Some r"
  shows "net_pods net' i = Some r \<or> (\<exists>req. net_pods net' i = Some (snd (serve req r)))"
proof (cases "deletion_time_json t")
  case None
  with assms show ?thesis by (auto simp: PutDeletionTime_def)
next
  case (Some b)
  let ?req = "\<lparr>rq_path = '''', rq_method = ''PUT'', rq_content_type = ''application/json'', rq_body = Some b\<rparr>"
  obtain res net1 where do: "http_do net (getDeletionTimeURL ip) ?req = (res, net1)" by fastforce
  with Some assms(1) have "net' = net1" by (auto simp: PutDeletionTime_def split: sum.splits if_splits)
  with http_do_serves [OF do assms(2)] show ?thesis by simp
qed

lemma with_net_pod:
  assumes "PutDeletionTime (net_of link W) ip t = (err, net)" and "W i = Some s"
  obtains req where "with_net W net i = Some (s\<lparr>sys_runner := snd (serve req (sys_runner s))\<rparr>)"
    | "with_net W net i = Some s"
proof -
  have "net_pods (net_of link W) i = Some (sys_runner s)" by (simp add: net_of_def assms(2))
  from PutDeletionTime_serves [OF assms(1) this] assms(2) that show thesis
    by (auto simp: with_net_def)
qed

lemma with_net_None: "W i = None \<Longrightarrow> with_net W net i = None"
  by (simp add: with_net_def)

text \<open>A put is a request the pod serves, or nothing.\<close>

lemma with_net_step:
  assumes "PutDeletionTime (net_of link W) ip t = (err, net)" and "W i = Some s"
  obtains s' where "with_net W net i = Some s'" and "s' = s \<or> pod_step parse_json s s'"
  using with_net_pod [OF assms] by (metis pod_step.http)

lemma pods_reachable_run:
  "pool_run parse_json W0 es W \<Longrightarrow> pods_reachable parse_json W0 \<Longrightarrow> pods_reachable parse_json W"
proof (induction rule: pool_run.induct)
  case (put es W link ip t err net)
  show ?case
    unfolding pods_reachable_def
  proof (intro allI impI)
    fix i s'
    assume s': "with_net W net i = Some s'"
    then obtain s where s: "W i = Some s" by (cases "W i") (auto simp: with_net_None)
    with put have "pod_reachable parse_json s" by (simp add: pods_reachable_def)
    with with_net_step [OF put(2) s] s' show "pod_reachable parse_json s'"
      by (metis option.inject pod_reachable.step)
  qed
qed (auto simp: pods_reachable_def intro: pod_reachable.intros split: if_splits)

text \<open>A pod that has shown itself stale or finished is spent from then on.\<close>

definition shown_over :: "mgr_event list \<Rightarrow> string \<Rightarrow> bool" where
  "shown_over es ip \<longleftrightarrow> (\<exists>st. EvGetStatus ip (Inr st) \<in> set es \<and>
     st_state st \<in> {RunnerPodStateStale, RunnerPodStateDebugging})"

lemma shown_over_spent:
  "pool_run parse_json W0 es W \<Longrightarrow> pods_reachable parse_json W0 \<Longrightarrow> shown_over es ip \<Longrightarrow>
   \<exists>s. W ip = Some s \<and> spent s"
proof (induction rule: pool_run.induct)
  case start
  then show ?case by (simp add: shown_over_def)
next
  case (new es W ip' fs r)
  then show ?case by auto
next
  case (pod es W ip' s t)
  then show ?case using spent_step [OF pod(3)] by auto
next
  case (status es W ip' link)
  show ?case
  proof (cases "shown_over es ip")
    case False
    from status(4) obtain st
      where ev: "EvGetStatus ip (Inr st) \<in> set (es @ [EvGetStatus ip' (GetStatus (net_of link W) ip')])"
      and over: "st_state st \<in> {RunnerPodStateStale, RunnerPodStateDebugging}"
      unfolding shown_over_def by blast
    with False have "EvGetStatus ip (Inr st) = EvGetStatus ip' (GetStatus (net_of link W) ip')"
      unfolding shown_over_def by auto
    then have st: "GetStatus (net_of link W) ip = Inr st" by auto
    from st obtain s where s: "W ip = Some s" and "st = runner_status (sys_runner s)"
      by (auto simp: GetStatus_eq net_of_def split: if_splits option.splits)
    moreover have "pod_reachable parse_json s"
      using pods_reachable_run [OF status(1,3)] s by (simp add: pods_reachable_def)
    ultimately show ?thesis using over_inv_reachable [of parse_json s] over
      by (auto simp: over_inv_def runner_status_def)
  qed (use status in auto)
next
  case (put es W link ip' t err net)
  from put.prems have "shown_over es ip" by (auto simp: shown_over_def)
  with put obtain s where s: "W ip = Some s" "spent s" by blast
  from with_net_step [OF put(2) s(1)] s(2) show ?case by (metis spent_step)
next
  case (other es W ev)
  then have "shown_over es ip" by (cases ev) (auto simp: shown_over_def)
  with other show ?case by blast
qed

section \<open>Why a pod is deleted\<close>

text \<open>
  The round a history ends in: what GitHub listed in it, its clock, and its calls since. A deletion
  after the history \<open>a\<close> is justified if in that round the pod showed itself stale or finished, or
  GitHub did not list its runner as busy and the pod was older than one of the deadlines \<open>D\<close>.
\<close>

fun is_listing :: "mgr_event \<Rightarrow> bool" where
  "is_listing (EvListRunners _ _ _ _) = True"
| "is_listing _ = False"

fun is_delete :: "mgr_event \<Rightarrow> bool" where
  "is_delete (EvDelete _ _) = True"
| "is_delete _ = False"

definition last_round :: "mgr_event list \<Rightarrow> runner_info list \<Rightarrow> time \<Rightarrow> mgr_event list \<Rightarrow> bool" where
  "last_round a rs now es \<longleftrightarrow> (\<forall>e \<in> set es. \<not> is_listing e) \<and>
     (\<exists>pre ow re ls. a = pre @ EvListRunners ow re ls (Inr rs) # EvClock now # es)"

definition overdue :: "duration set \<Rightarrow> runner_info list \<Rightarrow> time \<Rightarrow> pod \<Rightarrow> bool" where
  "overdue D rs now po \<longleftrightarrow> \<not> runnerBusy rs (po_name po) \<and> (\<exists>d \<in> D. po_created po + d < now)"

definition justified :: "duration set \<Rightarrow> mgr_event list \<Rightarrow> pod \<Rightarrow> bool" where
  "justified D a po \<longleftrightarrow> (\<exists>rs now es. last_round a rs now es \<and>
     (shown_over es (po_ip po) \<or> overdue D rs now po))"

definition deletes_justified :: "duration set \<Rightarrow> mgr_event list \<Rightarrow> bool" where
  "deletes_justified D es \<longleftrightarrow> (\<forall>a po err b. es = a @ EvDelete po err # b \<longrightarrow> justified D a po)"

lemma justified_mono: "justified D a po \<Longrightarrow> D \<subseteq> D' \<Longrightarrow> justified D' (c @ a) po"
  unfolding justified_def last_round_def overdue_def by (metis append_assoc subsetD)

lemma deletes_justified_mono: "deletes_justified D es \<Longrightarrow> D \<subseteq> D' \<Longrightarrow> deletes_justified D' es"
  unfolding deletes_justified_def using justified_mono [where c = "[]"] by (metis append_Nil)

lemma deletes_justified_append:
  assumes "deletes_justified D es1" and "deletes_justified D es2"
  shows "deletes_justified D (es1 @ es2)"
  unfolding deletes_justified_def
proof (intro allI impI)
  fix a po err b
  assume "es1 @ es2 = a @ EvDelete po err # b"
  then consider b' where "es1 = a @ EvDelete po err # b'" | a' where "a = es1 @ a'" "es2 = a' @ EvDelete po err # b"
    by (auto simp: append_eq_append_conv2 append_eq_Cons_conv)
  then show "justified D a po"
    by cases (use assms justified_mono [of D _ po D es1] in \<open>auto simp: deletes_justified_def\<close>)
qed

lemma no_deletes_justified: "\<forall>e \<in> set es. \<not> is_delete e \<Longrightarrow> deletes_justified D es"
  by (auto simp: deletes_justified_def)

lemma turn_no_listing: "pod_turn rd po n r es \<Longrightarrow> e \<in> set es \<Longrightarrow> \<not> is_listing e"
  by (auto elim!: run_cases)

lemma turn_delete_before:
  assumes "pod_turn rd po n r (a @ EvDelete p err # b)"
  shows "p = po \<and> (\<exists>st. EvGetStatus (po_ip po) (Inr st) \<in> set a \<and> may_delete rd po st)"
  using assms
  by (auto simp: may_delete_iff append_eq_append_conv2 append_eq_Cons_conv Cons_eq_append_conv
      split: sum.splits elim!: run_cases)

lemma maintain_justified:
  assumes "maintain_run E rs pods p r (a @ EvDelete po err # b)"
  obtains now es where "a = EvClock now # es" and "\<forall>e \<in> set es. \<not> is_listing e"
    and "shown_over es (po_ip po) \<or> overdue {mp_recreate_deadline p} rs now po"
proof -
  from assms obtain now es' r' where ev: "a @ EvDelete po err # b = EvClock now # es'"
    and run: "runs_of (pod_turn (round_of p now rs)) pods (removable_pods p pods) r' es'"
    by (auto simp: maintain_run_def)
  from ev obtain es where a: "a = EvClock now # es" and es': "es' = es @ EvDelete po err # b" by (cases a) auto
  have "\<not> is_listing e" if "e \<in> set es" for e
  proof -
    from that es' have "e \<in> set es'" by simp
    with run show ?thesis by (rule runs_of_mem) (blast dest: turn_no_listing)
  qed
  moreover from runs_of_event [OF run [unfolded es']] obtain x s1 r1 pre a' b' where
    turn: "pod_turn (round_of p now rs) x s1 r1 (a' @ EvDelete po err # b')" and "es = pre @ a'" by blast
  moreover from turn_delete_before [OF turn] obtain st where "po = x" "EvGetStatus (po_ip po) (Inr st) \<in> set a'"
    "may_delete (round_of p now rs) po st" by blast
  ultimately have "shown_over es (po_ip po) \<or> overdue {mp_recreate_deadline p} rs now po"
    by (auto simp: shown_over_def overdue_def may_delete_def round_of_def)
  with \<open>\<And>e. e \<in> set es \<Longrightarrow> \<not> is_listing e\<close> a that show thesis by blast
qed

lemma round_justified:
  assumes "maintain_run E rs pods p r es"
  shows "deletes_justified {mp_recreate_deadline p} (EvListRunners ow re ls (Inr rs) # es)"
  unfolding deletes_justified_def
proof (intro allI impI)
  fix a po err b
  assume ev: "EvListRunners ow re ls (Inr rs) # es = a @ EvDelete po err # b"
  then obtain a1 where a: "a = EvListRunners ow re ls (Inr rs) # a1" and "es = a1 @ EvDelete po err # b"
    by (cases a) auto
  with assms have "maintain_run E rs pods p r (a1 @ EvDelete po err # b)" by simp
  then show "justified {mp_recreate_deadline p} a po"
  proof (rule maintain_justified)
    fix now es'
    assume "a1 = EvClock now # es'" "\<forall>e \<in> set es'. \<not> is_listing e"
      "shown_over es' (po_ip po) \<or> overdue {mp_recreate_deadline p} rs now po"
    with a have "last_round a rs now es'" by (auto simp: last_round_def)
    then show ?thesis using \<open>shown_over es' (po_ip po) \<or> _\<close> by (auto simp: justified_def)
  qed
qed

lemma removal_no_deletes: "removal_run p rs r es \<Longrightarrow> e \<in> set es \<Longrightarrow> \<not> is_delete e"
  by (auto simp: removal_run_def removed_ok_def)

lemma runOnce_justified:
  "ensures (runOnce E (p, m)) (\<lambda>r es. deletes_justified {mp_recreate_deadline p} es \<and>
     (\<forall>err p' m'. r = Ret (err, p', m') \<longrightarrow> mp_recreate_deadline p' = mp_recreate_deadline p))"
  (is "ensures _ ?Q")
proof -
  let ?D = "{mp_recreate_deadline p}"
  have listed: "ensures (and_then (maintainRunnerPods E rs pods p1) (\<lambda>p2.
        and_then (deleteOfflineRunners E p2 rs pods) (\<lambda>err. ret (err, p2, m1))))
      (\<lambda>r es. ?Q r (EvListPods ns sel ps # EvListRunners ow re ls (Inr rs) # es))"
    if p1: "mp_recreate_deadline p1 = mp_recreate_deadline p" for p1 m1 rs pods ns sel ps ow re ls
  proof (rule ensures_and_then, rule ensures_mono [OF maintainRunnerPods_runs])
    fix r es
    assume run: "maintain_run E rs pods p1 r es"
    let ?ev = "\<lambda>es. EvListPods ns sel ps # EvListRunners ow re ls (Inr rs) # es"
    have round: "deletes_justified ?D (?ev es)"
      using deletes_justified_append [OF no_deletes_justified [of "[EvListPods ns sel ps]"]
        round_justified [OF run]] p1 by simp
    have rest: "deletes_justified ?D (?ev (es @ es'))" if "removal_run p2 off r' es'" for p2 off r' es'
      using deletes_justified_append [OF round no_deletes_justified [of es']] removal_no_deletes [OF that]
      by simp
    show "case r of Panic \<Rightarrow> ?Q Panic (?ev es)
        | Ret p2 \<Rightarrow> ensures (and_then (deleteOfflineRunners E p2 rs pods) (\<lambda>err. ret (err, p2, m1)))
            (\<lambda>r' es'. ?Q r' (?ev (es @ es')))"
    proof (cases r)
      case (Ret p2)
      with run have p2: "mp_recreate_deadline p2 = mp_recreate_deadline p1"
        by (auto simp: maintain_run_def split: outcome.splits) (metis outcome.exhaust)
      have "ensures (and_then (deleteOfflineRunners E p2 rs pods) (\<lambda>err. ret (err, p2, m1)))
          (\<lambda>r' es'. ?Q r' (?ev (es @ es')))"
        by (rule ensures_and_then, rule ensures_mono [OF deleteOfflineRunners_runs])
          (auto split: outcome.splits simp: p1 p2 intro!: ensures_ret rest)
      with Ret show ?thesis by simp
    qed (use round in simp)
  qed
  define p1 where "p1 rs = fst (updateMetrics rs (p, m))" for rs
  define m1 where "m1 rs = snd (updateMetrics rs (p, m))" for rs
  have um: "updateMetrics rs (p, m) = (p1 rs, m1 rs)" for rs by (simp add: p1_def m1_def)
  have p1: "mp_recreate_deadline (p1 rs) = mp_recreate_deadline p" for rs
    by (simp add: p1_def updateMetrics_def Let_def)
  show ?thesis
    unfolding runOnce_def fetchRunnerPods_def fetchRunners_def
    apply (simp add: um)
    apply (rule ensures_and_then, rule ensures_ext_call)
    apply (auto split: sum.splits intro!: ensures_ret no_deletes_justified)
    apply (rule ensures_and_then, rule ensures_ext_call)
    apply (auto split: sum.splits intro!: ensures_ret no_deletes_justified)
    apply (rule ensures_mono [OF listed [OF p1]])
    apply auto
    done
qed

text \<open>The recreate deadlines a process has had: the one it began with, and those it was told.\<close>

fun deadlines :: "manage_process \<Rightarrow> wakeup list \<Rightarrow> duration set" where
  "deadlines p [] = {mp_recreate_deadline p}"
| "deadlines p (Configured rp # ws) =
     insert (duration_or_zero (spec_recreate_deadline (rp_spec rp))) (deadlines p ws)"
| "deadlines p (w # ws) = deadlines p ws"

lemma own_deadline: "mp_recreate_deadline p \<in> deadlines p ws"
  by (induction p ws rule: deadlines.induct) auto

lemma deadlines_cong: "mp_recreate_deadline p = mp_recreate_deadline q \<Longrightarrow> deadlines p ws = deadlines q ws"
  by (induction p ws rule: deadlines.induct) auto

lemma deadlines_Configured:
  "deadlines (snd (update_process parse_url rp p)) ws \<subseteq> deadlines p (Configured rp # ws)"
proof -
  have "deadlines q ws \<subseteq> insert (mp_recreate_deadline q) (deadlines p ws)" for q
    by (induction p ws rule: deadlines.induct) auto
  moreover have "mp_recreate_deadline (snd (update_process parse_url rp p)) =
      duration_or_zero (spec_recreate_deadline (rp_spec rp))"
    by (simp add: update_process_def Let_def split: prod.splits option.splits)
  ultimately show ?thesis by (metis deadlines.simps(2))
qed

lemma run_loop_justified:
  "ensures (run_loop E parse_url ws (p, m)) (\<lambda>r es. deletes_justified (deadlines p ws) es)"
proof (induction ws arbitrary: p m)
  case Nil
  show ?case by (simp add: ensures_ret no_deletes_justified)
next
  case (Cons w ws)
  show ?case
  proof (cases w)
    case Tick
    have first: "deletes_justified (deadlines p ws) es" if "deletes_justified {mp_recreate_deadline p} es" for es
      using deletes_justified_mono [OF that] own_deadline by simp
    have then_rest: "ensures (run_loop E parse_url ws (p', m'))
        (\<lambda>r es'. deletes_justified (deadlines p ws) (es @ es'))"
      if "deletes_justified {mp_recreate_deadline p} es" and "mp_recreate_deadline p' = mp_recreate_deadline p"
      for p' m' es
      by (rule ensures_mono [OF Cons.IH])
        (use deletes_justified_append [OF first [OF that(1)]] deadlines_cong [OF that(2)] in simp)
    show ?thesis
      unfolding Tick run_loop.simps deadlines.simps
      by (rule ensures_and_then, rule ensures_mono [OF runOnce_justified])
        (auto split: outcome.splits simp: first then_rest)
  next
    case Done
    show ?thesis unfolding Done by (simp add: ensures_ret no_deletes_justified)
  next
    case (Configured rp)
    show ?thesis
      unfolding Configured run_loop.simps fst_conv snd_conv
      by (rule ensures_mono [OF Cons.IH]) (rule deletes_justified_mono [OF _ deadlines_Configured])
  qed
qed

lemma manage_goroutine_justified:
  "ensures (manage_goroutine E parse_url ws (p, m)) (\<lambda>r es. deletes_justified (deadlines p ws) es)"
proof -
  have removals: "ensures (deleteAllRunners E p2) (\<lambda>r es. \<forall>e \<in> set es. \<not> is_delete e)" for p2
    unfolding deleteAllRunners_def fetchRunners_def
    apply (rule ensures_and_then, rule ensures_ext_call)
    apply (auto split: sum.splits intro!: ensures_ret)
    apply (rule ensures_mono [OF remove_loop_runs])
    apply (auto dest: removal_no_deletes)
    done
  show ?thesis
    unfolding manage_goroutine_def
    apply (rule ensures_and_then, rule ensures_mono [OF run_loop_justified])
    apply (auto split: outcome.splits loop_state.splits simp: Let_def intro!: ensures_ret)
    apply (rule ensures_and_then, rule ensures_mono [OF removals])
    apply (auto split: outcome.splits intro!: ensures_ret deletes_justified_append
      intro: no_deletes_justified)
    done
qed

section \<open>Running jobs survive\<close>


text \<open>One pod, whose job has ended without asking for an extension.\<close>

definition ex_pods :: pods where
  "ex_pods = Map.empty(''10.0.0.1'' \<mapsto> ex_pod_done (\<lambda>_. None))"

definition ex_pods_status :: status where
  "ex_pods_status = runner_status (sys_runner (ex_pod_done (\<lambda>_. None)))"

definition ex_pods_env :: mgr_env where
  "ex_pods_env = (ex_env 1000 ex_pods_status)\<lparr>me_status := \<lambda>_. GetStatus (net_of (\<lambda>_. Up) ex_pods)\<rparr>"

lemma ex_pods_status_fields:
  "st_state ex_pods_status = RunnerPodStateDebugging" "st_finished_at ex_pods_status = Some 0"
  "st_extend ex_pods_status = Some False" "st_deletion_time ex_pods_status = None"
  by (simp_all add: ex_pods_status_def ex_pod_done_def numeral_eq_Suc pod_init_def ex_runner_def ex_files_def
      fresh_runner_def ex_step_answers_def listener_step_def Let_def isFileExists_def enter_state_def
      updateState_def fail_or_def record_call_def updateToDebuggingState_def runner_status_def)

lemma ex_pods_get: "GetStatus (net_of (\<lambda>_. Up) ex_pods) ''10.0.0.1'' = Inr ex_pods_status"
  using status_inv_reachable [OF ex_pod_done_reachable [of "\<lambda>_. None"]]
  by (simp add: GetStatus_eq net_of_def ex_pods_def ex_pods_status_def status_inv_def)

definition ex_pods_calls :: "mgr_event list" where
  "ex_pods_calls = [EvListPods ''ns'' (runner_selector ex_process) (Inr [ex_pod]),
     EvListRunners ''org'' '''' [''ns/pool''] (Inr []), EvClock 1000,
     EvGetStatus ''10.0.0.1'' (GetStatus (net_of (\<lambda>_. Up) ex_pods) ''10.0.0.1'')]"

lemma ex_pods_goroutine:
  "manage_goroutine ex_pods_env ex_parse_url [Tick] (ex_process, InitControllerMetrics) [] =
   (Ret (Blocked, ex_process\<lparr>mp_last_check_time := 1000\<rparr>,
      UpdateRunnerPoolMetrics ''ns/pool'' 1 InitControllerMetrics),
    ex_pods_calls @ EvDelete ex_pod None # [])"
  by (simp add: ex_round_defs manage_goroutine_def runOnce_def fetchRunnerPods_def fetchRunners_def
      updateMetrics_def difference_def deleteOfflineRunners_def rpNamespacedName_def runner_selector_def
      InitControllerMetrics_def UpdateRunnerPoolMetrics_def DeleteRunnerMetrics_def ex_pods_env_def
      ex_pods_calls_def ex_pods_get ex_pods_status_fields)

lemma ex_pods_run: "pool_run (\<lambda>_. None) ex_pods ex_pods_calls ex_pods"
proof -
  have "pool_run (\<lambda>_. None) ex_pods (((([] @ [EvListPods ''ns'' (runner_selector ex_process) (Inr [ex_pod])]) @
      [EvListRunners ''org'' '''' [''ns/pool''] (Inr [])]) @ [EvClock 1000]) @
      [EvGetStatus ''10.0.0.1'' (GetStatus (net_of (\<lambda>_. Up) ex_pods) ''10.0.0.1'')]) ex_pods"
    by (intro pool_run.status pool_run.other pool_run.start) simp_all
  then show ?thesis by (simp add: ex_pods_calls_def)
qed


end
