(* ===== verification/Go_Rfc3339.thy ===== *)
theory Go_Rfc3339
  imports Go_Time
begin

text \<open>
  \<open>time.Format\<close> and \<open>time.Parse\<close> with the layout \<open>time.RFC3339\<close>, over the proleptic Gregorian
  calendar. A \<open>time.Time\<close> is printed in its own zone, given as an offset in minutes. Printing
  drops the fraction of a second; what is printed parses back to the time without it.
\<close>

section \<open>The calendar\<close>

definition leap :: "int \<Rightarrow> bool" where
  "leap y \<longleftrightarrow> y mod 4 = 0 \<and> (y mod 100 \<noteq> 0 \<or> y mod 400 = 0)"

definition year_days :: "int \<Rightarrow> int" where
  "year_days y = (if leap y then 366 else 365)"

definition month_days :: "int \<Rightarrow> int \<Rightarrow> int" where
  "month_days y m =
     (if m = 2 then (if leap y then 29 else 28)
      else if m = 4 \<or> m = 6 \<or> m = 9 \<or> m = 11 then 30 else 31)"

text \<open>Days from the first of January of year 0 to that of year \<open>y\<close>, and to a month of it.\<close>

definition days_before_year :: "int \<Rightarrow> int" where
  "days_before_year y = 365 * y + (y + 3) div 4 - (y + 99) div 100 + (y + 399) div 400"

definition days_before_month :: "int \<Rightarrow> int \<Rightarrow> int" where
  "days_before_month y m = sum_list (map (month_days y) [1..m - 1])"

definition epoch_days :: int where "epoch_days = 719528"

function year_of :: "int \<Rightarrow> int \<Rightarrow> int \<times> int" where
  "year_of y d = (if d < year_days y then (y, d) else year_of (y + 1) (d - year_days y))"
  by pat_completeness auto
termination
  by (relation "measure (\<lambda>(y, d). nat d)") (auto simp: year_days_def split: if_splits)

function month_of :: "int \<Rightarrow> int \<Rightarrow> int \<Rightarrow> int \<times> int" where
  "month_of y m d =
     (if m \<ge> 12 \<or> d < month_days y m then (m, d + 1) else month_of y (m + 1) (d - month_days y m))"
  by pat_completeness auto
termination
  by (relation "measure (\<lambda>(y, m, d). nat (12 - m))") auto

declare year_of.simps [simp del] month_of.simps [simp del]

text \<open>The date of a day, whole cycles of 400 years first.\<close>

definition date_of :: "int \<Rightarrow> int \<times> int \<times> int" where
  "date_of n = (case year_of (400 * (n div 146097)) (n mod 146097) of (y, d) \<Rightarrow> (y, month_of y 1 d))"

definition day_of :: "int \<Rightarrow> int \<Rightarrow> int \<Rightarrow> int" where
  "day_of y m d = days_before_year y + days_before_month y m + (d - 1)"

lemma ceil_step:
  fixes y k n :: int
  assumes "0 < n" and k: "k = n - 1"
  shows "(y + 1 + k) div n = (y + k) div n + (if y mod n = 0 then 1 else 0)"
proof -
  define q where "q = y div n"
  define r where "r = y mod n"
  have y: "y = q * n + r" by (simp add: q_def r_def)
  have r: "0 \<le> r" "r < n" using assms(1) by (simp_all add: r_def)
  have d: "(a * n + b) div n = a" if "0 \<le> b" and "b < n" for a b
    using that by (simp add: div_pos_pos_trivial)
  have "y + 1 + k = (q + 1) * n + r" by (simp add: y k algebra_simps)
  then have "(y + 1 + k) div n = q + 1" using d r by simp
  moreover have "(y + k) div n = (if r = 0 then q else q + 1)"
  proof (cases "r = 0")
    case True
    then have "y + k = q * n + (n - 1)" by (simp add: y k)
    with True d [of "n - 1" q] assms(1) show ?thesis by simp
  next
    case False
    then have "y + k = (q + 1) * n + (r - 1)" by (simp add: y k algebra_simps)
    with False d [of "r - 1" "q + 1"] r show ?thesis by simp
  qed
  ultimately show ?thesis by (simp add: r_def)
qed

lemma leap_count_step:
  fixes y a b c :: int
  shows "(c400 \<Longrightarrow> c100) \<Longrightarrow> (c100 \<Longrightarrow> c4) \<Longrightarrow>
    365 * (y + 1) + (a + (if c4 then 1 else 0)) - (b + (if c100 then 1 else 0)) + (c + (if c400 then 1 else 0)) =
    365 * y + a - b + c + (if c4 \<and> (\<not> c100 \<or> c400) then 366 else 365)"
  by auto

lemma days_before_year_step: "days_before_year (y + 1) = days_before_year y + year_days y"
proof -
  have m: "y mod 400 = 0 \<Longrightarrow> y mod 100 = 0" "y mod 100 = 0 \<Longrightarrow> y mod 4 = 0" by presburger+
  have c: "(y + 1 + 3) div 4 = (y + 3) div 4 + (if y mod 4 = 0 then 1 else 0)"
    "(y + 1 + 99) div 100 = (y + 99) div 100 + (if y mod 100 = 0 then 1 else 0)"
    "(y + 1 + 399) div 400 = (y + 399) div 400 + (if y mod 400 = 0 then 1 else 0)"
    by (rule ceil_step; simp)+
  show ?thesis
    unfolding days_before_year_def c year_days_def leap_def by (rule leap_count_step [OF m])
qed

lemma days_before_cycle: "days_before_year (400 * k) = 146097 * k"
  by (simp add: days_before_year_def)

lemma year_of_correct:
  "0 \<le> d \<Longrightarrow> year_of y d = (y', d') \<Longrightarrow>
   days_before_year y' + d' = days_before_year y + d \<and> 0 \<le> d' \<and> d' < year_days y' \<and> y \<le> y'"
proof (induction y d rule: year_of.induct)
  case (1 y d)
  show ?case
  proof (cases "d < year_days y")
    case True
    with "1.prems" show ?thesis by (simp add: year_of.simps)
  next
    case False
    with "1.prems" have "year_of (y + 1) (d - year_days y) = (y', d')" by (simp add: year_of.simps)
    with "1.IH" [OF False] False days_before_year_step [of y] show ?thesis by auto
  qed
qed

lemma days_before_month_step:
  "1 \<le> m \<Longrightarrow> days_before_month y (m + 1) = days_before_month y m + month_days y m"
  using upto_rec2 [of 1 m] by (simp add: days_before_month_def)

lemma days_before_13: "days_before_month y 13 = year_days y"
  by (simp add: days_before_month_def upto.simps month_days_def year_days_def)

lemma month_of_correct:
  "1 \<le> m \<Longrightarrow> m \<le> 12 \<Longrightarrow> 0 \<le> d \<Longrightarrow> days_before_month y m + d < year_days y \<Longrightarrow> month_of y m d = (m', d') \<Longrightarrow>
   days_before_month y m' + (d' - 1) = days_before_month y m + d \<and>
   1 \<le> m' \<and> m' \<le> 12 \<and> 1 \<le> d' \<and> d' \<le> month_days y m'"
proof (induction y m d rule: month_of.induct)
  case (1 y m d)
  show ?case
  proof (cases "m \<ge> 12 \<or> d < month_days y m")
    case True
    moreover have "d < month_days y 12" if "m = 12"
      using "1.prems"(4) that days_before_13 [of y] days_before_month_step [of 12 y] by simp
    ultimately show ?thesis using "1.prems" by (auto simp: month_of.simps)
  next
    case False
    with "1.prems" have "month_of y (m + 1) (d - month_days y m) = (m', d')" by (simp add: month_of.simps)
    with "1.IH" [OF False] False "1.prems" days_before_month_step [of m y] show ?thesis by auto
  qed
qed

lemma date_of_correct:
  assumes "date_of n = (y, m, d)"
  shows "day_of y m d = n \<and> 1 \<le> m \<and> m \<le> 12 \<and> 1 \<le> d \<and> d \<le> month_days y m"
proof -
  from assms obtain d0 where y: "year_of (400 * (n div 146097)) (n mod 146097) = (y, d0)"
    and m: "month_of y 1 d0 = (m, d)" by (auto simp: date_of_def split: prod.splits)
  from year_of_correct [OF _ y] have d0: "days_before_year y + d0 = n" "0 \<le> d0" "d0 < year_days y"
    by (auto simp: days_before_cycle)
  have z: "days_before_month y 1 = 0" by (simp add: days_before_month_def)
  from month_of_correct [OF _ _ d0(2) _ m] d0(3) z d0(1) show ?thesis by (simp add: day_of_def)
qed

section \<open>Printing\<close>

text \<open>A number in at least \<open>w\<close> digits.\<close>

fun pad_digits :: "nat \<Rightarrow> int \<Rightarrow> string" where
  "pad_digits 0 n = []"
| "pad_digits (Suc w) n = pad_digits w (n div 10) @ [digit_char (n mod 10)]"

definition pad :: "nat \<Rightarrow> int \<Rightarrow> string" where
  "pad w n =
     (if n < 0 then CHR ''-'' # (if - n < 10 ^ w then pad_digits w (- n) else int_digits (- n))
      else if n < 10 ^ w then pad_digits w n else int_digits n)"

definition format_zone :: "int \<Rightarrow> string" where
  "format_zone off =
     (if off = 0 then ''Z''
      else (if off < 0 then CHR ''-'' else CHR ''+'') # pad 2 (\<bar>off\<bar> div 60) @ '':'' @ pad 2 (\<bar>off\<bar> mod 60))"

definition local_date :: "int \<Rightarrow> time \<Rightarrow> int \<times> int \<times> int" where
  "local_date off t = date_of ((t div Second + 60 * off) div 86400 + epoch_days)"

definition format_rfc3339 :: "int \<Rightarrow> time \<Rightarrow> string" where
  "format_rfc3339 off t =
     (let sod = (t div Second + 60 * off) mod 86400
      in case local_date off t of (y, m, d) \<Rightarrow>
           pad 4 y @ CHR ''-'' # pad 2 m @ CHR ''-'' # pad 2 d @ CHR ''T'' #
           pad 2 (sod div 3600) @ CHR '':'' # pad 2 (sod div 60 mod 60) @ CHR '':'' #
           pad 2 (sod mod 60) @ format_zone off)"

section \<open>Parsing\<close>

text \<open>
  The general parser on this layout: it accepts an hour of one digit, and a fraction of a second
  after a point or a comma although the layout has none. The date has to exist.
\<close>

definition take_num :: "nat \<Rightarrow> string \<Rightarrow> (int \<times> string) option" where
  "take_num w s = (if w \<le> length s \<and> list_all is_digit (take w s)
     then Some (digits_val (take w s), drop w s) else None)"

definition take_hour :: "string \<Rightarrow> (int \<times> string) option" where
  "take_hour s = (case take_num 2 s of None \<Rightarrow> take_num 1 s | Some r \<Rightarrow> Some r)"

fun expect :: "char \<Rightarrow> string \<Rightarrow> string option" where
  "expect c [] = None"
| "expect c (x # xs) = (if x = c then Some xs else None)"

definition take_fraction :: "string \<Rightarrow> int \<times> string" where
  "take_fraction s =
     (if 2 \<le> length s \<and> (s ! 0 = CHR ''.'' \<or> s ! 0 = CHR '','') \<and> is_digit (s ! 1)
      then (digits_val (take 9 (takeWhile is_digit (tl s) @ replicate 9 CHR ''0'')),
            dropWhile is_digit (tl s))
      else (0, s))"

definition parse_zone :: "string \<Rightarrow> int option" where
  "parse_zone s =
     (if s = ''Z'' then Some 0
      else case s of
          [] \<Rightarrow> None
        | sign # r \<Rightarrow>
            Option.bind (take_num 2 r) (\<lambda>(hr, r). Option.bind (expect CHR '':'' r) (\<lambda>r.
            Option.bind (take_num 2 r) (\<lambda>(mi, r).
              if r \<noteq> [] \<or> hr > 24 \<or> mi > 60 then None
              else if sign = CHR ''+'' then Some (60 * hr + mi)
              else if sign = CHR ''-'' then Some (- (60 * hr + mi)) else None))))"

definition parse_rfc3339 :: "string \<Rightarrow> time option" where
  "parse_rfc3339 s =
     Option.bind (take_num 4 s) (\<lambda>(y, s). Option.bind (expect CHR ''-'' s) (\<lambda>s.
     Option.bind (take_num 2 s) (\<lambda>(m, s). Option.bind (expect CHR ''-'' s) (\<lambda>s.
     Option.bind (take_num 2 s) (\<lambda>(d, s). Option.bind (expect CHR ''T'' s) (\<lambda>s.
     Option.bind (take_hour s) (\<lambda>(h, s). Option.bind (expect CHR '':'' s) (\<lambda>s.
     Option.bind (take_num 2 s) (\<lambda>(mi, s). Option.bind (expect CHR '':'' s) (\<lambda>s.
     Option.bind (take_num 2 s) (\<lambda>(se, s). case take_fraction s of (ns, s) \<Rightarrow>
     Option.bind (parse_zone s) (\<lambda>off.
       if m < 1 \<or> m > 12 \<or> d < 1 \<or> d > month_days y m \<or> h \<ge> 24 \<or> mi \<ge> 60 \<or> se \<ge> 60 then None
       else Some (((day_of y m d - epoch_days) * 86400 + h * 3600 + mi * 60 + se - 60 * off) * Second + ns)
     ))))))))))))"

section \<open>What is printed parses back\<close>

lemma pad_digits_correct:
  "0 \<le> n \<Longrightarrow> n < 10 ^ w \<Longrightarrow>
   length (pad_digits w n) = w \<and> list_all is_digit (pad_digits w n) \<and> digits_val (pad_digits w n) = n"
proof (induction w arbitrary: n)
  case 0
  then show ?case by (simp add: digits_val_def)
next
  case (Suc w)
  then have "0 \<le> n div 10" and "n div 10 < 10 ^ w" by auto
  with Suc.IH [of "n div 10"] digit_char_digit [of "n mod 10"] show ?case
    by (simp add: digits_val_snoc)
qed

lemma take_num_pad: "0 \<le> n \<Longrightarrow> n < 10 ^ w \<Longrightarrow> take_num w (pad w n @ r) = Some (n, r)"
  using pad_digits_correct [of n w] by (simp add: take_num_def pad_def)

lemma take_num_pad_end: "0 \<le> n \<Longrightarrow> n < 10 ^ w \<Longrightarrow> take_num w (pad w n) = Some (n, [])"
  using take_num_pad [of n w "[]"] by simp

lemma take_hour_pad: "0 \<le> n \<Longrightarrow> n < 100 \<Longrightarrow> take_hour (pad 2 n @ r) = Some (n, r)"
  by (simp add: take_hour_def take_num_pad)

lemma parse_format_zone: "\<bar>off\<bar> < 1440 \<Longrightarrow> parse_zone (format_zone off) = Some off"
proof -
  assume off: "\<bar>off\<bar> < 1440"
  have "0 \<le> \<bar>off\<bar> div 60" and "\<bar>off\<bar> div 60 < 24" and "0 \<le> \<bar>off\<bar> mod 60" and "\<bar>off\<bar> mod 60 < 60"
    and "60 * (\<bar>off\<bar> div 60) + \<bar>off\<bar> mod 60 = \<bar>off\<bar>" using off by auto
  then show ?thesis
    by (auto simp: parse_zone_def format_zone_def take_num_pad take_num_pad_end)
qed

lemma take_fraction_zone: "take_fraction (format_zone off) = (0, format_zone off)"
  by (simp add: take_fraction_def format_zone_def)

definition rfc3339_ok :: "int \<Rightarrow> time \<Rightarrow> bool" where
  "rfc3339_ok off t \<longleftrightarrow> \<bar>off\<bar> < 1440 \<and> 0 \<le> fst (local_date off t) \<and> fst (local_date off t) < 10000"

lemma month_days_less: "month_days y m < 100"
  by (simp add: month_days_def)

lemma clock_parts:
  fixes r :: int
  shows "r div 3600 * 3600 + r div 60 mod 60 * 60 + r mod 60 = r"
proof -
  have "r div 3600 = r div 60 div 60" using zdiv_zmult2_eq [of 60 r 60] by simp
  then show ?thesis using mult_div_mod_eq [of 60 r] mult_div_mod_eq [of 60 "r div 60"] by linarith
qed

lemma parse_format_rfc3339:
  assumes "rfc3339_ok off t"
  shows "parse_rfc3339 (format_rfc3339 off t) = Some (t - t mod Second)"
proof -
  define s where "s = t div Second + 60 * off"
  obtain y m d where date: "local_date off t = (y, m, d)" by (cases "local_date off t")
  from date_of_correct [OF date [unfolded local_date_def]]
  have day: "day_of y m d = s div 86400 + epoch_days" and m: "1 \<le> m" "m \<le> 12"
    and d: "1 \<le> d" "d \<le> month_days y m" by (auto simp: s_def)
  from assms date have y: "0 \<le> y" "y < 10 ^ 4" and off: "\<bar>off\<bar> < 1440" by (auto simp: rfc3339_ok_def)
  define h where "h = s mod 86400 div 3600"
  define mi where "mi = s mod 86400 div 60 mod 60"
  define se where "se = s mod 86400 mod 60"
  have h: "0 \<le> h" "h < 24" and mi: "0 \<le> mi" "mi < 60" and se: "0 \<le> se" "se < 60"
    by (auto simp: h_def mi_def se_def)
  have sod: "h * 3600 + mi * 60 + se = s mod 86400"
    unfolding h_def mi_def se_def by (rule clock_parts)
  have total: "(s div 86400) * 86400 + h * 3600 + mi * 60 + se - 60 * off = t div Second"
  proof -
    have "s - 60 * off = t div Second" by (simp add: s_def)
    with sod mult_div_mod_eq [of 86400 s] show ?thesis by linarith
  qed
  have valid: "\<not> (m < 1 \<or> m > 12 \<or> d < 1 \<or> d > month_days y m \<or> h \<ge> 24 \<or> mi \<ge> 60 \<or> se \<ge> 60)"
    using m d h mi se by simp
  have val: "((day_of y m d - epoch_days) * 86400 + h * 3600 + mi * 60 + se - 60 * off) * Second + 0 =
      t - t mod Second"
    unfolding day using total by (simp add: minus_mod_eq_div_mult)
  have num: "take_num 4 (pad 4 y @ r) = Some (y, r)" "take_num 2 (pad 2 m @ r) = Some (m, r)"
    "take_num 2 (pad 2 d @ r) = Some (d, r)" "take_hour (pad 2 h @ r) = Some (h, r)"
    "take_num 2 (pad 2 mi @ r) = Some (mi, r)" "take_num 2 (pad 2 se @ r) = Some (se, r)" for r
    using y m d h mi se month_days_less [of y m] by (auto intro!: take_num_pad take_hour_pad)
  have "format_rfc3339 off t = pad 4 y @ CHR ''-'' # pad 2 m @ CHR ''-'' # pad 2 d @ CHR ''T'' #
      pad 2 h @ CHR '':'' # pad 2 mi @ CHR '':'' # pad 2 se @ format_zone off"
    by (simp add: format_rfc3339_def date s_def h_def mi_def se_def Let_def)
  then show ?thesis
    by (simp only: parse_rfc3339_def num bind.bind_lunit prod.case expect.simps simp_thms if_True
        take_fraction_zone parse_format_zone [OF off] valid val if_False)
qed

text \<open>On whole seconds the pair is a codec.\<close>

interpretation rfc3339: codec "format_rfc3339 off" parse_rfc3339
  "\<lambda>t. rfc3339_ok off t \<and> t mod Second = 0" for off
  by unfold_locales (simp add: parse_format_rfc3339)

end
