(* ===== verification/Secret_Updater.thy ===== *)
theory Secret_Updater
  imports Process_Table Metrics Go_Rfc3339
begin

text \<open>
  The secret updater (\<open>controllers/secret_updater.go\<close>): one process per RunnerPool that keeps the
  registration token in the pool's secret fresh, with the table of these processes. The waits of
  the loop are events of the history, beside its calls.
\<close>

section \<open>Secrets\<close>

text \<open>\<open>stringData\<close> is what a write adds to \<open>data\<close>; the owner is the controller reference.\<close>

record secret =
  se_name :: string
  se_namespace :: string
  se_annotations :: go_map
  se_data :: go_map
  se_string_data :: go_map
  se_owner :: "string option"

text \<open>\<open>mergeMap\<close>: nil if there is nothing in it.\<close>

definition mergeMap :: "go_map \<Rightarrow> go_map \<Rightarrow> go_map" where
  "mergeMap m1 m2 =
     (let m = (\<lambda>k. case go_get m2 k of Some v \<Rightarrow> Some v | None \<Rightarrow> go_get m1 k)
      in if dom m = {} then None else Some m)"

lemma go_get_mergeMap [simp]:
  "go_get (mergeMap m1 m2) k = (case go_get m2 k of Some v \<Rightarrow> Some v | None \<Rightarrow> go_get m1 k)"
  by (auto simp: mergeMap_def Let_def dom_def split: option.splits)

lemma mergeMap_idem: "mergeMap (mergeMap m1 m2) m2 = mergeMap m1 m2"
proof -
  have *: "(\<lambda>k. case go_get m2 k of Some v \<Rightarrow> Some v | None \<Rightarrow> go_get (mergeMap m1 m2) k) =
      (\<lambda>k. case go_get m2 k of Some v \<Rightarrow> Some v | None \<Rightarrow> go_get m1 k)"
    by (auto simp: fun_eq_iff split: option.splits)
  show ?thesis unfolding mergeMap_def [of "mergeMap m1 m2"] * by (simp add: mergeMap_def)
qed

section \<open>The process\<close>

record updater_process =
  up_github_client :: api_client
  up_rp_namespace :: string
  up_rp_name :: string
  up_secret_name :: string
  up_owner :: string
  up_repo :: string
  up_cancel :: bool

definition newUpdateProcess :: "api_client \<Rightarrow> runner_pool \<Rightarrow> updater_process outcome" where
  "newUpdateProcess githubClient rp = (case GetRepository rp of
       Panic \<Rightarrow> Panic
     | Ret repo \<Rightarrow> Ret \<lparr>up_github_client = githubClient, up_rp_namespace = rp_namespace rp,
         up_rp_name = rp_name rp, up_secret_name = GetRunnerSecretName rp, up_owner = GetOwner rp,
         up_repo = repo, up_cancel = False\<rparr>)"

definition up_key :: "updater_process \<Rightarrow> string" where
  "up_key p = namespaced_name (up_rp_namespace p) (up_rp_name p)"

datatype secret_event =
    EvWait duration
  | EvTime time
  | EvGetSecret string string "api_error + secret"
  | EvNewToken string string "go_error + reg_token"
  | EvPatch secret secret "go_error option"

record secret_env =
  sv_now :: "secret_event list \<Rightarrow> time"
  sv_get :: "secret_event list \<Rightarrow> string \<Rightarrow> string \<Rightarrow> api_error + secret"
  sv_token :: "secret_event list \<Rightarrow> string \<Rightarrow> string \<Rightarrow> go_error + reg_token"
  sv_patch :: "secret_event list \<Rightarrow> secret \<Rightarrow> secret \<Rightarrow> go_error option"

definition getSecret :: "secret_env \<Rightarrow> updater_process \<Rightarrow> (secret_event, api_error + secret) prog" where
  "getSecret E p = ext_call (\<lambda>tr. sv_get E tr (up_rp_namespace p) (up_secret_name p))
     (EvGetSecret (up_rp_namespace p) (up_secret_name p))"

definition read_time :: "secret_env \<Rightarrow> (secret_event, time) prog" where
  "read_time E = ext_call (sv_now E) EvTime"

text \<open>Whether to update, and when to look again otherwise.\<close>

definition needUpdate :: "secret_env \<Rightarrow> secret \<Rightarrow> (secret_event, bool \<times> time) prog" where
  "needUpdate E s = (case go_get (se_annotations s) RunnerSecretExpiresAtAnnotationKey of
       None \<Rightarrow> ret (True, zero_time)
     | Some expiresAtStr \<Rightarrow>
         (case parse_rfc3339 expiresAtStr of
            None \<Rightarrow> ret (True, zero_time)
          | Some expiresAt \<Rightarrow>
              let updateTime = expiresAt - 5 * Minute
              in and_then (read_time E) (\<lambda>now.
                   if after now updateTime then ret (True, zero_time) else ret (False, updateTime))))"

text \<open>\<open>GetExpiresAt\<close> and \<open>GetToken\<close> give the zero value for a nil pointer.\<close>

definition token_expiry :: "reg_token \<Rightarrow> time" where
  "token_expiry t = deref_or zero_time (rt_expires_at t)"

definition refreshed :: "reg_token \<Rightarrow> secret \<Rightarrow> secret" where
  "refreshed t s = s\<lparr>
     se_annotations := mergeMap (se_annotations s)
       (Some (Map.empty(RunnerSecretExpiresAtAnnotationKey \<mapsto> format_rfc3339 (rt_zone t) (token_expiry t)))),
     se_string_data := Some (Map.empty(RunnerTokenFileName \<mapsto> deref_or '''' (rt_token t)))\<rparr>"

definition updateSecret ::
  "secret_env \<Rightarrow> updater_process \<Rightarrow> secret \<Rightarrow> (secret_event, go_error + time) prog" where
  "updateSecret E p s =
     and_then (ext_call (\<lambda>tr. sv_token E tr (up_owner p) (up_repo p)) (EvNewToken (up_owner p) (up_repo p)))
       (\<lambda>r. case r of
          Inl err \<Rightarrow> ret (Inl (''failed to create actions registration token; '' @ err))
        | Inr t \<Rightarrow>
            and_then (ext_call (\<lambda>tr. sv_patch E tr s (refreshed t s)) (EvPatch s (refreshed t s))) (\<lambda>r. case r of
                Some err \<Rightarrow> ret (Inl (''failed to patch secret; '' @ err))
              | None \<Rightarrow> ret (Inr (token_expiry t))))"

text \<open>One turn of the loop after its wait: the next wait, and the metrics.\<close>

definition update_once ::
  "secret_env \<Rightarrow> updater_process \<Rightarrow> controller_metrics \<Rightarrow> (secret_event, duration \<times> controller_metrics) prog"
where
  "update_once E p m = and_then (getSecret E p) (\<lambda>r. case r of
       Inl NotFound \<Rightarrow> ret (Second, m)
     | Inl (OtherErr err) \<Rightarrow> ret (Minute, secret_retry_inc (up_key p) m)
     | Inr s \<Rightarrow>
         and_then (needUpdate E s) (\<lambda>(need, updateTime).
           if \<not> need then and_then (read_time E) (\<lambda>now. ret (updateTime - now, m))
           else and_then (updateSecret E p s) (\<lambda>r. case r of
               Inl err \<Rightarrow> ret (Minute, secret_retry_inc (up_key p) m)
             | Inr expiresAt \<Rightarrow> ret (Second, m))))"

text \<open>
  The loop over what its select receives: the timer it set, or the end of its context. \<open>Waiting\<close>
  is the loop blocked in the select.
\<close>

datatype select_case = Elapsed | Cancelled

datatype updater_state = Waiting | Returned

fun update_loop ::
  "secret_env \<Rightarrow> updater_process \<Rightarrow> select_case list \<Rightarrow> duration \<times> controller_metrics \<Rightarrow>
   (secret_event, updater_state \<times> controller_metrics) prog" where
  "update_loop E p [] (wait, m) = and_then (ext_call (\<lambda>_. ()) (\<lambda>_. EvWait wait)) (\<lambda>_. ret (Waiting, m))"
| "update_loop E p (Cancelled # cs) (wait, m) =
     and_then (ext_call (\<lambda>_. ()) (\<lambda>_. EvWait wait)) (\<lambda>_. ret (Returned, m))"
| "update_loop E p (Elapsed # cs) (wait, m) =
     and_then (ext_call (\<lambda>_. ()) (\<lambda>_. EvWait wait)) (\<lambda>_.
     and_then (update_once E p m) (\<lambda>s. update_loop E p cs s))"

text \<open>The goroutine; the counter of retries is there from the making of the process to its end.\<close>

definition update_goroutine ::
  "secret_env \<Rightarrow> updater_process \<Rightarrow> select_case list \<Rightarrow> controller_metrics \<Rightarrow>
   (secret_event, updater_state \<times> controller_metrics) prog" where
  "update_goroutine E p cs m = and_then (update_loop E p cs (Second, secret_retry_init (up_key p) m)) (\<lambda>(st, m). case st of
       Waiting \<Rightarrow> ret (Waiting, m)
     | Returned \<Rightarrow> ret (Returned, secret_retry_delete (up_key p) m))"

definition stop_updater :: "go_error option \<Rightarrow> updater_process \<Rightarrow> go_error option \<times> updater_process" where
  "stop_updater wait_err p = (if up_cancel p then (wait_err, p\<lparr>up_cancel := False\<rparr>) else (None, p))"

section \<open>The table of processes\<close>

record secret_updater =
  su_stopped :: bool
  su_processes :: "(string \<rightharpoonup> updater_process) option"

definition su_lookup :: "secret_updater \<Rightarrow> string \<Rightarrow> updater_process option" where
  "su_lookup u key = Option.bind (su_processes u) (\<lambda>ps. ps key)"

definition NewSecretUpdater :: secret_updater where
  "NewSecretUpdater = \<lparr>su_stopped = False, su_processes = Some Map.empty\<rparr>"

definition su_Start ::
  "(client_credential \<Rightarrow> go_error + api_client) \<Rightarrow> secret_updater \<Rightarrow> runner_pool \<Rightarrow> client_credential \<Rightarrow>
   (go_error option \<times> secret_updater) outcome" where
  "su_Start new_client u rp cred =
     (if su_stopped u then Ret (Some ''SecretUpdater is already stopped'', u)
      else case su_lookup u (rp_namespaced_name rp) of
          Some _ \<Rightarrow> Ret (None, u)
        | None \<Rightarrow>
            (case new_client cred of
               Inl err \<Rightarrow> Ret (Some (''failed to create a github client; '' @ err), u)
             | Inr githubClient \<Rightarrow>
                 (case newUpdateProcess githubClient rp of
                    Panic \<Rightarrow> Panic
                  | Ret p \<Rightarrow>
                      (case su_processes u of
                         None \<Rightarrow> Panic
                       | Some ps \<Rightarrow> Ret (None, u\<lparr>su_processes :=
                           Some (ps(rp_namespaced_name rp \<mapsto> p\<lparr>up_cancel := True\<rparr>))\<rparr>)))))"

definition su_Stop ::
  "(string \<Rightarrow> go_error option) \<Rightarrow> secret_updater \<Rightarrow> runner_pool \<Rightarrow> go_error option \<times> secret_updater" where
  "su_Stop wait_err u rp = (let key = rp_namespaced_name rp in case su_lookup u key of
       None \<Rightarrow> (None, u)
     | Some p \<Rightarrow>
         (case stop_updater (wait_err key) p of
            (Some err, p') \<Rightarrow>
              (Some err, u\<lparr>su_processes := map_option (\<lambda>ps. ps(key \<mapsto> p')) (su_processes u)\<rparr>)
          | (None, p') \<Rightarrow>
              (None, u\<lparr>su_processes := map_option (\<lambda>ps. ps(key := None)) (su_processes u)\<rparr>)))"

definition su_StopAll :: "secret_updater \<Rightarrow> secret_updater" where
  "su_StopAll u = u\<lparr>su_processes := None, su_stopped := True\<rparr>"

definition su_valid :: "secret_updater \<Rightarrow> bool" where
  "su_valid u \<longleftrightarrow> (su_processes u = None \<longleftrightarrow> su_stopped u)"

definition su_running :: "secret_updater \<Rightarrow> string set" where
  "su_running u = {key. su_lookup u key \<noteq> None}"

lemmas su_defs = su_valid_def su_running_def su_lookup_def

interpretation updater_table: process_table
  "su_Start new_client" "su_Stop wait_err" su_StopAll su_running su_stopped su_valid
  for new_client wait_err
proof unfold_locales
  fix t :: secret_updater and rp :: runner_pool and c t'
  assume "su_valid t" and "su_Start new_client t rp c = Ret (None, t')"
  then show "su_running t' = insert (rp_namespaced_name rp) (su_running t) \<and> \<not> su_stopped t \<and>
      \<not> su_stopped t' \<and> su_valid t'"
    by (auto simp: su_Start_def su_defs split: if_splits option.splits sum.splits outcome.splits)
next
  fix t :: secret_updater and rp :: runner_pool and c e t'
  assume "su_valid t" and "su_Start new_client t rp c = Ret (Some e, t')"
  then show "su_running t' = su_running t \<and> su_stopped t' = su_stopped t \<and> su_valid t'"
    by (auto simp: su_Start_def su_defs split: if_splits option.splits sum.splits outcome.splits)
next
  fix t :: secret_updater and rp :: runner_pool and c
  assume "su_valid t" and "well_formed_spec (rp_spec rp)"
  then show "su_Start new_client t rp c \<noteq> Panic"
    using GetRepository_no_panic [of rp]
    by (auto simp: su_Start_def newUpdateProcess_def su_defs
        split: if_splits option.splits sum.splits outcome.splits)
next
  fix t :: secret_updater and rp :: runner_pool and t'
  assume "su_valid t" and "su_Stop wait_err t rp = (None, t')"
  then show "su_running t' = su_running t - {rp_namespaced_name rp} \<and> su_stopped t' = su_stopped t \<and>
      su_valid t'"
    by (auto simp: su_Stop_def su_defs Let_def split: option.splits prod.splits if_splits)
next
  fix t :: secret_updater and rp :: runner_pool and e t'
  assume "su_valid t" and "su_Stop wait_err t rp = (Some e, t')"
  then show "su_running t' = su_running t \<and> su_stopped t' = su_stopped t \<and> su_valid t' \<and>
      (\<exists>t''. su_Stop wait_err t' rp = (None, t''))"
    by (auto simp: su_Stop_def stop_updater_def su_defs Let_def split: option.splits prod.splits if_splits)
qed (simp add: su_StopAll_def su_defs)

end
