(* ===== verification/Updater_Runs.thy ===== *)
theory Updater_Runs
  imports Secret_Updater
begin

text \<open>
  The runs of the secret updater as a relation between the wait and the metrics before and after
  a turn and the calls of the turn. The monadic definitions refine it; the properties of the
  updater are proved on it.
\<close>

section \<open>One turn\<close>

definition secret_expiry :: "secret \<Rightarrow> time option" where
  "secret_expiry s = Option.bind (go_get (se_annotations s) RunnerSecretExpiresAtAnnotationKey) parse_rfc3339"

definition update_time :: "time \<Rightarrow> time" where
  "update_time e = e - 5 * Minute"

text \<open>The readings \<open>chk\<close> of the clock show the secret due: it has no expiry, or it is past the update time.\<close>

definition due :: "secret \<Rightarrow> secret_event list \<Rightarrow> bool" where
  "due s chk \<longleftrightarrow> (case secret_expiry s of
       None \<Rightarrow> chk = []
     | Some e \<Rightarrow> \<exists>now. chk = [EvTime now] \<and> after now (update_time e))"

definition got :: "updater_process \<Rightarrow> api_error + secret \<Rightarrow> secret_event" where
  "got p r = EvGetSecret (up_rp_namespace p) (up_secret_name p) r"

definition issued :: "updater_process \<Rightarrow> go_error + reg_token \<Rightarrow> secret_event" where
  "issued p r = EvNewToken (up_owner p) (up_repo p) r"

lemmas call_events = got_def issued_def

inductive turn :: "updater_process \<Rightarrow> controller_metrics \<Rightarrow> duration \<times> controller_metrics \<Rightarrow>
    secret_event list \<Rightarrow> bool" for p m where
  not_found: "turn p m (Second, m) [got p (Inl NotFound)]"
| get_failed: "turn p m (Minute, secret_retry_inc (up_key p) m) [got p (Inl (OtherErr err))]"
| fresh: "secret_expiry s = Some e \<Longrightarrow> \<not> after now (update_time e) \<Longrightarrow>
    turn p m (update_time e - now', m) [got p (Inr s), EvTime now, EvTime now']"
| token_failed: "due s chk \<Longrightarrow>
    turn p m (Minute, secret_retry_inc (up_key p) m) (got p (Inr s) # chk @ [issued p (Inl err)])"
| patch_failed: "due s chk \<Longrightarrow>
    turn p m (Minute, secret_retry_inc (up_key p) m)
      (got p (Inr s) # chk @ [issued p (Inr t), EvPatch s (refreshed t s) (Some err)])"
| patched: "due s chk \<Longrightarrow>
    turn p m (Second, m) (got p (Inr s) # chk @ [issued p (Inr t), EvPatch s (refreshed t s) None])"

lemma needUpdate_runs:
  "ensures (needUpdate E s) (\<lambda>r es. case r of Panic \<Rightarrow> False
     | Ret (need, u) \<Rightarrow> if need then due s es
         else \<exists>e now. secret_expiry s = Some e \<and> es = [EvTime now] \<and> \<not> after now u \<and> u = update_time e)"
  unfolding needUpdate_def Let_def read_time_def
  apply (intro ensures_option ensures_ret)
    apply (simp add: due_def secret_expiry_def)
   apply (simp add: due_def secret_expiry_def)
  apply (rule ensures_and_then, rule ensures_ext_call)
  apply (auto simp: due_def secret_expiry_def update_time_def intro!: ensures_ret)
  done

lemma updateSecret_runs:
  "ensures (updateSecret E p s) (\<lambda>r es. case r of Panic \<Rightarrow> False
     | Ret (Inl _) \<Rightarrow> (\<exists>err. es = [issued p (Inl err)]) \<or>
         (\<exists>t err. es = [issued p (Inr t), EvPatch s (refreshed t s) (Some err)])
     | Ret (Inr _) \<Rightarrow> \<exists>t. es = [issued p (Inr t), EvPatch s (refreshed t s) None])"
  unfolding updateSecret_def
  apply (rule ensures_and_then, rule ensures_ext_call, simp)
  apply (rule ensures_sum)
   apply (rule ensures_ret, simp add: issued_def)
  apply (rule ensures_and_then, rule ensures_ext_call, simp)
  apply (rule ensures_option; rule ensures_ret, simp add: issued_def)
  done

lemma update_once_runs:
  "ensures (update_once E p m) (\<lambda>r es. case r of Panic \<Rightarrow> False | Ret x \<Rightarrow> turn p m x es)"
proof -
  have refresh: "ensures (and_then (updateSecret E p s) (\<lambda>r. case r of
        Inl err \<Rightarrow> ret (Minute, secret_retry_inc (up_key p) m) | Inr expiresAt \<Rightarrow> ret (Second, m)))
      (\<lambda>r es. case r of Panic \<Rightarrow> False | Ret x \<Rightarrow> turn p m x (got p (Inr s) # chk @ es))"
    if "due s chk" for s chk
    by (rule ensures_and_then, rule ensures_mono [OF updateSecret_runs])
      (use that in \<open>auto split: outcome.splits sum.splits intro!: ensures_ret intro: turn.intros\<close>)
  have wait: "ensures (and_then (read_time E) (\<lambda>now'. ret (update_time e - now', m)))
      (\<lambda>r es. case r of Panic \<Rightarrow> False | Ret x \<Rightarrow> turn p m x (got p (Inr s) # EvTime now # es))"
    if "secret_expiry s = Some e" "\<not> after now (update_time e)" for s e now
    unfolding read_time_def
    by (rule ensures_and_then, rule ensures_ext_call)
      (use that in \<open>auto intro!: ensures_ret turn.intros\<close>)
  have decide: "ensures (and_then (needUpdate E s) (\<lambda>(need, updateTime).
           if \<not> need then and_then (read_time E) (\<lambda>now. ret (updateTime - now, m))
           else and_then (updateSecret E p s) (\<lambda>r. case r of
               Inl err \<Rightarrow> ret (Minute, secret_retry_inc (up_key p) m)
             | Inr expiresAt \<Rightarrow> ret (Second, m))))
      (\<lambda>r es. case r of Panic \<Rightarrow> False | Ret x \<Rightarrow> turn p m x (got p (Inr s) # es))" for s
  proof (rule ensures_and_then, rule ensures_mono [OF needUpdate_runs])
    fix r es
    assume r: "case r of Panic \<Rightarrow> False | Ret (need, u) \<Rightarrow> if need then due s es
         else \<exists>e now. secret_expiry s = Some e \<and> es = [EvTime now] \<and> \<not> after now u \<and> u = update_time e"
    then obtain need u where ru: "r = Ret (need, u)" by (cases r) auto
    show "case r of Panic \<Rightarrow> case Panic of Panic \<Rightarrow> False | Ret x \<Rightarrow> turn p m x (got p (Inr s) # es)
      | Ret x \<Rightarrow> ensures (case x of (need, updateTime) \<Rightarrow>
           if \<not> need then and_then (read_time E) (\<lambda>now. ret (updateTime - now, m))
           else and_then (updateSecret E p s) (\<lambda>r. case r of
               Inl err \<Rightarrow> ret (Minute, secret_retry_inc (up_key p) m)
             | Inr expiresAt \<Rightarrow> ret (Second, m)))
          (\<lambda>r' es'. case r' of Panic \<Rightarrow> False | Ret x \<Rightarrow> turn p m x (got p (Inr s) # es @ es'))"
    proof (cases need)
      case True
      with r ru refresh [of s es] show ?thesis by simp
    next
      case False
      with r ru obtain e now where u: "u = update_time e" and es: "es = [EvTime now]"
        and e: "secret_expiry s = Some e" "\<not> after now (update_time e)" by auto
      with wait [OF e] ru False show ?thesis by (simp cong: outcome.case_cong)
    qed
  qed
  show ?thesis
    unfolding update_once_def getSecret_def
    apply (rule ensures_and_then, rule ensures_ext_call, simp)
    apply (rule ensures_sum)
    subgoal for r err
      using turn.not_found [of p m] turn.get_failed [of p m]
      by (cases err) (auto simp: got_def intro!: ensures_ret)
    subgoal premises prems for r s
      using decide [of s] unfolding prems got_def append_Cons append_Nil .
    done
qed

section \<open>The loop\<close>

fun loop_runs :: "updater_process \<Rightarrow> select_case list \<Rightarrow> duration \<times> controller_metrics \<Rightarrow>
    updater_state \<times> controller_metrics \<Rightarrow> secret_event list \<Rightarrow> bool" where
  "loop_runs p [] (w, m) r es \<longleftrightarrow> r = (Waiting, m) \<and> es = [EvWait w]"
| "loop_runs p (Cancelled # cs) (w, m) r es \<longleftrightarrow> r = (Returned, m) \<and> es = [EvWait w]"
| "loop_runs p (Elapsed # cs) (w, m) r es \<longleftrightarrow>
     (\<exists>x es1 es2. es = EvWait w # es1 @ es2 \<and> turn p m x es1 \<and> loop_runs p cs x r es2)"

lemma loop_runs_step:
  "turn p m x es1 \<Longrightarrow> loop_runs p cs x r es2 \<Longrightarrow> loop_runs p (Elapsed # cs) (w, m) r (EvWait w # es1 @ es2)"
  unfolding loop_runs.simps by (intro exI conjI, rule refl)

lemma loop_runs_wait: "loop_runs p cs x r es \<Longrightarrow> \<exists>es'. es = EvWait (fst x) # es'"
  by (cases "(p, cs, x, r, es)" rule: loop_runs.cases) auto

lemma update_loop_runs:
  "ensures (update_loop E p cs (w, m))
     (\<lambda>r es. case r of Panic \<Rightarrow> False | Ret x \<Rightarrow> loop_runs p cs (w, m) x es)"
proof (induction cs arbitrary: w m)
  case Nil
  show ?case
    unfolding update_loop.simps
    by (rule ensures_and_then, rule ensures_ext_call) (auto intro!: ensures_ret)
next
  case (Cons c cs)
  have go: "ensures (update_loop E p cs x)
      (\<lambda>r es. case r of Panic \<Rightarrow> False | Ret y \<Rightarrow> loop_runs p (Elapsed # cs) (w, m) y (EvWait w # es1 @ es))"
    if "turn p m x es1" for x es1
  proof (rule ensures_mono [OF Cons.IH [of "fst x" "snd x", unfolded prod.collapse]])
    fix r es
    assume "case r of Panic \<Rightarrow> False | Ret y \<Rightarrow> loop_runs p cs x y es"
    with that show "case r of Panic \<Rightarrow> False
        | Ret y \<Rightarrow> loop_runs p (Elapsed # cs) (w, m) y (EvWait w # es1 @ es)"
      by (cases r) (simp_all add: loop_runs_step del: loop_runs.simps)
  qed
  show ?case
  proof (cases c)
    case Elapsed
    show ?thesis
      unfolding Elapsed update_loop.simps
      apply (rule ensures_and_then, rule ensures_ext_call, simp del: loop_runs.simps)
      apply (rule ensures_and_then, rule ensures_mono [OF update_once_runs])
      subgoal for r es
        by (cases r) (use go in \<open>simp_all del: loop_runs.simps cong: outcome.case_cong\<close>)
      done
  next
    case Cancelled
    then show ?thesis
      unfolding Cancelled update_loop.simps
      by (rule_tac ensures_and_then, rule_tac ensures_ext_call) (auto intro!: ensures_ret)
  qed
qed

text \<open>What the goroutine does with the metrics of the loop when it ends.\<close>

definition final_metrics :: "updater_process \<Rightarrow> updater_state \<times> controller_metrics \<Rightarrow> controller_metrics" where
  "final_metrics p x = (if fst x = Waiting then snd x else secret_retry_delete (up_key p) (snd x))"

lemma update_goroutine_runs:
  "ensures (update_goroutine E p cs m) (\<lambda>r es. \<exists>x.
     r = Ret (fst x, final_metrics p x) \<and> loop_runs p cs (Second, secret_retry_init (up_key p) m) x es)"
  unfolding update_goroutine_def
  apply (rule ensures_and_then, rule ensures_mono [OF update_loop_runs])
  apply (auto split: outcome.splits updater_state.splits intro!: ensures_ret)
   apply (auto simp: final_metrics_def)
  done

end
