(* ===== verification/Updater_Props.thy ===== *)
theory Updater_Props
  imports Updater_Runs
begin

text \<open>
  The properties of the secret updater: what a run asks for and waits for, what it writes, its
  counter of failures, and that in a world that answers it the secret never expires.
\<close>

section \<open>The wait of every turn\<close>

text \<open>The wait that follows the last event of a turn.\<close>

fun wait_after :: "secret_event list \<Rightarrow> duration \<Rightarrow> bool" where
  "wait_after [EvGetSecret _ _ (Inl NotFound)] w \<longleftrightarrow> w = Second"
| "wait_after [EvGetSecret _ _ (Inr s), EvTime now, EvTime now'] w \<longleftrightarrow>
     (\<exists>e. secret_expiry s = Some e \<and> w = update_time e - now')"
| "wait_after es w \<longleftrightarrow> w = (case last es of EvPatch _ _ None \<Rightarrow> Second | _ \<Rightarrow> Minute)"

lemma turn_wait: "turn p m x es \<Longrightarrow> wait_after es (fst x)"
  by (cases rule: turn.cases) (auto simp: call_events due_def split: option.splits)

lemma turn_no_wait: "turn p m x es \<Longrightarrow> EvWait w \<notin> set es"
  by (cases rule: turn.cases) (auto simp: call_events due_def split: option.splits)

text \<open>A history is a wait, the calls of a turn, the next wait, and so on.\<close>

lemma loop_runs_turn:
  "loop_runs p cs x r es \<Longrightarrow> es = a @ EvWait w # b @ EvWait w' # c \<Longrightarrow> \<forall>u. EvWait u \<notin> set b \<Longrightarrow>
   \<exists>m y. turn p m y b \<and> fst y = w'"
proof (induction p cs x r es arbitrary: a rule: loop_runs.induct)
  case (3 p cs w0 m r es)
  then obtain x es1 es2 where es: "a @ EvWait w # b @ EvWait w' # c = EvWait w0 # es1 @ es2"
    and t: "turn p m x es1" and l: "loop_runs p cs x r es2" by auto
  show ?case
  proof (cases a)
    case Nil
    from loop_runs_wait [OF l] obtain es3 where es3: "es2 = EvWait (fst x) # es3" by blast
    with es Nil have e: "b @ EvWait w' # c = es1 @ EvWait (fst x) # es3" by simp
    from block_split [OF e turn_no_wait [OF t]] obtain a1 where a1: "b = es1 @ a1" by blast
    from block_split [OF e [symmetric]] "3.prems"(3) obtain a2 where "es1 = b @ a2" by blast
    with a1 e t have "turn p m x b \<and> fst x = w'" by auto
    then show ?thesis by blast
  next
    case (Cons z a')
    with es have e: "a' @ EvWait w # b @ EvWait w' # c = es1 @ es2" by simp
    from block_split [OF e turn_no_wait [OF t]] obtain a1 where "es2 = a1 @ EvWait w # b @ EvWait w' # c"
      by blast
    with "3.IH" [OF l _ "3.prems"(3)] show ?thesis by blast
  qed
qed (auto simp: Cons_eq_append_conv append_eq_Cons_conv)

lemma goroutine_history:
  assumes "update_goroutine E p cs m [] = (r, es)"
  obtains x where "r = Ret (fst x, final_metrics p x)"
    and "loop_runs p cs (Second, secret_retry_init (up_key p) m) x es"
proof -
  from ensuresE [OF update_goroutine_runs assms] obtain es' where "es = [] @ es'"
    and "\<exists>x. r = Ret (fst x, final_metrics p x) \<and>
      loop_runs p cs (Second, secret_retry_init (up_key p) m) x es'" by blast
  with that show thesis by auto
qed

text \<open>C19. The secret updater waits as long as it should. Between two waits of its goroutine stands
  one turn. A turn that finds the secret still good is followed by a wait that ends five minutes
  before the token expires; a turn that refreshed the secret, or found none, by a wait of a second;
  a turn whose reading, token request or patch failed by a wait of a minute.\<close>

theorem updater_waits:
  assumes "update_goroutine E p cs m [] = (r, a @ EvWait w # b @ EvWait w' # c)"
    and "\<forall>u. EvWait u \<notin> set b"
  shows "wait_after b w'"
proof -
  from assms(1) obtain x where "loop_runs p cs (Second, secret_retry_init (up_key p) m) x
      (a @ EvWait w # b @ EvWait w' # c)" by (rule goroutine_history)
  from loop_runs_turn [OF this refl assms(2)] show ?thesis using turn_wait by blast
qed

section \<open>What is written, and when\<close>

lemma turn_event: "loop_runs p cs x r es \<Longrightarrow> es = a @ e # b \<Longrightarrow> \<forall>w. e \<noteq> EvWait w \<Longrightarrow>
   \<exists>m y es1 pre a' b' post. turn p m y es1 \<and> es1 = a' @ e # b' \<and> a = pre @ a' \<and> b = b' @ post"
proof (induction p cs x r es arbitrary: a rule: loop_runs.induct)
  case (3 p cs w0 m r es)
  then obtain x es1 es2 where es: "a @ e # b = EvWait w0 # es1 @ es2"
    and t: "turn p m x es1" and l: "loop_runs p cs x r es2" by auto
  with "3.prems"(3) obtain a0 where a0: "a = EvWait w0 # a0" by (cases a) auto
  with es consider a1 where "a0 = es1 @ a1" "es2 = a1 @ e # b"
    | b1 where "es1 = a0 @ e # b1" "b = b1 @ es2"
    by (auto simp: append_eq_append_conv2 Cons_eq_append_conv append_eq_Cons_conv)
  then show ?case
  proof cases
    case (1 a1)
    with "3.IH" [OF l _ "3.prems"(3)] obtain m' y es1' pre a' b' post where
      y: "turn p m' y es1'" "es1' = a' @ e # b'" "a1 = pre @ a'" "b = b' @ post" by blast
    from 1 a0 y(3) have "a = (EvWait w0 # es1 @ pre) @ a'" by simp
    with y(1,2,4) show ?thesis by blast
  next
    case (2 b1)
    from a0 have "a = [EvWait w0] @ a0" by simp
    with t 2 show ?thesis by blast
  qed
qed (auto simp: Cons_eq_append_conv append_eq_Cons_conv)

text \<open>C18. The secret updater writes a secret only when it is due, and writes what GitHub issued. Every
  patch of a run follows, with no call in between but the reading of the clock, the reading of the
  same secret and the issue of a token for the pool's owner and repository; the secret had no
  readable expiry, or the clock was later than five minutes before it; and what is written is the
  secret as it was read with that token and its expiry.\<close>

theorem updater_writes_when_due:
  assumes "update_goroutine E p cs m [] = (r, a @ EvPatch s s' err # b)"
  shows "\<exists>a' chk t. due s chk \<and> s' = refreshed t s \<and>
    a = a' @ EvGetSecret (up_rp_namespace p) (up_secret_name p) (Inr s) # chk @
      [EvNewToken (up_owner p) (up_repo p) (Inr t)]"
proof -
  from assms obtain x where l: "loop_runs p cs (Second, secret_retry_init (up_key p) m) x
      (a @ EvPatch s s' err # b)" by (rule goroutine_history)
  from turn_event [OF l refl] obtain m' y es1 pre a' b' where t: "turn p m' y es1"
    and es1: "es1 = a' @ EvPatch s s' err # b'" and a: "a = pre @ a'" by blast
  from t es1 have "\<exists>chk t. due s chk \<and> s' = refreshed t s \<and> a' = got p (Inr s) # chk @ [issued p (Inr t)]"
    by (cases rule: turn.cases)
      (auto simp: call_events due_def append_eq_Cons_conv Cons_eq_append_conv append_eq_append_conv2
        split: option.splits)
  with a show ?thesis by (auto simp: call_events)
qed

text \<open>What a refresh keeps, and that its annotation reads back as the expiry in whole seconds.\<close>

lemma secret_expiry_refreshed:
  assumes "rfc3339_ok (rt_zone t) (token_expiry t)"
  shows "secret_expiry (refreshed t s) = Some (token_expiry t - token_expiry t mod Second)"
  using parse_format_rfc3339 [OF assms] by (simp add: secret_expiry_def refreshed_def)

text \<open>C20. A refreshed secret reads back: its annotation parses to the token's expiry in whole seconds,
  the file of the token holds the token, and the other annotations, the data it had, its name and
  its owner are kept.\<close>

theorem refreshed_secret_reads_back:
  assumes "rfc3339_ok (rt_zone t) (token_expiry t)" and "rt_token t = Some tok"
  shows "secret_expiry (refreshed t s) = Some (token_expiry t - token_expiry t mod Second) \<and>
    go_get (se_string_data (refreshed t s)) RunnerTokenFileName = Some tok \<and>
    (\<forall>k. go_get (se_annotations (refreshed t s)) k =
      (if k = RunnerSecretExpiresAtAnnotationKey then Some (format_rfc3339 (rt_zone t) (token_expiry t))
       else go_get (se_annotations s) k)) \<and>
    se_data (refreshed t s) = se_data s \<and> se_name (refreshed t s) = se_name s \<and>
    se_namespace (refreshed t s) = se_namespace s \<and> se_owner (refreshed t s) = se_owner s"
  using secret_expiry_refreshed [OF assms(1), of s] assms(2)
  by (auto simp: refreshed_def deref_or_def split: option.splits)

section \<open>The counter of failures\<close>

fun failed_call :: "secret_event \<Rightarrow> bool" where
  "failed_call (EvGetSecret _ _ (Inl (OtherErr _))) = True"
| "failed_call (EvNewToken _ _ (Inl _)) = True"
| "failed_call (EvPatch _ _ (Some _)) = True"
| "failed_call _ = False"

definition failures :: "secret_event list \<Rightarrow> int" where
  "failures es = int (length (filter failed_call es))"

lemma failures_simps [simp]:
  "failures [] = 0" "failures (e # es) = (if failed_call e then 1 else 0) + failures es"
  "failures (es @ es') = failures es + failures es'"
  by (simp_all add: failures_def)

definition counts :: "updater_process \<Rightarrow> controller_metrics \<Rightarrow> int \<Rightarrow> controller_metrics \<Rightarrow> bool" where
  "counts p m n m' \<longleftrightarrow>
     m' = m\<lparr>secret_retry_count := (secret_retry_count m)(up_key p \<mapsto> n)\<rparr>"

lemma turn_counts:
  "turn p m' x es \<Longrightarrow> counts p m n m' \<Longrightarrow> counts p m (n + failures es) (snd x)"
  by (cases rule: turn.cases)
    (auto simp: counts_def call_events secret_retry_inc_def due_def split: option.splits)

lemma loop_counts:
  "loop_runs p cs x r es \<Longrightarrow> counts p m n (snd x) \<Longrightarrow>
   counts p m (n + failures es) (snd r) \<and> (fst r = Returned \<longleftrightarrow> Cancelled \<in> set cs)"
proof (induction p cs x r es arbitrary: n rule: loop_runs.induct)
  case (3 p cs w0 m0 r es)
  then obtain x es1 es2 where es: "es = EvWait w0 # es1 @ es2"
    and t: "turn p m0 x es1" and l: "loop_runs p cs x r es2" by auto
  from turn_counts [OF t] "3.prems"(2) have "counts p m (n + failures es1) (snd x)" by simp
  from "3.IH" [OF l this] es show ?case by (simp add: add.assoc)
qed auto

definition retries_before :: "updater_process \<Rightarrow> controller_metrics \<Rightarrow> int" where
  "retries_before p m = (case secret_retry_count m (up_key p) of None \<Rightarrow> 0 | Some n \<Rightarrow> n)"

text \<open>The goroutine of a secret updater never panics, and returns exactly when its context is
  cancelled. While it runs, the retry counter of its pool is the number of its calls that failed
  on top of what it was; when it has returned, the counter is gone. It changes no other metric.\<close>

theorem updater_counts_failures:
  "case update_goroutine E p cs m [] of (r, es) \<Rightarrow>
     r = (if Cancelled \<in> set cs
       then Ret (Returned, m\<lparr>secret_retry_count := (secret_retry_count m)(up_key p := None)\<rparr>)
       else Ret (Waiting, m\<lparr>secret_retry_count := (secret_retry_count m)
              (up_key p \<mapsto> retries_before p m + failures es)\<rparr>))"
proof -
  obtain r es where run: "update_goroutine E p cs m [] = (r, es)" by fastforce
  then obtain x where r: "r = Ret (fst x, final_metrics p x)"
    and l: "loop_runs p cs (Second, secret_retry_init (up_key p) m) x es" by (rule goroutine_history)
  have "counts p m (retries_before p m) (secret_retry_init (up_key p) m)"
    by (auto simp: counts_def retries_before_def secret_retry_init_def map_upd_triv split: option.splits)
  with loop_counts [OF l, of m] have "counts p m (retries_before p m + failures es) (snd x)"
    and st: "fst x = Returned \<longleftrightarrow> Cancelled \<in> set cs" by auto
  with run r show ?thesis
    by (cases "fst x") (auto simp: counts_def final_metrics_def secret_retry_delete_def)
qed

section \<open>The token does not expire\<close>

text \<open>
  A history of a world that answers. The secret in the cluster is \<open>s\<close>, the time is between \<open>lo\<close>
  and \<open>hi\<close>: every call takes up to \<open>\<delta>\<close>, a wait takes its duration and up to \<open>\<delta>\<close> more. Reading
  the secret gives it, a patch takes effect, and a token GitHub issues is good for ten minutes at
  least (an hour, by its documentation).
\<close>

fun world :: "duration \<Rightarrow> secret \<Rightarrow> time \<Rightarrow> time \<Rightarrow> secret_event list \<Rightarrow> bool" where
  "world \<delta> s lo hi [] \<longleftrightarrow> True"
| "world \<delta> s lo hi (EvWait w # es) \<longleftrightarrow> world \<delta> s (lo + max 0 w) (hi + max 0 w + \<delta>) es"
| "world \<delta> s lo hi (EvTime now # es) \<longleftrightarrow> lo \<le> now \<and> now \<le> hi \<and> world \<delta> s now (now + \<delta>) es"
| "world \<delta> s lo hi (EvGetSecret ns n r # es) \<longleftrightarrow> r = Inr s \<and> world \<delta> s lo (hi + \<delta>) es"
| "world \<delta> s lo hi (EvNewToken ow re r # es) \<longleftrightarrow>
     (\<exists>t. r = Inr t \<and> rfc3339_ok (rt_zone t) (token_expiry t) \<and> hi + 10 * Minute \<le> token_expiry t) \<and>
     world \<delta> s lo (hi + \<delta>) es"
| "world \<delta> s lo hi (EvPatch s1 s2 r # es) \<longleftrightarrow> r = None \<and> world \<delta> s2 lo (hi + \<delta>) es"

text \<open>Before a wait of \<open>w\<close> the secret outlives the wait by a few calls.\<close>

definition outlives :: "duration \<Rightarrow> secret \<Rightarrow> time \<Rightarrow> duration \<Rightarrow> bool" where
  "outlives \<delta> s hi w \<longleftrightarrow> (\<exists>e. secret_expiry s = Some e \<and> hi + max 0 w + 4 * \<delta> < e)"

text \<open>Every secret read is still good when the clock is read after it.\<close>

fun reads_good :: "secret_event list \<Rightarrow> bool" where
  "reads_good (EvGetSecret ns n (Inr s) # EvTime now # es) \<longleftrightarrow>
     (\<exists>e. secret_expiry s = Some e \<and> now < e) \<and> reads_good es"
| "reads_good (_ # es) \<longleftrightarrow> reads_good es"
| "reads_good [] \<longleftrightarrow> True"

lemma outlives_refreshed:
  assumes "rfc3339_ok (rt_zone t) (token_expiry t)" and "hi + 10 * Minute \<le> token_expiry t"
    and "0 \<le> \<delta>" and "6 * \<delta> < 5 * Minute"
  shows "outlives \<delta> (refreshed t s) (hi + \<delta> + \<delta>) Second"
proof -
  have "token_expiry t mod Second < Second" by (simp add: Second_def)
  with assms(2-4) have "hi + \<delta> + \<delta> + max 0 Second + 4 * \<delta> < token_expiry t - token_expiry t mod Second"
    by (simp add: time_units)
  with secret_expiry_refreshed [OF assms(1), of s] show ?thesis by (simp add: outlives_def)
qed

lemma turn_world:
  assumes "turn p m x es1" and "world \<delta> s lo hi (EvWait w # es1 @ es2)" and "outlives \<delta> s hi w"
    and "0 \<le> \<delta>" and "6 * \<delta> < 5 * Minute"
  shows "\<exists>s' lo' hi'. world \<delta> s' lo' hi' es2 \<and> outlives \<delta> s' hi' (fst x) \<and>
    reads_good (es1 @ es2) = reads_good es2"
  using assms(1)
proof (cases rule: turn.cases)
  case (fresh s1 e now now')
  with assms have s1: "s1 = s" and w: "world \<delta> s now' (now' + \<delta>) es2" and now: "now \<le> hi + max 0 w + \<delta> + \<delta>"
    "now' \<le> now + \<delta>" by (auto simp: call_events)
  from assms(3) fresh(3) s1 obtain "hi + max 0 w + 4 * \<delta> < e" by (auto simp: outlives_def)
  with now assms(4) have "now < e" by simp
  moreover from fresh(4) now assms(4,5) have "outlives \<delta> s (now' + \<delta>) (fst x)"
    using fresh(3) by (auto simp: outlives_def fresh(1) s1 update_time_def after_def)
  ultimately show ?thesis using w fresh(2,3) by (auto simp: call_events)
next
  case (patched s1 chk t)
  with assms(2) have s1: "s1 = s" by (auto simp: call_events)
  from assms(3) obtain e where e: "secret_expiry s = Some e" "hi + max 0 w + 4 * \<delta> < e"
    by (auto simp: outlives_def)
  with patched(3) s1 obtain now where chk: "chk = [EvTime now]" by (auto simp: due_def)
  from patched assms(2) s1 chk have now: "now \<le> hi + max 0 w + \<delta> + \<delta>"
    and t: "rfc3339_ok (rt_zone t) (token_expiry t)" "now + \<delta> + 10 * Minute \<le> token_expiry t"
    and w: "world \<delta> (refreshed t s) now (now + \<delta> + \<delta> + \<delta>) es2" by (auto simp: call_events)
  from now e(2) assms(4) have "now < e" by simp
  with e(1) w outlives_refreshed [OF t assms(4,5), of s] patched(1,2) chk s1 show ?thesis
    by (auto simp: call_events)
qed (use assms(2) in \<open>auto simp: call_events due_def split: option.splits\<close>)

lemma loop_world:
  "loop_runs p cs (w, m) r es \<Longrightarrow> world \<delta> s lo hi es \<Longrightarrow> outlives \<delta> s hi w \<Longrightarrow>
   0 \<le> \<delta> \<Longrightarrow> 6 * \<delta> < 5 * Minute \<Longrightarrow> reads_good es"
proof (induction cs arbitrary: w m es s lo hi)
  case (Cons c cs)
  show ?case
  proof (cases c)
    case Elapsed
    with Cons.prems(1) obtain x es1 es2 where es: "es = EvWait w # es1 @ es2"
      and t: "turn p m x es1" and l: "loop_runs p cs x r es2" by auto
    from turn_world [OF t Cons.prems(2) [unfolded es] Cons.prems(3-5)]
    obtain s' lo' hi' where "world \<delta> s' lo' hi' es2" "outlives \<delta> s' hi' (fst x)"
      "reads_good (es1 @ es2) = reads_good es2" by blast
    with Cons.IH [of "fst x" "snd x" es2] l es Cons.prems(4,5) show ?thesis by simp
  qed (use Cons.prems in auto)
qed auto

lemma world_append:
  "world \<delta> s lo hi (es1 @ es2) \<Longrightarrow> \<exists>s' lo' hi'. world \<delta> s' lo' hi' es2"
  by (induction \<delta> s lo hi es1 rule: world.induct) auto

lemma world_patched:
  assumes "due s chk" and "0 \<le> \<delta>" and "6 * \<delta> < 5 * Minute"
    and "world \<delta> s0 lo hi (got p (Inr s) # chk @ [issued p (Inr t), EvPatch s (refreshed t s) None] @ es2)"
  shows "\<exists>lo' hi'. world \<delta> (refreshed t s) lo' hi' es2 \<and> outlives \<delta> (refreshed t s) hi' Second"
proof -
  from assms(1) consider "chk = []" | now where "chk = [EvTime now]"
    by (auto simp: due_def split: option.splits)
  then obtain lo1 hi1 where "rfc3339_ok (rt_zone t) (token_expiry t)" "hi1 + 10 * Minute \<le> token_expiry t"
    and w: "world \<delta> (refreshed t s) lo1 (hi1 + \<delta> + \<delta>) es2"
    by cases (use assms(4) in \<open>auto simp: call_events\<close>)
  from outlives_refreshed [OF this(1,2) assms(2,3)] w show ?thesis by blast
qed

lemma turn_patch:
  assumes "turn p m x es1" and "es1 = a @ EvPatch s1 s2 None # b"
  obtains s0 chk t where "due s0 chk" and "b = []" and "x = (Second, m)"
    and "es1 = got p (Inr s0) # chk @ [issued p (Inr t), EvPatch s0 (refreshed t s0) None]"
  using assms(1)
proof (cases rule: turn.cases)
  case (patched s0 chk t)
  then have "b = []"
    using assms(2) by (auto simp: call_events due_def append_eq_Cons_conv Cons_eq_append_conv
        append_eq_append_conv2 split: option.splits)
  with patched that show thesis by blast
qed (use assms(2) in \<open>auto simp: call_events due_def append_eq_Cons_conv Cons_eq_append_conv
  append_eq_append_conv2 split: option.splits\<close>)

lemma world_after_patch:
  "loop_runs p cs (w, m) r es \<Longrightarrow> world \<delta> s lo hi es \<Longrightarrow> es = a @ EvPatch s1 s2 None # b \<Longrightarrow>
   0 \<le> \<delta> \<Longrightarrow> 6 * \<delta> < 5 * Minute \<Longrightarrow> reads_good b"
proof (induction cs arbitrary: w m es s lo hi a)
  case Nil
  then show ?case by (cases a) auto
next
  case (Cons c cs)
  show ?case
  proof (cases c)
    case Elapsed
    with Cons.prems(1) obtain x es1 es2 where es: "es = EvWait w # es1 @ es2"
      and t: "turn p m x es1" and l: "loop_runs p cs x r es2" by auto
    from Cons.prems(3) es obtain a0 where a0: "a = EvWait w # a0" by (cases a) auto
    with es Cons.prems(3) consider a1 where "es2 = a1 @ EvPatch s1 s2 None # b"
      | b1 where "es1 = a0 @ EvPatch s1 s2 None # b1" "b = b1 @ es2"
      by (auto simp: append_eq_append_conv2 Cons_eq_append_conv append_eq_Cons_conv)
    then show ?thesis
    proof cases
      case (1 a1)
      from world_append [of \<delta> s lo hi "EvWait w # es1" es2] Cons.prems(2) es
      obtain s' lo' hi' where "world \<delta> s' lo' hi' es2" by auto
      with Cons.IH [of "fst x" "snd x" es2] l 1 Cons.prems(4,5) show ?thesis by simp
    next
      case (2 b1)
      from t 2(1) obtain s0 chk t' where d: "due s0 chk" and b1: "b1 = []" and x: "x = (Second, m)"
        and es1: "es1 = got p (Inr s0) # chk @ [issued p (Inr t'), EvPatch s0 (refreshed t' s0) None]"
        by (rule turn_patch)
      from Cons.prems(2) es es1 obtain lo1 hi1 where "world \<delta> s lo1 hi1
          (got p (Inr s0) # chk @ [issued p (Inr t'), EvPatch s0 (refreshed t' s0) None] @ es2)" by auto
      from world_patched [OF d Cons.prems(4,5) this] obtain lo' hi' where
        "world \<delta> (refreshed t' s0) lo' hi' es2" "outlives \<delta> (refreshed t' s0) hi' Second" by blast
      with loop_world [of p cs Second m r es2] l x b1 2(2) Cons.prems(4,5) show ?thesis by simp
    qed
  next
    case Cancelled
    with Cons.prems show ?thesis by (cases a) auto
  qed
qed

lemma reads_goodD:
  "reads_good (a @ EvGetSecret ns n (Inr s) # EvTime now # b) \<Longrightarrow> \<exists>e. secret_expiry s = Some e \<and> now < e"
  by (induction a rule: reads_good.induct) simp_all

text \<open>C7. In a world that answers its calls within \<open>\<delta>\<close>, less than fifty seconds, the token never
  expires: after its first patch, every secret the updater reads is still good when it looks at
  the clock. The waits until five minutes before the expiry leave room for the calls.\<close>

theorem token_never_expires:
  assumes "update_goroutine E p cs m [] = (r, a @ EvPatch s1 s2 None # b @
      EvGetSecret ns n (Inr s) # EvTime now # c)"
    and "world \<delta> s0 lo hi (a @ EvPatch s1 s2 None # b @ EvGetSecret ns n (Inr s) # EvTime now # c)"
    and "0 \<le> \<delta>" and "6 * \<delta> < 5 * Minute"
  shows "\<exists>e. secret_expiry s = Some e \<and> now < e"
proof -
  from assms(1) obtain x where "loop_runs p cs (Second, secret_retry_init (up_key p) m) x
      (a @ EvPatch s1 s2 None # b @ EvGetSecret ns n (Inr s) # EvTime now # c)"
    by (rule goroutine_history)
  from world_after_patch [OF this assms(2) refl assms(3,4)] show ?thesis by (rule reads_goodD)
qed

section \<open>An example run\<close>

text \<open>
  A world with an instantaneous cluster and a token issued for the hour: the first turn fills the
  secret, the second finds it good and waits until five minutes before the hour is over.
\<close>

definition ex_secret :: secret where
  "ex_secret = \<lparr>se_name = ''runner-token-pool'', se_namespace = ''ns'', se_annotations = None,
     se_data = None, se_string_data = None, se_owner = Some ''pool''\<rparr>"

definition ex_token :: reg_token where
  "ex_token = \<lparr>rt_token = Some ''token'', rt_expires_at = Some (1700003600 * Second), rt_zone = 0\<rparr>"

definition ex_updater :: updater_process where
  "ex_updater = \<lparr>up_github_client = PatClient ''pat'', up_rp_namespace = ''ns'', up_rp_name = ''pool'',
     up_secret_name = ''runner-token-pool'', up_owner = ''owner'', up_repo = ''repo'', up_cancel = True\<rparr>"

definition ex_stored :: "secret_event list \<Rightarrow> secret" where
  "ex_stored tr = fold (\<lambda>e s. case e of EvPatch _ s' None \<Rightarrow> s' | _ \<Rightarrow> s) tr ex_secret"

definition ex_clock :: "secret_event list \<Rightarrow> time" where
  "ex_clock tr = 1700000000 * Second + (\<Sum>e\<leftarrow>tr. case e of EvWait w \<Rightarrow> w | _ \<Rightarrow> 0)"

definition ex_secret_env :: secret_env where
  "ex_secret_env = \<lparr>sv_now = ex_clock, sv_get = \<lambda>tr _ _. Inr (ex_stored tr),
     sv_token = \<lambda>_ _ _. Inr ex_token, sv_patch = \<lambda>_ _ _. None\<rparr>"

lemma ex_token_ok: "rfc3339_ok (rt_zone ex_token) (token_expiry ex_token)"
  by (simp add: rfc3339_ok_def local_date_def ex_token_def token_expiry_def deref_or_def date_of_def
      Second_def epoch_days_def year_of.simps month_of.simps year_days_def month_days_def leap_def)

lemma ex_refreshed_expiry: "secret_expiry (refreshed ex_token s) = Some (1700003600 * Second)"
  using secret_expiry_refreshed [OF ex_token_ok, of s]
  by (simp add: ex_token_def token_expiry_def deref_or_def Second_def)

definition ex_first :: "secret_event list" where
  "ex_first = [EvWait Second, got ex_updater (Inr ex_secret), issued ex_updater (Inr ex_token)]"

definition ex_second :: "secret_event list" where
  "ex_second = [EvTime (1700000002 * Second), EvWait (3298 * Second)]"

lemma ex_turn_due:
  "ex_stored tr = ex_secret \<Longrightarrow> update_once ex_secret_env ex_updater m tr =
     (Ret (Second, m), tr @ [got ex_updater (Inr ex_secret), issued ex_updater (Inr ex_token),
        EvPatch ex_secret (refreshed ex_token ex_secret) None])"
  by (simp add: update_once_def getSecret_def needUpdate_def updateSecret_def prog_basics
      ex_secret_env_def ex_secret_def call_events)

lemma ex_turn_fresh:
  assumes "ex_stored tr = refreshed ex_token ex_secret" and "ex_clock tr \<le> 1700003300 * Second"
  shows "update_once ex_secret_env ex_updater m tr = (Ret (1700003300 * Second - ex_clock tr, m),
     tr @ [got ex_updater (Inr (refreshed ex_token ex_secret)), EvTime (ex_clock tr), EvTime (ex_clock tr)])"
proof -
  from ex_refreshed_expiry [of ex_secret, unfolded secret_expiry_def] obtain str where
    "go_get (se_annotations (refreshed ex_token ex_secret)) RunnerSecretExpiresAtAnnotationKey = Some str"
    and "parse_rfc3339 str = Some (1700003600 * Second)" by (auto simp: bind_eq_Some_conv)
  with assms show ?thesis
    by (simp add: update_once_def getSecret_def needUpdate_def read_time_def prog_basics
        ex_secret_env_def call_events after_def Minute_def Second_def ex_clock_def)
qed

lemma ex_updater_run:
  "update_goroutine ex_secret_env ex_updater [Elapsed, Elapsed, Cancelled] InitControllerMetrics [] =
     (Ret (Returned, InitControllerMetrics),
      ex_first @ EvPatch ex_secret (refreshed ex_token ex_secret) None # [EvWait Second] @
      EvGetSecret ''ns'' ''runner-token-pool'' (Inr (refreshed ex_token ex_secret)) #
      EvTime (1700000002 * Second) # ex_second)"
  by (simp add: update_goroutine_def ex_turn_due ex_turn_fresh prog_basics ex_stored_def ex_clock_def
      ex_first_def ex_second_def call_events Second_def secret_retry_init_def secret_retry_delete_def
      InitControllerMetrics_def) (simp add: ex_updater_def)

lemma updater_waits_witness: "wait_after (tl ex_first @ [EvPatch ex_secret (refreshed ex_token ex_secret) None]) Second"
proof -
  have "update_goroutine ex_secret_env ex_updater [Elapsed, Elapsed, Cancelled] InitControllerMetrics [] =
      (Ret (Returned, InitControllerMetrics), [] @ EvWait Second #
        (tl ex_first @ [EvPatch ex_secret (refreshed ex_token ex_secret) None]) @ EvWait Second #
        (EvGetSecret ''ns'' ''runner-token-pool'' (Inr (refreshed ex_token ex_secret)) #
         EvTime (1700000002 * Second) # ex_second))"
    by (subst ex_updater_run) (simp add: ex_first_def)
  then show ?thesis
    by (rule updater_waits) (simp add: ex_first_def call_events)
qed

lemma updater_writes_when_due_witness:
  "\<exists>a' chk t. due ex_secret chk \<and> refreshed ex_token ex_secret = refreshed t ex_secret \<and>
    ex_first = a' @ EvGetSecret ''ns'' ''runner-token-pool'' (Inr ex_secret) # chk @
      [EvNewToken ''owner'' ''repo'' (Inr t)]"
  using updater_writes_when_due [OF ex_updater_run] by (simp add: ex_updater_def)

lemma refreshed_secret_reads_back_witness:
  "secret_expiry (refreshed ex_token ex_secret) = Some (1700003600 * Second) \<and>
   go_get (se_string_data (refreshed ex_token ex_secret)) RunnerTokenFileName = Some ''token''"
proof -
  have "rt_token ex_token = Some ''token''" by (simp add: ex_token_def)
  from refreshed_secret_reads_back [OF ex_token_ok this, of ex_secret] show ?thesis
    by (simp add: ex_token_def token_expiry_def deref_or_def Second_def)
qed

lemma token_never_expires_witness:
  "\<exists>e. secret_expiry (refreshed ex_token ex_secret) = Some e \<and> 1700000002 * Second < e"
proof (rule token_never_expires [OF ex_updater_run])
  show "world 0 ex_secret (1700000000 * Second) (1700000000 * Second)
      (ex_first @ EvPatch ex_secret (refreshed ex_token ex_secret) None # [EvWait Second] @
        EvGetSecret ''ns'' ''runner-token-pool'' (Inr (refreshed ex_token ex_secret)) #
        EvTime (1700000002 * Second) # ex_second)"
    using ex_token_ok
    by (simp add: ex_first_def ex_second_def call_events Second_def Minute_def)
      (simp add: ex_token_def token_expiry_def deref_or_def Second_def)
qed (simp_all add: Minute_def)

end
