(* ===== verification/Reconciler.thy ===== *)
theory Reconciler
  imports Runner_Manager Secret_Updater
begin

text \<open>
  The reconciler of RunnerPools (\<open>controllers/runnerpool_controller.go\<close>): its checks, the
  credential and the token secret, the Deployment of runner pods, and the order in which it drives
  the secret updater and the runner manager. The Kubernetes API, the functions of
  controller-runtime, the regular expressions and the text of JSON are parameters.
\<close>

section \<open>The Deployment\<close>

record container_port =
  cp_protocol :: string
  cp_name :: string
  cp_port :: int

text \<open>\<open>ct_other\<close> and \<open>dp_other\<close> are the fields the controller never touches.\<close>

record container =
  ct_name :: string
  ct_image :: string
  ct_image_pull_policy :: string
  ct_security_context :: "opaque option"
  ct_resources :: opaque
  ct_ports :: "container_port list"
  ct_volume_mounts :: "volume_mount list"
  ct_env_from :: "opaque list"
  ct_env :: "env_var list"
  ct_other :: opaque

record deployment =
  dp_name :: string
  dp_namespace :: string
  dp_labels :: go_map
  dp_owner :: "string option"
  dp_selector :: go_map
  dp_template_labels :: go_map
  dp_template_annotations :: go_map
  dp_replicas :: "int32 option"
  dp_service_account_name :: string
  dp_image_pull_secrets :: "string list"
  dp_automount_token :: "bool option"
  dp_volumes :: "volume list"
  dp_node_selector :: go_map
  dp_tolerations :: "opaque list"
  dp_containers :: "container list"
  dp_other :: opaque

definition labelSet :: "runner_pool \<Rightarrow> go_map" where
  "labelSet rp = Some (Map.empty(AppNameLabelKey \<mapsto> AppName,
     AppComponentLabelKey \<mapsto> AppComponentRunner, AppInstanceLabelKey \<mapsto> rp_name rp))"

definition findRunnerContainer :: "container list \<Rightarrow> container option" where
  "findRunnerContainer cs = find (\<lambda>c. ct_name c = RunnerContainerName) cs"

definition new_container :: container where
  "new_container = \<lparr>ct_name = RunnerContainerName, ct_image = '''', ct_image_pull_policy = '''',
     ct_security_context = None, ct_resources = '''', ct_ports = [], ct_volume_mounts = [],
     ct_env_from = [], ct_env = [], ct_other = ''''\<rparr>"

definition addRunnerContainerIfNotExists :: "container list \<Rightarrow> container list" where
  "addRunnerContainerIfNotExists cs =
     (case findRunnerContainer cs of Some _ \<Rightarrow> cs | None \<Rightarrow> cs @ [new_container])"

text \<open>Writing through the pointer \<open>findRunnerContainer\<close> returns.\<close>

fun update_runner_container :: "(container \<Rightarrow> container) \<Rightarrow> container list \<Rightarrow> container list" where
  "update_runner_container f [] = []"
| "update_runner_container f (c # cs) =
     (if ct_name c = RunnerContainerName then f c # cs else c # update_runner_container f cs)"

definition makeRunnerContainerPorts :: "container_port list" where
  "makeRunnerContainerPorts =
     [\<lparr>cp_protocol = ''TCP'', cp_name = RunnerMetricsPortName, cp_port = RunnerListenPort\<rparr>]"

definition env_value :: "string \<Rightarrow> string \<Rightarrow> env_var" where
  "env_value k v = \<lparr>ev_name = k, ev_value = v, ev_from = None\<rparr>"

definition env_field :: "string \<Rightarrow> string \<Rightarrow> env_var" where
  "env_field k path = \<lparr>ev_name = k, ev_value = '''', ev_from = Some (FieldRef ''v1'' path)\<rparr>"

definition makeRunnerContainerEnv :: "(json \<Rightarrow> string) \<Rightarrow> runner_pool \<Rightarrow> env_var list" where
  "makeRunnerContainerEnv print_json rp =
     [env_field PodNameEnvName ''metadata.name'',
      env_field PodNamespaceEnvName ''metadata.namespace'',
      env_value RunnerPoolNameEnvName (rp_name rp),
      env_value RunnerOptionEnvName (print_json (option_json (spec_setup_command (rp_spec rp))))] @
     (if IsOrgLevel rp then [env_value RunnerOrgEnvName (spec_organization (rp_spec rp))]
      else [env_value RunnerRepoEnvName (spec_repository (rp_spec rp))]) @
     rc_env (tpl_runner_container (spec_template (rp_spec rp)))"

definition runner_volumes :: "runner_pool \<Rightarrow> volume list" where
  "runner_volumes rp =
     tpl_volumes (spec_template (rp_spec rp)) @
     [\<lparr>vol_name = ''var-dir'', vol_source = EmptyDir\<rparr>,
      \<lparr>vol_name = ''work-dir'', vol_source = (case spec_work_volume (rp_spec rp) of
         None \<Rightarrow> EmptyDir | Some v \<Rightarrow> v)\<rparr>,
      \<lparr>vol_name = GetRunnerSecretName rp, vol_source = SecretVolume (GetRunnerSecretName rp)\<rparr>]"

definition runner_volume_mounts :: "runner_pool \<Rightarrow> volume_mount list" where
  "runner_volume_mounts rp =
     rc_volume_mounts (tpl_runner_container (spec_template (rp_spec rp))) @
     [\<lparr>vm_name = ''var-dir'', vm_read_only = False, vm_path = RunnerVarDirPath, vm_other = ''''\<rparr>,
      \<lparr>vm_name = ''work-dir'', vm_read_only = False, vm_path = RunnerWorkDirPath, vm_other = ''''\<rparr>,
      \<lparr>vm_name = GetRunnerSecretName rp, vm_read_only = True,
        vm_path = filepath_join [RunnerVarDirPath, SecretsDirName], vm_other = ''''\<rparr>]"

definition set_runner_container :: "(json \<Rightarrow> string) \<Rightarrow> string \<Rightarrow> runner_pool \<Rightarrow> container \<Rightarrow> container" where
  "set_runner_container print_json runnerImage rp c =
     (let rc = tpl_runner_container (spec_template (rp_spec rp))
      in c\<lparr>ct_image := (if rc_image rc \<noteq> '''' then rc_image rc else runnerImage),
           ct_image_pull_policy := (if rc_image_pull_policy rc \<noteq> '''' then rc_image_pull_policy rc
              else ct_image_pull_policy c),
           ct_security_context := rc_security_context rc,
           ct_resources := rc_resources rc,
           ct_ports := makeRunnerContainerPorts,
           ct_volume_mounts := runner_volume_mounts rp,
           ct_env_from := rc_env_from rc,
           ct_env := makeRunnerContainerEnv print_json rp\<rparr>)"

text \<open>
  The function \<open>CreateOrUpdate\<close> applies to the Deployment; \<open>set_controller\<close> is
  \<open>ctrl.SetControllerReference\<close>, which may refuse.
\<close>

definition mutate_deployment ::
  "(json \<Rightarrow> string) \<Rightarrow> (runner_pool \<Rightarrow> deployment \<Rightarrow> go_error + deployment) \<Rightarrow> string \<Rightarrow> runner_pool \<Rightarrow>
   deployment \<Rightarrow> go_error + deployment" where
  "mutate_deployment print_json set_controller runnerImage rp d =
     (let tpl = spec_template (rp_spec rp) in set_controller rp (d\<lparr>
        dp_labels := mergeMap (dp_labels d) (labelSet rp),
        dp_selector := labelSet rp,
        dp_template_labels :=
          mergeMap (mergeMap (dp_template_labels d) (om_labels (tpl_meta tpl))) (labelSet rp),
        dp_template_annotations := mergeMap (dp_template_annotations d) (om_annotations (tpl_meta tpl)),
        dp_replicas := Some (spec_replicas (rp_spec rp)),
        dp_service_account_name := tpl_service_account_name tpl,
        dp_image_pull_secrets := tpl_image_pull_secrets tpl,
        dp_automount_token := (case tpl_automount_token tpl of
          None \<Rightarrow> dp_automount_token d | Some b \<Rightarrow> Some b),
        dp_volumes := runner_volumes rp,
        dp_node_selector := tpl_node_selector tpl,
        dp_tolerations := tpl_tolerations tpl,
        dp_containers := update_runner_container (set_runner_container print_json runnerImage rp)
          (addRunnerContainerIfNotExists (dp_containers d))\<rparr>))"

section \<open>Calls\<close>

datatype rec_event =
    EvGetPool string string "api_error + runner_pool"
  | EvUpdatePool runner_pool "go_error option"
  | EvUpdateStatus runner_pool "go_error option"
  | EvReadSecret string string "api_error + secret"
  | EvCreateSecret secret "go_error option"
  | EvApply runner_pool "go_error option"

record rec_env =
  ke_get_pool :: "rec_event list \<Rightarrow> string \<Rightarrow> string \<Rightarrow> api_error + runner_pool"
  ke_update_pool :: "rec_event list \<Rightarrow> runner_pool \<Rightarrow> go_error option"
  ke_update_status :: "rec_event list \<Rightarrow> runner_pool \<Rightarrow> go_error option"
  ke_get_secret :: "rec_event list \<Rightarrow> string \<Rightarrow> string \<Rightarrow> api_error + secret"
  ke_create_secret :: "rec_event list \<Rightarrow> secret \<Rightarrow> go_error option"
  ke_create_or_update ::
    "rec_event list \<Rightarrow> string \<Rightarrow> string \<Rightarrow> (deployment \<Rightarrow> go_error + deployment) \<Rightarrow> go_error option"

text \<open>
  What the reconciler is built with: the image, the regular expressions (nil or a test), the
  functions of controller-runtime, the printer of JSON, and what its two parts are built with.
\<close>

record rec_config =
  cf_runner_image :: string
  cf_organization_regexp :: "(string \<Rightarrow> bool) option"
  cf_repository_regexp :: "(string \<Rightarrow> bool) option"
  cf_contains_finalizer :: "string list \<Rightarrow> string \<Rightarrow> bool"
  cf_remove_finalizer :: "string list \<Rightarrow> string \<Rightarrow> string list"
  cf_own_secret :: "runner_pool \<Rightarrow> secret \<Rightarrow> go_error + secret"
  cf_own_deployment :: "runner_pool \<Rightarrow> deployment \<Rightarrow> go_error + deployment"
  cf_print_json :: "json \<Rightarrow> string"
  cf_new_client :: "client_credential \<Rightarrow> go_error + api_client"
  cf_parse_url :: "string \<Rightarrow> go_error + server_url"
  cf_wait_err :: "string \<Rightarrow> go_error option"
  cf_now :: time

record controllers =
  co_manager :: runner_manager
  co_updater :: secret_updater

definition error_text :: "api_error \<Rightarrow> go_error" where
  "error_text e = (case e of NotFound \<Rightarrow> ''not found'' | OtherErr s \<Rightarrow> s)"

section \<open>Checks and credentials\<close>

definition pool_validation :: "rec_config \<Rightarrow> runner_pool \<Rightarrow> go_error option" where
  "pool_validation C rp =
     (if IsOrgLevel rp then
        (case cf_organization_regexp C of
           None \<Rightarrow> None
         | Some matches \<Rightarrow> if matches (spec_organization (rp_spec rp)) then None
             else Some ''organization is not match'')
      else
        (case cf_repository_regexp C of
           None \<Rightarrow> None
         | Some matches \<Rightarrow> if matches (spec_repository (rp_spec rp)) then None
             else Some ''repository is not match''))"

definition readAppKeySecret :: "secret \<Rightarrow> go_error + client_credential" where
  "readAppKeySecret s = (case go_get (se_data s) CredentialSecretDataAppID of
       None \<Rightarrow> Inl (''missing '' @ CredentialSecretDataAppID @ '' key'')
     | Some appIDstr \<Rightarrow>
         (case atoi appIDstr of
            Inl _ \<Rightarrow> Inl (''invalid '' @ CredentialSecretDataAppID @ '' value'')
          | Inr appID \<Rightarrow>
         (case go_get (se_data s) CredentialSecretDataAppInstallationID of
            None \<Rightarrow> Inl (''missing '' @ CredentialSecretDataAppInstallationID @ '' key'')
          | Some insIDstr \<Rightarrow>
         (case atoi insIDstr of
            Inl _ \<Rightarrow> Inl (''invalid '' @ CredentialSecretDataAppInstallationID @ '' value'')
          | Inr insID \<Rightarrow>
         (case go_get (se_data s) CredentialSecretDataAppPrivateKey of
            None \<Rightarrow> Inl (''missing '' @ CredentialSecretDataAppPrivateKey @ '' key'')
          | Some key \<Rightarrow> Inr \<lparr>cr_pat = '''', cr_app_id = appID, cr_app_installation_id = insID,
              cr_private_key = key, cr_private_key_path = ''''\<rparr>)))))"

definition credential_of :: "secret \<Rightarrow> go_error + client_credential" where
  "credential_of s = (case go_get (se_data s) CredentialSecretDataPATToken of
       Some pat \<Rightarrow> Inr \<lparr>cr_pat = pat, cr_app_id = 0, cr_app_installation_id = 0,
         cr_private_key = '''', cr_private_key_path = ''''\<rparr>
     | None \<Rightarrow> readAppKeySecret s)"

definition credential_secret_name :: "runner_pool \<Rightarrow> string" where
  "credential_secret_name rp =
     (let name = spec_credential_secret_name (rp_spec rp)
      in if name \<noteq> '''' then name else DefaultCredentialSecretName)"

definition read_secret :: "rec_env \<Rightarrow> string \<Rightarrow> string \<Rightarrow> (rec_event, api_error + secret) prog" where
  "read_secret E ns name = ext_call (\<lambda>tr. ke_get_secret E tr ns name) (EvReadSecret ns name)"

definition getGitHubCredential ::
  "rec_env \<Rightarrow> runner_pool \<Rightarrow> (rec_event, go_error + client_credential) prog" where
  "getGitHubCredential E rp =
     and_then (read_secret E (rp_namespace rp) (credential_secret_name rp)) (\<lambda>r. case r of
         Inl err \<Rightarrow> ret (Inl (''failed to get credential secret; '' @ error_text err))
       | Inr s \<Rightarrow> ret (credential_of s))"

section \<open>The token secret and the Deployment\<close>

definition token_secret :: "runner_pool \<Rightarrow> secret" where
  "token_secret rp = \<lparr>se_name = GetRunnerSecretName rp, se_namespace = rp_namespace rp,
     se_annotations = None, se_data = None, se_string_data = None, se_owner = None\<rparr>"

text \<open>The flag \<open>isContinuation\<close>: whether the secret holds a token already.\<close>

definition reconcileSecret :: "rec_env \<Rightarrow> rec_config \<Rightarrow> runner_pool \<Rightarrow> (rec_event, go_error + bool) prog" where
  "reconcileSecret E C rp =
     and_then (read_secret E (rp_namespace rp) (GetRunnerSecretName rp)) (\<lambda>r. case r of
         Inr s \<Rightarrow> ret (Inr (go_get (se_annotations s) RunnerSecretExpiresAtAnnotationKey \<noteq> None))
       | Inl (OtherErr err) \<Rightarrow> ret (Inl err)
       | Inl NotFound \<Rightarrow>
           (case cf_own_secret C rp (token_secret rp) of
              Inl err \<Rightarrow> ret (Inl err)
            | Inr s \<Rightarrow>
                and_then (ext_call (\<lambda>tr. ke_create_secret E tr s) (EvCreateSecret s)) (\<lambda>err. case err of
                    Some e \<Rightarrow> ret (Inl e)
                  | None \<Rightarrow> ret (Inr False))))"

definition reconcileDeployment :: "rec_env \<Rightarrow> rec_config \<Rightarrow> runner_pool \<Rightarrow> (rec_event, go_error option) prog" where
  "reconcileDeployment E C rp =
     ext_call (\<lambda>tr. ke_create_or_update E tr (rp_namespace rp) (GetRunnerDeploymentName rp)
         (mutate_deployment (cf_print_json C) (cf_own_deployment C) (cf_runner_image C) rp))
       (EvApply rp)"

section \<open>Reconcile\<close>

text \<open>\<open>ctrl.Result\<close>: whether to come again, and when.\<close>

record rec_result =
  rr_requeue :: bool
  rr_after :: duration

definition no_requeue :: rec_result where
  "no_requeue = \<lparr>rr_requeue = False, rr_after = 0\<rparr>"

definition finalize ::
  "rec_env \<Rightarrow> rec_config \<Rightarrow> runner_pool \<Rightarrow> controllers \<Rightarrow>
   (rec_event, (go_error + rec_result) \<times> controllers) prog" where
  "finalize E C rp s =
     (if \<not> cf_contains_finalizer C (rp_finalizers rp) RunnerPoolFinalizer then ret (Inr no_requeue, s)
      else case rm_Stop (cf_wait_err C) (co_manager s) rp of
          (Some err, m) \<Rightarrow> ret (Inl err, s\<lparr>co_manager := m\<rparr>)
        | (None, m) \<Rightarrow>
            (case su_Stop (cf_wait_err C) (co_updater s) rp of
               (Some err, u) \<Rightarrow> ret (Inl err, s\<lparr>co_manager := m, co_updater := u\<rparr>)
             | (None, u) \<Rightarrow>
                 let rp' = rp\<lparr>rp_finalizers := cf_remove_finalizer C (rp_finalizers rp) RunnerPoolFinalizer\<rparr>;
                     s' = s\<lparr>co_manager := m, co_updater := u\<rparr>
                 in and_then (ext_call (\<lambda>tr. ke_update_pool E tr rp') (EvUpdatePool rp')) (\<lambda>err. case err of
                        Some e \<Rightarrow> ret (Inl e, s')
                      | None \<Rightarrow> ret (Inr no_requeue, s'))))"

definition update_status ::
  "rec_env \<Rightarrow> runner_pool \<Rightarrow> controllers \<Rightarrow> (rec_event, (go_error + rec_result) \<times> controllers) prog" where
  "update_status E rp s =
     (let rp' = rp\<lparr>rp_bound := True\<rparr>
      in and_then (ext_call (\<lambda>tr. ke_update_status E tr rp') (EvUpdateStatus rp')) (\<lambda>err. case err of
             Some e \<Rightarrow> ret (Inl e, s)
           | None \<Rightarrow> ret (Inr no_requeue, s)))"

definition reconcile_pods ::
  "rec_env \<Rightarrow> rec_config \<Rightarrow> runner_pool \<Rightarrow> client_credential \<Rightarrow> controllers \<Rightarrow>
   (rec_event, (go_error + rec_result) \<times> controllers) prog" where
  "reconcile_pods E C rp cred s =
     and_then (reconcileDeployment E C rp) (\<lambda>err. case err of
         Some e \<Rightarrow> ret (Inl e, s)
       | None \<Rightarrow>
           and_then (of_outcome (StartOrUpdate (cf_new_client C) (cf_parse_url C) (cf_now C) (co_manager s) rp cred))
             (\<lambda>(err, m). case err of
                Some e \<Rightarrow> ret (Inl e, s\<lparr>co_manager := m\<rparr>)
              | None \<Rightarrow> update_status E rp (s\<lparr>co_manager := m\<rparr>)))"

definition reconcile_live ::
  "rec_env \<Rightarrow> rec_config \<Rightarrow> runner_pool \<Rightarrow> controllers \<Rightarrow>
   (rec_event, (go_error + rec_result) \<times> controllers) prog" where
  "reconcile_live E C rp s = (case pool_validation C rp of
       Some err \<Rightarrow> ret (Inl err, s)
     | None \<Rightarrow>
         and_then (getGitHubCredential E rp) (\<lambda>r. case r of
             Inl err \<Rightarrow> ret (Inl err, s)
           | Inr cred \<Rightarrow>
         and_then (reconcileSecret E C rp) (\<lambda>r. case r of
             Inl err \<Rightarrow> ret (Inl err, s)
           | Inr isContinuation \<Rightarrow>
         and_then (of_outcome (su_Start (cf_new_client C) (co_updater s) rp cred)) (\<lambda>(err, u). case err of
             Some e \<Rightarrow> ret (Inl e, s\<lparr>co_updater := u\<rparr>)
           | None \<Rightarrow>
               if \<not> isContinuation
               then ret (Inr \<lparr>rr_requeue = True, rr_after = 10 * Second\<rparr>, s\<lparr>co_updater := u\<rparr>)
               else reconcile_pods E C rp cred (s\<lparr>co_updater := u\<rparr>)))))"

definition Reconcile ::
  "rec_env \<Rightarrow> rec_config \<Rightarrow> string \<Rightarrow> string \<Rightarrow> controllers \<Rightarrow>
   (rec_event, (go_error + rec_result) \<times> controllers) prog" where
  "Reconcile E C ns name s =
     and_then (ext_call (\<lambda>tr. ke_get_pool E tr ns name) (EvGetPool ns name)) (\<lambda>r. case r of
         Inl NotFound \<Rightarrow> ret (Inr no_requeue, s)
       | Inl (OtherErr err) \<Rightarrow> ret (Inl err, s)
       | Inr rp \<Rightarrow>
           if rp_deletion_timestamp rp \<noteq> None then finalize E C rp s else reconcile_live E C rp s)"

end
