(* ===== verification/Deployment_Props.thy ===== *)
theory Deployment_Props
  imports Reconciler Runner_Pod
begin

text \<open>
  The Deployment the reconciler makes, against the components that rely on it: the manager finds
  its pods, the runner finds its token and its pool, and applying it again changes nothing.
\<close>

section \<open>What the controller sets\<close>

text \<open>
  The desired Deployment before the owner is set. \<open>owner_only\<close> is what the documentation of
  \<open>SetControllerReference\<close> promises: it sets the owner, and accepts what it has set.
\<close>

definition desired :: "(json \<Rightarrow> string) \<Rightarrow> string \<Rightarrow> runner_pool \<Rightarrow> deployment \<Rightarrow> deployment" where
  "desired print_json img rp d = (case mutate_deployment print_json (\<lambda>_ d. Inr d) img rp d of
     Inl _ \<Rightarrow> d | Inr d' \<Rightarrow> d')"

definition owner_only :: "(runner_pool \<Rightarrow> deployment \<Rightarrow> go_error + deployment) \<Rightarrow> bool" where
  "owner_only set_controller \<longleftrightarrow> (\<forall>rp d d'. set_controller rp d = Inr d' \<longrightarrow>
     d' = d\<lparr>dp_owner := dp_owner d'\<rparr> \<and> set_controller rp d' = Inr d')"

lemma mutate_desired:
  "mutate_deployment print_json set_controller img rp d = set_controller rp (desired print_json img rp d)"
  by (simp add: desired_def mutate_deployment_def Let_def)

lemma owned:
  assumes "owner_only set_controller" and "mutate_deployment print_json set_controller img rp d = Inr d'"
  obtains ow where "d' = (desired print_json img rp d)\<lparr>dp_owner := ow\<rparr>" and "set_controller rp d' = Inr d'"
  using assms by (metis mutate_desired owner_only_def)

lemma desired_fields [simp]:
  "dp_selector (desired print_json img rp d) = labelSet rp"
  "dp_template_labels (desired print_json img rp d) =
     mergeMap (mergeMap (dp_template_labels d) (om_labels (tpl_meta (spec_template (rp_spec rp))))) (labelSet rp)"
  "dp_volumes (desired print_json img rp d) = runner_volumes rp"
  "dp_containers (desired print_json img rp d) =
     update_runner_container (set_runner_container print_json img rp) (addRunnerContainerIfNotExists (dp_containers d))"
  by (simp_all add: desired_def mutate_deployment_def Let_def)

text \<open>C25. The Deployment's pods are the ones the runner manager looks for: its selector is the manager's
  selector for the pool, and every pod of it bears the labels of the selector, whatever labels the
  template or an earlier Deployment asked for.\<close>

theorem deployment_selects_its_pods:
  assumes "owner_only set_controller"
    and "mutate_deployment print_json set_controller img rp d = Inr d'"
    and "newManageProcess parse_url now githubClient interval rp = Ret (Inr p)"
  shows "dp_selector d' = runner_selector p \<and>
    (\<forall>k. go_get (runner_selector p) k \<noteq> None \<longrightarrow> go_get (dp_template_labels d') k = go_get (runner_selector p) k)"
proof -
  from assms(3) have "mp_rp_name p = rp_name rp"
    by (auto simp: newManageProcess_def Let_def split: sum.splits outcome.splits)
  then have sel: "runner_selector p = labelSet rp" by (simp add: runner_selector_def labelSet_def)
  from owned [OF assms(1,2)] obtain ow where "d' = (desired print_json img rp d)\<lparr>dp_owner := ow\<rparr>" .
  then show ?thesis by (simp add: sel split: option.splits)
qed

section \<open>The runner container\<close>

lemma find_runner_added: "findRunnerContainer (addRunnerContainerIfNotExists cs) \<noteq> None"
proof (cases "findRunnerContainer cs")
  case None
  have "findRunnerContainer (cs @ [new_container]) \<noteq> None"
    by (simp add: findRunnerContainer_def find_None_iff) (rule exI [of _ new_container], simp add: new_container_def)
  with None show ?thesis by (simp add: addRunnerContainerIfNotExists_def)
qed (simp add: addRunnerContainerIfNotExists_def)

lemma find_update_runner:
  assumes "\<And>c. ct_name (f c) = ct_name c"
  shows "findRunnerContainer (update_runner_container f cs) = map_option f (findRunnerContainer cs)"
  unfolding findRunnerContainer_def by (induction cs) (auto simp: assms)

lemma update_runner_twice:
  assumes "\<And>c. ct_name (f c) = ct_name c" and "\<And>c. f (f c) = f c"
  shows "update_runner_container f (update_runner_container f cs) = update_runner_container f cs"
  by (induction cs) (auto simp: assms)

lemma update_runner_others:
  assumes "\<And>c. ct_name (f c) = ct_name c"
  shows "filter (\<lambda>c. ct_name c \<noteq> RunnerContainerName) (update_runner_container f cs) =
    filter (\<lambda>c. ct_name c \<noteq> RunnerContainerName) cs"
  by (induction cs) (auto simp: assms)

lemma add_runner_others:
  "filter (\<lambda>c. ct_name c \<noteq> RunnerContainerName) (addRunnerContainerIfNotExists cs) =
   filter (\<lambda>c. ct_name c \<noteq> RunnerContainerName) cs"
  by (simp add: addRunnerContainerIfNotExists_def new_container_def split: option.split)

lemma set_runner_name [simp]: "ct_name (set_runner_container print_json img rp c) = ct_name c"
  by (simp add: set_runner_container_def Let_def)

lemma set_runner_twice:
  "set_runner_container print_json img rp (set_runner_container print_json img rp c) =
   set_runner_container print_json img rp c"
  by (simp add: set_runner_container_def Let_def)

lemma runner_containers:
  fixes print_json img rp and ds :: "container list"
  defines "cs \<equiv> update_runner_container (set_runner_container print_json img rp) (addRunnerContainerIfNotExists ds)"
  shows "\<exists>c. findRunnerContainer cs = Some (set_runner_container print_json img rp c)"
    and "addRunnerContainerIfNotExists cs = cs"
    and "update_runner_container (set_runner_container print_json img rp) cs = cs"
    and "filter (\<lambda>c. ct_name c \<noteq> RunnerContainerName) cs = filter (\<lambda>c. ct_name c \<noteq> RunnerContainerName) ds"
proof -
  from find_runner_added [of ds] obtain c where "findRunnerContainer (addRunnerContainerIfNotExists ds) = Some c"
    by auto
  then show c: "\<exists>c. findRunnerContainer cs = Some (set_runner_container print_json img rp c)"
    by (auto simp: cs_def find_update_runner)
  then show "addRunnerContainerIfNotExists cs = cs"
    by (auto simp: addRunnerContainerIfNotExists_def [of cs])
  show "update_runner_container (set_runner_container print_json img rp) cs = cs"
    unfolding cs_def by (rule update_runner_twice) (simp_all add: set_runner_twice)
  show "filter (\<lambda>c. ct_name c \<noteq> RunnerContainerName) cs = filter (\<lambda>c. ct_name c \<noteq> RunnerContainerName) ds"
    by (simp add: cs_def update_runner_others add_runner_others)
qed

lemma mergeMap_cong:
  assumes "\<And>k. go_get b k = None \<Longrightarrow> go_get x k = go_get y k"
  shows "mergeMap x b = mergeMap y b"
proof -
  have "(\<lambda>k. case go_get b k of Some v \<Rightarrow> Some v | None \<Rightarrow> go_get x k) =
      (\<lambda>k. case go_get b k of Some v \<Rightarrow> Some v | None \<Rightarrow> go_get y k)"
    by (rule ext) (simp add: assms split: option.split)
  then show ?thesis by (simp add: mergeMap_def)
qed

lemma mergeMap_twice:
  "mergeMap (mergeMap (mergeMap (mergeMap m a) b) a) b = mergeMap (mergeMap m a) b"
  by (rule mergeMap_cong) (simp split: option.split)

text \<open>C26. Applying the Deployment is idempotent: once the function of \<open>CreateOrUpdate\<close> has been applied,
  applying it again changes nothing, so a pool that does not change causes no further updates.\<close>

theorem deployment_settles:
  assumes "owner_only set_controller"
    and "mutate_deployment print_json set_controller img rp d = Inr d'"
  shows "mutate_deployment print_json set_controller img rp d' = Inr d'"
proof -
  from owned [OF assms] obtain ow where d': "d' = (desired print_json img rp d)\<lparr>dp_owner := ow\<rparr>"
    and "set_controller rp d' = Inr d'" .
  moreover have "desired print_json img rp d' = d'"
    unfolding d'
    by (simp add: desired_def mutate_deployment_def Let_def mergeMap_idem mergeMap_twice
        runner_containers(2,3) split: option.split)
  ultimately show ?thesis by (simp add: mutate_desired)
qed

text \<open>C27. The Deployment carries the token to where the runner reads it. It has a runner container, which
  mounts the pool's token secret read-only, from a volume of the pod, and the file of that mount
  the secret updater fills is the one a Runner in it opens; every other container is left as it
  was, in its order.\<close>

theorem token_reaches_runner:
  assumes "owner_only set_controller"
    and "mutate_deployment print_json set_controller img rp d = Inr d'"
    and "NewRunner parse_json e addr runnerDir workDir RunnerVarDirPath = Inr r"
  shows "\<exists>c mnt. findRunnerContainer (dp_containers d') = Some c \<and> mnt \<in> set (ct_volume_mounts c) \<and>
    vm_read_only mnt \<and>
    (\<exists>v \<in> set (dp_volumes d'). vol_name v = vm_name mnt \<and> vol_source v = SecretVolume (GetRunnerSecretName rp)) \<and>
    rn_token_path r = vm_path mnt @ ''/'' @ RunnerTokenFileName \<and>
    go_get (se_string_data (refreshed t sec)) RunnerTokenFileName \<noteq> None \<and>
    filter (\<lambda>c. ct_name c \<noteq> RunnerContainerName) (dp_containers d') =
      filter (\<lambda>c. ct_name c \<noteq> RunnerContainerName) (dp_containers d)"
proof -
  from owned [OF assms(1,2)] obtain ow where d': "d' = (desired print_json img rp d)\<lparr>dp_owner := ow\<rparr>" .
  from runner_containers(1) [of print_json img rp "dp_containers d"]
  obtain c where c: "findRunnerContainer (dp_containers d') = Some (set_runner_container print_json img rp c)"
    unfolding d' by auto
  define mnt where "mnt = \<lparr>vm_name = GetRunnerSecretName rp, vm_read_only = True,
    vm_path = filepath_join [RunnerVarDirPath, SecretsDirName], vm_other = ''''\<rparr>"
  have "mnt \<in> set (ct_volume_mounts (set_runner_container print_json img rp c))"
    by (simp add: set_runner_container_def Let_def runner_volume_mounts_def mnt_def)
  moreover have "rn_token_path r = vm_path mnt @ ''/'' @ RunnerTokenFileName"
    using assms(3) by (auto simp: NewRunner_def mnt_def filepath_join_def filepath_clean_def meows_consts
        split: sum.splits)
  moreover have "\<exists>v \<in> set (dp_volumes d'). vol_name v = vm_name mnt \<and>
      vol_source v = SecretVolume (GetRunnerSecretName rp)"
    by (simp add: d' runner_volumes_def mnt_def)
  moreover have "vm_read_only mnt" by (simp add: mnt_def)
  ultimately show ?thesis using c runner_containers(4) by (auto simp: d' refreshed_def)
qed

section \<open>The environment of the runner\<close>

text \<open>
  What the documentation of Kubernetes promises of the environment \<open>e\<close> of a container with the
  variables \<open>vars\<close>: a variable whose name no other one has, and whose value holds no dollar sign
  (which would start a reference), is set to its value, or to what its source gives. The reserved
  names that are not listed are assumed unset (no other source of the pod sets them).
\<close>

definition container_env :: "(env_source \<Rightarrow> string) \<Rightarrow> env_var list \<Rightarrow> environ \<Rightarrow> bool" where
  "container_env resolve vars e \<longleftrightarrow>
     (\<forall>v \<in> set vars. (\<forall>w \<in> set vars. ev_name w = ev_name v \<longrightarrow> w = v) \<and> CHR ''$'' \<notin> set (ev_value v) \<longrightarrow>
        e (ev_name v) = Some (case ev_from v of None \<Rightarrow> ev_value v | Some src \<Rightarrow> resolve src)) \<and>
     (\<forall>k \<in> set reserved_env_names. k \<notin> ev_name ` set vars \<longrightarrow> e k = None)"

lemma container_env_unique:
  "container_env resolve vars e \<Longrightarrow> v \<in> set vars \<Longrightarrow> (\<And>w. w \<in> set vars \<Longrightarrow> ev_name w = ev_name v \<Longrightarrow> w = v) \<Longrightarrow>
   CHR ''$'' \<notin> set (ev_value v) \<Longrightarrow>
   getenv e (ev_name v) = (case ev_from v of None \<Rightarrow> ev_value v | Some src \<Rightarrow> resolve src)"
  by (auto simp: container_env_def getenv_def split: option.splits)

lemma container_env_unset:
  "container_env resolve vars e \<Longrightarrow> k \<in> set reserved_env_names \<Longrightarrow> k \<notin> ev_name ` set vars \<Longrightarrow> getenv e k = ''''"
  by (simp add: container_env_def getenv_def)

lemmas env_vars = env_value_def env_field_def reserved_env_names_def

lemma not_reserved:
  "well_formed_spec s \<Longrightarrow> w \<in> set (rc_env (tpl_runner_container (spec_template s))) \<Longrightarrow> ev_name w \<notin> set reserved_env_names"
  by (simp add: well_formed_spec_def)

lemma reserved_distinct: "distinct reserved_env_names"
  by (simp add: reserved_env_names_def meows_consts)

text \<open>The variables of the controller, before those of the template.\<close>

definition own_env :: "(json \<Rightarrow> string) \<Rightarrow> runner_pool \<Rightarrow> env_var list" where
  "own_env print_json rp = take 5 (makeRunnerContainerEnv print_json rp)"

lemma own_env_rest:
  "makeRunnerContainerEnv print_json rp =
   own_env print_json rp @ rc_env (tpl_runner_container (spec_template (rp_spec rp)))"
  by (simp add: own_env_def makeRunnerContainerEnv_def)

lemma own_env_names:
  "map ev_name (own_env print_json rp) = [PodNameEnvName, PodNamespaceEnvName, RunnerPoolNameEnvName,
     RunnerOptionEnvName, if IsOrgLevel rp then RunnerOrgEnvName else RunnerRepoEnvName]"
  by (simp add: own_env_def makeRunnerContainerEnv_def env_vars)

lemma own_env_inj: "inj_on ev_name (set (own_env print_json rp))"
proof -
  have "distinct (map ev_name (own_env print_json rp))"
    by (simp add: own_env_names meows_consts)
  then show ?thesis by (simp add: distinct_map)
qed

lemma runner_env_values:
  assumes "well_formed_spec (rp_spec rp)" and "container_env resolve (makeRunnerContainerEnv print_json rp) e"
    and "v \<in> set (makeRunnerContainerEnv print_json rp)" and "ev_name v \<in> set reserved_env_names"
    and "CHR ''$'' \<notin> set (ev_value v)"
  shows "getenv e (ev_name v) = (case ev_from v of None \<Rightarrow> ev_value v | Some src \<Rightarrow> resolve src)"
  using assms(2,3)
proof (rule container_env_unique)
  fix w
  assume w: "w \<in> set (makeRunnerContainerEnv print_json rp)" and wv: "ev_name w = ev_name v"
  with not_reserved [OF assms(1), of w] not_reserved [OF assms(1), of v] assms(3,4)
  have "w \<in> set (own_env print_json rp)" "v \<in> set (own_env print_json rp)" by (auto simp: own_env_rest)
  with own_env_inj wv show "w = v" by (meson inj_onD)
qed (rule assms(5))

lemma config_args_split:
  "config_args r tok = [''--unattended'', ''--replace'', ''--name'', re_podName (rn_envs r)] @
     [''--labels'', re_podNamespace (rn_envs r) @ ''/'' @ re_runnerPoolName (rn_envs r), ''--url'',
      config_url (rn_envs r)] @
     [''--token'', tok, ''--work'', rn_work_dir r, ''--ephemeral'', ''--disableupdate'']"
  by (simp add: config_args_def)

text \<open>What the program reads from the environment of its container.\<close>

lemma runner_env_read:
  assumes "well_formed_spec (rp_spec rp)"
    and "container_env resolve (makeRunnerContainerEnv print_json rp) e"
    and "parse_json (print_json (option_json (spec_setup_command (rp_spec rp)))) =
      Some (option_json (spec_setup_command (rp_spec rp)))"
    and "CHR ''$'' \<notin> set (print_json (option_json (spec_setup_command (rp_spec rp))) @ rp_name rp @
      spec_organization (rp_spec rp) @ spec_repository (rp_spec rp))"
    and "resolve (FieldRef ''v1'' ''metadata.name'') = pod" and "pod \<noteq> ''''"
    and "resolve (FieldRef ''v1'' ''metadata.namespace'') = rp_namespace rp" and "rp_namespace rp \<noteq> ''''"
    and "rp_name rp \<noteq> ''''"
  shows "newRunnerEnvs parse_json e = Inr \<lparr>re_podName = pod, re_podNamespace = rp_namespace rp,
      re_runnerOrg = spec_organization (rp_spec rp), re_runnerRepo = spec_repository (rp_spec rp),
      re_runnerPoolName = rp_name rp, re_setupCommand = spec_setup_command (rp_spec rp)\<rparr>"
proof -
  let ?vars = "makeRunnerContainerEnv print_json rp"
  note val = runner_env_values [OF assms(1,2)]
  have pod: "getenv e PodNameEnvName = pod"
    using val [of "env_field PodNameEnvName ''metadata.name''"] assms(5)
    by (simp add: makeRunnerContainerEnv_def env_vars)
  have ns: "getenv e PodNamespaceEnvName = rp_namespace rp"
    using val [of "env_field PodNamespaceEnvName ''metadata.namespace''"] assms(7)
    by (simp add: makeRunnerContainerEnv_def env_vars)
  have name: "getenv e RunnerPoolNameEnvName = rp_name rp"
    using val [of "env_value RunnerPoolNameEnvName (rp_name rp)"] assms(4)
    by (simp add: makeRunnerContainerEnv_def env_vars)
  have opt: "getenv e RunnerOptionEnvName = print_json (option_json (spec_setup_command (rp_spec rp)))"
    using val [of "env_value RunnerOptionEnvName (print_json (option_json (spec_setup_command (rp_spec rp))))"]
      assms(4) by (simp add: makeRunnerContainerEnv_def env_vars)
  have either: "(spec_repository (rp_spec rp) = '''') \<noteq> (spec_organization (rp_spec rp) = '''')"
    using assms(1) by (simp add: well_formed_spec_def)
  have unset: "getenv e k = ''''"
    if "k \<in> set reserved_env_names" and "k \<notin> set (map ev_name (own_env print_json rp))" for k
  proof (rule container_env_unset [OF assms(2) that(1)])
    show "k \<notin> ev_name ` set ?vars"
      using that not_reserved [OF assms(1)] by (auto simp: own_env_rest)
  qed
  have org: "getenv e RunnerOrgEnvName = spec_organization (rp_spec rp)"
    using val [of "env_value RunnerOrgEnvName (spec_organization (rp_spec rp))"] unset [of RunnerOrgEnvName] assms(4)
    by (cases "IsOrgLevel rp") (simp_all add: makeRunnerContainerEnv_def env_vars own_env_names meows_consts IsOrgLevel_def)
  have repo: "getenv e RunnerRepoEnvName = spec_repository (rp_spec rp)"
    using val [of "env_value RunnerRepoEnvName (spec_repository (rp_spec rp))"] unset [of RunnerRepoEnvName] assms(4) either
    by (cases "IsOrgLevel rp") (simp_all add: makeRunnerContainerEnv_def env_vars own_env_names meows_consts IsOrgLevel_def)
  show "newRunnerEnvs parse_json e = Inr \<lparr>re_podName = pod, re_podNamespace = rp_namespace rp,
      re_runnerOrg = spec_organization (rp_spec rp), re_runnerRepo = spec_repository (rp_spec rp),
      re_runnerPoolName = rp_name rp, re_setupCommand = spec_setup_command (rp_spec rp)\<rparr>"
    using either assms(3,6,8,9)
    by (auto simp: newRunnerEnvs_def validateRequiredEnvs_def pod ns name opt org repo Let_def option_roundtrip)
qed


section \<open>Examples\<close>

definition ex_own :: "runner_pool \<Rightarrow> deployment \<Rightarrow> go_error + deployment" where
  "ex_own rp d = Inr (d\<lparr>dp_owner := Some (rp_name rp)\<rparr>)"

definition ex_deployment :: deployment where
  "ex_deployment = \<lparr>dp_name = ''pool'', dp_namespace = ''ns'', dp_labels = None, dp_owner = None,
     dp_selector = None, dp_template_labels = Some (Map.empty(AppNameLabelKey \<mapsto> ''other'')),
     dp_template_annotations = None, dp_replicas = None, dp_service_account_name = '''',
     dp_image_pull_secrets = [], dp_automount_token = None, dp_volumes = [], dp_node_selector = None,
     dp_tolerations = [], dp_containers = [new_container\<lparr>ct_name := ''sidecar''\<rparr>], dp_other = ''''\<rparr>"

definition ex_applied :: deployment where
  "ex_applied = (desired (\<lambda>_. ''opt'') ''runner:latest'' ex_pool ex_deployment)\<lparr>dp_owner := Some ''pool''\<rparr>"

lemma ex_own_only: "owner_only ex_own"
  by (simp add: owner_only_def ex_own_def)

lemma ex_mutate:
  "mutate_deployment (\<lambda>_. ''opt'') ex_own ''runner:latest'' ex_pool ex_deployment = Inr ex_applied"
  by (simp add: mutate_desired ex_own_def ex_applied_def ex_pool_def)

definition ex_env_of_pod :: environ where
  "ex_env_of_pod = Map.empty(PodNameEnvName \<mapsto> ''pod-1'', PodNamespaceEnvName \<mapsto> ''ns'',
     RunnerPoolNameEnvName \<mapsto> ''pool'', RunnerOptionEnvName \<mapsto> ''opt'', RunnerRepoEnvName \<mapsto> ''owner/repo'',
     ''FOO'' \<mapsto> ''bar'')"

definition ex_resolve :: "env_source \<Rightarrow> string" where
  "ex_resolve src = (if src = FieldRef ''v1'' ''metadata.name'' then ''pod-1'' else ''ns'')"

definition ex_parse :: "string \<Rightarrow> json option" where
  "ex_parse s = Some (option_json [''make''])"

lemma ex_container_env: "container_env ex_resolve (makeRunnerContainerEnv (\<lambda>_. ''opt'') ex_pool) ex_env_of_pod"
  by (simp add: container_env_def makeRunnerContainerEnv_def IsOrgLevel_def ex_pool_def ex_template_def
      ex_env_of_pod_def ex_resolve_def env_vars meows_consts)

lemma ex_NewRunner:
  "\<exists>r. NewRunner ex_parse ex_env_of_pod '':8080'' ''/runner'' ''/runner/_work'' RunnerVarDirPath = Inr r"
  by (simp add: NewRunner_def newRunnerEnvs_def validateRequiredEnvs_def getenv_def ex_env_of_pod_def
      ex_parse_def meows_consts option_roundtrip)

lemma deployment_selects_its_pods_witness:
  "go_get (dp_template_labels ex_applied) AppNameLabelKey = Some AppName"
proof -
  obtain p where p: "newManageProcess (\<lambda>u. Inr \<lparr>url_scheme = ''http'', url_text = u\<rparr>) 0 (PatClient ''pat'') Minute
      ex_pool = Ret (Inr p)"
    by (simp add: newManageProcess_def NewClient_def UpdateServerURL_def GetRepository_def IsOrgLevel_def
        ex_pool_def Let_def)
  from deployment_selects_its_pods [OF ex_own_only ex_mutate p] show ?thesis
    by (simp add: runner_selector_def meows_consts)
qed

lemma deployment_settles_witness:
  "mutate_deployment (\<lambda>_. ''opt'') ex_own ''runner:latest'' ex_pool ex_applied = Inr ex_applied"
  by (rule deployment_settles [OF ex_own_only ex_mutate])

lemma token_reaches_runner_witness:
  "\<exists>c mnt. findRunnerContainer (dp_containers ex_applied) = Some c \<and> mnt \<in> set (ct_volume_mounts c) \<and>
     vm_read_only mnt \<and> filter (\<lambda>c. ct_name c \<noteq> RunnerContainerName) (dp_containers ex_applied) =
       [new_container\<lparr>ct_name := ''sidecar''\<rparr>]"
proof -
  obtain r where "NewRunner ex_parse ex_env_of_pod '':8080'' ''/runner'' ''/runner/_work'' RunnerVarDirPath = Inr r"
    using ex_NewRunner by blast
  from token_reaches_runner [OF ex_own_only ex_mutate this] obtain c mnt where
    "findRunnerContainer (dp_containers ex_applied) = Some c" "mnt \<in> set (ct_volume_mounts c)" "vm_read_only mnt"
    and "filter (\<lambda>c. ct_name c \<noteq> RunnerContainerName) (dp_containers ex_applied) =
      filter (\<lambda>c. ct_name c \<noteq> RunnerContainerName) (dp_containers ex_deployment)" by blast
  moreover have "filter (\<lambda>c. ct_name c \<noteq> RunnerContainerName) (dp_containers ex_deployment) =
      [new_container\<lparr>ct_name := ''sidecar''\<rparr>]"
    by (simp add: ex_deployment_def new_container_def RunnerContainerName_def)
  ultimately show ?thesis by auto
qed


end
