(* ===== verification/Reconciler_Runs.thy ===== *)
theory Reconciler_Runs
  imports Reconciler
begin

text \<open>
  The runs of \<open>Reconcile\<close> as relations between the tables before and after and the calls made, one
  rule per way out of the code. The effectful definitions refine them; the properties of the
  reconciler are proved on them by cases.
\<close>

section \<open>The steps of a live pool\<close>

definition start_updater where
  "start_updater C rp cred s = su_Start (cf_new_client C) (co_updater s) rp cred"

definition start_manager where
  "start_manager C rp cred s =
     StartOrUpdate (cf_new_client C) (cf_parse_url C) (cf_now C) (co_manager s) rp cred"

definition credential_result :: "api_error + secret \<Rightarrow> go_error + client_credential" where
  "credential_result r = (case r of
       Inl err \<Rightarrow> Inl (''failed to get credential secret; '' @ error_text err)
     | Inr s \<Rightarrow> credential_of s)"

definition cred_read :: "runner_pool \<Rightarrow> api_error + secret \<Rightarrow> rec_event" where
  "cred_read rp r = EvReadSecret (rp_namespace rp) (credential_secret_name rp) r"

definition token_read :: "runner_pool \<Rightarrow> api_error + secret \<Rightarrow> rec_event" where
  "token_read rp r = EvReadSecret (rp_namespace rp) (GetRunnerSecretName rp) r"

inductive secret_run :: "rec_config \<Rightarrow> runner_pool \<Rightarrow> go_error + bool \<Rightarrow> rec_event list \<Rightarrow> bool" for C rp where
  exists: "b = (go_get (se_annotations s) RunnerSecretExpiresAtAnnotationKey \<noteq> None) \<Longrightarrow>
    secret_run C rp (Inr b) [token_read rp (Inr s)]"
| read_failed: "secret_run C rp (Inl err) [token_read rp (Inl (OtherErr err))]"
| not_owned: "cf_own_secret C rp (token_secret rp) = Inl err \<Longrightarrow>
    secret_run C rp (Inl err) [token_read rp (Inl NotFound)]"
| create_failed: "cf_own_secret C rp (token_secret rp) = Inr s \<Longrightarrow>
    secret_run C rp (Inl err) [token_read rp (Inl NotFound), EvCreateSecret s (Some err)]"
| created: "cf_own_secret C rp (token_secret rp) = Inr s \<Longrightarrow>
    secret_run C rp (Inr False) [token_read rp (Inl NotFound), EvCreateSecret s None]"

lemma reconcileSecret_runs:
  "ensures (reconcileSecret E C rp) (\<lambda>r es. case r of Panic \<Rightarrow> False | Ret x \<Rightarrow> secret_run C rp x es)"
  unfolding reconcileSecret_def read_secret_def
  apply (rule ensures_and_then, rule ensures_ext_call, simp)
  apply (rule ensures_sum)
  subgoal for r err
    apply (cases err)
     apply simp
     apply (rule ensures_sum)
      apply (rule ensures_ret)
      apply (simp add: secret_run.not_owned [unfolded token_read_def])
     apply (rule ensures_and_then, rule ensures_ext_call, simp)
     apply (rule ensures_option; rule ensures_ret)
      apply (simp add: secret_run.created [unfolded token_read_def])
     apply (simp add: secret_run.create_failed [unfolded token_read_def])
    apply (simp add: ensures_ret secret_run.read_failed [unfolded token_read_def])
    done
  apply (rule ensures_ret)
  apply (simp add: secret_run.exists [OF refl, unfolded token_read_def] del: not_None_eq)
  done

text \<open>The way up to the running updater: \<open>held\<close> tells whether the secret holds a token.\<close>

inductive prepared :: "rec_config \<Rightarrow> runner_pool \<Rightarrow> controllers \<Rightarrow> client_credential \<Rightarrow> bool \<Rightarrow>
    secret_updater \<Rightarrow> rec_event list \<Rightarrow> bool" for C rp s where
  "pool_validation C rp = None \<Longrightarrow> credential_result r = Inr cred \<Longrightarrow> secret_run C rp (Inr held) es \<Longrightarrow>
   start_updater C rp cred s = Ret (None, u) \<Longrightarrow> prepared C rp s cred held u (cred_read rp r # es)"

inductive live_run :: "rec_config \<Rightarrow> runner_pool \<Rightarrow> controllers \<Rightarrow>
    ((go_error + rec_result) \<times> controllers) outcome \<Rightarrow> rec_event list \<Rightarrow> bool" for C rp s where
  rejected: "pool_validation C rp = Some err \<Longrightarrow> live_run C rp s (Ret (Inl err, s)) []"
| no_credential: "pool_validation C rp = None \<Longrightarrow> credential_result r = Inl err \<Longrightarrow>
    live_run C rp s (Ret (Inl err, s)) [cred_read rp r]"
| no_secret: "pool_validation C rp = None \<Longrightarrow> credential_result r = Inr cred \<Longrightarrow>
    secret_run C rp (Inl err) es \<Longrightarrow> live_run C rp s (Ret (Inl err, s)) (cred_read rp r # es)"
| updater_panic: "pool_validation C rp = None \<Longrightarrow> credential_result r = Inr cred \<Longrightarrow>
    secret_run C rp (Inr held) es \<Longrightarrow> start_updater C rp cred s = Panic \<Longrightarrow>
    live_run C rp s Panic (cred_read rp r # es)"
| no_updater: "pool_validation C rp = None \<Longrightarrow> credential_result r = Inr cred \<Longrightarrow>
    secret_run C rp (Inr held) es \<Longrightarrow> start_updater C rp cred s = Ret (Some err, u) \<Longrightarrow>
    live_run C rp s (Ret (Inl err, s\<lparr>co_updater := u\<rparr>)) (cred_read rp r # es)"
| no_token: "prepared C rp s cred False u es \<Longrightarrow>
    live_run C rp s (Ret (Inr \<lparr>rr_requeue = True, rr_after = 10 * Second\<rparr>, s\<lparr>co_updater := u\<rparr>)) es"
| no_deployment: "prepared C rp s cred True u es \<Longrightarrow>
    live_run C rp s (Ret (Inl err, s\<lparr>co_updater := u\<rparr>)) (es @ [EvApply rp (Some err)])"
| manager_panic: "prepared C rp s cred True u es \<Longrightarrow> start_manager C rp cred s = Panic \<Longrightarrow>
    live_run C rp s Panic (es @ [EvApply rp None])"
| no_manager: "prepared C rp s cred True u es \<Longrightarrow> start_manager C rp cred s = Ret (Some err, m) \<Longrightarrow>
    live_run C rp s (Ret (Inl err, s\<lparr>co_updater := u, co_manager := m\<rparr>)) (es @ [EvApply rp None])"
| no_status: "prepared C rp s cred True u es \<Longrightarrow> start_manager C rp cred s = Ret (None, m) \<Longrightarrow>
    live_run C rp s (Ret (Inl err, s\<lparr>co_updater := u, co_manager := m\<rparr>))
      (es @ [EvApply rp None, EvUpdateStatus (rp\<lparr>rp_bound := True\<rparr>) (Some err)])"
| bound: "prepared C rp s cred True u es \<Longrightarrow> start_manager C rp cred s = Ret (None, m) \<Longrightarrow>
    live_run C rp s (Ret (Inr no_requeue, s\<lparr>co_updater := u, co_manager := m\<rparr>))
      (es @ [EvApply rp None, EvUpdateStatus (rp\<lparr>rp_bound := True\<rparr>) None])"

lemma reconcile_pods_runs:
  assumes "prepared C rp s cred True u es"
  shows "ensures (reconcile_pods E C rp cred (s\<lparr>co_updater := u\<rparr>)) (\<lambda>r es'. live_run C rp s r (es @ es'))"
  unfolding reconcile_pods_def reconcileDeployment_def update_status_def Let_def
  apply (rule ensures_and_then, rule ensures_ext_call, simp)
  apply (rule ensures_option)
   defer
   apply (rule ensures_ret, simp add: live_run.no_deployment [OF assms])
  apply (rule ensures_and_then, rule ensures_of_outcome)
  subgoal
    apply (cases "start_manager C rp cred s")
     apply (simp add: start_manager_def live_run.manager_panic [OF assms, unfolded start_manager_def])
    subgoal for x
      apply (cases x, simp add: start_manager_def)
      subgoal for err m
        apply (cases err)
         apply simp
         apply (rule ensures_and_then, rule ensures_ext_call, simp)
         apply (rule ensures_option; rule ensures_ret)
          apply (simp add: live_run.bound [OF assms, unfolded start_manager_def])
         apply (simp add: live_run.no_status [OF assms, unfolded start_manager_def])
        apply (simp add: ensures_ret live_run.no_manager [OF assms, unfolded start_manager_def])
        done
      done
    done
  done

lemma getGitHubCredential_runs:
  "ensures (getGitHubCredential E rp) (\<lambda>r es. \<exists>v. r = Ret (credential_result v) \<and> es = [cred_read rp v])"
  unfolding getGitHubCredential_def read_secret_def
  by (rule ensures_and_then, rule ensures_ext_call)
    (auto simp: credential_result_def cred_read_def intro!: ensures_ret split: sum.split)

lemma live_run_updater:
  assumes "pool_validation C rp = None" and "credential_result r = Inr cred" and "secret_run C rp (Inr held) es"
  shows "ensures (and_then (of_outcome (start_updater C rp cred s)) (\<lambda>(err, u). case err of
            Some e \<Rightarrow> ret (Inl e, s\<lparr>co_updater := u\<rparr>)
          | None \<Rightarrow>
              if \<not> held
              then ret (Inr \<lparr>rr_requeue = True, rr_after = 10 * Second\<rparr>, s\<lparr>co_updater := u\<rparr>)
              else reconcile_pods E C rp cred (s\<lparr>co_updater := u\<rparr>)))
      (\<lambda>r' es'. live_run C rp s r' (cred_read rp r # es @ es'))"
proof (rule ensures_and_then, rule ensures_of_outcome)
  show "case start_updater C rp cred s of
      Panic \<Rightarrow> live_run C rp s Panic (cred_read rp r # es @ [])
    | Ret x \<Rightarrow> ensures (case x of (err, u) \<Rightarrow> case err of
            Some e \<Rightarrow> ret (Inl e, s\<lparr>co_updater := u\<rparr>)
          | None \<Rightarrow>
              if \<not> held
              then ret (Inr \<lparr>rr_requeue = True, rr_after = 10 * Second\<rparr>, s\<lparr>co_updater := u\<rparr>)
              else reconcile_pods E C rp cred (s\<lparr>co_updater := u\<rparr>))
        (\<lambda>r' es'. live_run C rp s r' (cred_read rp r # es @ [] @ es'))"
  proof (cases "start_updater C rp cred s")
    case Panic
    then show ?thesis using live_run.updater_panic [OF assms Panic] by simp
  next
    case (Ret x)
    obtain err u where x: "x = (err, u)" by (cases x)
    show ?thesis
    proof (cases err)
      case None
      with Ret x have p: "prepared C rp s cred held u (cred_read rp r # es)"
        by (intro prepared.intros assms) simp
      show ?thesis
      proof (cases held)
        case True
        with reconcile_pods_runs [of C rp s cred u "cred_read rp r # es" E] p Ret x None show ?thesis by simp
      next
        case False
        with live_run.no_token [of C rp s cred u "cred_read rp r # es"] p Ret x None show ?thesis
          by (simp add: ensures_ret)
      qed
    next
      case (Some e)
      with Ret x have "start_updater C rp cred s = Ret (Some e, u)" by simp
      from live_run.no_updater [OF assms this] Ret x Some show ?thesis by (simp add: ensures_ret)
    qed
  qed
qed

lemma reconcile_live_runs: "ensures (reconcile_live E C rp s) (\<lambda>r es. live_run C rp s r es)"
proof (cases "pool_validation C rp")
  case (Some err)
  then show ?thesis by (simp add: reconcile_live_def ensures_ret live_run.rejected)
next
  case None
  have secret: "ensures (and_then (reconcileSecret E C rp) (\<lambda>r. case r of
           Inl err \<Rightarrow> ret (Inl err, s)
         | Inr isContinuation \<Rightarrow>
       and_then (of_outcome (su_Start (cf_new_client C) (co_updater s) rp cred)) (\<lambda>(err, u). case err of
           Some e \<Rightarrow> ret (Inl e, s\<lparr>co_updater := u\<rparr>)
         | None \<Rightarrow>
             if \<not> isContinuation
             then ret (Inr \<lparr>rr_requeue = True, rr_after = 10 * Second\<rparr>, s\<lparr>co_updater := u\<rparr>)
             else reconcile_pods E C rp cred (s\<lparr>co_updater := u\<rparr>))))
      (\<lambda>r' es'. live_run C rp s r' (cred_read rp r # es'))"
    if cred: "credential_result r = Inr cred" for r cred
  proof (rule ensures_and_then, rule ensures_mono [OF reconcileSecret_runs])
    fix x es
    assume "case x of Panic \<Rightarrow> False | Ret x \<Rightarrow> secret_run C rp x es"
    then obtain v where x: "x = Ret v" and v: "secret_run C rp v es" by (cases x) auto
    show "case x of Panic \<Rightarrow> live_run C rp s Panic (cred_read rp r # es)
      | Ret x \<Rightarrow> ensures (case x of
           Inl err \<Rightarrow> ret (Inl err, s)
         | Inr isContinuation \<Rightarrow>
       and_then (of_outcome (su_Start (cf_new_client C) (co_updater s) rp cred)) (\<lambda>(err, u). case err of
           Some e \<Rightarrow> ret (Inl e, s\<lparr>co_updater := u\<rparr>)
         | None \<Rightarrow>
             if \<not> isContinuation
             then ret (Inr \<lparr>rr_requeue = True, rr_after = 10 * Second\<rparr>, s\<lparr>co_updater := u\<rparr>)
             else reconcile_pods E C rp cred (s\<lparr>co_updater := u\<rparr>)))
          (\<lambda>r' es'. live_run C rp s r' (cred_read rp r # es @ es'))"
      using v live_run_updater [OF None cred, of _ es s E] live_run.no_secret [OF None cred, of _ es s]
      by (cases v) (simp_all add: x ensures_ret start_updater_def)
  qed
  show ?thesis
    unfolding reconcile_live_def None option.case
  proof (rule ensures_and_then, rule ensures_mono [OF getGitHubCredential_runs])
    fix x es
    assume "\<exists>v. x = Ret (credential_result v) \<and> es = [cred_read rp v]"
    then obtain v where x: "x = Ret (credential_result v)" and es: "es = [cred_read rp v]" by blast
    show "case x of Panic \<Rightarrow> live_run C rp s Panic es
      | Ret y \<Rightarrow> ensures (case y of
             Inl err \<Rightarrow> ret (Inl err, s)
           | Inr cred \<Rightarrow>
         and_then (reconcileSecret E C rp) (\<lambda>r. case r of
             Inl err \<Rightarrow> ret (Inl err, s)
           | Inr isContinuation \<Rightarrow>
         and_then (of_outcome (su_Start (cf_new_client C) (co_updater s) rp cred)) (\<lambda>(err, u). case err of
             Some e \<Rightarrow> ret (Inl e, s\<lparr>co_updater := u\<rparr>)
           | None \<Rightarrow>
               if \<not> isContinuation
               then ret (Inr \<lparr>rr_requeue = True, rr_after = 10 * Second\<rparr>, s\<lparr>co_updater := u\<rparr>)
               else reconcile_pods E C rp cred (s\<lparr>co_updater := u\<rparr>))))
          (\<lambda>r' es'. live_run C rp s r' (es @ es'))"
    proof (cases "credential_result v")
      case (Inl err)
      with x es live_run.no_credential [OF None Inl] show ?thesis by (simp add: ensures_ret)
    next
      case (Inr cred)
      from secret [OF Inr] show ?thesis unfolding x es Inr by simp
    qed
  qed
qed

section \<open>The end of a pool, and the whole\<close>

definition unfinalized :: "rec_config \<Rightarrow> runner_pool \<Rightarrow> runner_pool" where
  "unfinalized C rp = rp\<lparr>rp_finalizers := cf_remove_finalizer C (rp_finalizers rp) RunnerPoolFinalizer\<rparr>"

inductive final_run :: "rec_config \<Rightarrow> runner_pool \<Rightarrow> controllers \<Rightarrow>
    (go_error + rec_result) \<times> controllers \<Rightarrow> rec_event list \<Rightarrow> bool" for C rp s where
  not_ours: "\<not> cf_contains_finalizer C (rp_finalizers rp) RunnerPoolFinalizer \<Longrightarrow>
    final_run C rp s (Inr no_requeue, s) []"
| manager_stuck: "rm_Stop (cf_wait_err C) (co_manager s) rp = (Some err, m) \<Longrightarrow>
    final_run C rp s (Inl err, s\<lparr>co_manager := m\<rparr>) []"
| updater_stuck: "rm_Stop (cf_wait_err C) (co_manager s) rp = (None, m) \<Longrightarrow>
    su_Stop (cf_wait_err C) (co_updater s) rp = (Some err, u) \<Longrightarrow>
    final_run C rp s (Inl err, s\<lparr>co_manager := m, co_updater := u\<rparr>) []"
| update_failed: "rm_Stop (cf_wait_err C) (co_manager s) rp = (None, m) \<Longrightarrow>
    su_Stop (cf_wait_err C) (co_updater s) rp = (None, u) \<Longrightarrow>
    final_run C rp s (Inl err, s\<lparr>co_manager := m, co_updater := u\<rparr>)
      [EvUpdatePool (unfinalized C rp) (Some err)]"
| finalized: "rm_Stop (cf_wait_err C) (co_manager s) rp = (None, m) \<Longrightarrow>
    su_Stop (cf_wait_err C) (co_updater s) rp = (None, u) \<Longrightarrow>
    final_run C rp s (Inr no_requeue, s\<lparr>co_manager := m, co_updater := u\<rparr>)
      [EvUpdatePool (unfinalized C rp) None]"

lemma finalize_runs:
  "ensures (finalize E C rp s) (\<lambda>r es. case r of Panic \<Rightarrow> False | Ret x \<Rightarrow> final_run C rp s x es)"
proof -
  have upd: "ensures (and_then (ext_call (\<lambda>tr. ke_update_pool E tr (unfinalized C rp))
          (EvUpdatePool (unfinalized C rp))) (\<lambda>err. case err of
        Some e \<Rightarrow> ret (Inl e, s\<lparr>co_manager := m, co_updater := u\<rparr>)
      | None \<Rightarrow> ret (Inr no_requeue, s\<lparr>co_manager := m, co_updater := u\<rparr>)))
      (\<lambda>r es. case r of Panic \<Rightarrow> False | Ret x \<Rightarrow> final_run C rp s x es)"
    if "rm_Stop (cf_wait_err C) (co_manager s) rp = (None, m)"
      and "su_Stop (cf_wait_err C) (co_updater s) rp = (None, u)" for m u
    apply (rule ensures_and_then, rule ensures_ext_call, simp)
    apply (rule ensures_option; rule ensures_ret)
     apply (simp add: final_run.finalized [OF that])
    apply (simp add: final_run.update_failed [OF that])
    done
  show ?thesis
    unfolding finalize_def Let_def unfinalized_def [symmetric]
    by (auto intro!: ensures_if ensures_ret upd intro: final_run.intros split: prod.splits option.splits)
qed

text \<open>A run of the whole: what the reading of the pool answered, and what followed it.\<close>

inductive rec_run :: "rec_config \<Rightarrow> string \<Rightarrow> string \<Rightarrow> controllers \<Rightarrow>
    ((go_error + rec_result) \<times> controllers) outcome \<Rightarrow> rec_event list \<Rightarrow> bool" for C ns name s where
  gone: "rec_run C ns name s (Ret (Inr no_requeue, s)) [EvGetPool ns name (Inl NotFound)]"
| unread: "rec_run C ns name s (Ret (Inl err, s)) [EvGetPool ns name (Inl (OtherErr err))]"
| deleted: "rp_deletion_timestamp rp \<noteq> None \<Longrightarrow> final_run C rp s x es \<Longrightarrow>
    rec_run C ns name s (Ret x) (EvGetPool ns name (Inr rp) # es)"
| live: "rp_deletion_timestamp rp = None \<Longrightarrow> live_run C rp s r es \<Longrightarrow>
    rec_run C ns name s r (EvGetPool ns name (Inr rp) # es)"

lemma Reconcile_runs: "ensures (Reconcile E C ns name s) (rec_run C ns name s)"
  unfolding Reconcile_def
  apply (rule ensures_and_then, rule ensures_ext_call, simp)
  apply (rule ensures_sum)
  subgoal for r err
    by (cases err) (auto intro!: ensures_ret rec_run.intros)
  apply (rule ensures_if)
   apply (rule ensures_mono [OF finalize_runs])
   apply (auto intro: rec_run.deleted split: outcome.splits)[1]
  apply (rule ensures_mono [OF reconcile_live_runs])
  apply (auto intro: rec_run.live)
  done

lemma Reconcile_run:
  assumes "Reconcile E C ns name s [] = (r, es)"
  shows "rec_run C ns name s r es"
  using ensuresE [OF Reconcile_runs assms] by auto

inductive_cases final_runE: "final_run C rp s x es"
inductive_cases live_runE: "live_run C rp s x es"
inductive_cases rec_runE: "rec_run C ns name s x es"

end
