(* ===== verification/Reconciler_Props.thy ===== *)
theory Reconciler_Props
  imports Reconciler_Runs
begin

text \<open>
  The properties of the reconciler: when it removes the finalizer, when it applies a Deployment,
  what success means, that pools do not disturb one another, and that a shutdown is final. What
  the tables of processes owe it comes from the contract \<open>process_table\<close> on both of them.
\<close>

definition tables_valid :: "controllers \<Rightarrow> bool" where
  "tables_valid s \<longleftrightarrow> rm_valid (co_manager s) \<and> su_valid (co_updater s)"

definition processes :: "controllers \<Rightarrow> string set \<times> string set" where
  "processes s = (rm_running (co_manager s), su_running (co_updater s))"

definition reads_pool :: "rec_event list \<Rightarrow> runner_pool \<Rightarrow> bool" where
  "reads_pool es rp \<longleftrightarrow> (\<exists>ns name es'. es = EvGetPool ns name (Inr rp) # es')"

lemma secret_run_reads: "secret_run C rp x es \<Longrightarrow> EvGetPool ns name p \<notin> set es \<and> EvUpdatePool rp' e \<notin> set es \<and>
    EvApply rp' e \<notin> set es \<and> EvUpdateStatus rp' e \<notin> set es"
  by (cases rule: secret_run.cases) (auto simp: token_read_def)

lemma prepared_reads: "prepared C rp s cred held u es \<Longrightarrow> EvGetPool ns name p \<notin> set es \<and>
    EvUpdatePool rp' e \<notin> set es \<and> EvApply rp' e \<notin> set es \<and> EvUpdateStatus rp' e \<notin> set es"
  by (auto simp: cred_read_def secret_run_reads elim!: prepared.cases)

lemma live_run_reads: "live_run C rp s r es \<Longrightarrow> EvGetPool ns name p \<notin> set es \<and> EvUpdatePool rp' e \<notin> set es"
  by (cases rule: live_run.cases) (auto simp: cred_read_def secret_run_reads prepared_reads)

lemma final_run_reads: "final_run C rp s x es \<Longrightarrow> EvGetPool ns name p \<notin> set es \<and> EvApply rp' e \<notin> set es"
  by (cases rule: final_run.cases) auto

text \<open>A run that read a pool is a run of its end or of its life.\<close>

lemma rec_run_pool:
  assumes "rec_run C ns name s r es" and "reads_pool es rp"
  shows "rp_deletion_timestamp rp \<noteq> None \<and> (\<exists>x es'. r = Ret x \<and> final_run C rp s x es' \<and>
      es = EvGetPool ns name (Inr rp) # es') \<or>
    rp_deletion_timestamp rp = None \<and> (\<exists>es'. live_run C rp s r es' \<and> es = EvGetPool ns name (Inr rp) # es')"
  using assms
  by (cases rule: rec_run.cases) (auto simp: reads_pool_def live_run_reads final_run_reads)

lemma final_run_stopped:
  assumes "final_run C rp s (res, s') es" and "tables_valid s" and "EvUpdatePool rp' err \<in> set es"
  shows "rp' = unfinalized C rp \<and>
    processes s' = (fst (processes s) - {rp_namespaced_name rp}, snd (processes s) - {rp_namespaced_name rp})"
proof -
  from assms(1,3) obtain m u where m: "rm_Stop (cf_wait_err C) (co_manager s) rp = (None, m)"
    and u: "su_Stop (cf_wait_err C) (co_updater s) rp = (None, u)"
    and "rp' = unfinalized C rp \<and> s' = s\<lparr>co_manager := m, co_updater := u\<rparr>"
    by (cases rule: final_run.cases) auto
  moreover from assms(2) have "rm_valid (co_manager s)" "su_valid (co_updater s)"
    by (simp_all add: tables_valid_def)
  ultimately show ?thesis
    using manager_table.stop_none [OF _ m] updater_table.stop_none [OF _ u] by (simp add: processes_def)
qed

text \<open>C8. The finalizer of a pool goes last. Reconcile updates a pool to remove the finalizer only
  when the pool it read was deleted, and only once neither the runner manager nor the secret
  updater runs a process for it; the processes of every other pool are left as they were.\<close>

theorem finalizer_removed_last:
  assumes "tables_valid s" and "Reconcile E C ns name s [] = (r, a @ EvUpdatePool rp' err # b)"
  shows "\<exists>rp res s'. reads_pool a rp \<and> rp_deletion_timestamp rp \<noteq> None \<and> rp' = unfinalized C rp \<and>
    r = Ret (res, s') \<and> processes s' =
      (fst (processes s) - {rp_namespaced_name rp}, snd (processes s) - {rp_namespaced_name rp})"
  using Reconcile_run [OF assms(2)]
proof (cases rule: rec_run.cases)
  case (deleted rp x es)
  then obtain res s' where x: "x = (res, s')" by (cases x)
  from deleted(2) have "EvUpdatePool rp' err \<in> set es" by (auto simp: Cons_eq_append_conv append_eq_Cons_conv)
  with final_run_stopped [OF deleted(4) [unfolded x] assms(1)] have
    "rp' = unfinalized C rp" "processes s' =
      (fst (processes s) - {rp_namespaced_name rp}, snd (processes s) - {rp_namespaced_name rp})" by auto
  moreover from deleted(2) have "reads_pool a rp"
    by (auto simp: reads_pool_def Cons_eq_append_conv append_eq_Cons_conv)
  ultimately show ?thesis using deleted(1,3) x by blast
next
  case (live rp es)
  from live(1) have "EvUpdatePool rp' err \<in> set es" by (auto simp: Cons_eq_append_conv append_eq_Cons_conv)
  with live_run_reads [OF live(3)] show ?thesis by blast
qed (auto simp: Cons_eq_append_conv append_eq_Cons_conv)

text \<open>A stop that failed succeeds the next time, and so does one of a process that is not there.\<close>

lemma rm_Stop_absent: "rp_namespaced_name rp \<notin> rm_running m \<Longrightarrow> rm_Stop w m rp = (None, m)"
  by (simp add: rm_Stop_def rm_running_def)

definition manager_ready :: "rec_config \<Rightarrow> runner_pool \<Rightarrow> controllers \<Rightarrow> bool" where
  "manager_ready C rp s \<longleftrightarrow> fst (rm_Stop (cf_wait_err C) (co_manager s) rp) = None"

definition updater_ready :: "rec_config \<Rightarrow> runner_pool \<Rightarrow> controllers \<Rightarrow> bool" where
  "updater_ready C rp s \<longleftrightarrow> fst (su_Stop (cf_wait_err C) (co_updater s) rp) = None"

lemma final_run_progress:
  assumes "final_run C rp s (x, s') es" and "tables_valid s"
    and "cf_contains_finalizer C (rp_finalizers rp) RunnerPoolFinalizer"
  shows "(\<exists>err. EvUpdatePool (unfinalized C rp) err \<in> set es) \<or>
    tables_valid s' \<and> manager_ready C rp s' \<and> (manager_ready C rp s \<longrightarrow> updater_ready C rp s') \<and>
    \<not> (manager_ready C rp s \<and> updater_ready C rp s)"
  using assms(1)
proof (cases rule: final_run.cases)
  case (manager_stuck err m)
  with manager_table.stop_some [OF _ manager_stuck(4)] assms(2) show ?thesis
    by (auto simp: tables_valid_def manager_ready_def)
next
  case (updater_stuck m err u)
  from assms(2) have valid: "rm_valid (co_manager s)" "su_valid (co_updater s)"
    by (simp_all add: tables_valid_def)
  from manager_table.stop_none [OF valid(1) updater_stuck(4)] have "rm_valid m"
    and "rm_Stop (cf_wait_err C) m rp = (None, m)" by (simp_all add: rm_Stop_absent)
  with updater_table.stop_some [OF valid(2) updater_stuck(5)] updater_stuck show ?thesis
    by (auto simp: tables_valid_def manager_ready_def updater_ready_def)
qed (use assms(3) in auto)

text \<open>C21. The end of a pool is reached. Of three reconciliations in a row that find the pool deleted
  with its finalizer, whatever the waits for its goroutines answer, one gets to the update that
  removes the finalizer.\<close>

theorem finalization_ends:
  assumes "tables_valid s0" and "rp_deletion_timestamp rp \<noteq> None"
    and "cf_contains_finalizer C (rp_finalizers rp) RunnerPoolFinalizer"
    and "Reconcile E1 C ns name s0 [] = (Ret (x1, s1), es1)" and "reads_pool es1 rp"
    and "Reconcile E2 C ns name s1 [] = (Ret (x2, s2), es2)" and "reads_pool es2 rp"
    and "Reconcile E3 C ns name s2 [] = (Ret (x3, s3), es3)" and "reads_pool es3 rp"
  shows "\<exists>err. EvUpdatePool (unfinalized C rp) err \<in> set (es1 @ es2 @ es3)"
proof -
  let ?U = "\<lambda>es. \<exists>err. EvUpdatePool (unfinalized C rp) err \<in> set es"
  have step: "?U es \<or> tables_valid s' \<and> manager_ready C rp s' \<and>
      (manager_ready C rp s \<longrightarrow> updater_ready C rp s') \<and> \<not> (manager_ready C rp s \<and> updater_ready C rp s)"
    if "Reconcile E C ns name s [] = (Ret (x, s'), es)" and "reads_pool es rp" and "tables_valid s"
    for E s x s' es
  proof -
    from rec_run_pool [OF Reconcile_run [OF that(1)] that(2)] assms(2) obtain es' where
      "final_run C rp s (x, s') es'" and "es = EvGetPool ns name (Inr rp) # es'" by auto
    with final_run_progress [OF _ that(3) assms(3)] show ?thesis by auto
  qed
  from step [OF assms(4,5,1)] step [OF assms(6,7)] step [OF assms(8,9)] show ?thesis by auto
qed

section \<open>The life of a pool\<close>

lemma updater_started:
  "tables_valid s \<Longrightarrow> start_updater C rp cred s = Ret (None, u) \<Longrightarrow>
   su_running u = insert (rp_namespaced_name rp) (su_running (co_updater s)) \<and> su_valid u \<and>
   \<not> su_stopped (co_updater s)"
  using updater_table.start_none [of "co_updater s" "cf_new_client C" rp cred u]
  by (simp add: tables_valid_def start_updater_def)

lemma updater_not_started:
  "tables_valid s \<Longrightarrow> start_updater C rp cred s = Ret (Some err, u) \<Longrightarrow>
   su_running u = su_running (co_updater s) \<and> su_valid u \<and> su_stopped u = su_stopped (co_updater s)"
  using updater_table.start_some [of "co_updater s" "cf_new_client C" rp cred err u]
  by (simp add: tables_valid_def start_updater_def)

lemma manager_started:
  "tables_valid s \<Longrightarrow> start_manager C rp cred s = Ret (None, m) \<Longrightarrow>
   rm_running m = insert (rp_namespaced_name rp) (rm_running (co_manager s)) \<and> rm_valid m \<and>
   \<not> rm_stopped (co_manager s)"
  using manager_table.start_none
    [of "co_manager s" "cf_new_client C" "cf_parse_url C" "cf_now C" rp cred m]
  by (simp add: tables_valid_def start_manager_def)

lemma manager_not_started:
  "tables_valid s \<Longrightarrow> start_manager C rp cred s = Ret (Some err, m) \<Longrightarrow>
   rm_running m = rm_running (co_manager s) \<and> rm_valid m \<and> rm_stopped m = rm_stopped (co_manager s)"
  using manager_table.start_some
    [of "co_manager s" "cf_new_client C" "cf_parse_url C" "cf_now C" rp cred err m]
  by (simp add: tables_valid_def start_manager_def)

lemma preparedD:
  "prepared C rp s cred held u es \<Longrightarrow> pool_validation C rp = None \<and>
   start_updater C rp cred s = Ret (None, u) \<and> (\<exists>r es'. credential_result r = Inr cred \<and>
   secret_run C rp (Inr held) es' \<and> es = cred_read rp r # es')"
  by (induction rule: prepared.induct) blast

text \<open>The events show that the pool's secret holds a token, by its annotation.\<close>

definition token_held :: "runner_pool \<Rightarrow> rec_event list \<Rightarrow> bool" where
  "token_held rp es \<longleftrightarrow> (\<exists>s. token_read rp (Inr s) \<in> set es \<and>
     go_get (se_annotations s) RunnerSecretExpiresAtAnnotationKey \<noteq> None)"

lemma live_run_apply:
  assumes "live_run C rp s r (a @ EvApply rp' err # b)"
  shows "\<exists>cred u. prepared C rp s cred True u a \<and> rp' = rp"
proof -
  from assms obtain cred u es e post where p: "prepared C rp s cred True u es"
    and es: "a @ EvApply rp' err # b = es @ EvApply rp e # post"
    and post: "\<forall>x y. EvApply x y \<notin> set post"
    by (cases rule: live_run.cases)
      (auto simp: cred_read_def Cons_eq_append_conv dest!: arg_cong [where f = set] secret_run_reads prepared_reads)
  with split_unique [OF es] prepared_reads [OF p] show ?thesis by auto
qed

lemma prepared_token: "prepared C rp s cred True u es \<Longrightarrow> token_held rp es"
  by (auto simp: token_held_def elim!: prepared.cases secret_run.cases)

text \<open>C22. A reconciliation of a live pool that ends without an error and without asking to come again
  has done everything: the pool passes the checks, its secret holds a token, its Deployment was
  applied, its status was updated to bound, and both the secret updater and the runner manager
  run a process for it.\<close>

theorem bound_pool_is_served:
  assumes "tables_valid s" and "Reconcile E C ns name s [] = (Ret (Inr no_requeue, s'), es)"
    and "reads_pool es rp" and "rp_deletion_timestamp rp = None"
  shows "pool_validation C rp = None \<and> rp_namespaced_name rp \<in> fst (processes s') \<and>
    rp_namespaced_name rp \<in> snd (processes s') \<and>
    (\<exists>es'. es = es' @ [EvApply rp None, EvUpdateStatus (rp\<lparr>rp_bound := True\<rparr>) None] \<and> token_held rp es')"
proof -
  from rec_run_pool [OF Reconcile_run [OF assms(2)] assms(3)] assms(4) obtain es1 where
    "live_run C rp s (Ret (Inr no_requeue, s')) es1" and es: "es = EvGetPool ns name (Inr rp) # es1" by auto
  then obtain cred u es2 m where p: "prepared C rp s cred True u es2"
    and m: "start_manager C rp cred s = Ret (None, m)" and s': "s' = s\<lparr>co_updater := u, co_manager := m\<rparr>"
    and es1: "es1 = es2 @ [EvApply rp None, EvUpdateStatus (rp\<lparr>rp_bound := True\<rparr>) None]"
    by (cases rule: live_run.cases) (auto simp: no_requeue_def)
  from prepared_token [OF p] have "token_held rp (EvGetPool ns name (Inr rp) # es2)"
    by (auto simp: token_held_def)
  moreover from preparedD [OF p] have u: "start_updater C rp cred s = Ret (None, u)" by simp
  ultimately show ?thesis
    using es es1 preparedD [OF p] updater_started [OF assms(1) u] manager_started [OF assms(1) m] s'
    by (auto simp: processes_def)
qed

text \<open>C9. Runner pods are made only with a token to register with. A Deployment is applied only for a
  live pool whose organization or repository the controller is configured for, and only after the
  same reconciliation has read a token in the pool's secret.\<close>

theorem deployment_after_token:
  assumes "Reconcile E C ns name s [] = (r, a @ EvApply rp err # b)"
  shows "reads_pool a rp \<and> rp_deletion_timestamp rp = None \<and> pool_validation C rp = None \<and> token_held rp a"
  using Reconcile_run [OF assms]
proof (cases rule: rec_run.cases)
  case (live rp' es)
  then obtain a' where a: "a = EvGetPool ns name (Inr rp') # a'" and es: "es = a' @ EvApply rp err # b"
    by (cases a) auto
  from live_run_apply [OF live(3) [unfolded es]] obtain cred u where p: "prepared C rp' s cred True u a'"
    and rp: "rp = rp'" by blast
  from prepared_token [OF p] have "token_held rp' a" by (auto simp: token_held_def a)
  with preparedD [OF p] live(2) rp a show ?thesis by (simp add: reads_pool_def)
next
  case (deleted rp' x es)
  then have "EvApply rp err \<in> set es" by (cases a) auto
  with final_run_reads [OF deleted(4)] show ?thesis by blast
qed (auto simp: Cons_eq_append_conv append_eq_Cons_conv)

section \<open>The tables over many reconciliations\<close>

text \<open>The tables after: valid, the same but for one pool, and no livelier if they were shut down.\<close>

definition shut_down :: "controllers \<Rightarrow> bool" where
  "shut_down s \<longleftrightarrow> rm_stopped (co_manager s) \<and> su_stopped (co_updater s)"

definition keeps_tables :: "runner_pool \<Rightarrow> controllers \<Rightarrow> controllers \<Rightarrow> bool" where
  "keeps_tables rp s s' \<longleftrightarrow> tables_valid s' \<and>
     fst (processes s') - {rp_namespaced_name rp} = fst (processes s) - {rp_namespaced_name rp} \<and>
     snd (processes s') - {rp_namespaced_name rp} = snd (processes s) - {rp_namespaced_name rp} \<and>
     (shut_down s \<longrightarrow> shut_down s' \<and> fst (processes s') \<subseteq> fst (processes s) \<and>
        snd (processes s') \<subseteq> snd (processes s))"

lemma keeps_tables_refl: "tables_valid s \<Longrightarrow> keeps_tables rp s s"
  by (simp add: keeps_tables_def)

lemma keeps_tables_trans: "keeps_tables rp s s1 \<Longrightarrow> keeps_tables rp s1 s2 \<Longrightarrow> keeps_tables rp s s2"
  by (auto simp: keeps_tables_def)

lemma keeps_updater:
  assumes "tables_valid s" and "start_updater C rp cred s = Ret (e, u)"
  shows "keeps_tables rp s (s\<lparr>co_updater := u\<rparr>)"
  using updater_started [OF assms(1), of C rp cred u] updater_not_started [OF assms(1), of C rp cred "the e" u] assms
  by (cases e) (auto simp: keeps_tables_def tables_valid_def processes_def shut_down_def)

lemma keeps_manager:
  assumes "tables_valid s" and "start_manager C rp cred s = Ret (e, m)"
  shows "keeps_tables rp s (s\<lparr>co_manager := m\<rparr>)"
  using manager_started [OF assms(1), of C rp cred m] manager_not_started [OF assms(1), of C rp cred "the e" m] assms
  by (cases e) (auto simp: keeps_tables_def tables_valid_def processes_def shut_down_def)

lemma keeps_both:
  assumes "tables_valid s" and "start_updater C rp cred s = Ret (e, u)" and "start_manager C rp cred s = Ret (e', m)"
  shows "keeps_tables rp s (s\<lparr>co_updater := u, co_manager := m\<rparr>)"
proof -
  from keeps_updater [OF assms(1,2)] have k: "keeps_tables rp s (s\<lparr>co_updater := u\<rparr>)" .
  then have "tables_valid (s\<lparr>co_updater := u\<rparr>)" by (simp add: keeps_tables_def)
  from keeps_manager [OF this, of C rp cred e' m] assms(3) have
    "keeps_tables rp (s\<lparr>co_updater := u\<rparr>) (s\<lparr>co_updater := u, co_manager := m\<rparr>)"
    by (simp add: start_manager_def)
  with k show ?thesis by (rule keeps_tables_trans)
qed

lemma live_run_tables:
  assumes "live_run C rp s (Ret (res, s')) es" and "tables_valid s"
  shows "keeps_tables rp s s'"
  using assms(1)
  by (cases rule: live_run.cases)
    (use assms(2) keeps_updater [OF assms(2)] keeps_both [OF assms(2)] in
      \<open>auto simp: keeps_tables_refl dest!: preparedD\<close>)

lemma final_run_tables:
  assumes "final_run C rp s (res, s') es" and "tables_valid s"
  shows "keeps_tables rp s s'"
proof -
  from assms(2) have valid: "rm_valid (co_manager s)" "su_valid (co_updater s)"
    by (simp_all add: tables_valid_def)
  have m: "keeps_tables rp s (s\<lparr>co_manager := m\<rparr>)"
    if "rm_Stop (cf_wait_err C) (co_manager s) rp = (e, m)" for e m
    using manager_table.stop_none [OF valid(1), of "cf_wait_err C" rp m]
      manager_table.stop_some [OF valid(1), of "cf_wait_err C" rp "the e" m] that valid
    by (cases e) (auto simp: keeps_tables_def tables_valid_def processes_def shut_down_def)
  have u: "keeps_tables rp (s\<lparr>co_manager := m\<rparr>) (s\<lparr>co_manager := m, co_updater := u\<rparr>)"
    if "su_Stop (cf_wait_err C) (co_updater s) rp = (e, u)" and "rm_valid m" for e u m
    using updater_table.stop_none [OF valid(2), of "cf_wait_err C" rp u]
      updater_table.stop_some [OF valid(2), of "cf_wait_err C" rp "the e" u] that
    by (cases e) (auto simp: keeps_tables_def tables_valid_def processes_def shut_down_def)
  have mu: "keeps_tables rp s (s\<lparr>co_manager := m, co_updater := u\<rparr>)"
    if "rm_Stop (cf_wait_err C) (co_manager s) rp = (e, m)"
      and "su_Stop (cf_wait_err C) (co_updater s) rp = (e', u)" for e m e' u
    using keeps_tables_trans [OF m [OF that(1)] u [OF that(2)]] m [OF that(1)]
    by (simp add: keeps_tables_def tables_valid_def)
  from assms(1) show ?thesis
    by (cases rule: final_run.cases) (use assms(2) m mu in \<open>auto simp: keeps_tables_refl\<close>)
qed

lemma live_run_no_panic:
  assumes "live_run C rp s r es" and "tables_valid s" and "well_formed_spec (rp_spec rp)"
  shows "r \<noteq> Panic"
  using assms(1)
proof (cases rule: live_run.cases)
  case (updater_panic r cred held es)
  with updater_table.start_no_panic [of "co_updater s" rp "cf_new_client C" cred] assms(2,3) show ?thesis
    by (simp add: tables_valid_def start_updater_def)
next
  case (manager_panic cred u es)
  with manager_table.start_no_panic [of "co_manager s" rp "cf_new_client C" "cf_parse_url C" "cf_now C" cred]
    assms(2,3) show ?thesis by (simp add: tables_valid_def start_manager_def)
qed auto


text \<open>Reconciliations one after the other, each in its own world, after the shutdown of both tables.\<close>

fun reconcile_seq ::
  "rec_config \<Rightarrow> (rec_env \<times> string \<times> string) list \<Rightarrow> controllers \<Rightarrow> controllers outcome" where
  "reconcile_seq C [] s = Ret s"
| "reconcile_seq C ((E, ns, name) # cs) s = (case fst (Reconcile E C ns name s []) of
     Panic \<Rightarrow> Panic
   | Ret (_, s') \<Rightarrow> reconcile_seq C cs s')"

lemma reconcile_shut_down:
  assumes "Reconcile E C ns name s [] = (Ret (res, s'), es)" and "tables_valid s" and "shut_down s"
    and "processes s = ({}, {})"
  shows "tables_valid s' \<and> shut_down s' \<and> processes s' = ({}, {})"
  using Reconcile_run [OF assms(1)]
proof (cases rule: rec_run.cases)
  case (deleted rp es')
  with final_run_tables [of C rp s res s' es'] assms show ?thesis
    by (cases "processes s'") (auto simp: keeps_tables_def)
next
  case (live rp es')
  with live_run_tables [of C rp s res s' es'] assms show ?thesis
    by (cases "processes s'") (auto simp: keeps_tables_def)
qed (use assms in auto)


section \<open>Example reconciliations\<close>

text \<open>
  A cluster that answers everything: the pool \<open>rp\<close>, a personal access token, a token secret that
  holds a token. The waits for goroutines end without an error.
\<close>

definition ex_cluster_secret :: "string \<Rightarrow> secret" where
  "ex_cluster_secret name = \<lparr>se_name = name, se_namespace = ''ns'',
     se_annotations = Some (Map.empty(RunnerSecretExpiresAtAnnotationKey \<mapsto> ''2023-11-14T23:13:20Z'')),
     se_data = Some (Map.empty(CredentialSecretDataPATToken \<mapsto> ''pat'')), se_string_data = None,
     se_owner = None\<rparr>"

definition ex_rec_env :: "runner_pool \<Rightarrow> rec_env" where
  "ex_rec_env rp = \<lparr>ke_get_pool = \<lambda>_ _ _. Inr rp, ke_update_pool = \<lambda>_ _. None,
     ke_update_status = \<lambda>_ _. None, ke_get_secret = \<lambda>_ _ name. Inr (ex_cluster_secret name),
     ke_create_secret = \<lambda>_ _. None, ke_create_or_update = \<lambda>_ _ _ _. None\<rparr>"

definition ex_rec_config :: rec_config where
  "ex_rec_config = \<lparr>cf_runner_image = ''runner:latest'', cf_organization_regexp = None,
     cf_repository_regexp = None, cf_contains_finalizer = (\<lambda>fs f. f \<in> set fs),
     cf_remove_finalizer = (\<lambda>fs f. removeAll f fs), cf_own_secret = (\<lambda>_ s. Inr s),
     cf_own_deployment = (\<lambda>_ d. Inr d), cf_print_json = (\<lambda>_. ''{}''),
     cf_new_client = (\<lambda>_. Inr (PatClient ''pat'')),
     cf_parse_url = (\<lambda>host. Inr \<lparr>url_scheme = ''http'', url_text = host\<rparr>), cf_wait_err = (\<lambda>_. None), cf_now = 0\<rparr>"

definition ex_controllers :: controllers where
  "ex_controllers = \<lparr>co_manager = NewRunnerManager Minute, co_updater = NewSecretUpdater\<rparr>"

definition ex_deleted_pool :: runner_pool where
  "ex_deleted_pool = ex_pool\<lparr>rp_deletion_timestamp := Some 0\<rparr>"

lemmas ex_rec_defs = ex_rec_env_def ex_rec_config_def ex_controllers_def ex_cluster_secret_def

lemma ex_tables_valid: "tables_valid ex_controllers"
  by (simp add: tables_valid_def ex_controllers_def NewRunnerManager_def NewSecretUpdater_def rm_valid_def su_valid_def)

lemma ex_finalize_run:
  "Reconcile (ex_rec_env ex_deleted_pool) ex_rec_config ''ns'' ''pool'' ex_controllers [] =
   (Ret (Inr no_requeue, ex_controllers),
    [EvGetPool ''ns'' ''pool'' (Inr ex_deleted_pool)] @
    EvUpdatePool (unfinalized ex_rec_config ex_deleted_pool) None # [])"
  by (simp add: Reconcile_def finalize_def prog_basics ex_rec_defs ex_deleted_pool_def ex_pool_def
      rm_Stop_def su_Stop_def rm_lookup_def su_lookup_def NewRunnerManager_def NewSecretUpdater_def
      unfinalized_def Let_def)

definition ex_served :: "((go_error + rec_result) \<times> controllers) outcome \<times> rec_event list" where
  "ex_served = Reconcile (ex_rec_env ex_pool) ex_rec_config ''ns'' ''pool'' ex_controllers []"

lemma ex_pool_owner: "GetRepository ex_pool = Ret ''repo''" "\<not> IsOrgLevel ex_pool"
  by (simp_all add: GetRepository_def IsOrgLevel_def ex_pool_def)

lemma ex_updater_started:
  "\<exists>u. su_Start (cf_new_client ex_rec_config) (co_updater ex_controllers) ex_pool cred = Ret (None, u)"
  by (simp add: su_Start_def newUpdateProcess_def ex_pool_owner ex_rec_config_def ex_controllers_def
      NewSecretUpdater_def su_lookup_def)

lemma ex_manager_started:
  "\<exists>m. StartOrUpdate (cf_new_client ex_rec_config) (cf_parse_url ex_rec_config) (cf_now ex_rec_config)
     (co_manager ex_controllers) ex_pool cred = Ret (None, m)"
  by (simp add: StartOrUpdate_def newManageProcess_def NewClient_def UpdateServerURL_def rm_store_def
      ex_pool_owner ex_rec_config_def ex_controllers_def NewRunnerManager_def rm_lookup_def Let_def)

definition ex_history :: "rec_event list" where
  "ex_history = [EvGetPool ''ns'' ''pool'' (Inr ex_pool),
      EvReadSecret ''ns'' DefaultCredentialSecretName (Inr (ex_cluster_secret DefaultCredentialSecretName)),
      EvReadSecret ''ns'' ''runner-token-pool'' (Inr (ex_cluster_secret ''runner-token-pool''))]"

definition ex_rules :: "(string \<Rightarrow> bool) option \<Rightarrow> rec_config" where
  "ex_rules rule = ex_rec_config\<lparr>cf_organization_regexp := None, cf_repository_regexp := rule\<rparr>"

lemma ex_served_run_rules:
  assumes "pred_option (\<lambda>matches. matches ''owner/repo'') rule"
  shows "\<exists>s'. Reconcile (ex_rec_env ex_pool) (ex_rules rule) ''ns'' ''pool'' ex_controllers [] =
    (Ret (Inr no_requeue, s'),
     ex_history @ EvApply ex_pool None # [EvUpdateStatus (ex_pool\<lparr>rp_bound := True\<rparr>) None])"
proof -
  have names: "rp_namespace ex_pool = ''ns''" "GetRunnerSecretName ex_pool = ''runner-token-pool''"
    "credential_secret_name ex_pool = DefaultCredentialSecretName" "rp_deletion_timestamp ex_pool = None"
    by (simp_all add: ex_pool_def GetRunnerSecretName_def credential_secret_name_def Let_def)
  have valid: "pool_validation (ex_rules rule) ex_pool = None"
    using assms by (cases rule) (simp_all add: pool_validation_def ex_rules_def ex_pool_owner, simp add: ex_pool_def)
  have parts: "cf_new_client (ex_rules rule) = cf_new_client ex_rec_config"
    "cf_parse_url (ex_rules rule) = cf_parse_url ex_rec_config" "cf_now (ex_rules rule) = cf_now ex_rec_config"
    by (simp_all add: ex_rules_def)
  have held: "go_get (se_annotations (ex_cluster_secret n)) RunnerSecretExpiresAtAnnotationKey \<noteq> None" for n
    by (simp add: ex_cluster_secret_def)
  obtain cred where cred: "credential_of (ex_cluster_secret DefaultCredentialSecretName) = Inr cred"
    by (simp add: credential_of_def ex_cluster_secret_def)
  obtain u where u: "su_Start (cf_new_client ex_rec_config) (co_updater ex_controllers) ex_pool cred = Ret (None, u)"
    using ex_updater_started by blast
  obtain m where m: "StartOrUpdate (cf_new_client ex_rec_config) (cf_parse_url ex_rec_config)
      (cf_now ex_rec_config) (co_manager ex_controllers) ex_pool cred = Ret (None, m)"
    using ex_manager_started by blast
  show ?thesis
    using held
    by (simp add: Reconcile_def reconcile_live_def getGitHubCredential_def read_secret_def
        reconcileSecret_def reconcile_pods_def reconcileDeployment_def update_status_def prog_basics
        ex_rec_env_def names valid parts cred u m Let_def ex_history_def)
qed

lemma ex_served_run:
  "\<exists>s'. ex_served = (Ret (Inr no_requeue, s'),
     ex_history @ EvApply ex_pool None # [EvUpdateStatus (ex_pool\<lparr>rp_bound := True\<rparr>) None])"
proof -
  have "ex_rules None = ex_rec_config" by (simp add: ex_rules_def ex_rec_config_def)
  with ex_served_run_rules [of None] show ?thesis by (simp add: ex_served_def)
qed

lemma finalizer_removed_last_witness:
  "\<exists>rp res s'. reads_pool [EvGetPool ''ns'' ''pool'' (Inr ex_deleted_pool)] rp \<and>
    rp_deletion_timestamp rp \<noteq> None \<and>
    unfinalized ex_rec_config ex_deleted_pool = unfinalized ex_rec_config rp \<and>
    Ret (Inr no_requeue, ex_controllers) = Ret (res, s') \<and> processes s' =
      (fst (processes ex_controllers) - {rp_namespaced_name rp}, snd (processes ex_controllers) - {rp_namespaced_name rp})"
  using finalizer_removed_last [OF ex_tables_valid ex_finalize_run] by blast

lemma finalization_ends_witness:
  "\<exists>err. EvUpdatePool (unfinalized ex_rec_config ex_deleted_pool) err \<in>
    set (snd (Reconcile (ex_rec_env ex_deleted_pool) ex_rec_config ''ns'' ''pool'' ex_controllers []) @
         snd (Reconcile (ex_rec_env ex_deleted_pool) ex_rec_config ''ns'' ''pool'' ex_controllers []) @
         snd (Reconcile (ex_rec_env ex_deleted_pool) ex_rec_config ''ns'' ''pool'' ex_controllers []))"
proof -
  note run = ex_finalize_run
  have reads: "reads_pool ([EvGetPool ''ns'' ''pool'' (Inr ex_deleted_pool)] @
      EvUpdatePool (unfinalized ex_rec_config ex_deleted_pool) None # []) ex_deleted_pool"
    by (simp add: reads_pool_def)
  have "rp_deletion_timestamp ex_deleted_pool \<noteq> None" "cf_contains_finalizer ex_rec_config
      (rp_finalizers ex_deleted_pool) RunnerPoolFinalizer"
    by (simp_all add: ex_deleted_pool_def ex_pool_def ex_rec_config_def)
  from finalization_ends [OF ex_tables_valid this run reads run reads run reads] show ?thesis
    unfolding run snd_conv .
qed

lemma ex_served_facts:
  obtains s' a b where "Reconcile (ex_rec_env ex_pool) ex_rec_config ''ns'' ''pool'' ex_controllers [] =
      (Ret (Inr no_requeue, s'), a @ EvApply ex_pool None # b)"
    and "ex_served = (Ret (Inr no_requeue, s'), a @ EvApply ex_pool None # b)"
    and "reads_pool (a @ EvApply ex_pool None # b) ex_pool"
    and "a = ex_history"
  using ex_served_run by (auto simp: ex_served_def reads_pool_def ex_history_def)

lemma bound_pool_is_served_witness:
  "\<exists>s' es. ex_served = (Ret (Inr no_requeue, s'), es) \<and> ''ns/pool'' \<in> fst (processes s') \<and>
     ''ns/pool'' \<in> snd (processes s')"
proof -
  obtain s' a b where run: "Reconcile (ex_rec_env ex_pool) ex_rec_config ''ns'' ''pool'' ex_controllers [] =
      (Ret (Inr no_requeue, s'), a @ EvApply ex_pool None # b)"
    and ex: "ex_served = (Ret (Inr no_requeue, s'), a @ EvApply ex_pool None # b)"
    and reads: "reads_pool (a @ EvApply ex_pool None # b) ex_pool" by (rule ex_served_facts)
  have "rp_deletion_timestamp ex_pool = None" by (simp add: ex_pool_def)
  from bound_pool_is_served [OF ex_tables_valid run reads this]
  have "rp_namespaced_name ex_pool \<in> fst (processes s')" "rp_namespaced_name ex_pool \<in> snd (processes s')"
    by auto
  moreover have "rp_namespaced_name ex_pool = ''ns/pool''"
    by (simp add: rp_namespaced_name_def namespaced_name_def ex_pool_def)
  ultimately show ?thesis using ex by auto
qed

lemma deployment_after_token_witness:
  "token_held ex_pool ex_history"
  by (rule ex_served_facts) (use deployment_after_token in blast)



end
