(* ===== verification/Commands.thy ===== *)
theory Commands
  imports Slack_Agent Reconciler_Props
begin

text \<open>
  The commands: \<open>meows runner\<close> (\<open>cmd/meows/cmd/runner/runner.go\<close>) and \<open>meows slackagent\<close>
  (\<open>cmd/meows/cmd/slackagent/slackagent.go\<close>), the start of the Slack agent
  (\<open>cmd/slack-agent/cmd/root.go\<close>) and of the runner pod (\<open>cmd/entrypoint/cmd/root.go\<close>), and the
  life of the controller's process (\<open>cmd/controller/cmd/run.go\<close>) from its flags to the deferred
  shutdown. Flag parsing is cobra's; the flags are arguments.
\<close>

section \<open>meows runner\<close>

definition splitOwnerRepo :: "string \<Rightarrow> go_error + string \<times> string" where
  "splitOwnerRepo str = (case go_split (CHR ''/'') str of
       [owner] \<Rightarrow> Inr (owner, '''')
     | [owner, repo] \<Rightarrow> Inr (owner, repo)
     | _ \<Rightarrow> Inl (''invalid format: '' @ str))"

record runner_flags =
  fl_app_id :: int
  fl_app_installation_id :: int
  fl_app_private_key_path :: string
  fl_token :: string

definition flag_credential :: "runner_flags \<Rightarrow> client_credential" where
  "flag_credential config =
     (if fl_token config \<noteq> '''' then \<lparr>cr_pat = fl_token config, cr_app_id = 0, cr_app_installation_id = 0,
        cr_private_key = '''', cr_private_key_path = ''''\<rparr>
      else \<lparr>cr_pat = '''', cr_app_id = fl_app_id config, cr_app_installation_id = fl_app_installation_id config,
        cr_private_key = '''', cr_private_key_path = fl_app_private_key_path config\<rparr>)"

definition runner_client_of ::
  "(int \<Rightarrow> int \<Rightarrow> string \<Rightarrow> go_error option) \<Rightarrow> (int \<Rightarrow> int \<Rightarrow> string \<Rightarrow> go_error option) \<Rightarrow>
   runner_flags \<Rightarrow> go_error + api_client" where
  "runner_client_of key_transport file_transport config =
     (case factory_New key_transport file_transport (flag_credential config) of
        Inl err \<Rightarrow> Inl (''failed to create github client; '' @ err)
      | Inr c \<Rightarrow> Inr c)"

text \<open>A nil slice prints as \<open>null\<close>; \<open>Runner\<close> has no tags, so its fields keep their names.\<close>

definition slice_json :: "json list \<Rightarrow> json" where
  "slice_json vs = (if vs = [] then JNull else JArr vs)"

definition runner_json :: "runner_info \<Rightarrow> json" where
  "runner_json r = JObj [(''ID'', JInt (ri_id r)), (''Name'', JStr (ri_name r)),
     (''Online'', JBool (ri_online r)), (''Busy'', JBool (ri_busy r)),
     (''Labels'', slice_json (map JStr (ri_labels r)))]"

datatype cli_error = BadFormat go_error | ListFailed gh_error | RemoveFailed string int gh_error

text \<open>
  The bodies of the commands return the error and what was printed; \<open>None\<close> is a listing that has
  not ended within the fuel.
\<close>

definition list_command ::
  "nat \<Rightarrow> gh_api \<Rightarrow> string \<Rightarrow> (gh_event, (cli_error option \<times> json list) option) prog" where
  "list_command fuel A arg = (case splitOwnerRepo arg of
       Inl err \<Rightarrow> ret (Some (Some (BadFormat err), []))
     | Inr (owner, repo) \<Rightarrow>
         and_then (ListRunners fuel A owner repo []) (\<lambda>r. case r of
             None \<Rightarrow> ret None
           | Some (Inl err) \<Rightarrow> ret (Some (Some (ListFailed err), []))
           | Some (Inr runners) \<Rightarrow> ret (Some (None, [slice_json (map runner_json runners)]))))"

definition removed_line :: "runner_info \<Rightarrow> string" where
  "removed_line r = ''remove runner '' @ ri_name r @ '' (id: '' @ itoa (ri_id r) @ '')''"

fun remove_offline ::
  "gh_api \<Rightarrow> string \<Rightarrow> string \<Rightarrow> runner_info list \<Rightarrow> string list \<Rightarrow>
   (gh_event, cli_error option \<times> string list) prog" where
  "remove_offline A owner repo [] out = ret (None, out)"
| "remove_offline A owner repo (r # rs) out =
     (if ri_online r then remove_offline A owner repo rs out
      else and_then (RemoveRunner A owner repo (ri_id r)) (\<lambda>err. case err of
          Some e \<Rightarrow> ret (Some (RemoveFailed (ri_name r) (ri_id r) e), out)
        | None \<Rightarrow> remove_offline A owner repo rs (out @ [removed_line r])))"

definition remove_command ::
  "nat \<Rightarrow> gh_api \<Rightarrow> string \<Rightarrow> (gh_event, (cli_error option \<times> string list) option) prog" where
  "remove_command fuel A arg = (case splitOwnerRepo arg of
       Inl err \<Rightarrow> ret (Some (Some (BadFormat err), []))
     | Inr (owner, repo) \<Rightarrow>
         and_then (ListRunners fuel A owner repo []) (\<lambda>r. case r of
             None \<Rightarrow> ret None
           | Some (Inl err) \<Rightarrow> ret (Some (Some (ListFailed err), []))
           | Some (Inr runners) \<Rightarrow> and_then (remove_offline A owner repo runners []) (\<lambda>x. ret (Some x))))"

section \<open>meows slackagent\<close>

record send_flags =
  sf_server :: string
  sf_namespace :: string
  sf_job_info_file :: string
  sf_channel :: string
  sf_extend :: bool

datatype send_error = NoJobInfo read_error | SendError go_error

text \<open>\<open>cobra.RangeArgs(1, 2)\<close> lets one or two arguments through.\<close>

definition send_command ::
  "(string \<Rightarrow> json option) \<Rightarrow> (string \<Rightarrow> go_error + server_url) \<Rightarrow>
   (server_url option \<Rightarrow> http_request \<Rightarrow> go_error + http_response) \<Rightarrow> send_flags \<Rightarrow> files \<Rightarrow>
   string \<Rightarrow> string option \<Rightarrow> send_error option" where
  "send_command parse_json parse_url do_request config fs podName resultArg =
     (let result = (case resultArg of None \<Rightarrow> '''' | Some r \<Rightarrow> r)
      in case GetJobInfoFromFile parse_json fs (sf_job_info_file config) of
           Inl err \<Rightarrow> Some (NoJobInfo err)
         | Inr jobInfo \<Rightarrow>
             (case NewClient parse_url (sf_server config) of
                Inl err \<Rightarrow> Some (SendError err)
              | Inr c \<Rightarrow> map_option SendError (PostResult (do_request c) (sf_channel config) result
                    (sf_extend config) (sf_namespace config) podName jobInfo)))"

text \<open>Whether the file was written, and the files; the line it prints is left out.\<close>

definition set_channel_command ::
  "(string \<Rightarrow> bool) \<Rightarrow> string \<Rightarrow> environ \<Rightarrow> files \<Rightarrow> string option \<Rightarrow> bool \<times> files" where
  "set_channel_command write_ok slackChannelFilePath e fs arg =
     (let given = (case arg of None \<Rightarrow> '''' | Some c \<Rightarrow> c);
          channel = (if given = '''' then getenv e SlackChannelEnvName else given)
      in if \<not> write_ok slackChannelFilePath then (False, fs)
         else (True, fs(slackChannelFilePath \<mapsto> Text channel)))"

section \<open>The start of the Slack agent and of the runner pod\<close>

text \<open>The start of the agent; \<open>zap_error\<close> is the error of making its logger.\<close>

text \<open>
  \<open>in_cluster\<close> and \<open>for_config\<close> are the errors of the Kubernetes client's two constructors; in
  development mode there is no such client. The Slack clients are the environment of the server.
\<close>

definition NewServer :: "go_error option \<Rightarrow> go_error option \<Rightarrow> string \<Rightarrow> bool \<Rightarrow> go_error + server" where
  "NewServer in_cluster for_config channel devMode =
     (let created = Inr \<lparr>defaultChannel = channel, devMood = devMode\<rparr>
      in if devMode then created
         else case in_cluster of
             Some err \<Rightarrow> Inl err
           | None \<Rightarrow> (case for_config of Some err \<Rightarrow> Inl err | None \<Rightarrow> created))"

record slack_agent_flags =
  af_channel :: string
  af_app_token :: string
  af_bot_token :: string
  af_development :: bool

definition empty_token :: "string \<Rightarrow> go_error" where
  "empty_token flag = [CHR 0x22] @ flag @ [CHR 0x22] @ '' should not be empty''"

definition slack_agent_start ::
  "go_error option \<Rightarrow> go_error option \<Rightarrow> go_error option \<Rightarrow> slack_agent_flags \<Rightarrow> go_error + server" where
  "slack_agent_start zap_error in_cluster for_config config =
     (if af_app_token config = '''' then Inl (empty_token ''app-token'')
      else if af_bot_token config = '''' then Inl (empty_token ''bot-token'')
      else case zap_error of
          Some err \<Rightarrow> Inl err
        | None \<Rightarrow> NewServer in_cluster for_config (af_channel config) (af_development config))"

definition entrypoint_runner :: "(string \<Rightarrow> json option) \<Rightarrow> environ \<Rightarrow> string \<Rightarrow> envs_error + runner" where
  "entrypoint_runner parse_json e listenAddr =
     NewRunner parse_json e listenAddr RunnerRootDirPath RunnerWorkDirPath RunnerVarDirPath"

section \<open>The controller's process\<close>

text \<open>
  The validation rules from the configuration map: no map, no rules; the regular expressions are
  compiled by the library.
\<close>

definition compile_rule ::
  "(string \<Rightarrow> go_error + (string \<Rightarrow> bool)) \<Rightarrow> go_map \<Rightarrow> string \<Rightarrow> go_error + (string \<Rightarrow> bool) option" where
  "compile_rule compile m key =
     (if go_index m key = '''' then Inr None
      else case compile (go_index m key) of
          Inl err \<Rightarrow> Inl (''invalid '' @ key @ '' key: '' @ err)
        | Inr re \<Rightarrow> Inr (Some re))"

definition getValidationRule ::
  "(string \<Rightarrow> go_error + (string \<Rightarrow> bool)) \<Rightarrow> (string \<Rightarrow> string \<Rightarrow> api_error + go_map) \<Rightarrow>
   string \<Rightarrow> string \<Rightarrow> go_error + (string \<Rightarrow> bool) option \<times> (string \<Rightarrow> bool) option" where
  "getValidationRule compile get_configmap namespace name = (case get_configmap namespace name of
       Inl NotFound \<Rightarrow> Inr (None, None)
     | Inl (OtherErr err) \<Rightarrow> Inl (''failed to get configmap; '' @ err)
     | Inr m \<Rightarrow>
         (case compile_rule compile m OptionConfigMapDataOrganizationRule of
            Inl err \<Rightarrow> Inl err
          | Inr orgRegexp \<Rightarrow>
              (case compile_rule compile m OptionConfigMapDataRepositoryRule of
                 Inl err \<Rightarrow> Inl err
               | Inr repoRegexp \<Rightarrow> Inr (orgRegexp, repoRegexp))))"

text \<open>
  The flags of the controller, and what the outside answers its start: the address split into host
  and port, the error of each step of the setup, the configuration maps by namespace and name, and
  of \<open>mgr.Start\<close> the reconciliations it made before it returned with its error. \<open>ca_config\<close> is the
  reconciler without its rules.
\<close>

record controller_answers =
  ca_webhook_addr :: string
  ca_split :: "string \<Rightarrow> go_error + string \<times> string"
  ca_manager :: "go_error option"
  ca_configmap :: "string \<Rightarrow> string \<Rightarrow> api_error + go_map"
  ca_compile :: "string \<Rightarrow> go_error + (string \<Rightarrow> bool)"
  ca_reconciler :: "go_error option"
  ca_webhook :: "go_error option"
  ca_healthz :: "go_error option"
  ca_readyz :: "go_error option"
  ca_calls :: "(rec_env \<times> string \<times> string) list"
  ca_start :: "go_error option"
  ca_config :: rec_config
  ca_interval :: duration

text \<open>The first error of a list of steps.\<close>

fun first_error :: "go_error option list \<Rightarrow> go_error option" where
  "first_error [] = None"
| "first_error (Some e # es) = Some e"
| "first_error (None # es) = first_error es"

text \<open>
  \<open>run\<close> from the two tables on: the rules, the reconciler, the setup, the life of the manager,
  and the deferred calls in reverse order.
\<close>

definition stop_tables :: "controllers \<Rightarrow> controllers" where
  "stop_tables s = (let s1 = s\<lparr>co_updater := su_StopAll (co_updater s)\<rparr>
     in s1\<lparr>co_manager := rm_StopAll (co_manager s1)\<rparr>)"

definition serve_pools :: "string \<Rightarrow> controller_answers \<Rightarrow> controllers \<Rightarrow> (go_error option \<times> controllers) outcome" where
  "serve_pools namespace A s =
     (case getValidationRule (ca_compile A) (ca_configmap A) namespace OptionConfigMapName of
       Inl err \<Rightarrow> Ret (Some err, s)
     | Inr (orgRegexp, repoRegexp) \<Rightarrow>
         (case first_error [ca_reconciler A, ca_webhook A, ca_healthz A, ca_readyz A] of
            Some err \<Rightarrow> Ret (Some err, s)
          | None \<Rightarrow>
              (case reconcile_seq ((ca_config A)\<lparr>cf_organization_regexp := orgRegexp,
                     cf_repository_regexp := repoRegexp\<rparr>) (ca_calls A) s of
                 Panic \<Rightarrow> Panic
               | Ret s' \<Rightarrow> Ret (ca_start A, s'))))"

text \<open>
  The texts of the errors; the quotation of a part leaves a text of plain characters as it is.
\<close>

definition invalid_address :: "string \<Rightarrow> go_error \<Rightarrow> go_error" where
  "invalid_address addr err = ''invalid webhook address: '' @ addr @ '', '' @ err"

definition num_error_text :: "string \<Rightarrow> num_error \<Rightarrow> go_error" where
  "num_error_text s err = ''strconv.Atoi: parsing '' @ [CHR 0x22] @ s @ [CHR 0x22] @ '': '' @
     (case err of ErrSyntax \<Rightarrow> ''invalid syntax'' | ErrRange \<Rightarrow> ''value out of range'')"

definition controller_run ::
  "string \<Rightarrow> controller_answers \<Rightarrow> (go_error option \<times> controllers option) outcome" where
  "controller_run namespace A = (case ca_split A (ca_webhook_addr A) of
       Inl err \<Rightarrow> Ret (Some (invalid_address (ca_webhook_addr A) err), None)
     | Inr (host, p) \<Rightarrow>
         (case atoi p of
            Inl err \<Rightarrow> Ret (Some (invalid_address (ca_webhook_addr A) (num_error_text p err)), None)
          | Inr port \<Rightarrow>
              (case ca_manager A of
                 Some err \<Rightarrow> Ret (Some err, None)
               | None \<Rightarrow>
                   (case serve_pools namespace A \<lparr>co_manager = NewRunnerManager (ca_interval A),
                        co_updater = NewSecretUpdater\<rparr> of
                      Panic \<Rightarrow> Panic
                    | Ret (err, s) \<Rightarrow> Ret (err, Some (stop_tables s))))))"

definition controller_command :: "environ \<Rightarrow> controller_answers \<Rightarrow> (go_error option \<times> controllers option) outcome" where
  "controller_command e A =
     (let controllerNamespace = getenv e PodNamespaceEnvName
      in if controllerNamespace = '''' then Ret (Some (PodNamespaceEnvName @ '' should be passed''), None)
         else controller_run controllerNamespace A)"

end
