(* ===== verification/Pod_Props.thy ===== *)
theory Pod_Props
  imports Pod_Life Manager_Pods
begin

text \<open>
  The properties of the runner pod and of its client: a pod runs at most one job, the status it
  serves has the shape its readers rely on, the loop around the listener ends rightly, and the HTTP
  client refines the fake one.
\<close>

section \<open>The runner pod\<close>

text \<open>C4. A runner pod registers with GitHub at most once and listens for a job at most once, however
  often its container restarts and whatever requests, jobs and token refreshes come in between; a
  container that finds the started flag goes to the state stale without either.\<close>

theorem pod_runs_one_job:
  assumes "pod_reachable parse_json s"
  shows "n_configures s \<le> 1 \<and> n_listens s \<le> 1 \<and>
    (sys_pc s = AtStart \<and> sys_calls s \<noteq> [] \<longrightarrow>
       (let t = listener_step parse_json a s
        in rn_state (sys_runner t) = RunnerPodStateStale \<and> sys_pc t = WaitDone \<and> sys_calls t = sys_calls s))"
proof -
  from job_inv_reachable [OF assms] have inv: "job_inv s" .
  then have "n_configures s \<le> 1" "n_listens s \<le> 1"
    using calls_allowed_le by (auto simp: job_inv_def)
  moreover have "started s" if "sys_calls s \<noteq> []" using inv that by (auto simp: job_inv_def)
  ultimately show ?thesis
    by (auto simp: started_def listener_step_def Let_def enter_state_def updateState_def)
qed

lemma pod_runs_one_job_witness:
  "rn_state (sys_runner (listener_step (\<lambda>_. None) ex_step_answers
     (ex_pod_restarted (\<lambda>_. None)))) = RunnerPodStateStale"
  using pod_runs_one_job [OF ex_pod_restarted_reachable [of "\<lambda>_. None"]] ex_pod_done_state(1) [of "\<lambda>_. None"]
  by (simp add: ex_pod_restarted_def Let_def)



section \<open>The loop around the listener\<close>

text \<open>How one result of \<open>Runner.Listener\<close> ends the loop, if it does.\<close>

definition final_result :: "int \<times> run_error option \<Rightarrow> go_error option option" where
  "final_result x = (case x of
       (_, None) \<Rightarrow> Some None
     | (_, Some (RunError e)) \<Rightarrow> Some (Some e)
     | (code, Some ExitError) \<Rightarrow>
         if code = 0 then Some None
         else if code = 1 then Some (Some ''runner listener exit with terminated error: exit status 1'')
         else None)"

definition exit_state :: "int \<Rightarrow> string" where
  "exit_state code = (if code = 2 then ListenerExitStateRetryableError
     else if code = 3 \<or> code = 4 then ListenerExitStateUpdating else ListenerExitStateUndefined)"

definition exits :: "pod_metrics \<Rightarrow> string \<Rightarrow> int" where
  "exits m st = (case listener_exit_state m st of None \<Rightarrow> 0 | Some n \<Rightarrow> n)"

lemma exits_increment: "exits (IncrementListenerExitState st' m) st = exits m st + (if st = st' then 1 else 0)"
  by (simp add: exits_def IncrementListenerExitState_def split: option.splits)

lemma listen_loop_ends:
  "case listen_loop xs m of (outcome, m') \<Rightarrow>
     outcome = (case dropWhile (\<lambda>x. final_result x = None) xs of
         [] \<Rightarrow> StillRunning | x # _ \<Rightarrow> ListenReturned (the (final_result x))) \<and>
     (\<forall>st. exits m' st = exits m st +
        int (length (filter (\<lambda>x. exit_state (fst x) = st) (takeWhile (\<lambda>x. final_result x = None) xs))))"
proof (induction xs m rule: listen_loop.induct)
  case (2 code err rest m)
  show ?case
  proof (cases "final_result (code, err)")
    case None
    then obtain "err = Some ExitError" "code \<noteq> 0" "code \<noteq> 1"
      by (auto simp: final_result_def split: option.splits run_error.splits if_splits)
    with 2 None show ?thesis
      by (auto simp: exit_state_def exits_increment split: prod.splits if_splits)
  next
    case (Some e)
    then show ?thesis
      by (auto simp: final_result_def split: option.splits run_error.splits if_splits)
  qed
qed simp


definition ex_environ :: "string list" where
  "ex_environ = [''PATH=/bin'', ''RUNNER_ORG=org'']"

definition ex_launches :: "nat \<Rightarrow> command_request \<Rightarrow> int \<times> run_error option" where
  "ex_launches i rq = (if i = 0 then (2, Some ExitError) else (0, None))"


section \<open>The client of the pods\<close>

text \<open>What a network shows of its pods, as a state of the fake client.\<close>

definition net_abs :: "network \<Rightarrow> fake_client" where
  "net_abs net ip = (case GetStatus net ip of Inl _ \<Rightarrow> None | Inr st \<Rightarrow> Some st)"

text \<open>C31. The HTTP client refines the fake client of the tests. Seen through the statuses it can read,
  getting a status answers as the fake client does, and putting a time Go can encode succeeds
  exactly when the fake client's put does and has the same effect, on this pod and on all others.\<close>

theorem http_client_refines_fake:
  "(\<forall>st. GetStatus net ip = Inr st \<longleftrightarrow> fake_get (net_abs net) ip = Inr st) \<and>
   (case PutDeletionTime net ip t of (err, net') \<Rightarrow>
      (\<forall>ip'. ip' \<noteq> ip \<longrightarrow> net_abs net' ip' = net_abs net ip') \<and>
      (time_ok t \<and> net_abs net ip \<noteq> None \<longrightarrow>
         (err, net_abs net') = fake_put (net_abs net) ip t))"
proof -
  obtain err net' where put: "PutDeletionTime net ip t = (err, net')" by fastforce
  have other: "net_abs net' ip' = net_abs net ip'" if "ip' \<noteq> ip" for ip'
    using http_client.get_after_put_other [OF put that] by (simp add: net_abs_def)
  have "(err, net_abs net') = fake_put (net_abs net) ip t" if "time_ok t" and st: "net_abs net ip = Some st" for st
  proof -
    from st have get: "GetStatus net ip = Inr st" by (auto simp: net_abs_def split: sum.splits)
    from http_client.put_succeeds [OF get that(1)] put have err: "err = None" by simp
    from http_client.get_after_put [OF put [unfolded err] get] have
      "net_abs net' ip = Some (st\<lparr>st_deletion_time := Some t\<rparr>)" by (simp add: net_abs_def)
    with other have "net_abs net' = (net_abs net)(ip \<mapsto> st\<lparr>st_deletion_time := Some t\<rparr>)" by (auto simp: fun_eq_iff)
    with st err show ?thesis by (simp add: fake_put_def)
  qed
  with other put show ?thesis
    by (auto simp: fake_get_def net_abs_def split: sum.splits)
qed

lemma http_client_refines_fake_witness:
  "PutDeletionTime \<lparr>net_pods = Map.empty(''10.0.0.1'' \<mapsto> ex_runner), net_link = \<lambda>_. Up\<rparr> ''10.0.0.1'' 0 =
     (None, \<lparr>net_pods = Map.empty(''10.0.0.1'' \<mapsto> ex_runner\<lparr>rn_deletion_time := Some 0\<rparr>), net_link = \<lambda>_. Up\<rparr>) \<and>
   fst (fake_put (net_abs \<lparr>net_pods = Map.empty(''10.0.0.1'' \<mapsto> ex_runner), net_link = \<lambda>_. Up\<rparr>) ''10.0.0.1'' 0) = None"
proof -
  let ?net = "\<lparr>net_pods = Map.empty(''10.0.0.1'' \<mapsto> ex_runner), net_link = \<lambda>_. Up\<rparr>"
  have t: "time_ok 0" by (simp add: time_ok_def)
  have "GetStatus ?net ''10.0.0.1'' = Inr (runner_status ex_runner)"
    by (simp add: GetStatus_eq status_ok_def status_times_ok_def runner_status_def ex_runner_def)
  then have "net_abs ?net ''10.0.0.1'' \<noteq> None" by (simp add: net_abs_def)
  moreover have put: "PutDeletionTime ?net ''10.0.0.1'' 0 =
      (None, \<lparr>net_pods = Map.empty(''10.0.0.1'' \<mapsto> ex_runner\<lparr>rn_deletion_time := Some 0\<rparr>), net_link = \<lambda>_. Up\<rparr>)"
    by (simp add: PutDeletionTime_def http_do_def getDeletionTimeURL_def serve_put deletion_time_json_def t
        plain_response_def Let_def)
  ultimately show ?thesis
    using http_client_refines_fake [of ?net "''10.0.0.1''" 0] t by (auto simp: put dest: arg_cong [where f = fst])
qed

end
