(* ===== verification/Agent_Props.thy ===== *)
theory Agent_Props
  imports Pod_Props
begin

text \<open>
  The properties of the Slack agent: the way of a job result from \<open>PostResult\<close> through the server
  to Slack, the one request the server panics on, the way of a pressed button from its message back
  to the pod it belongs to, and where the loop over the button events ends.
\<close>

section \<open>The way to Slack\<close>

text \<open>The transport of a client whose server is \<open>ServeHTTP\<close>; a panic closes the connection.\<close>

definition to_server :: "agent_env \<Rightarrow> server \<Rightarrow> http_request \<Rightarrow> go_error + http_response" where
  "to_server E s req = (case fst (ServeHTTP E s req []) of Panic \<Rightarrow> Inl ''EOF'' | Ret res \<Rightarrow> Inr res)"

definition chosen_channel :: "server \<Rightarrow> string \<Rightarrow> string" where
  "chosen_channel s channel = (if channel \<noteq> '''' then channel else defaultChannel s)"

definition result_message :: "string \<Rightarrow> bool \<Rightarrow> string \<Rightarrow> string \<Rightarrow> job_info option \<Rightarrow> message" where
  "result_message result withExtend ns pod info = (let p = makePayload result ns pod info
     in messageCIResult (pl_color p) (pl_text p) (pl_job p) (pl_pod p) withExtend)"

lemma serve_result:
  "ServeHTTP E s (result_request channel result withExtend ns pod info) [] =
   (if chosen_channel s channel = '''' then (Ret (plain_response StatusBadRequest), [])
    else let ch = chosen_channel s channel; msg = result_message result withExtend ns pod info;
             err = ae_post E [] ch msg
         in (Ret (plain_response (if err = None then StatusOK else StatusInternalServerError)),
             [EvPost ch msg err]))"
  by (simp add: ServeHTTP_def result_request_def payload_roundtrip chosen_channel_def result_message_def
      post_message_def prog_basics Let_def split: option.splits)

text \<open>C32. A job result reaches Slack. Sent by \<open>PostResult\<close> and received by the server, it becomes one
  message with the result's text and the pod's name, and the two buttons if asked for, in the
  channel given, or else the server's own; the sender sees no error exactly when Slack took it,
  and the status code otherwise. Without any channel nothing is posted and the sender sees 400.\<close>

theorem result_reaches_slack:
  "let ch = chosen_channel s channel; msg = result_message result withExtend ns pod info in
   (snd (ServeHTTP E s (result_request channel result withExtend ns pod info) []),
    PostResult (to_server E s) channel result withExtend ns pod info) =
   (if ch = '''' then ([], Some ''status code: 400'')
    else case ae_post E [] ch msg of
        None \<Rightarrow> ([EvPost ch msg None], None)
      | Some err \<Rightarrow> ([EvPost ch msg (Some err)], Some ''status code: 500''))"
proof -
  have "itoa 400 = ''400''" and "itoa 500 = ''500''"
    by code_simp+
  then show ?thesis
    by (simp add: serve_result PostResult_def to_server_def plain_response_def status_codes Let_def
        split: option.splits)
qed

text \<open>C33. The server panics on one body only: a POST of JSON to the result path whose body is \<open>null\<close>
  decodes to a nil payload, which it reads through. Every other request is answered.\<close>

theorem server_panics_on_null_only:
  "fst (ServeHTTP E s req tr) = Panic \<longleftrightarrow>
     rq_path req = resultAPIPath \<and> rq_method req = ''POST'' \<and> rq_content_type req = ''application/json'' \<and>
     rq_body req = Some JNull"
proof -
  have "payload_of_json j = Some None \<longleftrightarrow> j = JNull" for j
    by (cases j rule: payload_of_json.cases) (auto simp: bind_eq_Some_conv)
  then have null: "Option.bind (rq_body req) payload_of_json = Some None \<longleftrightarrow> rq_body req = Some JNull"
    by (cases "rq_body req") simp_all
  have post: "fst (and_then (post_message E ch msg) (\<lambda>err. case err of
      Some x \<Rightarrow> ret (plain_response StatusInternalServerError) | None \<Rightarrow> ret (plain_response StatusOK)) tr) \<noteq> Panic"
    for ch msg by (simp add: post_message_def prog_basics split: option.split)
  have ends: "fst (ret x tr) = Ret x" "fst (panic tr) = Panic" for x :: http_response
    by (simp_all add: ret_def panic_def)
  consider "Option.bind (rq_body req) payload_of_json = None"
    | "Option.bind (rq_body req) payload_of_json = Some None"
    | pl where "Option.bind (rq_body req) payload_of_json = Some (Some pl)"
    by (cases "Option.bind (rq_body req) payload_of_json") auto
  then show ?thesis
    using null post by cases (simp_all add: ServeHTTP_def ends Let_def)
qed

section \<open>The way back\<close>

lemma presses_result:
  "presses ch (messageCIResult color txt job pod True) =
     [press ch extendBlockID \<lparr>bt_action_id = extendButtonActionID, bt_value = pod,
        bt_text = ''Extend '' @ extendDurationString\<rparr>,
      press ch deleteBlockID \<lparr>bt_action_id = deleteButtonActionID, bt_value = pod,
        bt_text = ''Delete immediately''\<rparr>]"
  by (simp add: messageCIResult_def)

lemma pressed_pod:
  assumes "CHR ''/'' \<notin> set ns" and "CHR ''/'' \<notin> set pod"
  shows "getPodFromCallbackEvent (press ch b \<lparr>bt_action_id = i, bt_value = ns @ ''/'' @ pod, bt_text = txt\<rparr>) =
    Ret (Inr (ns, pod))"
  using pod_name.dec_enc [of "(ns, pod)"] assms
  by (simp add: getPodFromCallbackEvent_def press_def namespaced_name_def)

definition extend_press :: "string \<Rightarrow> message \<Rightarrow> callback" where
  "extend_press ch msg = presses ch msg ! 0"

definition delete_press :: "string \<Rightarrow> message \<Rightarrow> callback" where
  "delete_press ch msg = presses ch msg ! 1"

lemma result_message_pod:
  "result_message result True ns pod info = messageCIResult (pl_color (makePayload result ns pod info))
     (pl_text (makePayload result ns pod info)) (pl_job (makePayload result ns pod info)) (ns @ ''/'' @ pod) True"
  by (simp add: result_message_def makePayload_def Let_def split: option.splits)

lemma handle_extend:
  assumes "CHR ''/'' \<notin> set ns" and "CHR ''/'' \<notin> set pod"
  shows "handle_callback E s (extend_press ch (result_message result True ns pod info)) = extendPod E s ch ns pod"
  by (simp add: extend_press_def result_message_pod presses_result handle_callback_def pressed_pod [OF assms, simplified]
      isExtendButtonEvent_def prog_basics) (simp add: press_def)

lemma handle_delete:
  assumes "CHR ''/'' \<notin> set ns" and "CHR ''/'' \<notin> set pod"
  shows "handle_callback E s (delete_press ch (result_message result True ns pod info)) = deletePod E s ch ns pod"
  by (simp add: delete_press_def result_message_pod presses_result handle_callback_def pressed_pod [OF assms, simplified]
      isExtendButtonEvent_def isDeleteButtonEvent_def prog_basics) (simp add: press_def button_ids)

definition agent_over :: "network \<Rightarrow> agent_env \<Rightarrow> agent_env" where
  "agent_over net E = agent_on PutDeletionTime GetStatus net E"

text \<open>The network after the agent has handled a press.\<close>

definition pods_after :: "network \<Rightarrow> agent_env \<Rightarrow> server \<Rightarrow> callback \<Rightarrow> network" where
  "pods_after net E s cb = replay PutDeletionTime net (snd (handle_callback (agent_over net E) s cb []))"

text \<open>C34. The buttons of a result's message act on the pod the message is about. Pressing the first one
  moves the deletion time the pod serves two hours on, but at most six hours from now; a round of
  the runner manager then keeps the pod until that time. Pressing the second one makes the
  deletion time the zero time, and a round deletes the pod. Nothing else of the status changes.\<close>

theorem pressed_buttons_reach_pod:
  assumes "CHR ''/'' \<notin> set ns" and "CHR ''/'' \<notin> set pod" and "\<not> devMood s"
    and "ae_get_pod E [] ns pod = Inr ip" and "GetStatus net ip = Inr st" and "st_deletion_time st = Some d"
    and "now = ae_now E [EvGetPod ns pod (Inr ip), EvStatus ip (Inr st)]"
    and "t = min (d + 2 * Hour) (now + 6 * Hour)" and "time_ok t"
    and "msg = result_message result True ns pod info"
  shows "GetStatus (pods_after net E s (extend_press ch msg)) ip = Inr (st\<lparr>st_deletion_time := Some t\<rparr>) \<and>
    GetStatus (pods_after net E s (delete_press ch msg)) ip = Inr (st\<lparr>st_deletion_time := Some zero_time\<rparr>) \<and>
    (\<forall>rd. need_delete rd (st\<lparr>st_deletion_time := Some t\<rparr>) = Ret (t < rd_now rd)) \<and>
    (\<forall>rd. zero_time < rd_now rd \<longrightarrow> need_delete rd (st\<lparr>st_deletion_time := Some zero_time\<rparr>) = Ret True)"
  using http_client.extendPod_visible [OF assms(3-9), of ch] http_client.deletePod_visible [OF assms(3-5), of ch]
  by (simp add: pods_after_def agent_over_def assms(10) handle_extend [OF assms(1,2)] handle_delete [OF assms(1,2)]
      need_delete_def after_def)

definition ex_debugging :: runner where
  "ex_debugging = ex_runner\<lparr>rn_state := RunnerPodStateDebugging, rn_result := JobResultFailure,
     rn_finished_at := Some 0, rn_deletion_time := Some (20 * Minute), rn_extend := Some True\<rparr>"

definition ex_net :: network where
  "ex_net = \<lparr>net_pods = Map.empty(''10.0.0.1'' \<mapsto> ex_debugging), net_link = \<lambda>_. Up\<rparr>"

definition ex_agent_env :: agent_env where
  "ex_agent_env = \<lparr>ae_post = \<lambda>_ _ _. None, ae_get_pod = \<lambda>_ _ _. Inr ''10.0.0.1'', ae_status = \<lambda>_ _. Inl '''',
     ae_put = \<lambda>_ _ _. None, ae_now = \<lambda>_. Minute, ae_rand = \<lambda>_. 0\<rparr>"

definition ex_server :: server where
  "ex_server = \<lparr>defaultChannel = ''#ci'', devMood = False\<rparr>"

lemma pressed_buttons_reach_pod_witness:
  "GetStatus (pods_after ex_net ex_agent_env ex_server
     (extend_press ''#ci'' (result_message JobResultFailure True ''ns'' ''pod-1'' None))) ''10.0.0.1'' =
   Inr ((runner_status ex_debugging)\<lparr>st_deletion_time := Some (140 * Minute)\<rparr>)"
proof -
  have "GetStatus ex_net ''10.0.0.1'' = Inr (runner_status ex_debugging)"
    by (simp add: GetStatus_eq ex_net_def status_ok_def status_times_ok_def runner_status_def ex_debugging_def
        ex_runner_def time_ok_def Minute_def)
  from pressed_buttons_reach_pod [OF _ _ _ _ this _ refl refl _ refl, of "''ns''" "''pod-1''" ex_server
      ex_agent_env "20 * Minute" "''#ci''" JobResultFailure None]
  show ?thesis
    by (simp add: ex_server_def ex_agent_env_def runner_status_def ex_debugging_def time_ok_def Minute_def Hour_def)
qed

section \<open>The loop over button events\<close>

text \<open>The requests acknowledged, and those of the events an interactive event among them asks for.\<close>

fun ack :: "agent_event \<Rightarrow> nat list" where
  "ack (EvAck n) = [n]"
| "ack _ = []"

definition acks :: "agent_event list \<Rightarrow> nat list" where
  "acks es = concat (map ack es)"

fun requests :: "socket_event \<Rightarrow> nat list" where
  "requests (Interactive cb req) = [req]"
| "requests _ = []"

text \<open>
  An error a call of the agent answered with, other than a failed put, which is told in Slack; and
  how the handling of a callback may fail: its last call was answered so, or the value of its
  button names no pod.
\<close>

fun call_error :: "agent_event \<Rightarrow> go_error option" where
  "call_error (EvGetPod ns pod (Inl e)) = Some e"
| "call_error (EvStatus ip (Inl e)) = Some e"
| "call_error (EvPost ch msg err) = err"
| "call_error _ = None"

definition failed_with :: "callback \<Rightarrow> go_error \<Rightarrow> agent_event list \<Rightarrow> bool" where
  "failed_with cb e es \<longleftrightarrow> (isExtendButtonEvent cb \<or> isDeleteButtonEvent cb) \<and>
     (es \<noteq> [] \<and> call_error (last es) = Some e \<or>
      split_pod (ba_value (hd (cb_block_actions cb))) = None \<and> e = ''failed to get pod name from callback'')"

lemma failed_with_append: "failed_with cb e es \<Longrightarrow> failed_with cb e (pre @ es)"
  by (auto simp: failed_with_def)

definition handled :: "callback \<Rightarrow> go_error option outcome \<Rightarrow> agent_event list \<Rightarrow> bool" where
  "handled cb r es \<longleftrightarrow> acks es = [] \<and> (\<exists>err. r = Ret err \<and> (\<forall>e. err = Some e \<longrightarrow> failed_with cb e es))"

lemma pressed_one_button:
  assumes "isExtendButtonEvent cb \<or> isDeleteButtonEvent cb"
  obtains a where "cb_block_actions cb = [a]"
  using assms by (auto simp: isExtendButtonEvent_def isDeleteButtonEvent_def split: if_splits list.splits)

lemma acted_on_pod:
  assumes button: "isExtendButtonEvent cb \<or> isDeleteButtonEvent cb"
  shows "ensures (extendPod E s ch ns pod) (handled cb)" and "ensures (deletePod E s ch ns pod) (handled cb)"
  unfolding extendPod_def deletePod_def agent_defs
  by (intro ensures_intros;
      (auto simp: handled_def acks_def failed_with_def button split: outcome.splits sum.splits option.splits
        intro!: ensures_intros)?)+

lemma handle_callback_handled: "ensures (handle_callback E s cb) (handled cb)"
proof (cases "isExtendButtonEvent cb \<or> isDeleteButtonEvent cb")
  case True
  then obtain a where a: "cb_block_actions cb = [a]" by (rule pressed_one_button)
  have "ensures (and_then (of_outcome (getPodFromCallbackEvent cb)) (\<lambda>p. case p of
      Inl err \<Rightarrow> ret (Some err) | Inr (ns, pod) \<Rightarrow> f ns pod)) (handled cb)"
    if "\<And>ns pod. ensures (f ns pod) (handled cb)" for f
  proof (cases "split_pod (ba_value a)")
    case None
    with a True show ?thesis
      by (simp add: getPodFromCallbackEvent_def and_then_def of_outcome_def ret_def ensures_def handled_def
          acks_def failed_with_def)
  next
    case (Some p)
    have "and_then (of_outcome (getPodFromCallbackEvent cb)) (\<lambda>p. case p of
        Inl err \<Rightarrow> ret (Some err) | Inr (ns, pod) \<Rightarrow> f ns pod) = f (fst p) (snd p)"
      by (auto simp: getPodFromCallbackEvent_def a Some and_then_def of_outcome_def split: prod.splits)
    with that show ?thesis by simp
  qed
  from this [OF acted_on_pod(1) [OF True]] this [OF acted_on_pod(2) [OF True]] show ?thesis
    using True by (auto simp: handle_callback_def)
qed (simp add: handle_callback_def handled_def acks_def ensures_ret)

definition socket_run :: "socket_event list \<Rightarrow> socket_outcome outcome \<Rightarrow> agent_event list \<Rightarrow> bool" where
  "socket_run evs r es \<longleftrightarrow> (\<exists>don rest. evs = don @ rest \<and> acks es = concat (map requests don) \<and>
     (case rest of
        [] \<Rightarrow> r = Ret Waiting
      | CtxDone # _ \<Rightarrow> r = Ret (SocketReturned ''context canceled'')
      | ChannelClosed # _ \<Rightarrow> r = Ret (SocketReturned ''channel is closed'')
      | Interactive cb req # _ \<Rightarrow> \<exists>e. r = Ret (SocketReturned e) \<and> failed_with cb e es
      | _ \<Rightarrow> False))"

lemma socket_run_next:
  assumes "socket_run evs r es" and "acks pre = requests ev"
  shows "socket_run (ev # evs) r (pre @ es)"
proof -
  from assms(1) obtain don rest where "evs = don @ rest" "acks es = concat (map requests don)"
    and *: "case rest of [] \<Rightarrow> r = Ret Waiting
      | CtxDone # _ \<Rightarrow> r = Ret (SocketReturned ''context canceled'')
      | ChannelClosed # _ \<Rightarrow> r = Ret (SocketReturned ''channel is closed'')
      | Interactive cb req # _ \<Rightarrow> \<exists>e. r = Ret (SocketReturned e) \<and> failed_with cb e es
      | _ \<Rightarrow> False" by (auto simp: socket_run_def)
  with assms(2) show ?thesis
    unfolding socket_run_def
    by (intro exI [of _ "ev # don"] exI [of _ rest])
      (auto simp: acks_def split: list.splits socket_event.splits intro: failed_with_append)
qed

lemma socket_loop_runs: "ensures (listenInteractiveEvents E s evs) (socket_run evs)"
proof (induction evs)
  case Nil
  show ?case by (simp add: ensures_ret socket_run_def acks_def)
next
  case (Cons ev evs)
  have stop: "socket_run (ev # evs) r es"
    if "acks es = []" and "case ev of CtxDone \<Rightarrow> r = Ret (SocketReturned ''context canceled'')
      | ChannelClosed \<Rightarrow> r = Ret (SocketReturned ''channel is closed'')
      | Interactive cb req \<Rightarrow> \<exists>e. r = Ret (SocketReturned e) \<and> failed_with cb e es | _ \<Rightarrow> False" for r es
    unfolding socket_run_def using that by (intro exI [of _ "[]"] exI [of _ "ev # evs"]) (cases ev; simp)
  show ?case
  proof (cases ev)
    case (Interactive cb req)
    show ?thesis
      unfolding Interactive listenInteractiveEvents.simps
    proof (rule ensures_and_then, rule ensures_mono [OF handle_callback_handled])
      fix r es
      assume h: "handled cb r es"
      then obtain err where r: "r = Ret err" by (auto simp: handled_def)
      have next_event: "socket_run (Interactive cb req # evs) r' (es @ [EvAck req] @ es')"
        if "socket_run evs r' es'" for r' es'
        using socket_run_next [OF that, of "es @ [EvAck req]" "Interactive cb req"] h
        by (simp add: handled_def acks_def)
      have "ensures (case err of
           Some e \<Rightarrow> ret (SocketReturned e)
         | None \<Rightarrow> and_then (ext_call (\<lambda>_. ()) (\<lambda>_. EvAck req)) (\<lambda>_. listenInteractiveEvents E s evs))
         (\<lambda>r' es'. socket_run (Interactive cb req # evs) r' (es @ es'))"
      proof (cases err)
        case None
        show ?thesis
          unfolding None option.case
          by (rule ensures_and_then, rule ensures_ext_call)
            (use next_event in \<open>auto intro: ensures_mono [OF Cons.IH]\<close>)
      next
        case (Some e)
        with h r stop [unfolded Interactive] show ?thesis by (auto simp: handled_def intro!: ensures_ret)
      qed
      with r show "case r of Panic \<Rightarrow> socket_run (Interactive cb req # evs) Panic es
        | Ret x \<Rightarrow> ensures (case x of
           Some e \<Rightarrow> ret (SocketReturned e)
         | None \<Rightarrow> and_then (ext_call (\<lambda>_. ()) (\<lambda>_. EvAck req)) (\<lambda>_. listenInteractiveEvents E s evs))
         (\<lambda>r' es'. socket_run (Interactive cb req # evs) r' (es @ es'))" by simp
    qed
  qed (use stop Cons.IH socket_run_next [where pre = "[]" and evs = evs] in
      \<open>auto simp: acks_def intro!: ensures_ret elim!: ensures_mono\<close>)
qed


text \<open>So a press on the button of a pod that is gone ends the agent.\<close>

lemma missing_pod_ends_loop:
  assumes "ae_get_pod E [] ns pod = Inl e" and "CHR ''/'' \<notin> set ns" and "CHR ''/'' \<notin> set pod"
  shows "listenInteractiveEvents E s (Interactive (extend_press ch (result_message result True ns pod info)) req # evs) [] =
    (Ret (SocketReturned e), [EvGetPod ns pod (Inl e)])"
  using assms by (simp add: handle_extend extendPod_def get_pod_def prog_basics)

end
