(* ===== verification/Command_Props.thy ===== *)
theory Command_Props
  imports Commands Agent_Props Deployment_Props
begin

text \<open>
  The properties of admission, of the GitHub client and of the commands: what the webhook admits,
  that a listing is complete and ends, what \<open>meows runner remove\<close> removes, how the files of a job
  come back in the status of its pod, and that the controller serves only pools its rules match.
\<close>

section \<open>Admission\<close>

text \<open>C36. The webhook admits exactly the well-formed pools, by the rules of the documentation, and an
  update of one exactly if it also keeps the repository and the organization. The owner and the
  repository of an admitted pool are read without a panic and are the ones it names.\<close>

theorem admission_is_well_formedness:
  "(ValidateCreate r = None \<longleftrightarrow> well_formed_spec (rp_spec r)) \<and>
   (ValidateUpdate r old = None \<longleftrightarrow> well_formed_spec (rp_spec r) \<and>
      spec_repository (rp_spec r) = spec_repository (rp_spec old) \<and>
      spec_organization (rp_spec r) = spec_organization (rp_spec old)) \<and>
   (ValidateCreate r = None \<longrightarrow>
      (\<exists>repo. GetRepository r = Ret repo \<and>
         (if IsOrgLevel r then GetOwner r = spec_organization (rp_spec r) \<and> repo = ''''
          else spec_repository (rp_spec r) = GetOwner r @ ''/'' @ repo \<and> GetOwner r \<noteq> '''' \<and> repo \<noteq> '''')))"
proof -
  have create: "ValidateCreate r = None \<longleftrightarrow> well_formed_spec (rp_spec r)"
    by (simp add: ValidateCreate_def validate_create_def validate_common_iff Let_def)
  have "ValidateUpdate r old = None \<longleftrightarrow> well_formed_spec (rp_spec r) \<and>
      spec_repository (rp_spec r) = spec_repository (rp_spec old) \<and>
      spec_organization (rp_spec r) = spec_organization (rp_spec old)"
    by (auto simp: ValidateUpdate_def validate_update_def validate_common_iff Let_def)
  moreover have "\<exists>repo. GetRepository r = Ret repo \<and>
      (if IsOrgLevel r then GetOwner r = spec_organization (rp_spec r) \<and> repo = ''''
       else spec_repository (rp_spec r) = GetOwner r @ ''/'' @ repo \<and> GetOwner r \<noteq> '''' \<and> repo \<noteq> '''')"
    if wf: "well_formed_spec (rp_spec r)"
  proof (cases "IsOrgLevel r")
    case False
    with wf obtain a b where "spec_repository (rp_spec r) = a @ CHR ''/'' # b" "a \<noteq> ''''" "b \<noteq> ''''"
      "CHR ''/'' \<notin> set a" "CHR ''/'' \<notin> set b" by (rule well_formed_repository)
    with False show ?thesis by (simp add: GetRepository_def GetOwner_def go_split_at go_split_no_sep)
  qed (simp add: GetRepository_def GetOwner_def)
  ultimately show ?thesis using create by blast
qed

lemma admission_is_well_formedness_witness: "GetOwner ex_pool = ''owner'' \<and> GetRepository ex_pool = Ret ''repo''"
proof -
  have "ValidateCreate ex_pool = None"
    by (simp add: ValidateCreate_def validate_create_def validate_common_iff ex_pool_well_formed Let_def)
  with admission_is_well_formedness [of ex_pool] have
    "spec_repository (rp_spec ex_pool) = GetOwner ex_pool @ ''/'' @ ''repo''"
    by (simp add: ex_pool_owner)
  moreover have "spec_repository (rp_spec ex_pool) = ''owner'' @ ''/'' @ ''repo''" by (simp add: ex_pool_def)
  ultimately show ?thesis by (simp add: ex_pool_owner)
qed

section \<open>Listing runners\<close>

text \<open>A page names no next page, or a later one up to \<open>n\<close>.\<close>

definition pages_grow :: "gh_api \<Rightarrow> string \<Rightarrow> string \<Rightarrow> nat \<Rightarrow> bool" where
  "pages_grow A owner repo n \<longleftrightarrow> (\<forall>tr p pg. api_list A tr owner (endpoint_repo repo) p = Inr pg \<longrightarrow>
     pg_next pg = 0 \<or> p < pg_next pg \<and> pg_next pg \<le> int n)"

text \<open>C37. A listing of runners is complete and ends. If the pages' numbers grow up to \<open>n\<close>, it returns
  within \<open>n + 1\<close> pages; what it returns without an error is, in order, every runner with the labels
  on every page, from the first page to the one that names no next, and all of them answered 200.\<close>

theorem listing_complete_and_ends:
  assumes "pages_grow A owner repo n"
  shows "case ListRunners (Suc n) A owner repo labels [] of (r, es) \<Rightarrow>
    \<exists>v. r = Ret (Some v) \<and> (\<forall>rs. v = Inr rs \<longrightarrow>
      rs = concat (map (shown_runners labels) es) \<and> follows_pages owner repo 0 es)"
proof -
  obtain r es where run: "list_pages (Suc n) A owner repo labels 0 [] [] = (r, es)" by fastforce
  from ensuresE [OF list_pages_complete run] have "r \<noteq> Panic" and
    rs: "\<forall>rs. r = Ret (Some (Inr rs)) \<longrightarrow> rs = concat (map (shown_runners labels) es) \<and> follows_pages owner repo 0 es"
    by auto
  have "fst (list_pages (Suc n) A owner repo labels 0 [] []) \<noteq> Ret None"
    by (rule list_pages_returns [where n = n]) (use assms in \<open>auto simp: pages_grow_def\<close>)
  with run \<open>r \<noteq> Panic\<close> obtain v where "r = Ret (Some v)" by (cases r) auto
  with rs run show ?thesis by (simp add: ListRunners_def)
qed

definition ex_gh_runner :: "int \<Rightarrow> string \<Rightarrow> gh_runner" where
  "ex_gh_runner i st = \<lparr>gr_id = Some i, gr_name = Some ''pod-1'', gr_status = Some st, gr_busy = Some False,
     gr_labels = [Some ''ns/pool'']\<rparr>"

text \<open>Two pages, with one online and one offline runner; removals succeed.\<close>

definition ex_gh_api :: gh_api where
  "ex_gh_api = \<lparr>api_token = \<lambda>_ _ _. Inl (GhError ''''),
     api_list = \<lambda>_ _ _ p. Inr (if p < 2
       then \<lparr>pg_status = 200, pg_runners = [ex_gh_runner 1 ''online''], pg_next = 2\<rparr>
       else \<lparr>pg_status = 200, pg_runners = [ex_gh_runner 2 ''offline''], pg_next = 0\<rparr>),
     api_remove = \<lambda>_ _ _ _. Inr 204\<rparr>"

lemma listing_complete_and_ends_witness:
  "\<exists>v es. ListRunners 3 ex_gh_api ''owner'' ''repo'' [''ns/pool''] [] = (Ret (Some v), es)"
proof -
  have "pages_grow ex_gh_api ''owner'' ''repo'' 2"
    by (auto simp: pages_grow_def ex_gh_api_def split: if_splits)
  from listing_complete_and_ends [OF this, where labels = "[''ns/pool'']"] show ?thesis
    by (auto simp: numeral_3_eq_3 numeral_2_eq_2 split: prod.splits)
qed

section \<open>meows runner remove\<close>

definition offline :: "runner_info list \<Rightarrow> runner_info list" where
  "offline rs = filter (\<lambda>r. \<not> ri_online r) rs"

definition removed :: "string \<Rightarrow> string \<Rightarrow> runner_info list \<Rightarrow> gh_event list" where
  "removed owner repo rs = map (\<lambda>r. GhRemove owner (endpoint_repo repo) (ri_id r) (Inr 204)) rs"

lemma RemoveRunner_ok:
  "ensures (RemoveRunner A owner repo i) (\<lambda>r es. r = Ret None \<longrightarrow>
     es = [GhRemove owner (endpoint_repo repo) i (Inr 204)])"
  unfolding RemoveRunner_def call_remove_def
  by (rule ensures_and_then, rule ensures_ext_call)
    (auto intro!: ensures_ret ensures_if split: sum.splits)

lemma remove_offline_ok:
  "ensures (remove_offline A owner repo rs out) (\<lambda>r es. \<forall>out'. r = Ret (None, out') \<longrightarrow>
     es = removed owner repo (offline rs) \<and> out' = out @ map removed_line (offline rs))"
proof (induction rs arbitrary: out)
  case Nil
  show ?case by (simp add: ensures_ret removed_def offline_def)
next
  case (Cons x rs)
  show ?case
  proof (cases "ri_online x")
    case True
    with Cons show ?thesis by (simp add: offline_def)
  next
    case False
    show ?thesis
      unfolding remove_offline.simps if_not_P [OF False]
      apply (rule ensures_and_then, rule ensures_mono [OF RemoveRunner_ok])
      subgoal for r es
      proof (cases r)
        case (Ret err)
        show ?thesis if "r = Ret None \<longrightarrow> es = [GhRemove owner (endpoint_repo repo) (ri_id x) (Inr 204)]"
        proof (cases err)
          case None
          with Ret that False show ?thesis
            by (simp, intro ensures_mono [OF Cons.IH]) (auto simp: offline_def removed_def)
        qed (simp add: Ret ensures_ret)
      qed simp
      done
  qed
qed

lemma remove_command_runs:
  assumes arg: "splitOwnerRepo arg = Inr (owner, repo)"
  shows "ensures (remove_command fuel A arg) (\<lambda>r es. \<forall>out. r = Ret (Some (None, out)) \<longrightarrow>
      (\<exists>ls. follows_pages owner repo 0 ls \<and>
       es = ls @ removed owner repo (offline (concat (map (shown_runners []) ls))) \<and>
       out = map removed_line (offline (concat (map (shown_runners []) ls)))))"
  unfolding remove_command_def arg sum.case prod.case ListRunners_def
proof (rule ensures_and_then, rule ensures_mono [OF list_pages_complete])
  fix r :: "(gh_error + runner_info list) option outcome" and es
  assume r: "r \<noteq> Panic \<and> (\<forall>rs. r = Ret (Some (Inr rs)) \<longrightarrow>
      rs = [] @ concat (map (shown_runners []) es) \<and> follows_pages owner repo 0 es)"
  let ?Q = "\<lambda>r es. \<forall>out. r = Ret (Some (None, out)) \<longrightarrow> (\<exists>ls. follows_pages owner repo 0 ls \<and>
      es = ls @ removed owner repo (offline (concat (map (shown_runners []) ls))) \<and>
      out = map removed_line (offline (concat (map (shown_runners []) ls))))"
  have remove: "ensures (and_then (remove_offline A owner repo rs []) (\<lambda>x. ret (Some x))) (\<lambda>r' es'. ?Q r' (es @ es'))"
    if "r = Ret (Some (Inr rs))" for rs
  proof (rule ensures_and_then, rule ensures_mono [OF remove_offline_ok])
    fix r1 es1
    assume "\<forall>out'. r1 = Ret (None, out') \<longrightarrow> es1 = removed owner repo (offline rs) \<and>
        out' = [] @ map removed_line (offline rs)"
    with r that show "case r1 of Panic \<Rightarrow> ?Q Panic (es @ es1)
        | Ret x \<Rightarrow> ensures (ret (Some x)) (\<lambda>r' es'. ?Q r' (es @ es1 @ es'))"
      by (cases r1) (auto intro!: ensures_ret)
  qed
  show "case r of Panic \<Rightarrow> ?Q Panic es
      | Ret x \<Rightarrow> ensures (case x of None \<Rightarrow> ret None
         | Some (Inl err) \<Rightarrow> ret (Some (Some (ListFailed err), []))
         | Some (Inr runners) \<Rightarrow> and_then (remove_offline A owner repo runners []) (\<lambda>x. ret (Some x)))
        (\<lambda>r' es'. ?Q r' (es @ es'))"
  proof (cases r)
    case (Ret x)
    show ?thesis
    proof (cases x)
      case (Some v)
      with Ret remove show ?thesis by (cases v) (simp_all add: ensures_ret)
    qed (simp add: Ret ensures_ret)
  qed (use r in simp)
qed


definition ex_shown :: "int \<Rightarrow> bool \<Rightarrow> runner_info" where
  "ex_shown i on = \<lparr>ri_id = i, ri_name = ''pod-1'', ri_online = on, ri_busy = False, ri_labels = [''ns/pool'']\<rparr>"

lemma ex_pages:
  "labelled [] [ex_gh_runner 1 ''online''] = [ex_shown 1 True]"
  "labelled [] [ex_gh_runner 2 ''offline''] = [ex_shown 2 False]"
  by (simp_all add: labelled_def hasLabels_def convert_def deref_or_def ex_gh_runner_def ex_shown_def
      statusOnline_def)


section \<open>The files of a job\<close>

text \<open>C39. What a job says about itself comes back in the status of its pod. In a container started with the
  program's paths, let \<open>job-started\<close> have written its files, and the workflow have set a channel
  with \<open>meows slackagent set-channel\<close> (an empty one stands for the one of the environment). When
  the runner then goes to the state debugging, its status holds the job information of the
  environment and that channel, up to newlines at its end. Reading the environment never panics.\<close>

theorem job_files_reach_status:
  assumes "entrypoint_runner parse_json pe addr = Inr r"
    and "job_started print_json w1 (RunnerVarDirPath @ ''/github.env'') SlackChannelFilePath e fs = Ret (None, fs1)"
    and "set_channel_command w2 SlackChannelFilePath e fs1 arg = (True, fs2)"
    and "parse_json (print_json (job_info_json i)) = Some (job_info_json i)"
    and "print_json (job_info_json i) \<noteq> ''''" and "GetJobInfo e = Ret (Inr i)"
  shows "GetJobInfo e' \<noteq> Panic \<and>
      rn_job_info (updateToDebuggingState parse_json fs2 now r) = Some i \<and>
      rn_slack_channel (updateToDebuggingState parse_json fs2 now r) =
        trim_right (case arg of Some c \<Rightarrow> if c = '''' then getenv e SlackChannelEnvName else c
          | None \<Rightarrow> getenv e SlackChannelEnvName) (CHR 0x0A)"
proof -
  from assms(1) have paths: "rn_job_info_file r = RunnerVarDirPath @ ''/github.env''"
    "rn_slack_channel_file r = SlackChannelFilePath" "RunnerVarDirPath @ ''/github.env'' \<noteq> SlackChannelFilePath"
    by (auto simp: entrypoint_runner_def NewRunner_def filepath_join_def filepath_clean_def meows_consts
        split: sum.splits)
  note i = assms(6)
  from assms(2) i have "fs1 = fs(RunnerVarDirPath @ ''/github.env'' \<mapsto> Text (print_json (job_info_json i)),
      SlackChannelFilePath \<mapsto> Text (getenv e SlackChannelEnvName))"
    by (auto simp: job_started_def Let_def split: outcome.splits sum.splits if_splits)
  with assms(3) paths(3) have files: "fs2 (RunnerVarDirPath @ ''/github.env'') = Some (Text (print_json (job_info_json i)))"
    "fs2 SlackChannelFilePath = Some (Text (case arg of Some c \<Rightarrow> if c = '''' then getenv e SlackChannelEnvName else c
          | None \<Rightarrow> getenv e SlackChannelEnvName))"
    by (auto simp: set_channel_command_def Let_def split: if_splits option.splits)
  from i have "job_info_ok i" by (simp add: GetJobInfo_def envToJobInfo_ok)
  then have "GetJobInfoFromFile parse_json fs2 (rn_job_info_file r) = Inr (Some i)"
    by (simp add: GetJobInfoFromFile_def paths files assms(4,5) job_info_roundtrip)
  then show ?thesis
    using i envToJobInfo_no_panic [of "readEnv e'"]
    by (simp add: updateToDebuggingState_def Let_def readSlackChannel_def paths files GetJobInfo_def)
qed

definition ex_job_env :: environ where
  "ex_job_env = Map.empty(''GITHUB_ACTOR'' \<mapsto> ''dev'', ''GITHUB_JOB'' \<mapsto> ''build'',
     ''GITHUB_REF'' \<mapsto> ''refs/heads/main'', ''GITHUB_REPOSITORY'' \<mapsto> ''owner/repo'',
     ''GITHUB_RUN_ID'' \<mapsto> ''123'', ''GITHUB_RUN_NUMBER'' \<mapsto> ''4'', ''GITHUB_WORKFLOW'' \<mapsto> ''CI'')"

definition ex_job :: job_info where
  "ex_job = \<lparr>ji_actor = ''dev'', ji_git_ref = ''main'', ji_job_id = ''build'', ji_pull_request_num = 0,
     ji_repository = ''owner/repo'', ji_run_id = 123, ji_run_number = 4, ji_workflow_name = ''CI''\<rparr>"

lemma ex_job_info: "GetJobInfo ex_job_env = Ret (Inr ex_job)"
  by (simp add: GetJobInfo_def envToJobInfo_def parse_ref_def readEnv_def getenv_def ex_job_env_def ex_job_def
      trim_prefix_def atoi_def digits_val_def is_digit_def digit_val_def in_int64_def Let_def)

definition ex_parse_job :: "string \<Rightarrow> json option" where
  "ex_parse_job s = Some (if s = ''job'' then job_info_json ex_job else option_json [''make''])"

lemma job_files_reach_status_witness:
  "\<exists>r fs2. entrypoint_runner ex_parse_job ex_env_of_pod '':8080'' = Inr r \<and>
     rn_job_info (updateToDebuggingState ex_parse_job fs2 0 r) = Some ex_job \<and>
     rn_slack_channel (updateToDebuggingState ex_parse_job fs2 0 r) = ''#dev''"
proof -
  obtain r where r: "entrypoint_runner ex_parse_job ex_env_of_pod '':8080'' = Inr r"
    by (simp add: entrypoint_runner_def NewRunner_def newRunnerEnvs_def validateRequiredEnvs_def getenv_def
        ex_env_of_pod_def ex_parse_job_def meows_consts option_roundtrip)
  obtain fs1 where fs1: "job_started (\<lambda>_. ''job'') (\<lambda>_. True) (RunnerVarDirPath @ ''/github.env'') SlackChannelFilePath
      ex_job_env Map.empty = Ret (None, fs1)" by (simp add: job_started_def ex_job_info Let_def)
  obtain fs2 where fs2: "set_channel_command (\<lambda>_. True) SlackChannelFilePath ex_job_env fs1 (Some ''#dev'') = (True, fs2)"
    by (simp add: set_channel_command_def Let_def)
  have "ex_parse_job ((\<lambda>_. ''job'') (job_info_json ex_job)) = Some (job_info_json ex_job)"
    by (simp add: ex_parse_job_def)
  from job_files_reach_status [OF r fs1 fs2 this _ ex_job_info, of ex_job_env 0] r show ?thesis
    by (auto simp: trim_right_def)
qed

section \<open>The controller's process\<close>

lemma Reconcile_reads:
  assumes "Reconcile E C ns name s [] = (r, es)" and "reads_pool es rp"
  shows "ke_get_pool E [] ns name = Inr rp"
proof (cases "ke_get_pool E [] ns name")
  case (Inl err)
  with assms show ?thesis
    by (cases err) (auto simp: Reconcile_def prog_basics reads_pool_def)
next
  case (Inr rp')
  let ?tr = "[EvGetPool ns name (Inr rp')]"
  from Inr assms(1) have run: "(if rp_deletion_timestamp rp' \<noteq> None then finalize E C rp' s
      else reconcile_live E C rp' s) ?tr = (r, es)"
    by (simp add: Reconcile_def and_then_def ext_call_def)
  have "\<exists>es'. es = ?tr @ es'"
  proof (cases "rp_deletion_timestamp rp' \<noteq> None")
    case True
    with run have "finalize E C rp' s ?tr = (r, es)" by simp
    with finalize_runs show ?thesis by (rule ensuresE) blast
  next
    case False
    with run have "reconcile_live E C rp' s ?tr = (r, es)" by simp
    with reconcile_live_runs show ?thesis by (rule ensuresE) blast
  qed
  with assms(2) Inr show ?thesis by (auto simp: reads_pool_def)
qed

lemma stop_shrinks:
  "rm_Stop w m rp = (e, m') \<Longrightarrow> rm_running m' \<subseteq> rm_running m"
  "su_Stop w u rp = (e, u') \<Longrightarrow> su_running u' \<subseteq> su_running u"
  by (cases "rm_processes m"; auto simp: rm_Stop_def rm_defs Let_def split: option.splits prod.splits if_splits)
    (cases "su_processes u"; auto simp: su_Stop_def su_defs Let_def split: option.splits prod.splits if_splits)

lemma final_run_shrinks:
  "final_run C rp s (res, s') es \<Longrightarrow>
   fst (processes s') \<subseteq> fst (processes s) \<and> snd (processes s') \<subseteq> snd (processes s)"
  by (cases rule: final_run.cases) (auto simp: processes_def dest!: stop_shrinks)

lemma live_run_admitted:
  "live_run C rp s (Ret (res, s')) es \<Longrightarrow> pool_validation C rp = None \<or> s' = s"
  by (cases rule: live_run.cases) (auto dest: preparedD)

text \<open>The keys of the pools some reconciliation read and the rules let through.\<close>

definition admitted_keys :: "rec_config \<Rightarrow> (rec_env \<times> string \<times> string) list \<Rightarrow> string set" where
  "admitted_keys C cs = {key. \<exists>E ns name rp. (E, ns, name) \<in> set cs \<and> ke_get_pool E [] ns name = Inr rp \<and>
     pool_validation C rp = None \<and> key = rp_namespaced_name rp}"

definition served :: "controllers \<Rightarrow> string set" where
  "served s = fst (processes s) \<union> snd (processes s)"

lemma reconcile_serves_admitted:
  assumes "Reconcile E C ns name s [] = (Ret (res, s'), es)" and "tables_valid s"
  shows "tables_valid s' \<and> served s' \<subseteq> served s \<union> admitted_keys C [(E, ns, name)]"
  using Reconcile_run [OF assms(1)]
proof (cases rule: rec_run.cases)
  case (deleted rp es')
  from final_run_tables [OF deleted(3) assms(2)] have "tables_valid s'" by (simp add: keeps_tables_def)
  moreover have "fst (processes s') \<subseteq> fst (processes s) \<and> snd (processes s') \<subseteq> snd (processes s)"
    by (rule final_run_shrinks [OF deleted(3)])
  ultimately show ?thesis by (auto simp: served_def)
next
  case (live rp es')
  from live(1) have reads: "reads_pool es rp" by (simp add: reads_pool_def)
  from live_run_tables [OF live(3) assms(2)] have k: "keeps_tables rp s s'" .
  show ?thesis
  proof (cases "s' = s")
    case False
    with live_run_admitted [OF live(3)] Reconcile_reads [OF assms(1) reads] have
      "rp_namespaced_name rp \<in> admitted_keys C [(E, ns, name)]" by (auto simp: admitted_keys_def)
    with k show ?thesis by (auto simp: keeps_tables_def served_def)
  qed (simp add: assms(2))
qed (use assms(2) in auto)

lemma reconcile_seq_admitted:
  "reconcile_seq C cs s = Ret s' \<Longrightarrow> tables_valid s \<Longrightarrow> served s' \<subseteq> served s \<union> admitted_keys C cs"
proof (induction C cs s rule: reconcile_seq.induct)
  case (2 C E ns name cs s)
  from "2.prems"(1) obtain res s1 where s1: "fst (Reconcile E C ns name s []) = Ret (res, s1)"
    and rest: "reconcile_seq C cs s1 = Ret s'" by (auto split: outcome.splits)
  from s1 obtain es where "Reconcile E C ns name s [] = (Ret (res, s1), es)"
    by (cases "Reconcile E C ns name s []") auto
  from reconcile_serves_admitted [OF this "2.prems"(2)] have
    "served s1 \<subseteq> served s \<union> admitted_keys C [(E, ns, name)]" and "tables_valid s1" by simp_all
  moreover from "2.IH" [OF s1 refl rest \<open>tables_valid s1\<close>] have "served s' \<subseteq> served s1 \<union> admitted_keys C cs" .
  moreover have "admitted_keys C [(E, ns, name)] \<union> admitted_keys C cs \<subseteq> admitted_keys C ((E, ns, name) # cs)"
    unfolding admitted_keys_def by auto
  ultimately show ?case by blast
qed simp

lemma fresh_tables:
  "tables_valid \<lparr>co_manager = NewRunnerManager interval, co_updater = NewSecretUpdater\<rparr>"
  "served \<lparr>co_manager = NewRunnerManager interval, co_updater = NewSecretUpdater\<rparr> = {}"
  by (simp_all add: tables_valid_def served_def processes_def NewRunnerManager_def NewSecretUpdater_def
      rm_defs su_defs)

lemma stop_tables_empty: "served (stop_tables s) = {} \<and> shut_down (stop_tables s)"
  by (simp add: stop_tables_def served_def processes_def shut_down_def rm_StopAll_def su_StopAll_def
      rm_defs su_defs Let_def)


definition ex_answers :: controller_answers where
  "ex_answers = \<lparr>ca_webhook_addr = '':9443'', ca_split = (\<lambda>_. Inr ('''', ''9443'')), ca_manager = None,
     ca_configmap = (\<lambda>_ name. if name = OptionConfigMapName
       then Inr (Some (Map.empty(OptionConfigMapDataRepositoryRule \<mapsto> ''^owner/''))) else Inl NotFound),
     ca_compile = (\<lambda>_. Inr (\<lambda>s. has_prefix s ''owner/'')), ca_reconciler = None, ca_webhook = None,
     ca_healthz = None, ca_readyz = None, ca_calls = [(ex_rec_env ex_pool, ''ns'', ''pool'')],
     ca_start = None, ca_config = ex_rec_config, ca_interval = Minute\<rparr>"


end
