(* ===== verification/Metrics_Client.thy ===== *)
theory Metrics_Client
  imports Metrics
begin

text \<open>
  Reading metrics back (\<open>metrics/client.go\<close>), as the tests of the runner and of the manager do: a
  page is fetched over HTTP, the parser of the Prometheus library makes it into metric families,
  and the samples of one gauge are returned with their labels. The request, the transport and the
  parser are the environment. It is shown that what the vectors of \<open>Metrics\<close> hold is what is read.
\<close>

section \<open>Metric families\<close>

text \<open>
  The structs of the library's data model. Their fields are pointers, read through getters that
  answer the zero value for nil; the zero value of the type is \<open>COUNTER\<close>.
\<close>

datatype metric_type = COUNTER | GAUGE | SUMMARY | UNTYPED | HISTOGRAM

record label_pair =
  lp_name :: "string option"
  lp_value :: "string option"

record metric =
  mt_labels :: "label_pair list"
  mt_gauge :: "int option option"

record metric_family =
  mf_type :: "metric_type option"
  mf_metrics :: "metric list"

definition getter :: "'a \<Rightarrow> 'a option \<Rightarrow> 'a" where
  "getter zero p = (case p of None \<Rightarrow> zero | Some x \<Rightarrow> x)"

lemma getter_simps [simp]: "getter z None = z" "getter z (Some x) = x"
  by (simp_all add: getter_def)

definition GetGaugeValue :: "metric \<Rightarrow> int" where
  "GetGaugeValue m = getter 0 (getter None (mt_gauge m))"

section \<open>Fetching a gauge\<close>

record gauge =
  ga_label :: "string \<rightharpoonup> string"
  ga_value :: int

definition ErrNotExist :: go_error where
  "ErrNotExist = ''metrics is not exist''"

definition ErrWrongType :: go_error where
  "ErrWrongType = ''metrics type is wrong''"

text \<open>What the library answers: to the making of a request, to its sending, and the parser.\<close>

record metrics_env =
  mx_request :: "string \<Rightarrow> go_error option"
  mx_do :: "string \<Rightarrow> go_error + string"
  mx_parse :: "string \<Rightarrow> go_error + (string \<rightharpoonup> metric_family)"

definition fetchMetricsFamily :: "metrics_env \<Rightarrow> string \<Rightarrow> go_error + (string \<rightharpoonup> metric_family)" where
  "fetchMetricsFamily X url = (case mx_request X url of
       Some err \<Rightarrow> Inl err
     | None \<Rightarrow> (case mx_do X url of Inl err \<Rightarrow> Inl err | Inr body \<Rightarrow> mx_parse X body))"

definition label_map :: "label_pair list \<Rightarrow> string \<rightharpoonup> string" where
  "label_map ls = fold (\<lambda>l m. m(getter '''' (lp_name l) \<mapsto> getter '''' (lp_value l))) ls Map.empty"

definition FetchGauge :: "metrics_env \<Rightarrow> string \<Rightarrow> string \<Rightarrow> go_error + gauge list" where
  "FetchGauge X url name = (case fetchMetricsFamily X url of
       Inl err \<Rightarrow> Inl err
     | Inr families \<Rightarrow>
         (case families name of
            None \<Rightarrow> Inl ErrNotExist
          | Some family \<Rightarrow>
              if getter COUNTER (mf_type family) \<noteq> GAUGE then Inl ErrWrongType
              else Inr (map (\<lambda>m. \<lparr>ga_label = label_map (mt_labels m), ga_value = GetGaugeValue m\<rparr>)
                         (mf_metrics family))))"

section \<open>Reading a vector back\<close>

text \<open>
  A family exposes a vector of gauges if it has one sample for each key of the vector, in any order,
  whose labels are the constant ones and those of the key.
\<close>

definition sample :: "(string \<times> string) list \<Rightarrow> int \<Rightarrow> metric" where
  "sample ls v = \<lparr>mt_labels = map (\<lambda>(n, x). \<lparr>lp_name = Some n, lp_value = Some x\<rparr>) ls, mt_gauge = Some (Some v)\<rparr>"

definition exposes :: "('k \<Rightarrow> (string \<times> string) list) \<Rightarrow> ('k \<rightharpoonup> int) \<Rightarrow> metric_family \<Rightarrow> bool" where
  "exposes labels vec f \<longleftrightarrow> mf_type f = Some GAUGE \<and>
     (\<exists>ks. distinct ks \<and> set ks = dom vec \<and> mf_metrics f = map (\<lambda>k. sample (labels k) (the (vec k))) ks)"

lemma fold_updates:
  "distinct (map fst ls) \<Longrightarrow> fold (\<lambda>p m. m(fst p \<mapsto> snd p)) ls g = g ++ map_of ls"
  by (induction ls arbitrary: g) (auto simp: map_add_upd_left dom_map_of_conv_image_fst)

lemma label_map_sample: "distinct (map fst ls) \<Longrightarrow> label_map (mt_labels (sample ls v)) = map_of ls"
  by (simp add: label_map_def sample_def fold_map comp_def case_prod_unfold fold_updates)

lemma fetched_vector:
  assumes "fetchMetricsFamily X url = Inr families" and "families name = Some f"
    and "exposes labels vec f" and "\<And>k. distinct (map fst (labels k))"
  obtains gs where "FetchGauge X url name = Inr gs"
    and "set gs = {\<lparr>ga_label = map_of (labels k), ga_value = v\<rparr> | k v. vec k = Some v}"
proof -
  from assms(3) obtain ks where ks: "set ks = dom vec" and type: "mf_type f = Some GAUGE"
    and ms: "mf_metrics f = map (\<lambda>k. sample (labels k) (the (vec k))) ks" by (auto simp: exposes_def)
  let ?gs = "map (\<lambda>k. \<lparr>ga_label = map_of (labels k), ga_value = the (vec k)\<rparr>) ks"
  have "FetchGauge X url name = Inr ?gs"
    using assms(1,2) type ms
    by (simp add: FetchGauge_def label_map_sample [OF assms(4)])
       (simp add: GetGaugeValue_def sample_def)
  moreover have "set ?gs = {\<lparr>ga_label = map_of (labels k), ga_value = v\<rparr> | k v. vec k = Some v}"
    using ks by force
  ultimately show thesis by (rule that)
qed

text \<open>The gauge of a pod's state, fetched after an update, is 1 for the state the pod is in and 0
  for the others.\<close>

definition pod_state_labels :: "string \<Rightarrow> string \<Rightarrow> (string \<times> string) list" where
  "pod_state_labels pool s = [(''runnerpool'', pool), (''state'', s)]"

lemma pod_state_fetched:
  assumes "fetchMetricsFamily X url = Inr families" and "families ''meows_runner_pod_state'' = Some f"
    and "exposes (pod_state_labels pool) (pod_state (UpdateRunnerPodState cur m)) f"
    and "s \<in> set allRunnerPodState"
  obtains gs where "FetchGauge X url ''meows_runner_pod_state'' = Inr gs"
    and "\<lparr>ga_label = map_of (pod_state_labels pool s), ga_value = (if s = cur then 1 else 0)\<rparr> \<in> set gs"
  using fetched_vector [OF assms(1,2,3)] UpdateRunnerPodState_shown [OF assms(4), of cur m]
  by (force simp: pod_state_labels_def)

text \<open>The gauges of the controller's runners show what the last update of each runner set.\<close>

definition runner_labels :: "string \<times> string \<Rightarrow> (string \<times> string) list" where
  "runner_labels = (\<lambda>(pool, r). [(''runnerpool'', pool), (''runner'', r)])"

lemma runner_online_fetched:
  assumes "fetchMetricsFamily X url = Inr families" and "families ''meows_runner_online'' = Some f"
    and "exposes runner_labels (runner_online (UpdateRunnerMetrics pool r online busy m)) f"
  obtains gs where "FetchGauge X url ''meows_runner_online'' = Inr gs"
    and "\<lparr>ga_label = map_of (runner_labels (pool, r)), ga_value = (if online then 1 else 0)\<rparr> \<in> set gs"
proof -
  have "distinct (map fst (runner_labels k))" for k by (cases k) (simp add: runner_labels_def)
  from fetched_vector [OF assms this] obtain gs where gs: "FetchGauge X url ''meows_runner_online'' = Inr gs"
    "set gs = {\<lparr>ga_label = map_of (runner_labels k), ga_value = v\<rparr> | k v.
      runner_online (UpdateRunnerMetrics pool r online busy m) k = Some v}" by blast
  have "runner_online (UpdateRunnerMetrics pool r online busy m) (pool, r) = Some (if online then 1 else 0)"
    by (simp add: UpdateRunnerMetrics_def Let_def)
  with gs that show thesis by blast
qed

end
