(* ===== verification/Spec2Isabelle.thy ===== *)
theory Spec2Isabelle
  imports Pool_Life Updater_Props Deployment_Props Command_Props Metrics_Client
begin

text \<open>
  Verification of meows, a Kubernetes controller of self-hosted runners for GitHub Actions. This is
  the root of the development; it says what the program is, which theory models which part of it,
  what the theorems show, and what is left out. Paths are relative to \<open>src/\<close>.

  \<^bold>\<open>The program.\<close> A user creates a \<open>RunnerPool\<close> for an organization or a repository. The webhook
  (\<open>api/v1alpha1\<close>) admits it. The reconciler (\<open>controllers/runnerpool_controller.go\<close>) makes a secret
  for it, starts a process of the secret updater that keeps a registration token of GitHub in the
  secret, and, once the secret holds one, makes a Deployment of runner pods and starts a process of
  the runner manager. A runner pod (\<open>runner\<close>) reads its environment and its token, registers with
  GitHub, runs one job and then shows over HTTP that it can be debugged, until when, and how the
  job ended. The runner manager (\<open>controllers/runner_manager.go\<close>) asks the pods of its pool in
  rounds: it deletes the pods that are due, takes busy pods out of their ReplicaSet so that new
  ones come up, protects them from evictions, sends the results of finished jobs to the Slack agent,
  and removes runners from GitHub that have no pod. The Slack agent (\<open>agent\<close>) posts a result with
  two buttons, and a pressed button changes the time the pod is deleted. The commands (\<open>cmd\<close>) run
  these parts or, inside a job, write the files the pod's status is made of.

  \<^bold>\<open>How the code is modelled.\<close> A struct is a record, with a prefix for the fields that would
  clash; a tagged value is a datatype; a Go map is an option of a map, where \<open>None\<close> is nil
  (\<open>go_map\<close>); \<open>int32\<close> is a signed 32-bit word that wraps around; \<open>int\<close> and \<open>int64\<close> are integers,
  with their range where the code parses or prints them. A panic is the value \<open>Panic\<close> of \<open>outcome\<close>;
  an error is a value of a sum or an option. Code that calls the outside (the Kubernetes API,
  GitHub, Slack, the network of pods, the clock) is a \<open>prog\<close>: a function from the history of calls
  made so far to an outcome and the history it leaves. What a call answers is given by an
  environment, a record of functions of the history, over which the theorems quantify: every
  interleaving with the outside is some environment. Waiting is a call of its own, and a goroutine
  is a function of the list of cases its \<open>select\<close> took. The loops of the code are recursive
  functions on lists; only two have a bound: \<open>list_pages\<close> has fuel for the pages of GitHub's answer
  (\<open>None\<close> when it runs out; \<open>listing_complete_and_ends\<close> shows that one more than the number of the
  last page is enough), and \<open>runListener\<close> takes seven steps, as it passes each of its positions at
  most once. The definitions of the code are executable, and the examples evaluate them.

  \<^bold>\<open>The library.\<close>
  \<^item> \<open>Meows_Prelude\<close>: outcomes, programs over a history, Go maps, and \<open>ensures\<close>, the calculus of
    postconditions on the calls of a program, with its rules in the collection \<open>ensures_intros\<close>.
  \<^item> \<open>Go_Std\<close>, \<open>Go_Time\<close>, \<open>Go_Rfc3339\<close>, \<open>Go_Json\<close>: what the source uses of \<open>strings\<close>, \<open>strconv\<close>,
    \<open>time\<close> and \<open>encoding/json\<close>, with the locale \<open>codec\<close>, which all round trips interpret (numbers,
    dates, statuses, payloads, job information, options, names of pods).
  \<^item> \<open>Process_Table\<close>: the locale \<open>process_table\<close>, the contract the reconciler has with the runner
    manager and the secret updater; \<open>Runner_Manager\<close> and \<open>Secret_Updater\<close> interpret it.
  \<^item> \<open>Github_Client\<close>: \<open>github/client.go\<close> over the library go-github, which is a parameter, and
    \<open>github/fakeclient.go\<close> with its factory and setters; the locale \<open>github_client\<close> is what the
    manager relies on, and the fake client is interpreted as one.
  \<^item> \<open>Runner_Http\<close>: the locale \<open>runner_client\<close> is what the manager and the Slack agent rely on; the
    HTTP client over a network of pods (\<open>runner/client.go\<close>) and the fake client interpret it.

  \<^bold>\<open>The parts of the program.\<close>
  \<^item> \<open>Constants\<close>, \<open>Metrics\<close>: \<open>constants.go\<close>; \<open>metrics/controller.go\<close> and \<open>metrics/runner.go\<close>, each
    vector of gauges a map from its labels, with the set of labels the package keeps beside it.
    \<open>Metrics_Client\<close>: \<open>metrics/client.go\<close>, by which the tests read a gauge back.
  \<^item> \<open>RunnerPool_API\<close>: the resource, its validation and defaults, and the names derived from it.
  \<^item> \<open>Job_Info\<close>, \<open>Runner_Env\<close>: \<open>runner/jobinfo.go\<close> with \<open>cmd/job-started\<close>; \<open>runner/enviroments.go\<close>
    and \<open>runner/helper.go\<close>.
  \<^item> \<open>Runner_Pod\<close>: \<open>runner/runner.go\<close> and \<open>runner/listener.go\<close>. \<open>listener_step\<close> is one step of
    \<open>runListener\<close> from one position (\<open>sys_pc\<close>) to the next; \<open>listen_loop\<close> is the loop around the
    process \<open>Runner.Listener\<close>. \<open>Runner_Http\<close> has the handlers. \<open>Pod_Life\<close> is the step relation of a
    pod: its program, requests at any moment, the writes of a job, a new token, restarts.
  \<^item> \<open>Slack_Agent\<close>: the package \<open>agent\<close>, its client, messages, server and button events.
  \<^item> \<open>Manager_Pods\<close>: \<open>maintainRunnerPods\<close>, one definition per block of its loop. \<open>Runner_Manager\<close>: the
    rest of \<open>controllers/runner_manager.go\<close>, from the clean-up to the goroutine and the table.
  \<^item> \<open>Secret_Updater\<close>: \<open>controllers/secret_updater.go\<close>.
  \<^item> \<open>Reconciler\<close>: \<open>controllers/runnerpool_controller.go\<close>, with \<open>mutate_deployment\<close> the function that
    \<open>CreateOrUpdate\<close> applies to the Deployment.
  \<^item> \<open>Commands\<close>: \<open>cmd/meows\<close>, \<open>cmd/slack-agent\<close>, \<open>cmd/entrypoint\<close> and \<open>cmd/controller\<close>.

  \<^bold>\<open>Specifications and refinement.\<close> \<open>Manager_Turns\<close>, \<open>Updater_Runs\<close> and \<open>Reconciler_Runs\<close> specify what a
  turn of each controller may do, as inductive relations on the calls it makes, and show that the
  monadic definitions refine them; the properties are proved on the relations.

  \<^bold>\<open>What is shown.\<close>
  \<^item> \<open>Manager_Props\<close>: a round deletes exactly the pods that are due by what they reported; it takes no
    more pods out of the ReplicaSet than allowed, in 32-bit arithmetic; it protects a busy pod
    before; it announces each result once, to the right channel (but for a job that ends between
    the reading of the clock and of its status, \<open>late_finish_announced_twice\<close>); it puts the right
    deletion times; and it does not panic on statuses of reachable pods.
  \<^item> \<open>Manager_Cleanup\<close>: the metrics follow the listing of GitHub and are gone after the end; the
    runners removed from GitHub are exactly the offline ones without a pod.
  \<^item> \<open>Pool_Life\<close>: the manager together with its pods. \<open>pool_run\<close> interleaves the calls of a manager
    process with the steps of the pods, which come up at addresses not given before and answer its
    calls over a network in any condition. For the whole life of the process a deleted pod is past
    its job for good, or overdue and not listed as busy.
  \<^item> \<open>Updater_Props\<close>: a token is written only when due, the waits and the counter of failures are
    right, and in a world that answers in time the token in the secret never expires.
  \<^item> \<open>Reconciler_Props\<close>: the finalizer goes last, and goes; success means the pool is served; no
    Deployment before a token; pools do not disturb each other; a shutdown is final.
  \<^item> \<open>Deployment_Props\<close>: the Deployment's pods are the manager's; applying it twice is applying it
    once; the token and the pool's fields reach the runner's program.
  \<^item> \<open>Pod_Props\<close>, \<open>Agent_Props\<close>: a pod runs one job; its status has the shape its readers rely on; the
    HTTP client refines the fake one; results reach Slack and buttons reach the pod; the agent's loop
    over button events acknowledges what it handled and ends at the first failure.
  \<^item> \<open>Command_Props\<close>: admission is well-formedness; a listing of GitHub is complete and ends; what
    \<open>meows runner remove\<close> removes; the files of a job come back in the status; the controller
    serves only pools its rules match and leaves no process behind.

  \<^bold>\<open>Idealisations.\<close> JSON is modelled above the level of text: where texts matter, the printer and
  the parser are parameters, and the theorems assume of them that they are inverse on the value at
  hand. A fraction in \<open>time.ParseDuration\<close> is scaled exactly, where Go scales it in floating point.
  Regular expressions and the parser of URLs are parameters. Error texts of libraries are left
  as they come. Fields of Kubernetes objects that the program only passes on are opaque texts.
  A change of a process's settings by the reconciler happens between two rounds, not within one.

  \<^bold>\<open>Not modelled.\<close> The generated deep copies (values are immutable here); the registration of the
  API group, of the metrics, of the webhook and of the reconciler with their libraries, which has no
  behaviour of its own; the \<open>main\<close> functions and the parsing
  of flags; the start of the HTTP servers and of the goroutines around them (\<open>Run\<close>), whose bodies
  are modelled; logging; the layout of Slack messages; the data races of the code, since a program's
  steps are taken one at a time.
\<close>

end
